(* ===== verification/Prelude.thy ===== *)
theory Prelude
  imports Complex_Main "HOL-Library.Multiset" "HOL-Library.Char_ord" "HOL-Library.List_Lexorder"
begin

text \<open>
  Shared vocabulary of the development: the exceptions of the services as one datatype, the
  result type of fallible code and its sequencing, the string methods \<^verbatim>\<open>strip\<close> and
  \<^verbatim>\<open>lower\<close> of Python, and generic lemmas on tables (lists of rows with a primary key).

  Conventions. A \<^verbatim>\<open>UUID\<close> is an integer (only equality and freshness are used); a
  \<^verbatim>\<open>datetime.date\<close> is its proleptic ordinal, an integer (only comparison and adding days
  are used); a Python \<^verbatim>\<open>Decimal\<close> is a rational (theory Decimal); strings are lists of ASCII
  characters.
\<close>

type_synonym uuid = int
type_synonym date = int
type_synonym timestamp = int
type_synonym decimal = rat

named_theorems service_simps \<open>defining equations of the service operations\<close>
named_theorems inventory_simps \<open>counting facts about booking lines and ledger rows\<close>

subsection \<open>Exceptions and results\<close>

text \<open>
  One constructor per exception class the services raise; \<^verbatim>\<open>status_code\<close> is the HTTP
  code the routes answer with. \<open>IntegrityError\<close> is the driver's constraint violation,
  \<open>MissingGreenlet\<close> what an implicit lazy load raises under an async session.
\<close>

datatype error =
    ValueError string
  | TypeError
  | AttributeError
  | InvalidOperation
  | MissingRatesError "date list"
  | LedgerNotSeededError
  | InsufficientInventoryError
  | InvalidBookingContextError string
  | DuplicateExternalBookingError
  | GuestConflictError
  | BookingStatusTransitionError string
  | AssignBookingRoomError string nat
  | PatchBookingError string nat
  | DeleteBookingError string nat
  | FolioError string nat
  | AvailabilityOverrideError string nat
  | AvailabilityLedgerSeedError string nat
  | RoomServiceError string nat
  | HousekeepingServiceError string nat
  | RatesServiceError string nat
  | GuestServiceError string nat
  | CountryPackServiceError string nat
  | FolioCategoryError string nat
  | ExtensionServiceError string nat
  | RatePlanServiceError string nat
  | DashboardServiceError string nat
  | ReportsServiceError string nat
  | ApiKeyServiceError string nat
  | AuthServiceError string nat
  | HTTPException string nat
  | RuntimeError string
  | PyJWTError string
  | VerificationError
  | WebhookSubscriptionError string nat
  | ChannexServiceError string nat
  | ChannexApiError string "int option" "string option"
  | RetryError
  | HttpxError string
  | StripePaymentError string nat
  | StripeConnectError string nat
  | StripeError string
  | InvalidToken
  | IntegrityError
  | MissingGreenlet

type_synonym 'a result = "error + 'a"

definition r_bind :: "'a result \<Rightarrow> ('a \<Rightarrow> 'b result) \<Rightarrow> 'b result" where
  "r_bind m f = (case m of Inl e \<Rightarrow> Inl e | Inr x \<Rightarrow> f x)"

definition guard :: "bool \<Rightarrow> error \<Rightarrow> unit result" where
  "guard b e = (if b then Inr () else Inl e)"

definition require :: "'a option \<Rightarrow> error \<Rightarrow> 'a result" where
  "require x e = (case x of None \<Rightarrow> Inl e | Some y \<Rightarrow> Inr y)"

lemma r_bind_simps [simp]:
  "r_bind (Inl e) f = Inl e"
  "r_bind (Inr x) f = f x"
  by (simp_all add: r_bind_def)

lemma r_bind_eq_Inr [simp]:
  "r_bind m f = Inr y \<longleftrightarrow> (\<exists>x. m = Inr x \<and> f x = Inr y)"
  by (cases m) auto

lemma r_bind_eq_Inl:
  "r_bind m f = Inl e \<longleftrightarrow> m = Inl e \<or> (\<exists>x. m = Inr x \<and> f x = Inl e)"
  by (cases m) auto

lemma r_bind_cong [fundef_cong]:
  "m = m' \<Longrightarrow> (\<And>x. m' = Inr x \<Longrightarrow> f x = g x) \<Longrightarrow> r_bind m f = r_bind m' g"
  by (cases m') auto

lemma guard_eq [simp]:
  "guard b e = Inr u \<longleftrightarrow> b"
  "guard b e = Inl e' \<longleftrightarrow> \<not> b \<and> e' = e"
  by (auto simp: guard_def)

lemma guard_bind [simp]:
  "r_bind (guard b e) f = (if b then f () else Inl e)"
  by (simp add: guard_def)

lemma require_eq [simp]:
  "require x e = Inr y \<longleftrightarrow> x = Some y"
  "require x e = Inl e' \<longleftrightarrow> x = None \<and> e' = e"
  by (auto simp: require_def split: option.splits)

subsection \<open>Python string methods on ASCII\<close>

definition py_space :: "char \<Rightarrow> bool" where
  "py_space c \<longleftrightarrow> (let n = (of_char c :: nat) in (9 \<le> n \<and> n \<le> 13) \<or> (28 \<le> n \<and> n \<le> 32))"

definition py_strip :: "string \<Rightarrow> string" where
  "py_strip s = rev (dropWhile py_space (rev (dropWhile py_space s)))"

definition py_lower_char :: "char \<Rightarrow> char" where
  "py_lower_char c =
     (let n = (of_char c :: nat) in if 65 \<le> n \<and> n \<le> 90 then char_of (n + 32) else c)"

definition py_lower :: "string \<Rightarrow> string" where
  "py_lower s = map py_lower_char s"

definition py_upper :: "string \<Rightarrow> string" where
  "py_upper s = map (\<lambda>c. let n = (of_char c :: nat) in if 97 \<le> n \<and> n \<le> 122 then char_of (n - 32) else c) s"

lemma of_char_py_lower_char:
  "(of_char (py_lower_char c) :: nat) =
     (if 65 \<le> (of_char c :: nat) \<and> (of_char c :: nat) \<le> 90 then of_char c + 32 else of_char c)"
  by (auto simp: py_lower_char_def Let_def)

lemma py_lower_char_idem [simp]: "py_lower_char (py_lower_char c) = py_lower_char c"
proof -
  have "(of_char (py_lower_char (py_lower_char c)) :: nat) = of_char (py_lower_char c)"
    by (simp add: of_char_py_lower_char)
  then show ?thesis by simp
qed

lemma py_space_lower [simp]: "py_space (py_lower_char c) = py_space c"
  by (simp add: py_space_def Let_def of_char_py_lower_char)

lemma py_lower_idem [simp]: "py_lower (py_lower s) = py_lower s"
  by (simp add: py_lower_def)

lemma dropWhile_rev_dropWhile:
  "dropWhile P (rev (dropWhile P (rev (dropWhile P xs)))) = rev (dropWhile P (rev (dropWhile P xs)))"
proof (cases "dropWhile P xs")
  case Nil
  show ?thesis unfolding Nil by simp
next
  case (Cons y ys)
  then have "\<not> P y"
    using hd_dropWhile [of P xs] by simp
  then have "dropWhile P (rev (y # ys)) = dropWhile P (rev ys) @ [y]"
    by (metis append.simps(2) append_self_conv2 dropWhile_append3 rev.simps(2))
  with Cons \<open>\<not> P y\<close> show ?thesis by simp
qed

lemma py_strip_idem [simp]: "py_strip (py_strip s) = py_strip s"
  by (simp add: py_strip_def dropWhile_rev_dropWhile)

lemma py_strip_lower: "py_strip (py_lower s) = py_lower (py_strip s)"
proof -
  have "dropWhile py_space (map py_lower_char xs) = map py_lower_char (dropWhile py_space xs)" for xs
    by (simp add: dropWhile_map comp_def)
  then show ?thesis
    by (simp add: py_strip_def py_lower_def rev_map)
qed

subsection \<open>Python dictionaries\<close>

text \<open>
  A dict whose insertion order matters is an association list: assigning a new key appends,
  assigning an existing one keeps its place.
\<close>

fun dict_put :: "'k \<Rightarrow> 'v \<Rightarrow> ('k \<times> 'v) list \<Rightarrow> ('k \<times> 'v) list" where
  "dict_put k v [] = [(k, v)]"
| "dict_put k v ((k', v') # kvs) = (if k = k' then (k, v) # kvs else (k', v') # dict_put k v kvs)"

lemma map_of_dict_put [simp]: "map_of (dict_put k v kvs) = (map_of kvs)(k \<mapsto> v)"
  by (induction k v kvs rule: dict_put.induct) auto

lemma fst_dict_put: "fst ` set (dict_put k v kvs) = insert k (fst ` set kvs)"
  by (induction k v kvs rule: dict_put.induct) auto

lemma distinct_dict_put: "distinct (map fst kvs) \<Longrightarrow> distinct (map fst (dict_put k v kvs))"
  by (induction k v kvs rule: dict_put.induct) (auto simp: fst_dict_put)

lemma set_dict_put: "set (dict_put k v kvs) \<subseteq> insert (k, v) (set kvs)"
  by (induction k v kvs rule: dict_put.induct) auto

lemma option_eqI: "(\<And>r. x = Some r \<longleftrightarrow> y = Some r) \<Longrightarrow> x = y"
  by (metis option.exhaust)

end
