(* ===== verification/Json.thy ===== *)
theory Json
  imports Prelude
begin

text \<open>
  JSON values as the \<^verbatim>\<open>JSONB\<close> columns hand them to Python, and the three conversions the
  services apply to them: \<^verbatim>\<open>str(x)\<close>, the truth value \<^verbatim>\<open>bool(x)\<close> and \<^verbatim>\<open>Decimal(str(x))\<close>. A number is
  the rational its literal denotes; its text is the positional one Python prints for decimals
  of moderate size, and strings inside containers are printed between single quotes.
\<close>

datatype json =
    JNull
  | JBool bool
  | JNum rat
  | JStr string
  | JList "json list"
  | JObj "(string \<times> json) list"

subsection \<open>Printing numbers\<close>

fun digits_of :: "nat \<Rightarrow> string" where
  "digits_of n =
     (if n < 10 then [char_of (48 + n)] else digits_of (n div 10) @ [char_of (48 + n mod 10)])"

declare digits_of.simps [simp del]

text \<open>The fractional digits, until the remainder is zero; 17 digits are enough for a double.\<close>

fun frac_digits :: "nat \<Rightarrow> rat \<Rightarrow> string" where
  "frac_digits 0 x = []"
| "frac_digits (Suc k) x =
     (if x = 0 then []
      else let d = \<lfloor>x * 10\<rfloor> in char_of (48 + nat d) # frac_digits k (x * 10 - of_int d))"

definition num_str :: "rat \<Rightarrow> string" where
  "num_str q =
     (let a = \<bar>q\<bar>; i = \<lfloor>a\<rfloor>; f = a - of_int i
      in (if q < 0 then ''-'' else []) @ digits_of (nat i) @
         (if f = 0 then [] else ''.'' @ frac_digits 17 f))"

fun join :: "string \<Rightarrow> string list \<Rightarrow> string" where
  "join sep [] = []"
| "join sep [x] = x"
| "join sep (x # xs) = x @ sep @ join sep xs"

fun py_repr :: "json \<Rightarrow> string" where
  "py_repr JNull = ''None''"
| "py_repr (JBool b) = (if b then ''True'' else ''False'')"
| "py_repr (JNum q) = num_str q"
| "py_repr (JStr s) = [CHR 39] @ s @ [CHR 39]"
| "py_repr (JList xs) = ''['' @ join '', '' (map py_repr xs) @ '']''"
| "py_repr (JObj kvs) =
     ''{'' @ join '', '' (map (\<lambda>(k, v). [CHR 39] @ k @ [CHR 39] @ '': '' @ py_repr v) kvs) @ ''}''"

definition py_str :: "json \<Rightarrow> string" where
  "py_str j = (case j of JStr s \<Rightarrow> s | _ \<Rightarrow> py_repr j)"

definition truthy :: "json \<Rightarrow> bool" where
  "truthy j = (case j of
       JNull \<Rightarrow> False
     | JBool b \<Rightarrow> b
     | JNum q \<Rightarrow> q \<noteq> 0
     | JStr s \<Rightarrow> s \<noteq> []
     | JList xs \<Rightarrow> xs \<noteq> []
     | JObj kvs \<Rightarrow> kvs \<noteq> [])"

text \<open>\<^verbatim>\<open>d.get(key)\<close> and \<^verbatim>\<open>d.get(key, default)\<close> on a decoded object.\<close>

definition obj_get :: "(string \<times> json) list \<Rightarrow> string \<Rightarrow> json option" where
  "obj_get kvs k = map_of kvs k"

definition obj_get_default :: "(string \<times> json) list \<Rightarrow> string \<Rightarrow> json \<Rightarrow> json" where
  "obj_get_default kvs k d = (case map_of kvs k of None \<Rightarrow> d | Some v \<Rightarrow> v)"

subsection \<open>The constructor \<open>Decimal\<close> on text\<close>

definition is_digit :: "char \<Rightarrow> bool" where
  "is_digit c \<longleftrightarrow> 48 \<le> (of_char c :: nat) \<and> (of_char c :: nat) \<le> 57"

definition digit_val :: "char \<Rightarrow> nat" where
  "digit_val c = of_char c - 48"

definition nat_of_digits :: "string \<Rightarrow> nat" where
  "nat_of_digits s = foldl (\<lambda>a c. 10 * a + digit_val c) 0 s"

definition take_sign :: "string \<Rightarrow> rat \<times> string" where
  "take_sign s = (case s of
       [] \<Rightarrow> (1, [])
     | c # cs \<Rightarrow> if c = CHR ''-'' then (-1, cs) else if c = CHR ''+'' then (1, cs) else (1, s))"

text \<open>Exponent part: \<open>None\<close> when malformed, an absent exponent is 0.\<close>

definition parse_exponent :: "string \<Rightarrow> int option" where
  "parse_exponent s = (case s of
       [] \<Rightarrow> Some 0
     | c # cs \<Rightarrow>
         if c \<noteq> CHR ''e'' \<and> c \<noteq> CHR ''E'' then None
         else (let (sg, ds) = take_sign cs
               in if ds = [] \<or> \<not> list_all is_digit ds then None
                  else Some ((if sg < 0 then -1 else 1) * int (nat_of_digits ds))))"

definition parse_decimal :: "string \<Rightarrow> rat option" where
  "parse_decimal text =
     (let (sg, s) = take_sign (py_strip text);
          ip = takeWhile is_digit s; r = dropWhile is_digit s;
          (fp, r') = (case r of
              [] \<Rightarrow> ([], [])
            | c # cs \<Rightarrow> if c = CHR ''.'' then (takeWhile is_digit cs, dropWhile is_digit cs) else ([], r))
      in if ip = [] \<and> fp = [] then None
         else (case parse_exponent r' of
                 None \<Rightarrow> None
               | Some e \<Rightarrow>
                   Some (sg * of_nat (nat_of_digits (ip @ fp)) * 10 powi (e - int (length fp)))))"

definition json_decimal :: "json \<Rightarrow> rat result" where
  "json_decimal j = (case j of
       JNum q \<Rightarrow> Inr q
     | _ \<Rightarrow> require (parse_decimal (py_str j)) InvalidOperation)"

lemma parse_decimal_examples:
  "parse_decimal ''0.0700'' = Some (7/100)"
  "parse_decimal '' -12.5e1 '' = Some (-125)"
  "parse_decimal ''True'' = None"
  by code_simp+

lemma num_str_example: "num_str (7/100) = ''0.07''"
  by code_simp

end
