(* ===== verification/Stay_Dates.thy ===== *)
theory Stay_Dates
  imports Prelude
begin

text \<open>
  Stay-night arithmetic (\<^verbatim>\<open>app/services/stay_dates.py\<close>) and the inclusive date ranges of the
  availability and rate services (\<^verbatim>\<open>_iter_inclusive_dates\<close>). The while loops are recursive
  functions with a measure; both are shown equal to the integer intervals they enumerate.
\<close>

definition MAX_STAY_NIGHTS :: nat where
  "MAX_STAY_NIGHTS = 365"

function nights_loop :: "date \<Rightarrow> date \<Rightarrow> date list" where
  "nights_loop d check_out = (if d < check_out then d # nights_loop (d + 1) check_out else [])"
  by pat_completeness auto
termination
  by (relation "measure (\<lambda>(d, co). nat (co - d))") auto

definition iter_stay_nights :: "date \<Rightarrow> date \<Rightarrow> date list result" where
  "iter_stay_nights check_in check_out =
     (if check_out \<le> check_in then Inl (ValueError ''check_out must be after check_in'')
      else let nights = nights_loop check_in check_out
           in if length nights > MAX_STAY_NIGHTS
              then Inl (ValueError ''stay cannot exceed 365 nights'')
              else Inr nights)"

function iter_inclusive_dates :: "date \<Rightarrow> date \<Rightarrow> date list" where
  "iter_inclusive_dates d end_date =
     (if d \<le> end_date then d # iter_inclusive_dates (d + 1) end_date else [])"
  by pat_completeness auto
termination
  by (relation "measure (\<lambda>(d, e). nat (e + 1 - d))") auto

declare nights_loop.simps [simp del] iter_inclusive_dates.simps [simp del]

lemma nights_loop_upto: "nights_loop d co = [d..co - 1]"
proof (induction d co rule: nights_loop.induct)
  case (1 d co)
  then show ?case
    by (cases "d < co") (simp_all add: nights_loop.simps [of d co] upto_rec1)
qed

lemma iter_inclusive_dates_upto [simp]: "iter_inclusive_dates d e = [d..e]"
proof (induction d e rule: iter_inclusive_dates.induct)
  case (1 d e)
  then show ?case
    by (cases "d \<le> e") (simp_all add: iter_inclusive_dates.simps [of d e] upto_rec1)
qed

lemma sorted_wrt_upto [simp]: "sorted_wrt (<) [i..j::int]"
proof (induction i j rule: upto.induct)
  case (1 i j)
  then show ?case
    by (cases "i \<le> j") (simp_all add: upto_rec1)
qed

lemma iter_stay_nights_Inr:
  "iter_stay_nights ci co = Inr ns \<longleftrightarrow> ci < co \<and> co - ci \<le> 365 \<and> ns = [ci..co - 1]"
  by (auto simp: iter_stay_nights_def Let_def nights_loop_upto MAX_STAY_NIGHTS_def)

lemma iter_stay_nights_Inl:
  "iter_stay_nights ci co = Inl e \<longleftrightarrow>
     (co \<le> ci \<and> e = ValueError ''check_out must be after check_in'') \<or>
     (365 < co - ci \<and> e = ValueError ''stay cannot exceed 365 nights'')"
  by (auto simp: iter_stay_nights_def Let_def nights_loop_upto MAX_STAY_NIGHTS_def)

lemma stay_nights_facts:
  assumes "iter_stay_nights ci co = Inr ns"
  shows "ns \<noteq> []" "distinct ns" "sorted ns" "set ns = {ci..<co}"
  using assms by (auto simp: iter_stay_nights_Inr)

text \<open>
  The nights of a stay are exactly the dates of the half-open interval from check-in to
  check-out, in strictly increasing order and as many as the difference of the dates; the
  function raises exactly for an empty or reversed stay and for one of more than 365 nights.
\<close>

theorem stay_nights_exact:
  "((\<exists>ns. iter_stay_nights ci co = Inr ns) \<longleftrightarrow> ci < co \<and> co - ci \<le> int MAX_STAY_NIGHTS) \<and>
   (\<forall>ns. iter_stay_nights ci co = Inr ns \<longrightarrow>
      set ns = {ci..<co} \<and> sorted_wrt (<) ns \<and> int (length ns) = co - ci)"
  by (auto simp: iter_stay_nights_Inr MAX_STAY_NIGHTS_def)

theorem stay_nights_exact_witness:
  "iter_stay_nights 739000 739003 = Inr [739000, 739001, 739002] \<and>
   set [739000, 739001, 739002 :: int] = {739000..<739003} \<and>
   sorted_wrt (<) [739000, 739001, 739002 :: int]"
proof -
  have "iter_stay_nights 739000 739003 = Inr [739000, 739001, 739002]"
    by (simp add: iter_stay_nights_Inr upto_rec1)
  with stay_nights_exact [of 739000 739003] show ?thesis by blast
qed

end
