(* ===== verification/Booking_Status.thy ===== *)
theory Booking_Status
  imports Prelude
begin

text \<open>
  The booking lifecycle (\<^verbatim>\<open>app/domain/booking_status.py\<close>): known and terminal statuses, the
  normalisation of a status string and the transition check. Statuses are strings, as in the
  source and in the column \<^verbatim>\<open>bookings.status\<close>.
\<close>

definition KNOWN_STATUSES :: "string list" where
  "KNOWN_STATUSES =
     [''pending'', ''confirmed'', ''checked_in'', ''checked_out'', ''cancelled'', ''no_show'']"

definition TERMINAL_STATUSES :: "string list" where
  "TERMINAL_STATUSES = [''cancelled'', ''no_show'', ''checked_out'']"

definition normalize_booking_status :: "string \<Rightarrow> string" where
  "normalize_booking_status status = py_lower (py_strip status)"

definition allowed_transitions :: "string \<Rightarrow> string list option" where
  "allowed_transitions st =
     map_of [(''pending'', [''confirmed'', ''cancelled'']),
             (''confirmed'', [''checked_in'', ''cancelled'', ''no_show'']),
             (''checked_in'', [''checked_out''])] st"

definition validate_status_transition :: "string \<Rightarrow> string \<Rightarrow> unit result" where
  "validate_status_transition old_status new_status =
     (let old = normalize_booking_status old_status;
          new = normalize_booking_status new_status
      in if old = new then Inr ()
         else if new \<notin> set KNOWN_STATUSES
              then Inl (BookingStatusTransitionError ''unknown target status'')
         else if old \<notin> set KNOWN_STATUSES
              then Inl (BookingStatusTransitionError
                     ''cannot change status: booking has an unrecognized current status'')
         else if old \<in> set TERMINAL_STATUSES
              then Inl (BookingStatusTransitionError ''cannot transition from terminal status'')
         else (case allowed_transitions old of
                 None \<Rightarrow> Inl (BookingStatusTransitionError ''cannot transition booking status'')
               | Some next_ok \<Rightarrow>
                   if new \<notin> set next_ok
                   then Inl (BookingStatusTransitionError ''cannot transition booking status'')
                   else Inr ()))"

text \<open>
  The lifecycle as a relation on normalised statuses, one rule per edge of the diagram in the
  module's documentation.
\<close>

inductive status_step :: "string \<Rightarrow> string \<Rightarrow> bool" where
  confirm: "status_step ''pending'' ''confirmed''"
| cancel_pending: "status_step ''pending'' ''cancelled''"
| check_in: "status_step ''confirmed'' ''checked_in''"
| cancel_confirmed: "status_step ''confirmed'' ''cancelled''"
| no_show: "status_step ''confirmed'' ''no_show''"
| check_out: "status_step ''checked_in'' ''checked_out''"

inductive_simps status_step_iff: "status_step a b"

text \<open>A sequence of status updates as \<^verbatim>\<open>patch_booking\<close> applies them: each is validated, then stored.\<close>

fun status_run :: "string \<Rightarrow> string list \<Rightarrow> string result" where
  "status_run st [] = Inr st"
| "status_run st (n # ns) =
     r_bind (validate_status_transition st n) (\<lambda>_. status_run (normalize_booking_status n) ns)"

fun status_changes :: "string \<Rightarrow> string list \<Rightarrow> nat" where
  "status_changes st [] = 0"
| "status_changes st (n # ns) =
     (if normalize_booking_status st = normalize_booking_status n then 0 else 1) +
     status_changes (normalize_booking_status n) ns"

definition status_rank :: "string \<Rightarrow> nat" where
  "status_rank st =
     (if st = ''pending'' then 0 else if st = ''confirmed'' then 1
      else if st = ''checked_in'' then 2 else 3)"

subsection \<open>Facts about normalisation\<close>

lemma normalize_idem [simp]:
  "normalize_booking_status (normalize_booking_status s) = normalize_booking_status s"
  by (simp add: normalize_booking_status_def py_strip_lower)

lemma normalize_literals [simp]:
  "normalize_booking_status ''pending'' = ''pending''"
  "normalize_booking_status ''confirmed'' = ''confirmed''"
  "normalize_booking_status ''checked_in'' = ''checked_in''"
  "normalize_booking_status ''checked_out'' = ''checked_out''"
  "normalize_booking_status ''cancelled'' = ''cancelled''"
  "normalize_booking_status ''no_show'' = ''no_show''"
  by code_simp+

lemma normalize_known [simp]: "s \<in> set KNOWN_STATUSES \<Longrightarrow> normalize_booking_status s = s"
  by (auto simp: KNOWN_STATUSES_def)

lemma validate_Inr_iff:
  "validate_status_transition a b = Inr u \<longleftrightarrow>
     normalize_booking_status a = normalize_booking_status b \<or>
     status_step (normalize_booking_status a) (normalize_booking_status b)"
  by (auto simp: validate_status_transition_def Let_def KNOWN_STATUSES_def TERMINAL_STATUSES_def
      allowed_transitions_def status_step_iff split: if_splits option.splits)

lemma status_step_rank: "status_step a b \<Longrightarrow> status_rank a < status_rank b"
  by (auto simp: status_step_iff status_rank_def)

lemma status_rank_le: "status_rank a \<le> 3"
  by (simp add: status_rank_def)

lemma status_step_known:
  "status_step a b \<Longrightarrow> a \<in> set KNOWN_STATUSES \<and> b \<in> set KNOWN_STATUSES"
  by (auto simp: status_step_iff KNOWN_STATUSES_def)

lemma terminal_no_step: "a \<in> set TERMINAL_STATUSES \<Longrightarrow> \<not> status_step a b"
  by (auto simp: status_step_iff TERMINAL_STATUSES_def)

lemma status_changes_rank:
  "status_run st ns = Inr st' \<Longrightarrow>
     status_rank (normalize_booking_status st) + status_changes st ns
       \<le> status_rank (normalize_booking_status st')"
proof (induction st ns arbitrary: st' rule: status_run.induct)
  case (1 st)
  then show ?case by simp
next
  case (2 st n ns)
  then have v: "validate_status_transition st n = Inr ()"
    and IH: "status_rank (normalize_booking_status n) + status_changes (normalize_booking_status n) ns
       \<le> status_rank (normalize_booking_status st')"
    by auto
  from v have "normalize_booking_status st = normalize_booking_status n \<or>
      status_rank (normalize_booking_status st) < status_rank (normalize_booking_status n)"
    by (auto simp: validate_Inr_iff dest: status_step_rank)
  with IH show ?case by auto
qed

lemma terminal_run:
  "status_run st ns = Inr st' \<Longrightarrow> normalize_booking_status st \<in> set TERMINAL_STATUSES \<Longrightarrow>
     normalize_booking_status st' = normalize_booking_status st \<and> status_changes st ns = 0"
proof (induction ns arbitrary: st)
  case Nil
  then show ?case by simp
next
  case (Cons n ns)
  from Cons.prems(1) have v: "validate_status_transition st n = Inr ()"
    and run: "status_run (normalize_booking_status n) ns = Inr st'" by simp_all
  from v Cons.prems(2) have eq: "normalize_booking_status n = normalize_booking_status st"
    by (auto simp: validate_Inr_iff dest: terminal_no_step)
  with Cons.IH [OF run] Cons.prems(2) show ?case by simp
qed

text \<open>
  C10. The check accepts an update exactly when the normalised statuses are equal or joined by
  an edge of the lifecycle diagram (pending to confirmed or cancelled, confirmed to checked-in,
  cancelled or no-show, checked-in to checked-out).
\<close>

theorem validate_status_transition_iff:
  "validate_status_transition a b = Inr () \<longleftrightarrow>
     normalize_booking_status a = normalize_booking_status b \<or>
     status_step (normalize_booking_status a) (normalize_booking_status b)"
  by (rule validate_Inr_iff)

text \<open>
  Lifecycles are finite and terminal statuses are final: in any accepted sequence of
  updates at most three change the status, and from a terminal status none does.
\<close>

theorem lifecycle_bounded:
  assumes "status_run st ns = Inr st'"
  shows "status_changes st ns \<le> 3 \<and>
    (normalize_booking_status st \<in> set TERMINAL_STATUSES \<longrightarrow>
       normalize_booking_status st' = normalize_booking_status st \<and> status_changes st ns = 0)"
  using status_changes_rank [OF assms] status_rank_le [of "normalize_booking_status st'"]
    terminal_run [OF assms] by linarith

theorem lifecycle_bounded_witness:
  "status_changes ''pending'' ['' Confirmed '', ''checked_in'', ''checked_out'', ''CHECKED_OUT''] \<le> 3
   \<and> status_changes ''cancelled'' [''Cancelled''] = 0"
proof -
  have run: "status_run ''pending'' ['' Confirmed '', ''checked_in'', ''checked_out'', ''CHECKED_OUT'']
      = Inr ''checked_out''" by code_simp
  have fin: "status_run ''cancelled'' [''Cancelled''] = Inr ''cancelled''" by code_simp
  have "normalize_booking_status ''cancelled'' \<in> set TERMINAL_STATUSES" by code_simp
  with lifecycle_bounded [OF run] lifecycle_bounded [OF fin]
  show ?thesis by simp
qed

end
