(* ===== verification/Schema.thy ===== *)
theory Schema
  imports Json Stay_Dates Booking_Status
begin

text \<open>
  The rows of the tables the services work on (\<^verbatim>\<open>app/models\<close>), one record per mapped class
  with the class's columns, and the database state \<open>db\<close>: one list of rows per table in
  insertion order, the supply of fresh primary keys (\<^verbatim>\<open>uuid4\<close>), the transaction time
  (\<^verbatim>\<open>now()\<close>) and the current UTC date. Columns that no modelled operation reads or writes
  (creation and update stamps) are left out.

  The locale \<open>keyed_table\<close> is the contract of a table with a primary key: what a lookup
  returns after an update, an insertion or a deletion. It is interpreted for the tables the
  services address by primary key. The locale \<open>measured_table\<close> is the contract of a sum over
  the rows of a table.
\<close>

subsection \<open>Rows\<close>

record property_row =
  pr_id :: uuid
  pr_tenant_id :: uuid
  pr_name :: string
  pr_country_pack_code :: "string option"
  pr_timezone :: string
  pr_currency :: string
  pr_checkin_time :: int
  pr_checkout_time :: int

record room_type_row =
  rt_id :: uuid
  rt_tenant_id :: uuid
  rt_property_id :: uuid
  rt_name :: string
  rt_base_occupancy :: int
  rt_max_occupancy :: int
  rt_deleted_at :: "timestamp option"

record room_row =
  rm_id :: uuid
  rm_tenant_id :: uuid
  rm_room_type_id :: uuid
  rm_name :: string
  rm_status :: string
  rm_deleted_at :: "timestamp option"
  rm_housekeeping_status :: string
  rm_housekeeping_priority :: string

record rate_plan_row =
  rp_id :: uuid
  rp_tenant_id :: uuid
  rp_property_id :: uuid
  rp_name :: string
  rp_cancellation_policy :: string

record rate_row =
  ra_id :: uuid
  ra_tenant_id :: uuid
  ra_room_type_id :: uuid
  ra_rate_plan_id :: uuid
  ra_date :: date
  ra_price :: decimal
  ra_stop_sell :: bool
  ra_min_stay_arrival :: "int option"
  ra_max_stay :: "int option"

record ledger_row =
  al_id :: uuid
  al_tenant_id :: uuid
  al_date :: date
  al_room_type_id :: uuid
  al_total_rooms :: int
  al_booked_rooms :: int
  al_blocked_rooms :: int

record guest_row =
  gu_id :: uuid
  gu_tenant_id :: uuid
  gu_first_name :: string
  gu_last_name :: string
  gu_email :: string
  gu_phone :: string
  gu_passport_data :: "string option"
  gu_nationality :: "string option"
  gu_date_of_birth :: "date option"
  gu_notes :: "string option"
  gu_vip_status :: bool
  gu_updated_at :: timestamp

record booking_row =
  bk_id :: uuid
  bk_tenant_id :: uuid
  bk_property_id :: uuid
  bk_guest_id :: uuid
  bk_rate_plan_id :: "uuid option"
  bk_external_booking_id :: "string option"
  bk_status :: string
  bk_source :: string
  bk_total_amount :: decimal
  bk_notes :: "string option"

record line_row =
  bl_id :: uuid
  bl_tenant_id :: uuid
  bl_booking_id :: uuid
  bl_date :: date
  bl_room_type_id :: uuid
  bl_room_id :: "uuid option"
  bl_price_for_date :: decimal

record folio_row =
  ft_id :: uuid
  ft_tenant_id :: uuid
  ft_booking_id :: uuid
  ft_transaction_type :: string
  ft_amount :: decimal
  ft_payment_method :: "string option"
  ft_description :: "string option"
  ft_created_at :: timestamp
  ft_created_by :: "uuid option"
  ft_category :: string
  ft_source_channel :: "string option"

record category_row =
  fc_id :: uuid
  fc_tenant_id :: uuid
  fc_code :: string
  fc_label :: string
  fc_is_builtin :: bool
  fc_is_active :: bool
  fc_sort_order :: int

datatype tax_mode = Off | Inclusive | Exclusive

record tax_config_row =
  tc_id :: uuid
  tc_tenant_id :: uuid
  tc_property_id :: uuid
  tc_tax_mode :: tax_mode
  tc_tax_name :: string
  tc_tax_rate :: decimal

record country_pack_row =
  cp_code :: string
  cp_tenant_id :: "uuid option"
  cp_name :: string
  cp_currency_code :: string
  cp_currency_symbol :: string
  cp_currency_symbol_position :: string
  cp_currency_decimal_places :: int
  cp_timezone :: string
  cp_date_format :: string
  cp_locale :: string
  cp_default_checkin_time :: int
  cp_default_checkout_time :: int
  cp_taxes :: json
  cp_payment_methods :: "string list"
  cp_fiscal_year_start :: "string option"
  cp_is_builtin :: bool

record extension_row =
  ex_id :: uuid
  ex_tenant_id :: uuid
  ex_country_code :: "string option"
  ex_code :: string
  ex_name :: string
  ex_webhook_url :: string
  ex_required_fields :: json
  ex_ui_config_schema :: "json option"
  ex_is_active :: bool

record property_extension_row =
  pe_id :: uuid
  pe_tenant_id :: uuid
  pe_property_id :: uuid
  pe_extension_id :: uuid
  pe_config :: "json option"
  pe_is_active :: bool

record stripe_charge_row =
  sc_id :: uuid
  sc_tenant_id :: uuid
  sc_property_id :: uuid
  sc_booking_id :: "uuid option"
  sc_folio_tx_id :: "uuid option"
  sc_stripe_charge_id :: string
  sc_stripe_pm_id :: "string option"
  sc_amount :: decimal
  sc_currency :: string
  sc_status :: string
  sc_failure_message :: "string option"

record stripe_pm_row =
  sp_id :: uuid
  sp_tenant_id :: uuid
  sp_property_id :: uuid
  sp_booking_id :: "uuid option"
  sp_stripe_pm_id :: string

record email_log_row =
  el_id :: uuid
  el_tenant_id :: uuid
  el_property_id :: "uuid option"
  el_booking_id :: "uuid option"
  el_to_address :: string
  el_template_name :: string
  el_status :: string
  el_resend_id :: "string option"
  el_error_message :: "string option"
  el_sent_at :: timestamp

record channex_revision_row =
  cr_id :: uuid
  cr_tenant_id :: uuid
  cr_property_link_id :: uuid
  cr_channex_revision_id :: string
  cr_channex_booking_id :: "string option"
  cr_status :: "string option"
  cr_channel_code :: "string option"
  cr_payload :: json
  cr_processing_status :: string
  cr_openpms_booking_id :: "uuid option"
  cr_error_message :: "string option"
  cr_processed_at :: "timestamp option"

record audit_row =
  au_tenant_id :: uuid
  au_action :: string
  au_entity_type :: string
  au_entity_id :: "uuid option"
  au_created_at :: timestamp

record hk_event_row =
  he_id :: uuid
  he_tenant_id :: uuid
  he_room_id :: uuid
  he_old_status :: string
  he_new_status :: string
  he_changed_by_user_id :: "uuid option"

subsection \<open>The database\<close>

record db =
  properties :: "property_row list"
  room_types :: "room_type_row list"
  rooms :: "room_row list"
  rate_plans :: "rate_plan_row list"
  rates :: "rate_row list"
  ledger :: "ledger_row list"
  guests :: "guest_row list"
  bookings :: "booking_row list"
  booking_lines :: "line_row list"
  folio_transactions :: "folio_row list"
  folio_categories :: "category_row list"
  tax_configs :: "tax_config_row list"
  country_packs :: "country_pack_row list"
  extensions :: "extension_row list"
  property_extensions :: "property_extension_row list"
  stripe_charges :: "stripe_charge_row list"
  stripe_payment_methods :: "stripe_pm_row list"
  email_logs :: "email_log_row list"
  channex_revisions :: "channex_revision_row list"
  audit_logs :: "audit_row list"
  hk_events :: "hk_event_row list"
  next_uuid :: uuid
  db_now :: timestamp
  utc_today :: date

definition empty_db :: db where
  "empty_db = \<lparr>properties = [], room_types = [], rooms = [], rate_plans = [], rates = [],
     ledger = [], guests = [], bookings = [], booking_lines = [], folio_transactions = [],
     folio_categories = [], tax_configs = [], country_packs = [], extensions = [],
     property_extensions = [], stripe_charges = [], stripe_payment_methods = [],
     email_logs = [], channex_revisions = [], audit_logs = [], hk_events = [],
     next_uuid = 0, db_now = 0, utc_today = 0\<rparr>"

subsection \<open>Tables with a primary key\<close>

definition lookup_row :: "('r \<Rightarrow> 'k) \<Rightarrow> 'r list \<Rightarrow> 'k \<Rightarrow> 'r option" where
  "lookup_row key rows k = find (\<lambda>r. key r = k) rows"

definition update_rows :: "('r \<Rightarrow> bool) \<Rightarrow> ('r \<Rightarrow> 'r) \<Rightarrow> 'r list \<Rightarrow> 'r list" where
  "update_rows P f rows = map (\<lambda>r. if P r then f r else r) rows"

definition delete_rows :: "('r \<Rightarrow> bool) \<Rightarrow> 'r list \<Rightarrow> 'r list" where
  "delete_rows P rows = filter (\<lambda>r. \<not> P r) rows"

lemma set_update_rows: "set (update_rows P f rows) = (\<lambda>r. if P r then f r else r) ` set rows"
  by (simp add: update_rows_def)

lemma set_delete_rows [simp]: "set (delete_rows P rows) = {r \<in> set rows. \<not> P r}"
  by (simp add: delete_rows_def)

lemma update_rows_Nil [simp]: "update_rows P f [] = []"
  by (simp add: update_rows_def)

lemma map_update_rows_inv:
  "(\<And>r. P r \<Longrightarrow> g (f r) = g r) \<Longrightarrow> map g (update_rows P f rows) = map g rows"
  by (simp add: update_rows_def)

lemma length_update_rows [simp]: "length (update_rows P f rows) = length rows"
  by (simp add: update_rows_def)

lemma update_rows_append [simp]:
  "update_rows P f (xs @ ys) = update_rows P f xs @ update_rows P f ys"
  by (simp add: update_rows_def)

lemma update_rows_none: "(\<And>r. r \<in> set rows \<Longrightarrow> \<not> P r) \<Longrightarrow> update_rows P f rows = rows"
  by (induction rows) (simp_all add: update_rows_def)

lemma find_Some_mem: "find P xs = Some x \<Longrightarrow> x \<in> set xs \<and> P x"
  by (metis find_Some_iff nth_mem)

locale keyed_table =
  fixes key :: "'r \<Rightarrow> 'k"
begin

lemma lookup_mem: "lookup_row key rows k = Some r \<Longrightarrow> r \<in> set rows \<and> key r = k"
  unfolding lookup_row_def by (rule find_Some_mem)

lemma lookup_unique:
  "distinct (map key rows) \<Longrightarrow> r \<in> set rows \<Longrightarrow> lookup_row key rows (key r) = Some r"
  unfolding lookup_row_def by (induction rows) (auto simp: image_iff)

lemma lookup_iff:
  "distinct (map key rows) \<Longrightarrow> lookup_row key rows k = Some r \<longleftrightarrow> r \<in> set rows \<and> key r = k"
  using lookup_unique lookup_mem by metis

lemma lookup_None: "lookup_row key rows k = None \<longleftrightarrow> k \<notin> key ` set rows"
  by (auto simp: lookup_row_def find_None_iff)

lemma lookup_insert: "k \<notin> key ` set rows \<Longrightarrow>
    lookup_row key (rows @ [r]) k = (if key r = k then Some r else None)"
  unfolding lookup_row_def by (induction rows) auto

lemma lookup_insert_other: "key r \<noteq> k \<Longrightarrow> lookup_row key (rows @ [r]) k = lookup_row key rows k"
  unfolding lookup_row_def by (induction rows) auto

lemma lookup_update:
  "(\<And>r. key (f r) = key r) \<Longrightarrow>
    lookup_row key (update_rows (\<lambda>r. key r = k') f rows) k =
      (if k = k' then map_option f (lookup_row key rows k) else lookup_row key rows k)"
  unfolding lookup_row_def update_rows_def by (induction rows) auto

lemma lookup_delete:
  "lookup_row key (delete_rows (\<lambda>r. key r = k') rows) k =
     (if k = k' then None else lookup_row key rows k)"
  unfolding lookup_row_def delete_rows_def by (induction rows) auto

lemma distinct_update:
  "(\<And>r. key (f r) = key r) \<Longrightarrow> distinct (map key (update_rows P f rows)) = distinct (map key rows)"
  by (simp add: map_update_rows_inv)

lemma distinct_delete: "distinct (map key rows) \<Longrightarrow> distinct (map key (delete_rows P rows))"
  by (simp add: delete_rows_def distinct_map_filter)

lemma distinct_same: "distinct (map key rows) \<Longrightarrow> r \<in> set rows \<Longrightarrow> r' \<in> set rows \<Longrightarrow>
    key r = key r' \<Longrightarrow> r = r'"
  by (auto simp: distinct_map inj_on_def)

end

interpretation tb_booking: keyed_table bk_id .
interpretation tb_ledger: keyed_table al_id .
interpretation tb_line: keyed_table bl_id .
interpretation tb_folio: keyed_table ft_id .
interpretation tb_guest: keyed_table gu_id .
interpretation tb_room: keyed_table rm_id .

lemma filter_unique_key:
  "distinct (map key rows) \<Longrightarrow> r \<in> set rows \<Longrightarrow> key r = k \<Longrightarrow> filter (\<lambda>x. key x = k) rows = [r]"
  by (induction rows) (auto simp: filter_empty_conv image_iff)

subsection \<open>Sums over a table\<close>

text \<open>
  A quantity kept as a sum over the rows of a table, to which only the rows in some scope
  contribute: how it changes when rows are inserted, updated or deleted. The balance of a
  folio and the number of booked rooms of a night are such sums.
\<close>

definition measure_of :: "('r \<Rightarrow> 'a::ab_group_add) \<Rightarrow> 'r list \<Rightarrow> 'a" where
  "measure_of weight rows = sum_list (map weight rows)"

locale measured_table =
  fixes weight :: "'r \<Rightarrow> 'a::ab_group_add" and scope :: "'r \<Rightarrow> bool"
  assumes out_of_scope: "\<not> scope r \<Longrightarrow> weight r = 0"
begin

lemma measure_Nil: "measure_of weight [] = 0"
  by (simp add: measure_of_def)

lemma measure_Cons: "measure_of weight (r # rows) = weight r + measure_of weight rows"
  by (simp add: measure_of_def)

lemma measure_append: "measure_of weight (xs @ ys) = measure_of weight xs + measure_of weight ys"
  by (simp add: measure_of_def)

lemma measure_zero: "(\<And>r. r \<in> set rows \<Longrightarrow> \<not> scope r) \<Longrightarrow> measure_of weight rows = 0"
  by (induction rows) (auto simp: measure_of_def out_of_scope)

lemma measure_scope: "measure_of weight (filter scope rows) = measure_of weight rows"
  by (induction rows) (auto simp: measure_of_def out_of_scope)

lemma measure_delete:
  "measure_of weight (delete_rows P rows) = measure_of weight rows - measure_of weight (filter P rows)"
  by (induction rows) (auto simp: measure_of_def delete_rows_def algebra_simps)

lemma measure_delete_other:
  "(\<And>r. r \<in> set rows \<Longrightarrow> P r \<Longrightarrow> \<not> scope r) \<Longrightarrow> measure_of weight (delete_rows P rows) = measure_of weight rows"
  using measure_zero [of "filter P rows"] by (simp add: measure_delete)

lemma measure_update_cong:
  "(\<And>r. r \<in> set rows \<Longrightarrow> P r \<Longrightarrow> weight (f r) = weight r) \<Longrightarrow>
   measure_of weight (update_rows P f rows) = measure_of weight rows"
  by (induction rows) (auto simp: measure_of_def update_rows_def)

lemma measure_update_one:
  "distinct (map key rows) \<Longrightarrow> r \<in> set rows \<Longrightarrow>
   measure_of weight (update_rows (\<lambda>x. key x = key r) f rows) = measure_of weight rows - weight r + weight (f r)"
proof (induction rows)
  case (Cons x rows)
  show ?case
  proof (cases "x = r")
    case True
    with Cons.prems(1) have "key r \<notin> key ` set rows" by simp
    then have "\<forall>y\<in>set rows. key y \<noteq> key r" by (metis imageI)
    then have "update_rows (\<lambda>y. key y = key r) f rows = rows" by (intro update_rows_none) auto
    with True show ?thesis by (simp add: measure_of_def update_rows_def)
  next
    case False
    with Cons.prems have "key x \<noteq> key r" "r \<in> set rows" by auto
    with Cons show ?thesis by (simp add: measure_of_def update_rows_def)
  qed
qed simp

end

subsection \<open>Invariants of a step relation\<close>

locale invariant_system =
  fixes step :: "'s \<Rightarrow> 's \<Rightarrow> bool" and inv :: "'s \<Rightarrow> bool"
  assumes step_keeps: "inv s \<Longrightarrow> step s s' \<Longrightarrow> inv s'"
begin

lemma reachable_keeps: "step\<^sup>*\<^sup>* s s' \<Longrightarrow> inv s \<Longrightarrow> inv s'"
  by (induction rule: rtranclp_induct) (auto intro: step_keeps)

end

subsection \<open>Transactions\<close>

text \<open>
  A request runs in one transaction that commits when the handler returns and rolls back when
  it raises (\<^verbatim>\<open>get_db\<close> in \<^verbatim>\<open>app/api/deps.py\<close>, \<^verbatim>\<open>tenant_transaction_session\<close>).
\<close>

definition commit_or_rollback :: "db \<Rightarrow> ('a \<times> db) result \<Rightarrow> db" where
  "commit_or_rollback d r = (case r of Inl _ \<Rightarrow> d | Inr (_, d') \<Rightarrow> d')"

definition succeeds :: "'a result \<Rightarrow> bool" where
  "succeeds r = (case r of Inl _ \<Rightarrow> False | Inr _ \<Rightarrow> True)"

lemma succeeds_simps [simp]: "succeeds (Inr x)" "\<not> succeeds (Inl e)"
  by (simp_all add: succeeds_def)

lemma succeeds_Inr: "succeeds r \<Longrightarrow> \<exists>x. r = Inr (x, commit_or_rollback d r)"
  by (cases r) (auto simp: commit_or_rollback_def)

text \<open>
  The session of the services is opened with \<^verbatim>\<open>autoflush=False\<close>: an attribute assigned on a
  mapped object is visible to later SQL of the same transaction only after an explicit flush.
  Code in which such a query can run before the flush works on a \<open>session\<close>: \<open>orm\<close> is the state
  the mapped objects show, which is what a commit writes, and \<open>sql\<close> the state the SQL sees.
\<close>

record session =
  orm :: db
  sql :: db

definition open_session :: "db \<Rightarrow> session" where
  "open_session d = \<lparr>orm = d, sql = d\<rparr>"

definition flush :: "session \<Rightarrow> session" where
  "flush s = s\<lparr>sql := orm s\<rparr>"

lemma flush_simps [simp]: "orm (flush s) = orm s" "sql (flush s) = orm s"
  by (simp_all add: flush_def)

lemma open_session_simps [simp]: "orm (open_session d) = d" "sql (open_session d) = d"
  by (simp_all add: open_session_def)

end
