(* ===== verification/Demo.thy ===== *)
theory Demo
  imports Schema
begin

text \<open>
  A small hotel on which the hypotheses of the theorems are exhibited: tenant 1 with one
  property (10) using the builtin Thai country pack, one room type (20) with two rooms (41,
  42), one rate plan (30), and rates and ledger rows for the nights 100 to 103.
\<close>

definition demo_taxes :: json where
  "demo_taxes = JList
     [JObj [(''code'', JStr ''VAT''), (''name'', JStr ''VAT''), (''rate'', JNum (7/100)),
        (''inclusive'', JBool False), (''applies_to'', JList [JStr ''all'']),
        (''compound_after'', JNull), (''active'', JBool True)],
      JObj [(''code'', JStr ''SERVICE_CHARGE''), (''name'', JStr ''Service Charge''),
        (''rate'', JNum (1/10)), (''inclusive'', JBool False),
        (''applies_to'', JList [JStr ''room_charge'']), (''compound_after'', JStr ''VAT''),
        (''active'', JBool True)]]"

definition demo_ledger_row :: "nat \<Rightarrow> ledger_row" where
  "demo_ledger_row i = \<lparr>al_id = 500 + int i, al_tenant_id = 1, al_date = 100 + int i,
     al_room_type_id = 20, al_total_rooms = 2, al_booked_rooms = 0, al_blocked_rooms = 0\<rparr>"

definition demo_rate_row :: "nat \<Rightarrow> rate_row" where
  "demo_rate_row i = \<lparr>ra_id = 600 + int i, ra_tenant_id = 1, ra_room_type_id = 20,
     ra_rate_plan_id = 30, ra_date = 100 + int i, ra_price = 100, ra_stop_sell = False,
     ra_min_stay_arrival = None, ra_max_stay = None\<rparr>"

definition demo_db :: db where
  "demo_db = empty_db\<lparr>
     properties := [\<lparr>pr_id = 10, pr_tenant_id = 1, pr_name = ''Hotel'',
       pr_country_pack_code = Some ''TH'', pr_timezone = ''Asia/Bangkok'', pr_currency = ''THB'',
       pr_checkin_time = 14, pr_checkout_time = 12\<rparr>],
     room_types := [\<lparr>rt_id = 20, rt_tenant_id = 1, rt_property_id = 10, rt_name = ''Deluxe'',
       rt_base_occupancy = 2, rt_max_occupancy = 3, rt_deleted_at = None\<rparr>],
     rooms := [\<lparr>rm_id = 41, rm_tenant_id = 1, rm_room_type_id = 20, rm_name = ''101'',
         rm_status = ''available'', rm_deleted_at = None, rm_housekeeping_status = ''clean'',
         rm_housekeeping_priority = ''normal''\<rparr>,
       \<lparr>rm_id = 42, rm_tenant_id = 1, rm_room_type_id = 20, rm_name = ''102'',
         rm_status = ''available'', rm_deleted_at = None, rm_housekeeping_status = ''clean'',
         rm_housekeeping_priority = ''normal''\<rparr>],
     rate_plans := [\<lparr>rp_id = 30, rp_tenant_id = 1, rp_property_id = 10, rp_name = ''BAR'',
       rp_cancellation_policy = ''flexible''\<rparr>],
     rates := map demo_rate_row [0, 1, 2, 3],
     ledger := map demo_ledger_row [0, 1, 2, 3],
     country_packs := [\<lparr>cp_code = ''TH'', cp_tenant_id = None, cp_name = ''Thailand'',
       cp_currency_code = ''THB'', cp_currency_symbol = ''B'', cp_currency_symbol_position = ''before'',
       cp_currency_decimal_places = 2, cp_timezone = ''Asia/Bangkok'', cp_date_format = ''DD/MM/YYYY'', cp_locale = ''th-TH'',
       cp_default_checkin_time = 14,
       cp_default_checkout_time = 12, cp_taxes = demo_taxes, cp_payment_methods = [''cash''],
       cp_fiscal_year_start = None,
       cp_is_builtin = True\<rparr>],
     next_uuid := 1000, db_now := 0, utc_today := 100\<rparr>"

lemmas demo_defs = demo_db_def empty_db_def demo_ledger_row_def demo_rate_row_def demo_taxes_def

end
