(* ===== verification/Audit_Trail.thy ===== *)
theory Audit_Trail
  imports Demo
begin

text \<open>
  The audit trail (\<^verbatim>\<open>app/services/audit_service.py\<close>). A row keeps the tenant, the action, the entity
  and the time; the JSON snapshots of old and new values, the acting user and the IP address
  are copied from the arguments and the request context and are not represented.
\<close>

definition record_audit :: "uuid \<Rightarrow> string \<Rightarrow> string \<Rightarrow> uuid option \<Rightarrow> db \<Rightarrow> db" where
  "record_audit tenant_id action entity_type entity_id d =
     d\<lparr>audit_logs := audit_logs d @ [\<lparr>au_tenant_id = tenant_id, au_action = action,
         au_entity_type = entity_type, au_entity_id = entity_id, au_created_at = db_now d\<rparr>]\<rparr>"

definition filter_text :: "string option \<Rightarrow> (audit_row \<Rightarrow> string) \<Rightarrow> audit_row \<Rightarrow> bool" where
  "filter_text arg field r =
     (case arg of None \<Rightarrow> True | Some a \<Rightarrow> py_strip a = [] \<or> field r = py_strip a)"

definition list_audit_logs ::
  "db \<Rightarrow> uuid \<Rightarrow> nat \<Rightarrow> nat \<Rightarrow> string option \<Rightarrow> string option \<Rightarrow> audit_row list" where
  "list_audit_logs d tenant_id limit offset action entity_type =
     take limit (drop offset (sort_key (\<lambda>r. - au_created_at r)
       (filter (\<lambda>r. au_tenant_id r = tenant_id \<and> filter_text action au_action r \<and>
                    filter_text entity_type au_entity_type r) (audit_logs d))))"

lemma record_audit_simps [simp]:
  "properties (record_audit t a e i d) = properties d"
  "room_types (record_audit t a e i d) = room_types d"
  "rooms (record_audit t a e i d) = rooms d"
  "ledger (record_audit t a e i d) = ledger d"
  "guests (record_audit t a e i d) = guests d"
  "bookings (record_audit t a e i d) = bookings d"
  "booking_lines (record_audit t a e i d) = booking_lines d"
  "folio_transactions (record_audit t a e i d) = folio_transactions d"
  "folio_categories (record_audit t a e i d) = folio_categories d"
  "next_uuid (record_audit t a e i d) = next_uuid d"
  "db_now (record_audit t a e i d) = db_now d"
  by (simp_all add: record_audit_def)

text \<open>A listing never shows another tenant's rows, and pages partition the whole list.\<close>

lemma list_audit_logs_tenant:
  "r \<in> set (list_audit_logs d t n m a e) \<Longrightarrow> au_tenant_id r = t \<and> r \<in> set (audit_logs d)"
  unfolding list_audit_logs_def by (auto dest!: in_set_takeD in_set_dropD)

lemma list_audit_logs_pages:
  "list_audit_logs d t n m a e @ list_audit_logs d t k (m + n) a e = list_audit_logs d t (n + k) m a e"
  unfolding list_audit_logs_def by (simp add: take_add add.commute [of m])

end
