(* ===== verification/Access.thy ===== *)
theory Access
  imports Audit_Trail
begin

text \<open>
  Who may call what: signing and verification keys (\<^verbatim>\<open>app/core/jwt_keys.py\<close>), the authentication
  middleware (\<^verbatim>\<open>app/middleware/tenant_jwt.py\<close>), the security dependencies of the routes
  (\<^verbatim>\<open>app/api/deps.py\<close>) and the API keys of integrations (\<^verbatim>\<open>api_key_service.py\<close>).

  SHA-256, argon2 and PyJWT are not part of the program: they are the fields of a record
  \<open>crypto\<close> the definitions take as an argument. A timestamp counts microseconds.
\<close>

subsection \<open>Settings, cryptography and the tables of the accounts\<close>

record settings =
  jwt_secret :: string
  jwt_algorithm :: string
  jwt_private_key_pem :: "string option"
  jwt_public_key_pem :: "string option"
  jwt_issuer :: "string option"
  jwt_audience :: "string option"
  access_token_ttl_minutes :: int
  refresh_token_ttl_days :: int
  allow_public_registration :: bool
  frontend_base_url :: string
  resend_api_key :: string
  night_audit_hour :: int
  webhook_secret_fernet_key :: "string option"
  webhook_log_retention_days :: int

text \<open>
  A claim of a token: an identifier, a text, a point in time or null. The texts are those that
  do not read as a UUID.
\<close>

datatype claim = CUuid uuid | CText string | CTime timestamp | CNull

type_synonym payload = "(string \<times> claim) list"

datatype verdict = Verified | Mismatch | InvalidHash | VerificationFailed

text \<open>
  \<open>jwt_decode key alg aud iss now token\<close> is the payload of a token that passes PyJWT's checks:
  signature under \<open>key\<close> and \<open>alg\<close>, \<open>exp\<close> and \<open>sub\<close> present, not expired, audience and issuer as
  given; \<open>None\<close> is a \<^verbatim>\<open>PyJWTError\<close>. \<open>argon_hash salt plain\<close> takes the random salt as an argument.
\<close>

record crypto =
  sha256_hex :: "string \<Rightarrow> string"
  argon_hash :: "string \<Rightarrow> string \<Rightarrow> string"
  argon_verify :: "string \<Rightarrow> string \<Rightarrow> verdict"
  argon_needs_rehash :: "string \<Rightarrow> bool"
  jwt_encode :: "string \<Rightarrow> string \<Rightarrow> payload \<Rightarrow> string"
  jwt_decode :: "string \<Rightarrow> string \<Rightarrow> string option \<Rightarrow> string option \<Rightarrow> timestamp \<Rightarrow> string \<Rightarrow> payload option"
  public_pem :: "string \<Rightarrow> string"

record tenant_row =
  te_id :: uuid
  te_name :: string
  te_billing_email :: string
  te_status :: string

record user_row =
  us_id :: uuid
  us_tenant_id :: uuid
  us_email :: string
  us_password_hash :: string
  us_full_name :: string
  us_role :: string
  us_is_active :: bool

record token_row =
  tk_id :: uuid
  tk_tenant_id :: uuid
  tk_user_id :: uuid
  tk_token_hash :: string
  tk_expires_at :: timestamp
  tk_revoked_at :: "timestamp option"
  tk_created_at :: timestamp

record api_key_row =
  ak_id :: uuid
  ak_tenant_id :: uuid
  ak_key_hash :: string
  ak_name :: string
  ak_scopes :: "string list"
  ak_is_active :: bool
  ak_expires_at :: "timestamp option"

text \<open>The whole state of the server: the tables of the hotel and those of the accounts.\<close>

record server =
  hotel :: db
  tenants :: "tenant_row list"
  users :: "user_row list"
  refresh_tokens :: "token_row list"
  api_keys :: "api_key_row list"

abbreviation now_of :: "server \<Rightarrow> timestamp" where
  "now_of sv \<equiv> db_now (hotel sv)"

definition new_id :: "server \<Rightarrow> uuid \<times> server" where
  "new_id sv = (next_uuid (hotel sv), sv\<lparr>hotel := (hotel sv)\<lparr>next_uuid := next_uuid (hotel sv) + 1\<rparr>\<rparr>)"

definition audited :: "uuid \<Rightarrow> string \<Rightarrow> string \<Rightarrow> uuid option \<Rightarrow> server \<Rightarrow> server" where
  "audited tenant_id action entity_type entity_id sv =
     sv\<lparr>hotel := record_audit tenant_id action entity_type entity_id (hotel sv)\<rparr>"

text \<open>The microseconds of a second, a minute, an hour and a day.\<close>

definition seconds :: "int \<Rightarrow> timestamp" where "seconds n = n * 1000000"
definition minutes :: "int \<Rightarrow> timestamp" where "minutes n = n * 60000000"
definition hours :: "int \<Rightarrow> timestamp" where "hours n = n * 3600000000"
definition days :: "int \<Rightarrow> timestamp" where "days n = n * 86400000000"

lemmas time_defs = seconds_def minutes_def hours_def days_def

subsection \<open>Signing keys\<close>

definition starts_with :: "string \<Rightarrow> string \<Rightarrow> bool" where
  "starts_with p s \<longleftrightarrow> take (length p) s = p"

definition ends_with :: "string \<Rightarrow> string \<Rightarrow> bool" where
  "ends_with p s \<longleftrightarrow> starts_with (rev p) (rev s)"

fun replace_newlines :: "string \<Rightarrow> string" where
  "replace_newlines (c # d # s) =
     (if c = CHR 92 \<and> d = CHR ''n'' then CHR 10 # replace_newlines s else c # replace_newlines (d # s))"
| "replace_newlines s = s"

fun has_escaped_newline :: "string \<Rightarrow> bool" where
  "has_escaped_newline (c # d # s) \<longleftrightarrow> (c = CHR 92 \<and> d = CHR ''n'') \<or> has_escaped_newline (d # s)"
| "has_escaped_newline s \<longleftrightarrow> False"

definition normalize_pem :: "string \<Rightarrow> string" where
  "normalize_pem pem =
     (let s = py_strip pem
      in if has_escaped_newline s \<and> \<not> list_ex (\<lambda>c. c = CHR 10) s then replace_newlines s else s)"

definition present_text :: "string option \<Rightarrow> bool" where
  "present_text x \<longleftrightarrow> (case x of None \<Rightarrow> False | Some s \<Rightarrow> s \<noteq> [] \<and> py_strip s \<noteq> [])"

definition hs256_key :: "settings \<Rightarrow> (string \<times> string) result" where
  "hs256_key st =
     (if length (jwt_secret st) < 32
      then Inl (RuntimeError ''jwt_secret must be at least 32 characters when using HS256'')
      else Inr (jwt_secret st, ''HS256''))"

definition jwt_signing_material :: "settings \<Rightarrow> (string \<times> string) result" where
  "jwt_signing_material st =
     (let alg = py_upper (jwt_algorithm st)
      in if alg = ''RS256'' then
           (if present_text (jwt_private_key_pem st)
            then Inr (normalize_pem (the (jwt_private_key_pem st)), ''RS256'')
            else Inl (RuntimeError ''jwt_private_key_pem is required when jwt_algorithm is RS256''))
         else if alg = ''HS256'' then hs256_key st
         else Inl (RuntimeError (''Unsupported jwt_algorithm: '' @ jwt_algorithm st)))"

definition jwt_verifying_material :: "crypto \<Rightarrow> settings \<Rightarrow> (string \<times> string) result" where
  "jwt_verifying_material cr st =
     (let alg = py_upper (jwt_algorithm st)
      in if alg = ''RS256'' then
           (if present_text (jwt_public_key_pem st)
            then Inr (normalize_pem (the (jwt_public_key_pem st)), ''RS256'')
            else if present_text (jwt_private_key_pem st)
            then Inr (public_pem cr (normalize_pem (the (jwt_private_key_pem st))), ''RS256'')
            else Inl (RuntimeError ''jwt_public_key_pem or jwt_private_key_pem required for RS256 verification''))
         else if alg = ''HS256'' then hs256_key st
         else Inl (RuntimeError (''Unsupported jwt_algorithm: '' @ jwt_algorithm st)))"

definition encode_token :: "crypto \<Rightarrow> settings \<Rightarrow> payload \<Rightarrow> string result" where
  "encode_token cr st p =
     r_bind (jwt_signing_material st) (\<lambda>(key, alg). Inr (jwt_encode cr key alg p))"

text \<open>\<^verbatim>\<open>payload.get(k) is None\<close>: the claim is absent or null.\<close>

definition claim_get :: "payload \<Rightarrow> string \<Rightarrow> claim option" where
  "claim_get p k = (case map_of p k of None \<Rightarrow> None | Some CNull \<Rightarrow> None | Some c \<Rightarrow> Some c)"

definition decode_access_token ::
  "crypto \<Rightarrow> settings \<Rightarrow> timestamp \<Rightarrow> string \<Rightarrow> string option \<Rightarrow> string option \<Rightarrow> payload result" where
  "decode_access_token cr st now token audience issuer =
     r_bind (jwt_verifying_material cr st) (\<lambda>(key, alg).
     r_bind (require (jwt_decode cr key alg audience issuer now token) (PyJWTError ''invalid token'')) (\<lambda>p.
     r_bind (guard (claim_get p ''tenant_id'' \<noteq> None) (PyJWTError ''Missing required tenant_id claim'')) (\<lambda>_.
     Inr p)))"

definition decode_password_reset_token ::
  "crypto \<Rightarrow> settings \<Rightarrow> timestamp \<Rightarrow> string \<Rightarrow> payload result" where
  "decode_password_reset_token cr st now token =
     r_bind (jwt_verifying_material cr st) (\<lambda>(key, alg).
     r_bind (require (jwt_decode cr key alg None None now token) (PyJWTError ''invalid token'')) (\<lambda>p.
     r_bind (guard (claim_get p ''typ'' = Some (CText ''password_reset'')) (PyJWTError ''Not a password-reset token'')) (\<lambda>_.
     r_bind (guard (claim_get p ''tenant_id'' \<noteq> None) (PyJWTError ''Missing required tenant_id claim'')) (\<lambda>_.
     r_bind (guard (claim_get p ''pwd_fp'' \<noteq> None \<and> claim_get p ''pwd_fp'' \<noteq> Some (CText []))
       (PyJWTError ''Missing required pwd_fp claim'')) (\<lambda>_.
     Inr p)))))"

text \<open>\<^verbatim>\<open>UUID(str(x))\<close> raises \<^verbatim>\<open>ValueError\<close> on anything but an identifier.\<close>

definition claim_uuid :: "claim \<Rightarrow> uuid result" where
  "claim_uuid c = (case c of CUuid u \<Rightarrow> Inr u | _ \<Rightarrow> Inl (ValueError ''badly formed hexadecimal UUID string''))"

subsection \<open>The authentication middleware\<close>

record http_request =
  rq_http :: bool
  rq_method :: string
  rq_path :: string
  rq_authorization :: "string option"
  rq_api_key :: "string option"
  rq_refresh_cookie :: "string option"

text \<open>The attributes the middleware may set on \<^verbatim>\<open>request.state\<close>.\<close>

record request_state =
  rs_tenant_id :: "uuid option"
  rs_auth_source :: "string option"
  rs_user_id :: "uuid option"
  rs_user_role :: "string option"
  rs_api_key_id :: "uuid option"
  rs_api_key_scopes :: "string list option"

definition blank_state :: request_state where
  "blank_state = \<lparr>rs_tenant_id = None, rs_auth_source = None, rs_user_id = None, rs_user_role = None,
     rs_api_key_id = None, rs_api_key_scopes = None\<rparr>"

definition EXEMPT_PATHS :: "string list" where
  "EXEMPT_PATHS = [''/health'', ''/health/deep'', ''/openapi.json'', ''/docs'', ''/redoc'',
     ''/docs/oauth2-redirect'', ''/favicon.ico'', ''/developer'', ''/auth/register'', ''/auth/login'',
     ''/auth/refresh'', ''/auth/logout'', ''/auth/forgot-password'', ''/auth/reset-password'',
     ''/webhooks/channex'', ''/webhooks/stripe'', ''/stripe/oauth/callback'']"

definition is_auth_exempt_path :: "string \<Rightarrow> bool" where
  "is_auth_exempt_path path \<longleftrightarrow>
     path \<in> set EXEMPT_PATHS \<or> starts_with ''/docs/'' path \<or> starts_with ''/redoc/'' path"

definition bearer :: "string option \<Rightarrow> string option" where
  "bearer header = (case header of None \<Rightarrow> None
     | Some h \<Rightarrow> if starts_with ''Bearer '' h then Some (py_strip (drop 7 h)) else None)"

text \<open>
  The \<^verbatim>\<open>ValueError\<close>s of the two authenticators are caught by the middleware; a \<^verbatim>\<open>RuntimeError\<close> of a
  misconfigured key is not. \<open>None\<close> is the answer \<^verbatim>\<open>False\<close>.
\<close>

definition jwt_role :: "payload \<Rightarrow> string option" where
  "jwt_role p = (case map_of p ''role'' of
       Some (CText r) \<Rightarrow> if py_strip r = [] then None else Some (py_lower (py_strip r))
     | _ \<Rightarrow> None)"

definition jwt_state :: "payload \<Rightarrow> request_state result" where
  "jwt_state p =
     r_bind (require (claim_get p ''tenant_id'') (ValueError ''missing_tenant'')) (\<lambda>raw_tenant.
     r_bind (claim_uuid raw_tenant) (\<lambda>tenant_id.
     r_bind (case claim_get p ''sub'' of None \<Rightarrow> Inr None
             | Some c \<Rightarrow> r_bind (claim_uuid c) (\<lambda>u. Inr (Some u))) (\<lambda>user_id.
     Inr (blank_state\<lparr>rs_tenant_id := Some tenant_id, rs_auth_source := Some ''jwt'', rs_user_id := user_id,
       rs_user_role := jwt_role p\<rparr>))))"

definition authenticate_jwt ::
  "crypto \<Rightarrow> settings \<Rightarrow> timestamp \<Rightarrow> http_request \<Rightarrow> request_state option result" where
  "authenticate_jwt cr st now rq =
     (case bearer (rq_authorization rq) of
        None \<Rightarrow> Inr None
      | Some token \<Rightarrow>
          if token = [] then Inr None
          else (case decode_access_token cr st now token (jwt_audience st) (jwt_issuer st) of
                  Inl (PyJWTError _) \<Rightarrow> Inl (ValueError ''invalid_token'')
                | Inl e \<Rightarrow> Inl e
                | Inr p \<Rightarrow> r_bind (jwt_state p) (\<lambda>s. Inr (Some s))))"

definition hash_api_key :: "crypto \<Rightarrow> string \<Rightarrow> string" where
  "hash_api_key cr plaintext = sha256_hex cr plaintext"

definition unexpired :: "timestamp \<Rightarrow> timestamp option \<Rightarrow> bool" where
  "unexpired now expires_at \<longleftrightarrow> (case expires_at of None \<Rightarrow> True | Some e \<Rightarrow> now < e)"

definition lookup_api_key_by_hash :: "server \<Rightarrow> string \<Rightarrow> api_key_row option" where
  "lookup_api_key_by_hash sv h =
     find (\<lambda>k. ak_key_hash k = h \<and> ak_is_active k \<and> unexpired (now_of sv) (ak_expires_at k)) (api_keys sv)"

definition strip_nonempty :: "string list \<Rightarrow> string list" where
  "strip_nonempty xs = map (\<lambda>s. py_lower (py_strip s)) (filter (\<lambda>s. py_strip s \<noteq> []) xs)"

definition authenticate_api_key ::
  "crypto \<Rightarrow> server \<Rightarrow> http_request \<Rightarrow> request_state option result" where
  "authenticate_api_key cr sv rq =
     (case rq_api_key rq of
        None \<Rightarrow> Inr None
      | Some raw \<Rightarrow>
          if py_strip raw = [] then Inr None
          else (case lookup_api_key_by_hash sv (hash_api_key cr (py_strip raw)) of
                  None \<Rightarrow> Inl (ValueError ''unknown_key'')
                | Some k \<Rightarrow> Inr (Some (blank_state\<lparr>rs_tenant_id := Some (ak_tenant_id k),
                    rs_auth_source := Some ''api_key'', rs_api_key_id := Some (ak_id k),
                    rs_api_key_scopes := Some (strip_nonempty (ak_scopes k))\<rparr>))))"

datatype admission = Pass request_state | Unauthorized string

definition admit :: "string \<Rightarrow> request_state option result \<Rightarrow> admission \<Rightarrow> admission result" where
  "admit message outcome otherwise =
     (case outcome of
        Inl (ValueError _) \<Rightarrow> Inr (Unauthorized message)
      | Inl e \<Rightarrow> Inl e
      | Inr None \<Rightarrow> Inr otherwise
      | Inr (Some s) \<Rightarrow> Inr (Pass s))"

definition tenant_jwt_middleware ::
  "crypto \<Rightarrow> settings \<Rightarrow> server \<Rightarrow> http_request \<Rightarrow> admission result" where
  "tenant_jwt_middleware cr st sv rq =
     (if \<not> rq_http rq \<or> rq_method rq = ''OPTIONS'' \<or> is_auth_exempt_path (rq_path rq) then Inr (Pass blank_state)
      else if bearer (rq_authorization rq) \<noteq> None
      then admit ''Invalid or expired token'' (authenticate_jwt cr st (now_of sv) rq) (Unauthorized ''Missing bearer token'')
      else admit ''Invalid API key'' (authenticate_api_key cr sv rq)
             (Unauthorized ''Authenticate with Authorization: Bearer <JWT> or X-API-Key''))"

subsection \<open>Security dependencies\<close>

definition auth_source :: "request_state \<Rightarrow> string" where
  "auth_source s = (case rs_auth_source s of None \<Rightarrow> ''jwt'' | Some a \<Rightarrow> a)"

definition get_tenant_id :: "request_state \<Rightarrow> uuid result" where
  "get_tenant_id s = require (rs_tenant_id s)
     (HTTPException ''tenant_id missing; authenticate with Bearer JWT or X-API-Key'' 500)"

definition get_user_id :: "request_state \<Rightarrow> uuid result" where
  "get_user_id s = require (rs_user_id s)
     (HTTPException ''Access token must include user subject (sub) for this route'' 401)"

definition require_jwt_user :: "request_state \<Rightarrow> unit result" where
  "require_jwt_user s = guard (auth_source s = ''jwt'')
     (HTTPException ''This operation requires a user JWT, not an API key'' 403)"

definition get_jwt_only_user_id :: "request_state \<Rightarrow> uuid result" where
  "get_jwt_only_user_id s = r_bind (require_jwt_user s) (\<lambda>_. get_user_id s)"

definition get_optional_user_id_for_audit :: "request_state \<Rightarrow> uuid option result" where
  "get_optional_user_id_for_audit s =
     (if auth_source s = ''api_key'' then Inr None else r_bind (get_user_id s) (\<lambda>u. Inr (Some u)))"

definition require_roles :: "string list \<Rightarrow> request_state \<Rightarrow> unit result" where
  "require_roles allowed s =
     (if auth_source s \<noteq> ''jwt'' then Inr ()
      else (case rs_user_role s of
              None \<Rightarrow> Inl (HTTPException ''Insufficient role for this operation'' 403)
            | Some role \<Rightarrow> guard (py_strip role \<noteq> [] \<and> py_lower (py_strip role) \<in> set (map py_lower allowed))
                (HTTPException ''Insufficient role for this operation'' 403)))"

definition require_scopes :: "string list \<Rightarrow> request_state \<Rightarrow> unit result" where
  "require_scopes required s =
     (let needed = map py_lower required;
          granted = strip_nonempty (case rs_api_key_scopes s of None \<Rightarrow> [] | Some xs \<Rightarrow> xs)
      in guard (auth_source s \<noteq> ''api_key'' \<or> needed = [] \<or> ''*'' \<in> set granted \<or> list_all (\<lambda>n. n \<in> set granted) needed)
           (HTTPException ''API key lacks required scope'' 403))"

fun chain_dependency_runners :: "(request_state \<Rightarrow> unit result) list \<Rightarrow> request_state \<Rightarrow> unit result" where
  "chain_dependency_runners [] s = Inr ()"
| "chain_dependency_runners (r # rs) s = r_bind (r s) (\<lambda>_. chain_dependency_runners rs s)"

text \<open>The dependency of every route that manages users or API keys.\<close>

definition manage_dep :: "request_state \<Rightarrow> unit result" where
  "manage_dep = chain_dependency_runners [require_jwt_user, require_roles [''owner'', ''manager'']]"

subsection \<open>API keys\<close>

definition create_api_key ::
  "crypto \<Rightarrow> server \<Rightarrow> uuid \<Rightarrow> string \<Rightarrow> string list \<Rightarrow> timestamp option \<Rightarrow> string
     \<Rightarrow> ((api_key_row \<times> string) \<times> server) result" where
  "create_api_key cr sv tenant_id name scopes expires_at rnd =
     (let norm_scopes = strip_nonempty scopes; plain = ''opms_'' @ rnd; (i, sv') = new_id sv;
          row = \<lparr>ak_id = i, ak_tenant_id = tenant_id, ak_key_hash = hash_api_key cr plain, ak_name = py_strip name,
                 ak_scopes = norm_scopes, ak_is_active = True, ak_expires_at = expires_at\<rparr>
      in r_bind (guard (py_strip name \<noteq> []) (ApiKeyServiceError ''name is required'' 422)) (\<lambda>_.
         r_bind (guard (norm_scopes \<noteq> []) (ApiKeyServiceError ''at least one scope is required'' 422)) (\<lambda>_.
         r_bind (guard (\<not> list_ex (\<lambda>k. ak_key_hash k = ak_key_hash row) (api_keys sv)) IntegrityError) (\<lambda>_.
         Inr ((row, plain), sv'\<lparr>api_keys := api_keys sv @ [row]\<rparr>)))))"

definition list_api_keys :: "server \<Rightarrow> uuid \<Rightarrow> api_key_row list" where
  "list_api_keys sv tenant_id =
     sort_key ak_name (sort_key ak_id (filter (\<lambda>k. ak_tenant_id k = tenant_id) (api_keys sv)))"

definition api_key_at :: "server \<Rightarrow> uuid \<Rightarrow> uuid \<Rightarrow> api_key_row option" where
  "api_key_at sv tenant_id key_id = find (\<lambda>k. ak_tenant_id k = tenant_id \<and> ak_id k = key_id) (api_keys sv)"

definition patch_api_key ::
  "server \<Rightarrow> uuid \<Rightarrow> uuid \<Rightarrow> bool option \<Rightarrow> string option \<Rightarrow> (api_key_row \<times> server) result" where
  "patch_api_key sv tenant_id key_id is_active name =
     r_bind (require (api_key_at sv tenant_id key_id) (ApiKeyServiceError ''API key not found'' 404)) (\<lambda>row.
     r_bind (guard (name = None \<or> py_strip (the name) \<noteq> []) (ApiKeyServiceError ''name cannot be empty'' 422)) (\<lambda>_.
     let row' = row\<lparr>ak_name := (case name of None \<Rightarrow> ak_name row | Some n \<Rightarrow> py_strip n),
                    ak_is_active := (case is_active of None \<Rightarrow> ak_is_active row | Some b \<Rightarrow> b)\<rparr>
     in Inr (row', sv\<lparr>api_keys := update_rows (\<lambda>k. ak_id k = key_id) (\<lambda>_. row') (api_keys sv)\<rparr>)))"

text \<open>
  \<^verbatim>\<open>session.delete(row)\<close> is a coroutine of the async session that is never awaited, so the flush
  that follows has nothing to delete.
\<close>

definition delete_api_key :: "server \<Rightarrow> uuid \<Rightarrow> uuid \<Rightarrow> (unit \<times> server) result" where
  "delete_api_key sv tenant_id key_id =
     r_bind (require (api_key_at sv tenant_id key_id) (ApiKeyServiceError ''API key not found'' 404)) (\<lambda>_. Inr ((), sv))"

definition post_api_key ::
  "crypto \<Rightarrow> server \<Rightarrow> request_state \<Rightarrow> string \<Rightarrow> string list \<Rightarrow> timestamp option \<Rightarrow> string
     \<Rightarrow> ((api_key_row \<times> string) \<times> server) result" where
  "post_api_key cr sv s name scopes expires_at rnd =
     r_bind (manage_dep s) (\<lambda>_. r_bind (get_tenant_id s) (\<lambda>tenant_id.
     r_bind (create_api_key cr sv tenant_id name scopes expires_at rnd) (\<lambda>((row, plain), sv).
     Inr ((row, plain), audited tenant_id ''api_key.create'' ''api_key'' (Some (ak_id row)) sv))))"

definition patch_api_key_route ::
  "server \<Rightarrow> request_state \<Rightarrow> uuid \<Rightarrow> bool option \<Rightarrow> string option \<Rightarrow> (api_key_row \<times> server) result" where
  "patch_api_key_route sv s key_id is_active name =
     r_bind (manage_dep s) (\<lambda>_. r_bind (get_tenant_id s) (\<lambda>tenant_id.
     r_bind (patch_api_key sv tenant_id key_id is_active name) (\<lambda>(row, sv).
     Inr (row, audited tenant_id ''api_key.patch'' ''api_key'' (Some key_id) sv))))"

definition delete_api_key_route :: "server \<Rightarrow> request_state \<Rightarrow> uuid \<Rightarrow> (unit \<times> server) result" where
  "delete_api_key_route sv s key_id =
     r_bind (manage_dep s) (\<lambda>_. r_bind (get_tenant_id s) (\<lambda>tenant_id.
     r_bind (delete_api_key sv tenant_id key_id) (\<lambda>(_, sv).
     Inr ((), audited tenant_id ''api_key.delete'' ''api_key'' (Some key_id) sv))))"


subsection \<open>What a credential opens\<close>

lemma py_strip_norm [simp]: "py_strip (py_lower (py_strip s)) = py_lower (py_strip s)"
  by (simp add: py_strip_lower)

lemma py_lower_Nil [simp]: "py_lower s = [] \<longleftrightarrow> s = []" "py_lower [] = []"
  by (simp_all add: py_lower_def)

lemma claim_uuid_eq [simp]: "claim_uuid c = Inr u \<longleftrightarrow> c = CUuid u"
  by (cases c) (auto simp: claim_uuid_def)

lemma jwt_role_eq:
  "jwt_role p = Some role \<longleftrightarrow> (\<exists>r. map_of p ''role'' = Some (CText r) \<and> py_strip r \<noteq> [] \<and> role = py_lower (py_strip r))"
  by (auto simp: jwt_role_def split: option.splits claim.splits)

lemma strip_nonempty_idem [simp]: "strip_nonempty (strip_nonempty xs) = strip_nonempty xs"
  by (induction xs) (auto simp: strip_nonempty_def)

lemma manage_dep_iff:
  "manage_dep s = Inr u \<longleftrightarrow> auth_source s = ''jwt'' \<and>
     (\<exists>role. rs_user_role s = Some role \<and> py_lower (py_strip role) \<in> {''owner'', ''manager''})"
proof -
  have "map py_lower [''owner'', ''manager''] = [''owner'', ''manager'']" by code_simp
  moreover have "py_lower t \<in> {''owner'', ''manager''} \<Longrightarrow> t \<noteq> []" for t by auto
  ultimately show ?thesis
    unfolding manage_dep_def
    by (auto simp: require_jwt_user_def require_roles_def guard_def split: option.splits if_splits)
qed

lemma jwt_state_role:
  assumes "jwt_state p = Inr s"
  shows "rs_user_role s = Some role \<Longrightarrow> \<exists>r. map_of p ''role'' = Some (CText r) \<and> role = py_lower (py_strip r)"
    and "claim_get p ''tenant_id'' = Some (CUuid t) \<longleftrightarrow> rs_tenant_id s = Some t"
    and "rs_auth_source s = Some ''jwt''" and "rs_tenant_id s \<noteq> None"
  using assms by (auto simp: jwt_state_def jwt_role_eq)

lemma admit_pass [simp]: "admit m r (Unauthorized x) = Inr (Pass s) \<longleftrightarrow> r = Inr (Some s)"
  by (auto simp: admit_def split: sum.splits error.splits option.splits)

lemma authenticate_jwt_some:
  "authenticate_jwt cr st now rq = Inr (Some s) \<longleftrightarrow>
     (\<exists>token p. bearer (rq_authorization rq) = Some token \<and> token \<noteq> [] \<and>
        decode_access_token cr st now token (jwt_audience st) (jwt_issuer st) = Inr p \<and> jwt_state p = Inr s)"
  by (auto simp: authenticate_jwt_def split: option.splits sum.splits error.splits)

lemma authenticate_api_key_some:
  "authenticate_api_key cr sv rq = Inr (Some s) \<longleftrightarrow>
     (\<exists>raw k. rq_api_key rq = Some raw \<and> py_strip raw \<noteq> [] \<and>
        lookup_api_key_by_hash sv (sha256_hex cr (py_strip raw)) = Some k \<and>
        s = blank_state\<lparr>rs_tenant_id := Some (ak_tenant_id k), rs_auth_source := Some ''api_key'',
              rs_api_key_id := Some (ak_id k), rs_api_key_scopes := Some (strip_nonempty (ak_scopes k))\<rparr>)"
  by (auto simp: authenticate_api_key_def hash_api_key_def split: option.splits)

definition protected_route :: "http_request \<Rightarrow> bool" where
  "protected_route rq \<longleftrightarrow> rq_http rq \<and> rq_method rq \<noteq> ''OPTIONS'' \<and> \<not> is_auth_exempt_path (rq_path rq)"

lemma middleware_pass:
  "tenant_jwt_middleware cr st sv rq = Inr (Pass s) \<longleftrightarrow>
     (if \<not> protected_route rq then s = blank_state
      else if bearer (rq_authorization rq) \<noteq> None then authenticate_jwt cr st (now_of sv) rq = Inr (Some s)
      else authenticate_api_key cr sv rq = Inr (Some s))"
  by (auto simp: tenant_jwt_middleware_def protected_route_def)

text \<open>
  C17. Managing users and API keys takes a signed user token: a request passes the middleware and
  the dependency of the management routes exactly when it carries a bearer token that verifies
  and whose role claim, trimmed and lower-cased, is owner or manager. An API key, whatever its
  scopes, and a path exempt from authentication never do. The tenant is the one of the token.
\<close>

theorem management_needs_manager_token:
  "(\<exists>s. tenant_jwt_middleware cr st sv rq = Inr (Pass s) \<and> manage_dep s = Inr () \<and> get_tenant_id s = Inr t) \<longleftrightarrow>
   (protected_route rq \<and>
    (\<exists>token p s r. bearer (rq_authorization rq) = Some token \<and> token \<noteq> [] \<and>
       decode_access_token cr st (now_of sv) token (jwt_audience st) (jwt_issuer st) = Inr p \<and> jwt_state p = Inr s \<and>
       map_of p ''role'' = Some (CText r) \<and> py_lower (py_strip r) \<in> {''owner'', ''manager''} \<and>
       claim_get p ''tenant_id'' = Some (CUuid t)))"
  (is "?L \<longleftrightarrow> ?R")
proof
  assume ?L
  then obtain s where s: "tenant_jwt_middleware cr st sv rq = Inr (Pass s)" "manage_dep s = Inr ()" "get_tenant_id s = Inr t"
    by blast
  from s(2) obtain role where role: "auth_source s = ''jwt''" "rs_user_role s = Some role"
      "py_lower (py_strip role) \<in> {''owner'', ''manager''}"
    unfolding manage_dep_iff by blast
  have "protected_route rq" and "\<not> (\<exists>h. authenticate_api_key cr sv h = Inr (Some s))"
    using role s(1) by (auto simp: middleware_pass authenticate_api_key_some blank_state_def auth_source_def split: if_splits)
  with s(1) have "protected_route rq" "authenticate_jwt cr st (now_of sv) rq = Inr (Some s)"
    by (auto simp: middleware_pass split: if_splits)
  moreover then obtain token p where p: "bearer (rq_authorization rq) = Some token" "token \<noteq> []"
      "decode_access_token cr st (now_of sv) token (jwt_audience st) (jwt_issuer st) = Inr p" "jwt_state p = Inr s"
    unfolding authenticate_jwt_some by blast
  moreover obtain r where "map_of p ''role'' = Some (CText r)" "role = py_lower (py_strip r)"
    using jwt_state_role(1) [OF p(4) role(2)] by blast
  moreover have "claim_get p ''tenant_id'' = Some (CUuid t)"
    using jwt_state_role(2) [OF p(4)] s(3) by (simp add: get_tenant_id_def)
  moreover note role(3)
  ultimately show ?R by auto
next
  assume ?R
  then obtain token p s r where p: "protected_route rq" "bearer (rq_authorization rq) = Some token" "token \<noteq> []"
      "decode_access_token cr st (now_of sv) token (jwt_audience st) (jwt_issuer st) = Inr p" "jwt_state p = Inr s"
      "map_of p ''role'' = Some (CText r)" "py_lower (py_strip r) \<in> {''owner'', ''manager''}"
      "claim_get p ''tenant_id'' = Some (CUuid t)"
    by blast
  then have "tenant_jwt_middleware cr st sv rq = Inr (Pass s)"
    by (auto simp: middleware_pass authenticate_jwt_some)
  moreover have "rs_user_role s = Some (py_lower (py_strip r))" "rs_auth_source s = Some ''jwt''"
    using p(5,6,7) by (auto simp: jwt_state_def jwt_role_def)
  then have "manage_dep s = Inr ()"
    unfolding manage_dep_iff using p(7) by (auto simp: auth_source_def)
  moreover have "get_tenant_id s = Inr t"
    using jwt_state_role(2) [OF p(5), of t] p(8) by (simp add: get_tenant_id_def)
  ultimately show ?L by blast
qed


lemma succeeds_ex: "succeeds r \<Longrightarrow> \<exists>x. r = Inr x"
  by (cases r) auto

lemma new_id_simps [simp]:
  "snd (new_id sv) = sv\<lparr>hotel := (hotel sv)\<lparr>next_uuid := next_uuid (hotel sv) + 1\<rparr>\<rparr>" "fst (new_id sv) = next_uuid (hotel sv)"
  by (simp_all add: new_id_def)

lemma audited_simps [simp]:
  "tenants (audited t a e i sv) = tenants sv" "users (audited t a e i sv) = users sv"
  "refresh_tokens (audited t a e i sv) = refresh_tokens sv" "api_keys (audited t a e i sv) = api_keys sv"
  "now_of (audited t a e i sv) = now_of sv"
  "hotel (audited t a e i sv) = record_audit t a e i (hotel sv)"
  by (simp_all add: audited_def)

definition bearing_key :: "http_request \<Rightarrow> string \<Rightarrow> bool" where
  "bearing_key rq plain \<longleftrightarrow> protected_route rq \<and> bearer (rq_authorization rq) = None \<and>
     plain \<noteq> [] \<and> map_option py_strip (rq_api_key rq) = Some plain"

lemma middleware_key:
  assumes "bearing_key rq plain"
  shows "tenant_jwt_middleware cr st sv rq =
    Inr (case lookup_api_key_by_hash sv (sha256_hex cr plain) of
           None \<Rightarrow> Unauthorized ''Invalid API key''
         | Some k \<Rightarrow> Pass (blank_state\<lparr>rs_tenant_id := Some (ak_tenant_id k), rs_auth_source := Some ''api_key'',
              rs_api_key_id := Some (ak_id k), rs_api_key_scopes := Some (strip_nonempty (ak_scopes k))\<rparr>))"
  using assms
  by (auto simp: bearing_key_def protected_route_def tenant_jwt_middleware_def authenticate_api_key_def
      hash_api_key_def admit_def split: option.splits)

lemma create_api_key_effect:
  assumes "create_api_key cr sv t name scopes expires_at rnd = Inr ((row, plain), sv')"
  shows "plain = ''opms_'' @ rnd" "ak_key_hash row = sha256_hex cr plain" "ak_tenant_id row = t"
    "ak_scopes row = strip_nonempty scopes" "ak_is_active row" "ak_expires_at row = expires_at"
    "api_keys sv' = api_keys sv @ [row]" "now_of sv' = now_of sv"
    "\<forall>k\<in>set (api_keys sv). ak_key_hash k \<noteq> ak_key_hash row"
  using assms
  by (auto simp: create_api_key_def hash_api_key_def new_id_def Let_def list_ex_iff split: if_splits)

lemma find_last: "(\<And>x. x \<in> set xs \<Longrightarrow> \<not> P x) \<Longrightarrow> P y \<Longrightarrow> find P (xs @ [y]) = Some y"
  by (induction xs) auto

lemma created_key_found:
  assumes "create_api_key cr sv t name scopes expires_at rnd = Inr ((row, plain), sv')"
    and "unexpired (now_of sv) expires_at"
  shows "lookup_api_key_by_hash sv' (sha256_hex cr plain) = Some row"
  unfolding lookup_api_key_by_hash_def create_api_key_effect(7) [OF assms(1)]
  using assms(2) create_api_key_effect [OF assms(1)] by (intro find_last) auto

subsection \<open>A small server\<close>

text \<open>
  A server and a cryptography on which the hypotheses of the theorems are exhibited: hashes are
  marked copies, the only token that verifies is the one for the payload \<open>p\<close>.
\<close>

definition demo_crypto :: "payload \<Rightarrow> crypto" where
  "demo_crypto p = \<lparr>sha256_hex = (\<lambda>s. s), argon_hash = (\<lambda>salt s. ''A'' @ s),
     argon_verify = (\<lambda>h s. if h = ''A'' @ s then Verified else Mismatch),
     argon_needs_rehash = (\<lambda>h. False), jwt_encode = (\<lambda>key alg q. ''jwt''),
     jwt_decode = (\<lambda>key alg aud iss now token. if token = ''jwt'' then Some p else None),
     public_pem = (\<lambda>s. s)\<rparr>"

definition demo_settings :: settings where
  "demo_settings = \<lparr>jwt_secret = replicate 32 CHR ''k'', jwt_algorithm = ''HS256'', jwt_private_key_pem = None,
     jwt_public_key_pem = None, jwt_issuer = None, jwt_audience = None, access_token_ttl_minutes = 60,
     refresh_token_ttl_days = 14, allow_public_registration = False, frontend_base_url = ''https://pms'',
     resend_api_key = ''re_key'', night_audit_hour = 3, webhook_secret_fernet_key = None, webhook_log_retention_days = 30\<rparr>"

definition demo_server :: server where
  "demo_server = \<lparr>hotel = demo_db, tenants = [\<lparr>te_id = 1, te_name = ''Demo'', te_billing_email = ''o@x'', te_status = ''active''\<rparr>],
     users = [\<lparr>us_id = 7, us_tenant_id = 1, us_email = ''o@x'', us_password_hash = ''Asecret'', us_full_name = ''Olga'',
         us_role = ''owner'', us_is_active = True\<rparr>,
       \<lparr>us_id = 8, us_tenant_id = 1, us_email = ''m@x'', us_password_hash = ''Apass'', us_full_name = ''Max'',
         us_role = ''manager'', us_is_active = True\<rparr>],
     refresh_tokens = [\<lparr>tk_id = 70, tk_tenant_id = 1, tk_user_id = 7, tk_token_hash = ''old'', tk_expires_at = 1000,
         tk_revoked_at = None, tk_created_at = 0\<rparr>],
     api_keys = [\<lparr>ak_id = 80, ak_tenant_id = 1, ak_key_hash = ''opms_1'', ak_name = ''ota'', ak_scopes = [''rates:read''],
         ak_is_active = True, ak_expires_at = None\<rparr>]\<rparr>"

definition demo_actor :: "string \<Rightarrow> request_state" where
  "demo_actor role = blank_state\<lparr>rs_tenant_id := Some 1, rs_auth_source := Some ''jwt'', rs_user_id := Some 7,
     rs_user_role := Some role\<rparr>"

definition key_request :: "string \<Rightarrow> http_request" where
  "key_request key = \<lparr>rq_http = True, rq_method = ''GET'', rq_path = ''/rates'', rq_authorization = None,
     rq_api_key = Some key, rq_refresh_cookie = None\<rparr>"

lemmas demo_server_defs = demo_server_def demo_settings_def demo_crypto_def demo_actor_def key_request_def

text \<open>
  C18. The secret shown when an API key is created opens exactly what was granted: until the key
  expires, a request that presents it is admitted for the tenant of its creator, a route passes
  its scope check exactly when the wildcard or every scope it names is among the normalised
  scopes of the key, and the management routes stay closed to it.
\<close>

theorem created_key_opens_its_scopes:
  assumes created: "post_api_key cr sv actor name scopes expires_at rnd = Inr ((row, plain), sv')"
    and live: "unexpired (now_of sv) expires_at"
    and rq: "bearing_key rq plain"
  shows "\<exists>s. tenant_jwt_middleware cr st sv' rq = Inr (Pass s) \<and> get_tenant_id s = get_tenant_id actor \<and>
    (require_scopes needed s = Inr () \<longleftrightarrow>
       needed = [] \<or> ''*'' \<in> set (strip_nonempty scopes) \<or> set (map py_lower needed) \<subseteq> set (strip_nonempty scopes)) \<and>
    manage_dep s \<noteq> Inr ()"
proof -
  from created obtain t sv1 where c: "get_tenant_id actor = Inr t"
      "create_api_key cr sv t name scopes expires_at rnd = Inr ((row, plain), sv1)"
      "sv' = audited t ''api_key.create'' ''api_key'' (Some (ak_id row)) sv1"
    by (auto simp: post_api_key_def)
  note e = create_api_key_effect [OF c(2)]
  let ?s = "blank_state\<lparr>rs_tenant_id := Some (ak_tenant_id row), rs_auth_source := Some ''api_key'',
    rs_api_key_id := Some (ak_id row), rs_api_key_scopes := Some (strip_nonempty (ak_scopes row))\<rparr>"
  have "lookup_api_key_by_hash sv' (sha256_hex cr plain) = Some row"
    using created_key_found [OF c(2) live] by (simp add: c(3) lookup_api_key_by_hash_def)
  then have "tenant_jwt_middleware cr st sv' rq = Inr (Pass ?s)"
    by (simp add: middleware_key [OF rq])
  moreover have "get_tenant_id ?s = get_tenant_id actor"
    unfolding c(1) by (simp add: e(3) get_tenant_id_def)
  moreover have "require_scopes needed ?s = Inr () \<longleftrightarrow>
      needed = [] \<or> ''*'' \<in> set (strip_nonempty scopes) \<or> set (map py_lower needed) \<subseteq> set (strip_nonempty scopes)"
    by (auto simp: require_scopes_def auth_source_def e(4) Let_def list_all_iff)
  moreover have "manage_dep ?s \<noteq> Inr ()"
    by (simp add: manage_dep_iff auth_source_def)
  ultimately show ?thesis by blast
qed

definition demo_created :: "((api_key_row \<times> string) \<times> server) result" where
  "demo_created = post_api_key (demo_crypto []) demo_server (demo_actor ''owner'') ''new'' ['' Rates:READ ''] None ''2''"

theorem created_key_opens_its_scopes_witness:
  "\<exists>s. tenant_jwt_middleware (demo_crypto []) demo_settings (snd (projr demo_created)) (key_request '' opms_2 '') = Inr (Pass s) \<and>
     get_tenant_id s = get_tenant_id (demo_actor ''owner'') \<and> require_scopes [''rates:read''] s = Inr () \<and> manage_dep s \<noteq> Inr ()"
proof -
  have "succeeds demo_created" and p: "snd (fst (projr demo_created)) = ''opms_2''" by code_simp+
  then obtain row plain sv' where r: "demo_created = Inr ((row, plain), sv')"
    by (metis succeeds_ex surj_pair)
  have "bearing_key (key_request '' opms_2 '') ''opms_2''" by code_simp
  moreover have "unexpired (now_of demo_server) None" by (simp add: unexpired_def)
  moreover have "set (map py_lower [''rates:read'']) \<subseteq> set (strip_nonempty ['' Rates:READ ''])" by code_simp
  ultimately show ?thesis
    using created_key_opens_its_scopes [OF r [unfolded demo_created_def], of "key_request '' opms_2 ''" demo_settings "[''rates:read'']"]
      p unfolding r by simp
qed

text \<open>
  Deactivating an API key closes it: after the management route has set it inactive, no
  request presenting its secret is admitted (the hashes of the keys are distinct, a constraint
  of the table).
\<close>

theorem deactivated_key_is_refused:
  assumes patched: "patch_api_key_route sv actor key_id (Some False) name = Inr (row, sv')"
    and unique: "distinct (map ak_key_hash (api_keys sv))"
    and secret: "ak_key_hash row = sha256_hex cr plain"
    and rq: "bearing_key rq plain"
  shows "tenant_jwt_middleware cr st sv' rq = Inr (Unauthorized ''Invalid API key'')"
proof -
  from patched obtain t sv1 old where p: "api_key_at sv t key_id = Some old"
      "sv' = audited t ''api_key.patch'' ''api_key'' (Some key_id) sv1" "ak_key_hash row = ak_key_hash old"
      "\<not> ak_is_active row" "api_keys sv1 = update_rows (\<lambda>k. ak_id k = key_id) (\<lambda>_. row) (api_keys sv)"
    by (auto simp: patch_api_key_route_def patch_api_key_def Let_def split: if_splits)
  from p(1) have old: "old \<in> set (api_keys sv)" "ak_id old = key_id"
    by (auto simp: api_key_at_def dest: find_Some_mem)
  have "\<not> ak_is_active k" if "k \<in> set (api_keys sv')" "ak_key_hash k = sha256_hex cr plain" for k
  proof (cases "k = row")
    case False
    with that p have "k \<in> set (api_keys sv)" "ak_id k \<noteq> key_id" "ak_key_hash k = ak_key_hash old"
      by (auto simp: set_update_rows secret split: if_splits)
    with old unique show ?thesis by (auto simp: distinct_map inj_on_def)
  qed (use p in simp)
  then have "lookup_api_key_by_hash sv' (sha256_hex cr plain) = None"
    by (auto simp: lookup_api_key_by_hash_def find_None_iff)
  then show ?thesis by (simp add: middleware_key [OF rq])
qed

theorem deactivated_key_is_refused_witness:
  "tenant_jwt_middleware (demo_crypto []) demo_settings
     (snd (projr (patch_api_key_route demo_server (demo_actor ''owner'') 80 (Some False) None))) (key_request ''opms_1'')
   = Inr (Unauthorized ''Invalid API key'')"
proof -
  let ?r = "patch_api_key_route demo_server (demo_actor ''owner'') 80 (Some False) None"
  have "succeeds ?r" and h: "ak_key_hash (fst (projr ?r)) = ''opms_1''" by code_simp+
  then obtain row sv' where r: "?r = Inr (row, sv')" by (cases ?r) (auto simp: succeeds_def)
  have "distinct (map ak_key_hash (api_keys demo_server))" "bearing_key (key_request ''opms_1'') ''opms_1''" by code_simp+
  with h show ?thesis
    unfolding r by (auto intro: deactivated_key_is_refused [OF r] simp: demo_crypto_def)
qed

text \<open>Deleting a key has no such effect: the row stays, and with it what the key opens.\<close>

lemma deleted_key_still_opens:
  assumes "delete_api_key_route sv actor key_id = Inr ((), sv')"
  shows "tenant_jwt_middleware cr st sv' rq = tenant_jwt_middleware cr st sv rq"
proof -
  from assms have "api_keys sv' = api_keys sv" "now_of sv' = now_of sv"
    by (auto simp: delete_api_key_route_def delete_api_key_def)
  then have "lookup_api_key_by_hash sv' = lookup_api_key_by_hash sv" "now_of sv' = now_of sv"
    by (auto simp: fun_eq_iff lookup_api_key_by_hash_def)
  then have "authenticate_api_key cr sv' rq = authenticate_api_key cr sv rq" "now_of sv' = now_of sv"
    by (simp_all add: authenticate_api_key_def split: option.split)
  then show ?thesis by (simp add: tenant_jwt_middleware_def)
qed

end
