(* ===== verification/Availability.thy ===== *)
theory Availability
  imports Demo
begin

text \<open>
  Pessimistic locking of the availability ledger (\<^verbatim>\<open>app/services/availability_lock.py\<close>). The
  conditional SQL update of \<open>claim_availability_for_new_booking\<close> and the ORM path (lock, check,
  increment or decrement the loaded rows) are modelled separately; both are shown to implement
  one abstract operation, \<open>bump_booked\<close>, on the buckets named by tenant, room type and night.
  The contract they share is the locale \<open>slot_ledger\<close>, interpreted for both.
\<close>

definition available_rooms :: "ledger_row \<Rightarrow> int" where
  "available_rooms row = al_total_rooms row - al_booked_rooms row - al_blocked_rooms row"

definition ledger_select :: "db \<Rightarrow> uuid \<Rightarrow> uuid \<Rightarrow> date list \<Rightarrow> ledger_row list" where
  "ledger_select d tenant_id room_type_id nights =
     filter (\<lambda>r. al_tenant_id r = tenant_id \<and> al_room_type_id r = room_type_id \<and>
                 al_date r \<in> set nights) (ledger d)"

definition lock_and_validate_availability ::
  "db \<Rightarrow> uuid \<Rightarrow> uuid \<Rightarrow> date list \<Rightarrow> int \<Rightarrow> ledger_row list result" where
  "lock_and_validate_availability d tenant_id room_type_id nights rooms_to_book =
     (if nights = [] then Inr []
      else let rows = sort_key al_date (ledger_select d tenant_id room_type_id nights)
           in if set (map al_date rows) \<noteq> set nights then Inl LedgerNotSeededError
              else if \<exists>row\<in>set rows. available_rooms row < rooms_to_book
                   then Inl InsufficientInventoryError
              else Inr (sort_key al_date rows))"

definition claim_availability_for_new_booking ::
  "db \<Rightarrow> uuid \<Rightarrow> uuid \<Rightarrow> date list \<Rightarrow> int \<Rightarrow> db result" where
  "claim_availability_for_new_booking d tenant_id room_type_id nights rooms_to_book =
     (if nights = [] then Inr d
      else let night_set = remdups nights
           in if length night_set \<noteq> length nights then Inl LedgerNotSeededError
              else let seeded = length (ledger_select d tenant_id room_type_id night_set)
                   in if seeded \<noteq> length night_set then Inl LedgerNotSeededError
                      else let lk = map al_id (ledger_select d tenant_id room_type_id night_set);
                               upd = (\<lambda>al. al_id al \<in> set lk \<and>
                                  al_booked_rooms al + al_blocked_rooms al + rooms_to_book
                                    \<le> al_total_rooms al);
                               n_up = length (filter upd (ledger d))
                           in if n_up \<noteq> length (sort night_set) then Inl InsufficientInventoryError
                              else Inr (d\<lparr>ledger := update_rows upd
                                (\<lambda>al. al\<lparr>al_booked_rooms := al_booked_rooms al + rooms_to_book\<rparr>)
                                (ledger d)\<rparr>))"

text \<open>
  The loops over loaded rows: each row is one mapped object, addressed by its primary key.
  \<open>decrement_booked_rooms\<close> also returns the state at the raise, because one caller catches it.
\<close>

fun increment_booked_rooms :: "ledger_row list \<Rightarrow> int \<Rightarrow> db \<Rightarrow> db" where
  "increment_booked_rooms [] delta d = d"
| "increment_booked_rooms (row # rows) delta d =
     increment_booked_rooms rows delta
       (d\<lparr>ledger := update_rows (\<lambda>r. al_id r = al_id row)
          (\<lambda>r. r\<lparr>al_booked_rooms := al_booked_rooms r + delta\<rparr>) (ledger d)\<rparr>)"

fun decrement_booked_rooms :: "ledger_row list \<Rightarrow> int \<Rightarrow> db \<Rightarrow> error option \<times> db" where
  "decrement_booked_rooms [] delta d = (None, d)"
| "decrement_booked_rooms (row # rows) delta d =
     (let d' = d\<lparr>ledger := update_rows (\<lambda>r. al_id r = al_id row)
          (\<lambda>r. r\<lparr>al_booked_rooms := al_booked_rooms r - delta\<rparr>) (ledger d)\<rparr>
      in if (\<exists>r\<in>set (ledger d'). al_id r = al_id row \<and> al_booked_rooms r < 0)
         then (Some InsufficientInventoryError, d')
         else decrement_booked_rooms rows delta d')"

definition raise_or :: "error option \<times> 'a \<Rightarrow> 'a result" where
  "raise_or p = (case p of (Some e, _) \<Rightarrow> Inl e | (None, x) \<Rightarrow> Inr x)"

text \<open>The two compositions every booking operation uses: lock and take, lock and give back.\<close>

definition lock_and_increment :: "db \<Rightarrow> uuid \<Rightarrow> uuid \<Rightarrow> date list \<Rightarrow> db result" where
  "lock_and_increment d tenant_id room_type_id nights =
     r_bind (lock_and_validate_availability d tenant_id room_type_id nights 1)
       (\<lambda>rows. Inr (increment_booked_rooms rows 1 d))"

definition lock_and_decrement :: "db \<Rightarrow> uuid \<Rightarrow> uuid \<Rightarrow> date list \<Rightarrow> db result" where
  "lock_and_decrement d tenant_id room_type_id nights =
     r_bind (lock_and_validate_availability d tenant_id room_type_id nights 0)
       (\<lambda>rows. raise_or (decrement_booked_rooms rows 1 d))"

subsection \<open>Buckets and their abstract operation\<close>

type_synonym bucket = "uuid \<times> uuid \<times> date"

definition al_bucket :: "ledger_row \<Rightarrow> bucket" where
  "al_bucket r = (al_tenant_id r, al_room_type_id r, al_date r)"

definition stay_buckets :: "uuid \<Rightarrow> uuid \<Rightarrow> date list \<Rightarrow> bucket set" where
  "stay_buckets t rt nights = {(t, rt, n) |n. n \<in> set nights}"

definition ledger_wf :: "db \<Rightarrow> bool" where
  "ledger_wf d \<longleftrightarrow> distinct (map al_id (ledger d)) \<and> distinct (map al_bucket (ledger d))"

definition bucket_row :: "db \<Rightarrow> bucket \<Rightarrow> ledger_row option" where
  "bucket_row d k = lookup_row al_bucket (ledger d) k"

definition bump_booked :: "bucket set \<Rightarrow> int \<Rightarrow> db \<Rightarrow> db" where
  "bump_booked K delta d =
     d\<lparr>ledger := update_rows (\<lambda>r. al_bucket r \<in> K)
        (\<lambda>r. r\<lparr>al_booked_rooms := al_booked_rooms r + delta\<rparr>) (ledger d)\<rparr>"

interpretation tb_bucket: keyed_table al_bucket .

lemma mem_stay_buckets [simp]: "(t', rt', n) \<in> stay_buckets t rt nights \<longleftrightarrow>
    t' = t \<and> rt' = rt \<and> n \<in> set nights"
  by (auto simp: stay_buckets_def)

lemma al_bucket_in_stay: "al_bucket r \<in> stay_buckets t rt nights \<longleftrightarrow>
    al_tenant_id r = t \<and> al_room_type_id r = rt \<and> al_date r \<in> set nights"
  by (auto simp: al_bucket_def)

lemma ledger_select_iff:
  "r \<in> set (ledger_select d t rt nights) \<longleftrightarrow>
     r \<in> set (ledger d) \<and> al_bucket r \<in> stay_buckets t rt nights"
  by (auto simp: ledger_select_def al_bucket_in_stay)

lemma ledger_select_remdups [simp]:
  "ledger_select d t rt (remdups nights) = ledger_select d t rt nights"
  by (simp add: ledger_select_def)

lemma bump_booked_other [simp]:
  "properties (bump_booked K n d) = properties d"
  "room_types (bump_booked K n d) = room_types d"
  "rooms (bump_booked K n d) = rooms d"
  "rate_plans (bump_booked K n d) = rate_plans d"
  "rates (bump_booked K n d) = rates d"
  "guests (bump_booked K n d) = guests d"
  "bookings (bump_booked K n d) = bookings d"
  "booking_lines (bump_booked K n d) = booking_lines d"
  "folio_transactions (bump_booked K n d) = folio_transactions d"
  "tax_configs (bump_booked K n d) = tax_configs d"
  "country_packs (bump_booked K n d) = country_packs d"
  "next_uuid (bump_booked K n d) = next_uuid d"
  by (simp_all add: bump_booked_def)

lemma al_bucket_upd [simp]:
  "al_bucket (r\<lparr>al_booked_rooms := n\<rparr>) = al_bucket r"
  "al_bucket (r\<lparr>al_blocked_rooms := n\<rparr>) = al_bucket r"
  "al_bucket (r\<lparr>al_total_rooms := n\<rparr>) = al_bucket r"
  by (simp_all add: al_bucket_def)

lemma ledger_wf_bump [simp]: "ledger_wf (bump_booked K n d) = ledger_wf d"
  by (simp add: ledger_wf_def bump_booked_def map_update_rows_inv)

lemma bucket_row_bump [simp]:
  "bucket_row (bump_booked K n d) k =
     map_option (\<lambda>r. if k \<in> K then r\<lparr>al_booked_rooms := al_booked_rooms r + n\<rparr> else r)
       (bucket_row d k)"
proof -
  have "find (\<lambda>r. al_bucket r = k) (update_rows (\<lambda>r. al_bucket r \<in> K)
          (\<lambda>r. r\<lparr>al_booked_rooms := al_booked_rooms r + n\<rparr>) rows) =
     map_option (\<lambda>r. if k \<in> K then r\<lparr>al_booked_rooms := al_booked_rooms r + n\<rparr> else r)
       (find (\<lambda>r. al_bucket r = k) rows)" for rows
    by (induction rows) (auto simp: update_rows_def)
  then show ?thesis
    by (simp add: bucket_row_def lookup_row_def bump_booked_def)
qed

lemma bump_bump:
  "bump_booked K m (bump_booked K n d) = bump_booked K (m + n) d"
proof -
  have "update_rows (\<lambda>r. al_bucket r \<in> K) (\<lambda>r. r\<lparr>al_booked_rooms := al_booked_rooms r + m\<rparr>)
      (update_rows (\<lambda>r. al_bucket r \<in> K) (\<lambda>r. r\<lparr>al_booked_rooms := al_booked_rooms r + n\<rparr>) rows) =
    update_rows (\<lambda>r. al_bucket r \<in> K) (\<lambda>r. r\<lparr>al_booked_rooms := al_booked_rooms r + (m + n)\<rparr>) rows"
    for rows
    by (induction rows) (auto simp: update_rows_def algebra_simps)
  then show ?thesis by (simp add: bump_booked_def)
qed

lemma bump_0 [simp]: "bump_booked K 0 d = d"
proof -
  have "update_rows P (\<lambda>r. r) rows = rows" for P and rows :: "ledger_row list"
    by (simp add: update_rows_def)
  then show ?thesis by (simp add: bump_booked_def)
qed

subsection \<open>What the lock returns\<close>

lemma wf_row_of_bucket:
  "ledger_wf d \<Longrightarrow> bucket_row d (al_bucket r) = Some r \<longleftrightarrow> r \<in> set (ledger d)"
  by (auto simp: ledger_wf_def bucket_row_def tb_bucket.lookup_iff)

lemma bucket_rowD:
  "bucket_row d k = Some r \<Longrightarrow> r \<in> set (ledger d) \<and> al_bucket r = k"
  unfolding bucket_row_def by (rule tb_bucket.lookup_mem)

lemma lock_Inr_iff:
  "lock_and_validate_availability d t rt nights n = Inr rows \<longleftrightarrow>
     (if nights = [] then rows = []
      else al_date ` set (ledger_select d t rt nights) = set nights \<and>
           (\<forall>r\<in>set (ledger_select d t rt nights). n \<le> available_rooms r) \<and>
           rows = sort_key al_date (sort_key al_date (ledger_select d t rt nights)))"
proof (cases "\<exists>r\<in>set (ledger_select d t rt nights). available_rooms r < n")
  case True
  then have "\<not> (\<forall>r\<in>set (ledger_select d t rt nights). n \<le> available_rooms r)"
    by (auto simp: not_le)
  with True show ?thesis by (auto simp: lock_and_validate_availability_def Let_def)
next
  case False
  then have "\<forall>r\<in>set (ledger_select d t rt nights). n \<le> available_rooms r"
    by (auto simp: not_less)
  with False show ?thesis by (auto simp: lock_and_validate_availability_def Let_def)
qed

lemma lock_Inr_set:
  assumes "lock_and_validate_availability d t rt nights n = Inr rows"
  shows "set rows = {r \<in> set (ledger d). al_bucket r \<in> stay_buckets t rt nights}"
  using assms by (auto simp: lock_Inr_iff ledger_select_iff stay_buckets_def split: if_splits)

lemma lock_Inr_distinct:
  assumes "lock_and_validate_availability d t rt nights n = Inr rows" "ledger_wf d"
  shows "distinct (map al_id rows)"
proof -
  have "distinct (map al_id (ledger_select d t rt nights))"
    using assms(2) by (simp add: ledger_wf_def ledger_select_def distinct_map_filter)
  then have "inj_on al_id (set (ledger_select d t rt nights))"
    and "distinct (ledger_select d t rt nights)"
    by (simp_all add: distinct_map)
  with assms(1) show ?thesis
    by (auto simp: lock_Inr_iff distinct_map distinct_sort split: if_splits)
qed

definition seeded :: "db \<Rightarrow> uuid \<Rightarrow> uuid \<Rightarrow> date list \<Rightarrow> bool" where
  "seeded d t rt nights \<longleftrightarrow> (\<forall>n\<in>set nights. bucket_row d (t, rt, n) \<noteq> None)"

lemma select_dates_seeded:
  "al_date ` set (ledger_select d t rt nights) = set nights \<longleftrightarrow> seeded d t rt nights"
  by (auto simp: seeded_def bucket_row_def tb_bucket.lookup_None ledger_select_def al_bucket_def
      image_iff)

lemma select_available:
  assumes "ledger_wf d"
  shows "(\<forall>r\<in>set (ledger_select d t rt nights). P r) \<longleftrightarrow>
    (\<forall>n\<in>set nights. \<forall>r. bucket_row d (t, rt, n) = Some r \<longrightarrow> P r)"
proof -
  have "r \<in> set (ledger_select d t rt nights) \<longleftrightarrow>
      (\<exists>n\<in>set nights. bucket_row d (t, rt, n) = Some r)" for r
    using wf_row_of_bucket [OF assms, of r]
    by (auto simp: ledger_select_iff al_bucket_def dest: bucket_rowD)
  then show ?thesis by blast
qed

definition has_room :: "db \<Rightarrow> uuid \<Rightarrow> uuid \<Rightarrow> date list \<Rightarrow> int \<Rightarrow> bool" where
  "has_room d t rt nights n \<longleftrightarrow>
     (\<forall>x\<in>set nights. case bucket_row d (t, rt, x) of None \<Rightarrow> True | Some r \<Rightarrow> n \<le> available_rooms r)"

lemma has_room_iff: "has_room d t rt nights n \<longleftrightarrow>
    (\<forall>x\<in>set nights. \<forall>r. bucket_row d (t, rt, x) = Some r \<longrightarrow> n \<le> available_rooms r)"
  by (auto simp: has_room_def split: option.splits)

text \<open>The outcome of the lock in terms of buckets: which error, or which rows.\<close>

lemma lock_cases:
  assumes "ledger_wf d"
  shows "lock_and_validate_availability d t rt nights n =
    (if nights = [] then Inr []
     else if \<not> seeded d t rt nights then Inl LedgerNotSeededError
     else if \<not> has_room d t rt nights n then Inl InsufficientInventoryError
     else Inr (sort_key al_date (sort_key al_date (ledger_select d t rt nights))))"
  using select_available [OF assms, of t rt nights "\<lambda>r. n \<le> available_rooms r"]
  by (auto simp: lock_and_validate_availability_def Let_def not_less select_dates_seeded has_room_iff)

subsection \<open>The loops implement the abstract operation\<close>

lemma increment_booked_rooms_eq:
  "distinct (map al_id rows) \<Longrightarrow>
   increment_booked_rooms rows n d =
     d\<lparr>ledger := update_rows (\<lambda>r. al_id r \<in> al_id ` set rows)
        (\<lambda>r. r\<lparr>al_booked_rooms := al_booked_rooms r + n\<rparr>) (ledger d)\<rparr>"
proof (induction rows arbitrary: d)
  case Nil
  then show ?case by (simp add: update_rows_def)
next
  case (Cons x xs)
  then have "al_id x \<notin> al_id ` set xs" by simp
  with Cons show ?case
    by (auto simp: update_rows_def comp_def intro!: arg_cong [where f = "\<lambda>l. ledger_update (\<lambda>_. l) d"])
qed

lemma decrement_booked_rooms_eq:
  "distinct (map al_id rows) \<Longrightarrow>
   (\<forall>r\<in>set (ledger d). al_id r \<in> al_id ` set rows \<longrightarrow> n \<le> al_booked_rooms r) \<Longrightarrow>
   decrement_booked_rooms rows n d =
     (None, d\<lparr>ledger := update_rows (\<lambda>r. al_id r \<in> al_id ` set rows)
        (\<lambda>r. r\<lparr>al_booked_rooms := al_booked_rooms r - n\<rparr>) (ledger d)\<rparr>)"
proof (induction rows arbitrary: d)
  case Nil
  then show ?case by (simp add: update_rows_def)
next
  case (Cons x xs)
  define d' where "d' = d\<lparr>ledger := update_rows (\<lambda>r. al_id r = al_id x)
      (\<lambda>r. r\<lparr>al_booked_rooms := al_booked_rooms r - n\<rparr>) (ledger d)\<rparr>"
  have x: "al_id x \<notin> al_id ` set xs" using Cons.prems(1) by simp
  have ok: "\<not> (\<exists>r\<in>set (ledger d'). al_id r = al_id x \<and> al_booked_rooms r < 0)"
    using Cons.prems(2) by (auto simp: d'_def set_update_rows)
  have pre: "\<forall>r\<in>set (ledger d'). al_id r \<in> al_id ` set xs \<longrightarrow> n \<le> al_booked_rooms r"
    using Cons.prems(2) x by (auto simp: d'_def set_update_rows)
  have step: "decrement_booked_rooms (x # xs) n d = decrement_booked_rooms xs n d'"
    using ok unfolding d'_def by (simp only: decrement_booked_rooms.simps Let_def if_False)
  show ?case
    unfolding step using Cons.IH [OF _ pre] Cons.prems(1) x
    by (auto simp: d'_def update_rows_def comp_def
        intro!: arg_cong [where f = "\<lambda>l. ledger_update (\<lambda>_. l) d"])
qed

lemma decrement_booked_rooms_fails:
  "distinct (map al_id rows) \<Longrightarrow>
   \<exists>r\<in>set (ledger d). al_id r \<in> al_id ` set rows \<and> al_booked_rooms r < n \<Longrightarrow>
   fst (decrement_booked_rooms rows n d) = Some InsufficientInventoryError"
proof (induction rows arbitrary: d)
  case Nil
  then show ?case by simp
next
  case (Cons x xs)
  define d' where "d' = d\<lparr>ledger := update_rows (\<lambda>r. al_id r = al_id x)
      (\<lambda>r. r\<lparr>al_booked_rooms := al_booked_rooms r - n\<rparr>) (ledger d)\<rparr>"
  show ?case
  proof (cases "\<exists>r\<in>set (ledger d'). al_id r = al_id x \<and> al_booked_rooms r < 0")
    case True
    then show ?thesis by (simp add: d'_def Let_def)
  next
    case False
    then have keep: "\<forall>r\<in>set (ledger d). al_id r = al_id x \<longrightarrow> n \<le> al_booked_rooms r"
    proof (intro ballI impI)
      fix r assume r: "r \<in> set (ledger d)" "al_id r = al_id x"
      then have "r\<lparr>al_booked_rooms := al_booked_rooms r - n\<rparr> \<in> set (ledger d')"
        by (auto simp: d'_def set_update_rows image_iff)
      with False r show "n \<le> al_booked_rooms r" by force
    qed
    from Cons.prems(2) keep obtain r where
      r: "r \<in> set (ledger d)" "al_id r \<in> al_id ` set xs" "al_booked_rooms r < n"
      by auto
    with keep have "al_id r \<noteq> al_id x" by auto
    with r have "\<exists>r\<in>set (ledger d'). al_id r \<in> al_id ` set xs \<and> al_booked_rooms r < n"
      by (auto simp: d'_def set_update_rows intro!: bexI [of _ r])
    with Cons have "fst (decrement_booked_rooms xs n d') = Some InsufficientInventoryError" by simp
    moreover have "decrement_booked_rooms (x # xs) n d = decrement_booked_rooms xs n d'"
      using False unfolding d'_def by (simp only: decrement_booked_rooms.simps Let_def if_False)
    ultimately show ?thesis by simp
  qed
qed

lemma id_mem_iff:
  "ledger_wf d \<Longrightarrow> S \<subseteq> set (ledger d) \<Longrightarrow> r \<in> set (ledger d) \<Longrightarrow> al_id r \<in> al_id ` S \<longleftrightarrow> r \<in> S"
  unfolding ledger_wf_def using tb_ledger.distinct_same [of "ledger d"] by blast

lemma update_by_id_eq_by_bucket:
  assumes "ledger_wf d"
    and "set rows = {r \<in> set (ledger d). al_bucket r \<in> K}"
  shows "update_rows (\<lambda>r. al_id r \<in> al_id ` set rows) f (ledger d) =
         update_rows (\<lambda>r. al_bucket r \<in> K) f (ledger d)"
proof -
  have "al_id r \<in> al_id ` set rows \<longleftrightarrow> al_bucket r \<in> K" if "r \<in> set (ledger d)" for r
    using that id_mem_iff [OF assms(1), of "set rows" r] assms(2) by auto
  then show ?thesis by (auto simp: update_rows_def)
qed

lemma lock_and_increment_bump:
  assumes wf: "ledger_wf d"
  shows "lock_and_increment d t rt nights =
    (if \<not> seeded d t rt nights then Inl LedgerNotSeededError
     else if \<not> has_room d t rt nights 1 then Inl InsufficientInventoryError
     else Inr (bump_booked (stay_buckets t rt nights) 1 d))"
proof (cases "lock_and_validate_availability d t rt nights 1")
  case (Inl e)
  then show ?thesis
    by (auto simp: lock_and_increment_def lock_cases [OF wf] seeded_def has_room_iff split: if_splits)
next
  case (Inr rows)
  have "increment_booked_rooms rows 1 d = bump_booked (stay_buckets t rt nights) 1 d"
    using lock_Inr_distinct [OF Inr wf] update_by_id_eq_by_bucket [OF wf lock_Inr_set [OF Inr]]
    by (simp add: increment_booked_rooms_eq bump_booked_def)
  moreover have "seeded d t rt nights \<and> has_room d t rt nights 1"
    using Inr by (auto simp: lock_cases [OF wf] seeded_def has_room_iff split: if_splits)
  ultimately show ?thesis using Inr by (simp add: lock_and_increment_def)
qed

definition all_booked :: "db \<Rightarrow> uuid \<Rightarrow> uuid \<Rightarrow> date list \<Rightarrow> bool" where
  "all_booked d t rt nights \<longleftrightarrow>
     (\<forall>x\<in>set nights. case bucket_row d (t, rt, x) of None \<Rightarrow> True | Some r \<Rightarrow> 1 \<le> al_booked_rooms r)"

lemma all_booked_eq: "all_booked d t rt nights \<longleftrightarrow>
    (\<forall>x\<in>set nights. \<forall>r. bucket_row d (t, rt, x) = Some r \<longrightarrow> 1 \<le> al_booked_rooms r)"
  by (auto simp: all_booked_def split: option.splits)

lemma all_booked_iff:
  assumes "ledger_wf d"
    and "set rows = {r \<in> set (ledger d). al_bucket r \<in> stay_buckets t rt nights}"
  shows "all_booked d t rt nights \<longleftrightarrow>
    (\<forall>r\<in>set (ledger d). al_id r \<in> al_id ` set rows \<longrightarrow> 1 \<le> al_booked_rooms r)"
proof -
  have "al_id r \<in> al_id ` set rows \<longleftrightarrow> al_bucket r \<in> stay_buckets t rt nights"
    if "r \<in> set (ledger d)" for r
    using that id_mem_iff [OF assms(1), of "set rows" r] assms(2) by auto
  then have "(\<forall>r\<in>set (ledger d). al_id r \<in> al_id ` set rows \<longrightarrow> 1 \<le> al_booked_rooms r) \<longleftrightarrow>
      (\<forall>r\<in>set (ledger_select d t rt nights). 1 \<le> al_booked_rooms r)"
    by (auto simp: ledger_select_iff)
  then show ?thesis
    by (simp add: all_booked_eq select_available [OF assms(1)])
qed

lemma lock_and_decrement_bump:
  assumes wf: "ledger_wf d"
  shows "lock_and_decrement d t rt nights =
    (if \<not> seeded d t rt nights then Inl LedgerNotSeededError
     else if \<not> has_room d t rt nights 0 \<or> \<not> all_booked d t rt nights
          then Inl InsufficientInventoryError
     else Inr (bump_booked (stay_buckets t rt nights) (-1) d))"
proof (cases "lock_and_validate_availability d t rt nights 0")
  case (Inl e)
  then show ?thesis
    by (auto simp: lock_and_decrement_def lock_cases [OF wf] seeded_def has_room_iff split: if_splits)
next
  case (Inr rows)
  note dist = lock_Inr_distinct [OF Inr wf] and rs = lock_Inr_set [OF Inr]
  have sh: "seeded d t rt nights \<and> has_room d t rt nights 0"
    using Inr by (auto simp: lock_cases [OF wf] seeded_def has_room_iff split: if_splits)
  show ?thesis
  proof (cases "all_booked d t rt nights")
    case True
    then have "decrement_booked_rooms rows 1 d = (None, bump_booked (stay_buckets t rt nights) (-1) d)"
      using decrement_booked_rooms_eq [OF dist, of d 1] all_booked_iff [OF wf rs]
        update_by_id_eq_by_bucket [OF wf rs]
      by (simp add: bump_booked_def)
    with True sh Inr show ?thesis by (simp add: lock_and_decrement_def raise_or_def)
  next
    case False
    then have "fst (decrement_booked_rooms rows 1 d) = Some InsufficientInventoryError"
      using decrement_booked_rooms_fails [OF dist, of d 1] all_booked_iff [OF wf rs]
      by (auto simp: not_le)
    with False sh Inr show ?thesis
      by (auto simp: lock_and_decrement_def raise_or_def split: prod.splits option.splits)
  qed
qed

subsection \<open>The conditional SQL update\<close>

lemma select_dates_distinct:
  assumes "ledger_wf d"
  shows "distinct (map al_date (ledger_select d t rt nights))"
proof -
  have "distinct (map al_bucket (ledger_select d t rt nights))"
    using assms by (simp add: ledger_wf_def ledger_select_def distinct_map_filter)
  then have "inj_on al_bucket (set (ledger_select d t rt nights))"
    and "distinct (ledger_select d t rt nights)" by (simp_all add: distinct_map)
  moreover have "al_bucket r = (t, rt, al_date r)" if "r \<in> set (ledger_select d t rt nights)" for r
    using that by (simp add: ledger_select_def al_bucket_def)
  ultimately show ?thesis by (auto simp: distinct_map inj_on_def)
qed

lemma select_length_seeded:
  assumes "ledger_wf d" "distinct nights"
  shows "length (ledger_select d t rt nights) = length nights \<longleftrightarrow> seeded d t rt nights"
proof -
  let ?ds = "map al_date (ledger_select d t rt nights)"
  have sub: "set ?ds \<subseteq> set nights" by (auto simp: ledger_select_def)
  have "length ?ds = card (set ?ds)"
    using select_dates_distinct [OF assms(1)] by (rule distinct_card [symmetric])
  moreover have "length nights = card (set nights)"
    using assms(2) by (simp add: distinct_card)
  ultimately have "length ?ds = length nights \<longleftrightarrow> set ?ds = set nights"
    using sub by (metis List.finite_set card_subset_eq)
  then show ?thesis by (simp add: select_dates_seeded)
qed

lemma length_filter_all:
  "length (filter P xs) = length xs \<longleftrightarrow> (\<forall>x\<in>set xs. P x)"
  by (metis filter_True length_filter_less less_irrefl)

lemma claim_bump:
  assumes wf: "ledger_wf d"
  shows "claim_availability_for_new_booking d t rt nights n =
    (if nights = [] then Inr d
     else if \<not> distinct nights \<or> \<not> seeded d t rt nights then Inl LedgerNotSeededError
     else if \<not> has_room d t rt nights n then Inl InsufficientInventoryError
     else Inr (bump_booked (stay_buckets t rt nights) n d))"
proof (cases "nights = [] \<or> \<not> distinct nights")
  case True
  then show ?thesis
    by (auto simp: claim_availability_for_new_booking_def length_remdups_eq)
next
  case False
  then have ne: "nights \<noteq> []" and dist: "distinct nights" by auto
  let ?sel = "ledger_select d t rt nights"
  let ?cap = "\<lambda>al. al_booked_rooms al + al_blocked_rooms al + n \<le> al_total_rooms al"
  let ?upd = "\<lambda>al. al_id al \<in> set (map al_id ?sel) \<and> ?cap al"
  have mem: "al_id r \<in> al_id ` set ?sel \<longleftrightarrow> al_bucket r \<in> stay_buckets t rt nights"
    if "r \<in> set (ledger d)" for r
  proof -
    have "set ?sel \<subseteq> set (ledger d)" by (auto simp: ledger_select_iff)
    from id_mem_iff [OF wf this that] that show ?thesis by (simp add: ledger_select_iff)
  qed
  have "filter ?upd (ledger d) =
      filter (\<lambda>r. al_bucket r \<in> stay_buckets t rt nights \<and> ?cap r) (ledger d)"
    by (rule filter_cong) (simp_all add: mem)
  also have "\<dots> = filter ?cap ?sel"
    by (simp add: ledger_select_def al_bucket_in_stay conj_ac)
  finally have "filter ?upd (ledger d) = filter ?cap ?sel" .
  then have up: "length (filter ?upd (ledger d)) = length nights \<longleftrightarrow> has_room d t rt nights n"
    if "seeded d t rt nights"
    using that select_length_seeded [OF wf dist, of t rt]
      length_filter_all [of ?cap ?sel] select_available [OF wf, of t rt nights ?cap]
    by (simp add: has_room_iff available_rooms_def algebra_simps)
  have rows: "update_rows ?upd f (ledger d) = update_rows (\<lambda>r. al_bucket r \<in> stay_buckets t rt nights) f (ledger d)"
    if "has_room d t rt nights n" for f
    unfolding update_rows_def
  proof (rule map_cong [OF refl])
    fix r assume r: "r \<in> set (ledger d)"
    have "?cap r" if "al_bucket r \<in> stay_buckets t rt nights"
      using \<open>has_room d t rt nights n\<close> select_available [OF wf, of t rt nights ?cap] r that
      by (simp add: has_room_iff available_rooms_def ledger_select_iff algebra_simps)
    with mem [OF r] show "(if ?upd r then f r else r) =
        (if al_bucket r \<in> stay_buckets t rt nights then f r else r)" by auto
  qed
  show ?thesis
    using ne dist select_length_seeded [OF wf dist, of t rt] up rows
    by (simp add: claim_availability_for_new_booking_def Let_def distinct_remdups_id bump_booked_def)
qed

subsection \<open>The contract of a ledger of slots\<close>

text \<open>
  What the booking operations rely on, for any implementation: taking slots raises each named
  bucket by one and is refused when a bucket is missing or full; giving back lowers each by
  one. A request names its buckets; \<open>booked\<close> and \<open>spare\<close> read a bucket.
\<close>

locale slot_ledger =
  fixes good :: "'l \<Rightarrow> bool"
    and booked :: "'l \<Rightarrow> 'k \<Rightarrow> int option"
    and spare :: "'l \<Rightarrow> 'k \<Rightarrow> int option"
    and buckets :: "'q \<Rightarrow> 'k set"
    and valid :: "'q \<Rightarrow> bool"
    and take_slots :: "'l \<Rightarrow> 'q \<Rightarrow> 'e + 'l"
    and give_slots :: "'l \<Rightarrow> 'q \<Rightarrow> 'e + 'l"
  assumes take_good: "good l \<Longrightarrow> take_slots l q = Inr l' \<Longrightarrow> good l'"
    and give_good: "good l \<Longrightarrow> give_slots l q = Inr l' \<Longrightarrow> good l'"
    and take_booked: "good l \<Longrightarrow> take_slots l q = Inr l' \<Longrightarrow>
      booked l' k = map_option (\<lambda>n. if k \<in> buckets q then n + 1 else n) (booked l k)"
    and take_spare: "good l \<Longrightarrow> take_slots l q = Inr l' \<Longrightarrow>
      spare l' k = map_option (\<lambda>n. if k \<in> buckets q then n - 1 else n) (spare l k)"
    and take_succeeds: "good l \<Longrightarrow> valid q \<Longrightarrow>
      (\<exists>l'. take_slots l q = Inr l') \<longleftrightarrow> (\<forall>k\<in>buckets q. \<exists>n\<ge>1. spare l k = Some n)"
    and give_booked: "good l \<Longrightarrow> give_slots l q = Inr l' \<Longrightarrow>
      booked l' k = map_option (\<lambda>n. if k \<in> buckets q then n - 1 else n) (booked l k)"
    and give_spare: "good l \<Longrightarrow> give_slots l q = Inr l' \<Longrightarrow>
      spare l' k = map_option (\<lambda>n. if k \<in> buckets q then n + 1 else n) (spare l k)"
    and give_succeeds: "good l \<Longrightarrow>
      (\<forall>k\<in>buckets q. (\<exists>n\<ge>1. booked l k = Some n) \<and> (\<exists>n\<ge>0. spare l k = Some n)) \<Longrightarrow>
      \<exists>l'. give_slots l q = Inr l'"
begin

lemma take_spare_nonneg:
  assumes "good l" "valid q" "take_slots l q = Inr l'" "\<And>k n. spare l k = Some n \<Longrightarrow> 0 \<le> n"
    "spare l' k = Some n"
  shows "0 \<le> n"
proof (cases "k \<in> buckets q")
  case True
  with assms(1-3) take_succeeds [of l q] obtain m where "1 \<le> m" "spare l k = Some m" by blast
  with take_spare [OF assms(1,3), of k] assms(5) True show ?thesis by simp
next
  case False
  with take_spare [OF assms(1,3), of k] assms(4,5) show ?thesis by (cases "spare l k") auto
qed

lemma give_spare_nonneg:
  assumes "good l" "give_slots l q = Inr l'" "\<And>k n. spare l k = Some n \<Longrightarrow> 0 \<le> n"
    "spare l' k = Some n"
  shows "0 \<le> n"
  using give_spare [OF assms(1,2), of k] assms(3) [of k] assms(4)
  by (cases "spare l k") (auto split: if_splits)

lemma take_then_give:
  assumes "good l" "valid q" "take_slots l q = Inr l'"
    "\<And>k n. k \<in> buckets q \<Longrightarrow> booked l k = Some n \<Longrightarrow> 0 \<le> n"
    "\<And>k. booked l k = None \<longleftrightarrow> spare l k = None"
  shows "\<exists>l''. give_slots l' q = Inr l'' \<and> booked l'' = booked l \<and> spare l'' = spare l"
proof -
  have ok: "(\<exists>n\<ge>1. booked l' k = Some n) \<and> (\<exists>n\<ge>0. spare l' k = Some n)" if k: "k \<in> buckets q" for k
  proof -
    from k assms(1-3) take_succeeds [of l q] obtain m where m: "1 \<le> m" "spare l k = Some m" by blast
    with assms(5) [of k] obtain b where b: "booked l k = Some b" by auto
    have "0 \<le> b" using assms(4) [OF k b] .
    with m b k take_booked [OF assms(1,3), of k] take_spare [OF assms(1,3), of k]
    show ?thesis by simp
  qed
  have good': "good l'" using assms(1,3) by (rule take_good)
  with ok obtain l'' where l'': "give_slots l' q = Inr l''"
    using give_succeeds [of l' q] by blast
  have "booked l'' k = booked l k" for k
    using give_booked [OF good' l'', of k] take_booked [OF assms(1,3), of k]
    by (cases "booked l k") auto
  moreover have "spare l'' k = spare l k" for k
    using give_spare [OF good' l'', of k] take_spare [OF assms(1,3), of k]
    by (cases "spare l k") auto
  ultimately show ?thesis using l'' by auto
qed

end

definition booked_at :: "db \<Rightarrow> bucket \<Rightarrow> int option" where
  "booked_at d k = map_option al_booked_rooms (bucket_row d k)"

definition spare_at :: "db \<Rightarrow> bucket \<Rightarrow> int option" where
  "spare_at d k = map_option available_rooms (bucket_row d k)"

type_synonym stay_request = "uuid \<times> uuid \<times> date list"

definition req_buckets :: "stay_request \<Rightarrow> bucket set" where
  "req_buckets q = (case q of (t, rt, nights) \<Rightarrow> stay_buckets t rt nights)"

definition req_valid :: "stay_request \<Rightarrow> bool" where
  "req_valid q = (case q of (t, rt, nights) \<Rightarrow> distinct nights)"

definition claim_request :: "db \<Rightarrow> stay_request \<Rightarrow> db result" where
  "claim_request d q = (case q of (t, rt, nights) \<Rightarrow>
     claim_availability_for_new_booking d t rt nights 1)"

definition take_request :: "db \<Rightarrow> stay_request \<Rightarrow> db result" where
  "take_request d q = (case q of (t, rt, nights) \<Rightarrow> lock_and_increment d t rt nights)"

definition give_request :: "db \<Rightarrow> stay_request \<Rightarrow> db result" where
  "give_request d q = (case q of (t, rt, nights) \<Rightarrow> lock_and_decrement d t rt nights)"

lemma spare_booked_None: "booked_at d k = None \<longleftrightarrow> spare_at d k = None"
  by (simp add: booked_at_def spare_at_def)

lemma available_rooms_upd [simp]:
  "available_rooms (r\<lparr>al_booked_rooms := al_booked_rooms r + n\<rparr>) = available_rooms r - n"
  by (simp add: available_rooms_def)

lemma bump_views:
  "booked_at (bump_booked K n d) k = map_option (\<lambda>x. if k \<in> K then x + n else x) (booked_at d k)"
  "spare_at (bump_booked K n d) k = map_option (\<lambda>x. if k \<in> K then x - n else x) (spare_at d k)"
  by (auto simp: booked_at_def spare_at_def option.map_comp intro!: option.map_cong)

lemma stay_buckets_Nil [simp]: "stay_buckets t rt [] = {}"
  by (simp add: stay_buckets_def)

lemma bump_empty [simp]: "bump_booked {} n d = d"
  by (simp add: bump_booked_def update_rows_def)

lemma request_outcomes:
  assumes "ledger_wf d"
  shows "claim_request d q = Inr d' \<Longrightarrow> d' = bump_booked (req_buckets q) 1 d"
    and "take_request d q = Inr d' \<Longrightarrow> d' = bump_booked (req_buckets q) 1 d"
    and "give_request d q = Inr d' \<Longrightarrow> d' = bump_booked (req_buckets q) (-1) d"
  by (auto simp: claim_request_def take_request_def give_request_def req_buckets_def
      claim_bump [OF assms] lock_and_increment_bump [OF assms] lock_and_decrement_bump [OF assms]
      split: prod.splits if_splits)

lemma request_fits:
  "seeded d t rt nights \<and> has_room d t rt nights n \<longleftrightarrow>
     (\<forall>k\<in>stay_buckets t rt nights. \<exists>m\<ge>n. spare_at d k = Some m)"
  by (fastforce simp: seeded_def has_room_iff spare_at_def stay_buckets_def)

lemma claim_request_succeeds:
  assumes "ledger_wf d" "req_valid q"
  shows "(\<exists>d'. claim_request d q = Inr d') \<longleftrightarrow> (\<forall>k\<in>req_buckets q. \<exists>n\<ge>1. spare_at d k = Some n)"
proof -
  obtain t rt nights where q: "q = (t, rt, nights)" by (cases q)
  show ?thesis
    using assms request_fits [of d t rt nights 1]
    by (auto simp: q claim_request_def req_valid_def req_buckets_def claim_bump [OF assms(1)])
qed

lemma take_request_succeeds:
  assumes "ledger_wf d"
  shows "(\<exists>d'. take_request d q = Inr d') \<longleftrightarrow> (\<forall>k\<in>req_buckets q. \<exists>n\<ge>1. spare_at d k = Some n)"
proof -
  obtain t rt nights where q: "q = (t, rt, nights)" by (cases q)
  show ?thesis
    using request_fits [of d t rt nights 1]
    by (auto simp: q take_request_def req_buckets_def lock_and_increment_bump [OF assms])
qed

lemma give_request_succeeds:
  assumes "ledger_wf d"
    "\<forall>k\<in>req_buckets q. (\<exists>n\<ge>1. booked_at d k = Some n) \<and> (\<exists>n\<ge>0. spare_at d k = Some n)"
  shows "\<exists>d'. give_request d q = Inr d'"
proof -
  obtain t rt nights where q: "q = (t, rt, nights)" by (cases q)
  have "all_booked d t rt nights"
    using assms(2) by (fastforce simp: q req_buckets_def all_booked_eq booked_at_def stay_buckets_def)
  with assms(2) request_fits [of d t rt nights 0] show ?thesis
    by (auto simp: q give_request_def req_buckets_def lock_and_decrement_bump [OF assms(1)])
qed

interpretation claim_ledger: slot_ledger ledger_wf booked_at spare_at req_buckets req_valid
  claim_request give_request
proof (unfold_locales, goal_cases)
  case (1 l q l')
  then show ?case using request_outcomes(1) [of l q l'] by simp
next
  case (2 l q l')
  then show ?case using request_outcomes(3) [of l q l'] by simp
next
  case (3 l q l' k)
  then show ?case using request_outcomes(1) [of l q l'] by (simp add: bump_views)
next
  case (4 l q l' k)
  then show ?case using request_outcomes(1) [of l q l'] by (simp add: bump_views)
next
  case (5 l q)
  then show ?case by (simp add: claim_request_succeeds)
next
  case (6 l q l' k)
  then show ?case using request_outcomes(3) [of l q l'] by (cases "booked_at l k") (auto simp: bump_views)
next
  case (7 l q l' k)
  then show ?case using request_outcomes(3) [of l q l'] by (cases "spare_at l k") (auto simp: bump_views)
next
  case (8 l q)
  then show ?case by (rule give_request_succeeds)
qed

interpretation lock_ledger: slot_ledger ledger_wf booked_at spare_at req_buckets req_valid
  take_request give_request
proof (unfold_locales, goal_cases)
  case (1 l q l')
  then show ?case using request_outcomes(2) [of l q l'] by simp
next
  case (2 l q l')
  then show ?case using request_outcomes(3) [of l q l'] by simp
next
  case (3 l q l' k)
  then show ?case using request_outcomes(2) [of l q l'] by (simp add: bump_views)
next
  case (4 l q l' k)
  then show ?case using request_outcomes(2) [of l q l'] by (simp add: bump_views)
next
  case (5 l q)
  then show ?case by (simp add: take_request_succeeds)
next
  case (6 l q l' k)
  then show ?case using request_outcomes(3) [of l q l'] by (cases "booked_at l k") (auto simp: bump_views)
next
  case (7 l q l' k)
  then show ?case using request_outcomes(3) [of l q l'] by (cases "spare_at l k") (auto simp: bump_views)
next
  case (8 l q)
  then show ?case by (rule give_request_succeeds)
qed

text \<open>
  C9. The single conditional SQL update and the object-level path (lock the rows, check them,
  increment them) are the same operation: on a ledger with unique rows and distinct nights
  they return the same error or the same database.
\<close>

theorem claim_equals_lock_and_increment:
  assumes "ledger_wf d" "distinct nights"
  shows "claim_availability_for_new_booking d t rt nights 1 = lock_and_increment d t rt nights"
proof (cases nights)
  case Nil
  then have "stay_buckets t rt nights = {}" by (simp add: stay_buckets_def)
  moreover have "bump_booked {} 1 d = d"
    by (simp add: bump_booked_def update_rows_def)
  ultimately show ?thesis
    using Nil by (simp add: claim_bump [OF assms(1)] lock_and_increment_bump [OF assms(1)]
      seeded_def has_room_iff)
next
  case Cons
  with assms show ?thesis
    by (simp add: claim_bump [OF assms(1)] lock_and_increment_bump [OF assms(1)])
qed

theorem claim_equals_lock_and_increment_witness:
  "ledger_wf demo_db \<and>
   claim_availability_for_new_booking demo_db 1 20 [100, 101] 1 = lock_and_increment demo_db 1 20 [100, 101]"
proof -
  have wf: "ledger_wf demo_db" by code_simp
  show ?thesis using wf claim_equals_lock_and_increment [OF wf, of "[100, 101]" 1 20] by simp
qed

text \<open>
  C4. Claiming never overbooks: a successful claim raises \<^verbatim>\<open>booked_rooms\<close> of every requested night by
  exactly one, leaves every other bucket alone, and if no bucket had a negative number of
  available rooms before, none has after. It fails when a requested night is full.
\<close>

theorem claim_never_overbooks:
  assumes "ledger_wf d" "distinct nights" "\<forall>k n. spare_at d k = Some n \<longrightarrow> 0 \<le> n"
    and "claim_availability_for_new_booking d t rt nights 1 = Inr d'"
  shows "(\<forall>k n. spare_at d' k = Some n \<longrightarrow> 0 \<le> n) \<and>
    (\<forall>k. booked_at d' k =
       map_option (\<lambda>n. if k \<in> stay_buckets t rt nights then n + 1 else n) (booked_at d k)) \<and>
    (\<forall>x\<in>set nights. \<exists>n\<ge>1. spare_at d (t, rt, x) = Some n)"
proof -
  let ?q = "(t, rt, nights)"
  have req: "req_valid ?q" "claim_request d ?q = Inr d'"
    using assms by (simp_all add: req_valid_def claim_request_def)
  have "\<forall>k\<in>req_buckets ?q. \<exists>n\<ge>1. spare_at d k = Some n"
    using claim_ledger.take_succeeds [OF assms(1) req(1)] req(2) by blast
  moreover have "\<forall>k n. spare_at d' k = Some n \<longrightarrow> 0 \<le> n"
    using claim_ledger.take_spare_nonneg [OF assms(1) req] assms(3) by blast
  ultimately show ?thesis
    using claim_ledger.take_booked [OF assms(1) req(2)]
    by (auto simp: req_buckets_def)
qed

theorem claim_never_overbooks_witness:
  "\<exists>d'. claim_availability_for_new_booking demo_db 1 20 [100, 101] 1 = Inr d' \<and>
    (\<forall>k n. spare_at d' k = Some n \<longrightarrow> 0 \<le> n) \<and> booked_at d' (1, 20, 100) = Some 1"
proof -
  have wf: "ledger_wf demo_db" by code_simp
  have "spare_at demo_db k = Some n \<Longrightarrow> 0 \<le> n" for k n
    by (auto simp: spare_at_def available_rooms_def demo_db_def demo_ledger_row_def
        dest!: bucket_rowD)
  then have sp: "\<forall>k n. spare_at demo_db k = Some n \<longrightarrow> 0 \<le> n" by blast
  have "seeded demo_db 1 20 [100, 101]" "has_room demo_db 1 20 [100, 101] 1" by code_simp+
  then obtain d' where d': "claim_availability_for_new_booking demo_db 1 20 [100, 101] 1 = Inr d'"
    by (simp add: claim_bump [OF wf])
  moreover have "booked_at demo_db (1, 20, 100) = Some 0" by code_simp
  ultimately show ?thesis
    using claim_never_overbooks [OF wf _ sp d'] by auto
qed

text \<open>
  C8. Giving a stay back undoes taking it: after a successful claim, locking the same nights
  for release succeeds and restores the database exactly.
\<close>

theorem release_undoes_claim:
  assumes "ledger_wf d" "distinct nights"
    and "\<forall>k n. booked_at d k = Some n \<longrightarrow> 0 \<le> n"
    and "claim_availability_for_new_booking d t rt nights 1 = Inr d'"
  shows "lock_and_decrement d' t rt nights = Inr d"
proof -
  let ?q = "(t, rt, nights)"
  have req: "req_valid ?q" "claim_request d ?q = Inr d'"
    using assms by (simp_all add: req_valid_def claim_request_def)
  have d': "d' = bump_booked (stay_buckets t rt nights) 1 d"
    using request_outcomes(1) [OF assms(1) req(2)] by (simp add: req_buckets_def)
  obtain l where l: "give_request d' ?q = Inr l"
    using claim_ledger.take_then_give [OF assms(1) req] assms(3) spare_booked_None by blast
  have "l = bump_booked (stay_buckets t rt nights) (-1) d'"
    using request_outcomes(3) [OF _ l] assms(1) by (simp add: d' req_buckets_def)
  then have "l = d" by (simp add: d' bump_bump)
  with l show ?thesis by (simp add: give_request_def)
qed

theorem release_undoes_claim_witness:
  "\<exists>d'. claim_availability_for_new_booking demo_db 1 20 [100, 101, 102] 1 = Inr d' \<and>
     lock_and_decrement d' 1 20 [100, 101, 102] = Inr demo_db"
proof -
  have wf: "ledger_wf demo_db" by code_simp
  have "booked_at demo_db k = Some n \<Longrightarrow> 0 \<le> n" for k n
    by (auto simp: booked_at_def demo_db_def demo_ledger_row_def dest!: bucket_rowD)
  then have bk: "\<forall>k n. booked_at demo_db k = Some n \<longrightarrow> 0 \<le> n" by blast
  have "seeded demo_db 1 20 [100, 101, 102]" "has_room demo_db 1 20 [100, 101, 102] 1" by code_simp+
  then obtain d' where d': "claim_availability_for_new_booking demo_db 1 20 [100, 101, 102] 1 = Inr d'"
    by (simp add: claim_bump [OF wf])
  with release_undoes_claim [OF wf _ bk d'] show ?thesis by auto
qed

end
