(* ===== verification/Decimal.thy ===== *)
theory Decimal
  imports Prelude "HOL-Library.Log_Nat"
begin

text \<open>
  Python's \<^verbatim>\<open>decimal\<close> as the services use it. A finite \<^verbatim>\<open>Decimal\<close> is the rational it
  denotes. \<open>quantize\<close> to \<^verbatim>\<open>Decimal("0.01")\<close> is parameterised by the rounding mode:
  \<open>round_half_even\<close> is the context default, \<open>round_half_up\<close> and \<open>round_down\<close> are the
  modes the code names. Sums, differences and products of the amounts and rates of the
  database (\<^verbatim>\<open>Numeric(14,2)\<close>, \<^verbatim>\<open>Numeric(5,4)\<close>) fit in the 28 digits of the default context, so
  they are exact; a quotient in general does not, so \<open>dec_div\<close> rounds its result to 28
  significant digits, half to even, as the context does.

  The locale \<open>integral_rounding\<close> is the contract the money code relies on: rounding is
  monotone and leaves integers alone. Its lemmas (results on the cent grid, idempotence,
  bounds) are proved once and interpreted for the three modes.
\<close>

subsection \<open>Rounding modes\<close>

definition round_half_even :: "rat \<Rightarrow> int" where
  "round_half_even x =
     (let f = \<lfloor>x\<rfloor>; d = x - of_int f
      in if d < 1/2 then f else if 1/2 < d then f + 1 else if even f then f else f + 1)"

definition round_half_up :: "rat \<Rightarrow> int" where
  "round_half_up x = (if x < 0 then - \<lfloor>- x + 1/2\<rfloor> else \<lfloor>x + 1/2\<rfloor>)"

definition round_down :: "rat \<Rightarrow> int" where
  "round_down x = (if x < 0 then - \<lfloor>- x\<rfloor> else \<lfloor>x\<rfloor>)"

definition quantize :: "(rat \<Rightarrow> int) \<Rightarrow> decimal \<Rightarrow> decimal" where
  "quantize rnd x = of_int (rnd (x * 100)) / 100"

definition in_cents :: "decimal \<Rightarrow> bool" where
  "in_cents x \<longleftrightarrow> of_int \<lfloor>x * 100\<rfloor> = x * 100"

lemma in_cents_iff: "in_cents x \<longleftrightarrow> (\<exists>n. x = of_int n / 100)"
proof
  assume "in_cents x"
  then have "x = of_int \<lfloor>x * 100\<rfloor> / 100"
    unfolding in_cents_def by linarith
  then show "\<exists>n. x = of_int n / 100" ..
next
  assume "\<exists>n. x = of_int n / 100"
  then obtain n where "x * 100 = of_int n" by auto
  then show "in_cents x" by (simp add: in_cents_def)
qed

lemma in_cents_0 [simp, intro]: "in_cents 0"
  by (simp add: in_cents_def)

lemma in_cents_add [intro]: "in_cents x \<Longrightarrow> in_cents y \<Longrightarrow> in_cents (x + y)"
  unfolding in_cents_iff by (metis add_divide_distrib of_int_add)

lemma in_cents_diff [intro]: "in_cents x \<Longrightarrow> in_cents y \<Longrightarrow> in_cents (x - y)"
  unfolding in_cents_iff by (metis diff_divide_distrib of_int_diff)

lemma in_cents_uminus [intro]: "in_cents x \<Longrightarrow> in_cents (- x)"
  unfolding in_cents_iff by (metis minus_divide_left of_int_minus)

lemma in_cents_of_int_mult [intro]: "in_cents x \<Longrightarrow> in_cents (of_int n * x)"
  unfolding in_cents_iff by (metis of_int_mult times_divide_eq_right)

lemma in_cents_sum_list [intro]: "(\<And>x. x \<in> set xs \<Longrightarrow> in_cents x) \<Longrightarrow> in_cents (sum_list xs)"
  by (induction xs) auto

subsection \<open>The contract of a rounding mode\<close>

locale integral_rounding =
  fixes rnd :: "rat \<Rightarrow> int"
  assumes rnd_of_int: "rnd (of_int n) = n"
    and rnd_mono: "x \<le> y \<Longrightarrow> rnd x \<le> rnd y"
begin

lemma rnd_le_int: "x \<le> of_int n \<Longrightarrow> rnd x \<le> n"
  using rnd_mono [of x "of_int n"] by (simp add: rnd_of_int)

lemma rnd_ge_int: "of_int n \<le> x \<Longrightarrow> n \<le> rnd x"
  using rnd_mono [of "of_int n" x] by (simp add: rnd_of_int)

lemma quantize_in_cents: "in_cents (quantize rnd x)"
  by (auto simp: in_cents_iff quantize_def)

lemma quantize_exact: "in_cents x \<Longrightarrow> quantize rnd x = x"
  by (auto simp: in_cents_iff quantize_def rnd_of_int)

lemma quantize_idem: "quantize rnd (quantize rnd x) = quantize rnd x"
  by (rule quantize_exact [OF quantize_in_cents])

lemma quantize_mono: "x \<le> y \<Longrightarrow> quantize rnd x \<le> quantize rnd y"
  by (simp add: quantize_def divide_right_mono rnd_mono)

lemma quantize_le: "in_cents b \<Longrightarrow> x \<le> b \<Longrightarrow> quantize rnd x \<le> b"
  using quantize_mono [of x b] by (simp add: quantize_exact)

lemma quantize_ge: "in_cents a \<Longrightarrow> a \<le> x \<Longrightarrow> a \<le> quantize rnd x"
  using quantize_mono [of a x] by (simp add: quantize_exact)

lemma quantize_nonneg: "0 \<le> x \<Longrightarrow> 0 \<le> quantize rnd x"
  by (rule quantize_ge) auto

lemma quantize_add_cents: "in_cents x \<Longrightarrow> in_cents y \<Longrightarrow> quantize rnd (x + y) = x + y"
  by (rule quantize_exact) auto

end

lemma round_half_even_floor:
  "round_half_even x = \<lfloor>x\<rfloor> \<or> round_half_even x = \<lfloor>x\<rfloor> + 1"
  by (simp add: round_half_even_def Let_def)

interpretation half_even: integral_rounding round_half_even
proof
  fix n show "round_half_even (of_int n) = n"
    by (simp add: round_half_even_def)
next
  fix x y :: rat
  assume xy: "x \<le> y"
  then have fl: "\<lfloor>x\<rfloor> \<le> \<lfloor>y\<rfloor>" by (rule floor_mono)
  show "round_half_even x \<le> round_half_even y"
  proof (cases "\<lfloor>x\<rfloor> = \<lfloor>y\<rfloor>")
    case True
    with xy show ?thesis by (auto simp: round_half_even_def Let_def)
  next
    case False
    with fl have "\<lfloor>x\<rfloor> + 1 \<le> \<lfloor>y\<rfloor>" by simp
    with round_half_even_floor [of x] round_half_even_floor [of y] show ?thesis by linarith
  qed
qed

interpretation half_up: integral_rounding round_half_up
proof
  fix n show "round_half_up (of_int n) = n"
    unfolding round_half_up_def by (simp add: floor_eq_iff)
next
  fix x y :: rat
  assume xy: "x \<le> y"
  consider "y < 0" | "x < 0" "0 \<le> y" | "0 \<le> x" by linarith
  then show "round_half_up x \<le> round_half_up y"
  proof cases
    case 1
    with xy show ?thesis by (simp add: round_half_up_def floor_mono)
  next
    case 2
    then have "0 \<le> \<lfloor>- x + 1/2\<rfloor>" "0 \<le> \<lfloor>y + 1/2\<rfloor>" by simp_all
    then have "- \<lfloor>- x + 1/2\<rfloor> \<le> \<lfloor>y + 1/2\<rfloor>" by linarith
    with 2 show ?thesis unfolding round_half_up_def by simp
  next
    case 3
    with xy show ?thesis by (simp add: round_half_up_def floor_mono)
  qed
qed

interpretation down: integral_rounding round_down
proof
  fix n show "round_down (of_int n) = n"
    by (simp add: round_down_def flip: of_int_minus)
next
  fix x y :: rat
  assume xy: "x \<le> y"
  consider "y < 0" | "x < 0" "0 \<le> y" | "0 \<le> x" by linarith
  then show "round_down x \<le> round_down y"
  proof cases
    case 1
    with xy show ?thesis by (simp add: round_down_def floor_mono)
  next
    case 2
    then have "0 \<le> \<lfloor>- x\<rfloor>" "0 \<le> \<lfloor>y\<rfloor>" by simp_all
    then have "- \<lfloor>- x\<rfloor> \<le> \<lfloor>y\<rfloor>" by linarith
    with 2 show ?thesis unfolding round_down_def by simp
  next
    case 3
    with xy show ?thesis by (simp add: round_down_def floor_mono)
  qed
qed

abbreviation q_even :: "decimal \<Rightarrow> decimal" where
  "q_even \<equiv> quantize round_half_even"

text \<open>Rounding half to even is symmetric, so a credit rounds like the debit it mirrors.\<close>

lemma round_half_even_uminus: "round_half_even (- x) = - round_half_even x"
proof (cases "x = of_int \<lfloor>x\<rfloor>")
  case True
  then obtain n where "x = of_int n" by blast
  then show ?thesis using half_even.rnd_of_int [of n] half_even.rnd_of_int [of "- n"] by simp
next
  case False
  then have fl: "\<lfloor>- x\<rfloor> = - \<lfloor>x\<rfloor> - 1"
    by (intro floor_unique) linarith+
  show ?thesis
    unfolding round_half_even_def fl Let_def by (auto simp: field_simps)
qed

lemma q_even_uminus: "quantize round_half_even (- x) = - quantize round_half_even x"
  by (simp add: quantize_def round_half_even_uminus)

text \<open>
  What a \<^verbatim>\<open>Numeric(p,2)\<close> or \<^verbatim>\<open>Numeric(p,4)\<close> column stores of a value: PostgreSQL rounds to the scale,
  halves away from zero.
\<close>

definition numeric2 :: "decimal \<Rightarrow> decimal" where
  "numeric2 x = quantize round_half_up x"

definition numeric4 :: "decimal \<Rightarrow> decimal" where
  "numeric4 x = of_int (round_half_up (x * 10000)) / 10000"

lemma numeric2_in_cents [simp]: "in_cents (numeric2 x)"
  by (simp add: numeric2_def half_up.quantize_in_cents)

lemma numeric2_exact [simp]: "in_cents x \<Longrightarrow> numeric2 x = x"
  by (simp add: numeric2_def half_up.quantize_exact)

subsection \<open>Division in the default context\<close>

text \<open>
  \<open>adjusted_exp x\<close> is the exponent of the leading digit of a positive \<open>x\<close>; the quotient
  is rounded to a multiple of its 28th digit.
\<close>

definition adjusted_exp :: "rat \<Rightarrow> int" where
  "adjusted_exp x =
     (if 1 \<le> x then int (floorlog 10 (nat \<lfloor>x\<rfloor>)) - 1
      else - int (floorlog 10 (nat (\<lceil>1 / x\<rceil> - 1))))"

definition context_round :: "rat \<Rightarrow> rat" where
  "context_round x =
     (if x = 0 then 0
      else let u = 10 powi (adjusted_exp \<bar>x\<bar> - 27) in of_int (round_half_even (x / u)) * u)"

definition dec_div :: "decimal \<Rightarrow> decimal \<Rightarrow> decimal result" where
  "dec_div a b = (if b = 0 then Inl InvalidOperation else Inr (context_round (a / b)))"

lemma context_round_nonneg: "0 \<le> x \<Longrightarrow> 0 \<le> context_round x"
proof -
  assume "0 \<le> x"
  define u :: rat where "u = 10 powi (adjusted_exp \<bar>x\<bar> - 27)"
  have "0 < u" by (simp add: u_def)
  with \<open>0 \<le> x\<close> have "0 \<le> round_half_even (x / u)" by (intro half_even.rnd_ge_int) simp
  with \<open>0 < u\<close> show ?thesis by (simp add: context_round_def u_def [symmetric] Let_def)
qed

lemma floorlog_10_less:
  assumes "0 < n" and "n < 10 ^ k"
  shows "floorlog 10 n \<le> k"
proof -
  have "10 ^ (floorlog 10 n - 1) \<le> n"
    using floorlog_bounds [of n 10] assms(1) by simp
  then have "(10::nat) ^ (floorlog 10 n - 1) < 10 ^ k"
    using assms(2) by (rule le_less_trans)
  then have "floorlog 10 n - 1 < k" by simp
  then show ?thesis by simp
qed

lemma adjusted_exp_le:
  assumes "0 < x" and "x < 10 ^ 26"
  shows "adjusted_exp x \<le> 25"
proof (cases "1 \<le> x")
  case True
  then have "0 < nat \<lfloor>x\<rfloor>" by simp
  moreover have "nat \<lfloor>x\<rfloor> < 10 ^ 26"
    using assms True by (simp add: nat_less_iff floor_less_iff)
  ultimately have "floorlog 10 (nat \<lfloor>x\<rfloor>) \<le> 26" by (rule floorlog_10_less)
  with True show ?thesis by (simp add: adjusted_exp_def)
next
  case False
  then show ?thesis by (simp add: adjusted_exp_def)
qed

text \<open>Amounts with two decimals below \<open>10\<^sup>2\<^sup>6\<close> are multiples of the unit a quotient is rounded to.\<close>

lemma cents_multiple_of_unit:
  assumes "0 < x" "x < 10 ^ 26" "in_cents y"
  shows "\<exists>m. y / 10 powi (adjusted_exp \<bar>x\<bar> - 27) = of_int m"
proof -
  define k where "k = nat (27 - adjusted_exp x - 2)"
  define u :: rat where "u = 10 powi (adjusted_exp \<bar>x\<bar> - 27)"
  have upos: "0 < u" by (simp add: u_def)
  have e: "adjusted_exp x \<le> 25" using assms by (intro adjusted_exp_le) auto
  from assms(3) obtain n where n: "y = of_int n / 100" by (auto simp: in_cents_iff)
  have "u = 10 powi (- int (k + 2))"
    using e assms(1) by (simp add: u_def k_def)
  also have "\<dots> = inverse (10 ^ (k + 2))"
    by (simp only: power_int_minus power_int_of_nat)
  finally have u: "u * (10 ^ k * 100) = 1"
    by (simp add: field_simps)
  have "y = of_int (n * 10 ^ k) * u"
    using arg_cong [OF u, of "\<lambda>t. of_int n * t / 100"] by (simp add: n mult_ac)
  with upos have "y / u = of_int (n * 10 ^ k)" by simp
  then show ?thesis unfolding u_def by blast
qed

text \<open>A quotient that is at most an amount with two decimals stays at most that amount.\<close>

lemma context_round_le:
  assumes "0 \<le> x" "x \<le> y" "in_cents y" "x < 10 ^ 26"
  shows "context_round x \<le> y"
proof (cases "x = 0")
  case True
  with assms show ?thesis by (simp add: context_round_def)
next
  case False
  define u :: rat where "u = 10 powi (adjusted_exp \<bar>x\<bar> - 27)"
  have upos: "0 < u" by (simp add: u_def)
  obtain m where y: "y / u = of_int m"
    using cents_multiple_of_unit [OF _ assms(4,3)] assms(1) False by (auto simp: u_def)
  have "x / u \<le> of_int m"
    unfolding y [symmetric] using assms(2) upos by (simp add: divide_right_mono)
  then have "round_half_even (x / u) \<le> m" by (rule half_even.rnd_le_int)
  then have "of_int (round_half_even (x / u)) \<le> (of_int m :: rat)" by simp
  then have "of_int (round_half_even (x / u)) \<le> y / u" by (simp only: y)
  with upos False show ?thesis
    by (simp add: context_round_def u_def [symmetric] Let_def pos_le_divide_eq)
qed

text \<open>A quotient with two decimals is exact; the code equation evaluates those without the unit.\<close>

lemma context_round_exact:
  assumes "0 \<le> x" "x < 10 ^ 26" "in_cents x"
  shows "context_round x = x"
proof (cases "x = 0")
  case False
  define u :: rat where "u = 10 powi (adjusted_exp \<bar>x\<bar> - 27)"
  have upos: "0 < u" by (simp add: u_def)
  obtain m where y: "x / u = of_int m"
    using cents_multiple_of_unit [OF _ assms(2,3)] assms(1) False by (auto simp: u_def)
  then have "round_half_even (x / u) = m" by (simp add: half_even.rnd_of_int)
  moreover have "of_int m * u = x" using y upos by (simp add: field_simps)
  ultimately show ?thesis using False by (simp add: context_round_def u_def [symmetric] Let_def)
qed (simp add: context_round_def)

lemma context_round_code [code]:
  "context_round x =
     (if 0 \<le> x \<and> in_cents x \<and> x < 100000000000000000000000000 then x
      else if x = 0 then 0
      else let u = 10 powi (adjusted_exp \<bar>x\<bar> - 27) in of_int (round_half_even (x / u)) * u)"
  using context_round_exact [of x] by (auto simp: context_round_def)

end
