(* ===== verification/Pricing.thy ===== *)
theory Pricing
  imports Decimal Demo
begin

text \<open>
  Nightly rates: the sum for a stay (\<^verbatim>\<open>app/services/pricing_service.py\<close>) and the rate
  administration (\<^verbatim>\<open>app/services/rates_admin_service.py\<close>): the property check, the listing of a
  period and the bulk upsert with its \<^verbatim>\<open>ON CONFLICT DO UPDATE\<close>.
\<close>

definition rate_select :: "db \<Rightarrow> uuid \<Rightarrow> uuid \<Rightarrow> uuid \<Rightarrow> date list \<Rightarrow> rate_row list" where
  "rate_select d tenant_id room_type_id rate_plan_id nights =
     filter (\<lambda>r. ra_tenant_id r = tenant_id \<and> ra_room_type_id r = room_type_id \<and>
                 ra_rate_plan_id r = rate_plan_id \<and> ra_date r \<in> set nights) (rates d)"

text \<open>The dict comprehension over the rows: a later row with the same date wins.\<close>

definition price_by_date :: "rate_row list \<Rightarrow> date \<Rightarrow> decimal option" where
  "price_by_date rows = map_of (rev (map (\<lambda>r. (ra_date r, ra_price r)) rows))"

definition sum_rates_for_stay ::
  "db \<Rightarrow> uuid \<Rightarrow> uuid \<Rightarrow> uuid \<Rightarrow> date \<Rightarrow> date \<Rightarrow> (decimal \<times> (date \<times> decimal) list) result" where
  "sum_rates_for_stay d tenant_id room_type_id rate_plan_id check_in check_out =
     r_bind (iter_stay_nights check_in check_out) (\<lambda>nights.
       if nights = [] then Inr (0, [])
       else let by_date = price_by_date (rate_select d tenant_id room_type_id rate_plan_id nights);
                missing = filter (\<lambda>n. by_date n = None) nights
            in if missing \<noteq> [] then Inl (MissingRatesError missing)
               else let per_night = map (\<lambda>n. (n, the (by_date n))) nights
                    in Inr (sum_list (map snd per_night), per_night))"

subsection \<open>Rate administration\<close>

definition require_room_type_and_plan_same_property ::
  "db \<Rightarrow> uuid \<Rightarrow> uuid \<Rightarrow> uuid \<Rightarrow> unit result" where
  "require_room_type_and_plan_same_property d tenant_id room_type_id rate_plan_id =
     (let rt = find (\<lambda>r. rt_tenant_id r = tenant_id \<and> rt_id r = room_type_id) (room_types d);
          rp = find (\<lambda>r. rp_tenant_id r = tenant_id \<and> rp_id r = rate_plan_id) (rate_plans d)
      in r_bind (require rt (RatesServiceError ''room_type not found'' 404)) (\<lambda>rt.
         r_bind (require rp (RatesServiceError ''rate_plan not found'' 404)) (\<lambda>rp.
           guard (rt_property_id rt = rp_property_id rp)
             (RatesServiceError ''room type and rate plan must belong to the same property'' 409))))"

definition list_rates_for_period ::
  "db \<Rightarrow> uuid \<Rightarrow> uuid \<Rightarrow> uuid \<Rightarrow> date \<Rightarrow> date \<Rightarrow> rate_row list result" where
  "list_rates_for_period d tenant_id room_type_id rate_plan_id start_date end_date =
     r_bind (guard (start_date \<le> end_date)
         (RatesServiceError ''end_date must be on or after start_date'' 422)) (\<lambda>_.
     r_bind (require_room_type_and_plan_same_property d tenant_id room_type_id rate_plan_id) (\<lambda>_.
       Inr (sort_key ra_date
         (filter (\<lambda>r. ra_tenant_id r = tenant_id \<and> ra_room_type_id r = room_type_id \<and>
                      ra_rate_plan_id r = rate_plan_id \<and>
                      start_date \<le> ra_date r \<and> ra_date r \<le> end_date) (rates d)))))"

record rate_segment =
  sg_room_type_id :: uuid
  sg_rate_plan_id :: uuid
  sg_start_date :: date
  sg_end_date :: date
  sg_price :: decimal
  sg_stop_sell :: bool
  sg_min_stay_arrival :: "int option"
  sg_max_stay :: "int option"

type_synonym rate_key = "uuid \<times> uuid \<times> date"

text \<open>A row of the request carries a fresh primary key, as \<^verbatim>\<open>uuid4()\<close> in the loop body.\<close>

definition segment_row :: "uuid \<Rightarrow> uuid \<Rightarrow> rate_segment \<Rightarrow> date \<Rightarrow> rate_row" where
  "segment_row fresh tenant_id seg day =
     \<lparr>ra_id = fresh, ra_tenant_id = tenant_id, ra_room_type_id = sg_room_type_id seg,
      ra_rate_plan_id = sg_rate_plan_id seg, ra_date = day, ra_price = sg_price seg,
      ra_stop_sell = sg_stop_sell seg, ra_min_stay_arrival = sg_min_stay_arrival seg,
      ra_max_stay = sg_max_stay seg\<rparr>"

fun put_segment_days ::
  "uuid \<Rightarrow> rate_segment \<Rightarrow> date list \<Rightarrow> uuid \<times> (rate_key \<times> rate_row) list \<Rightarrow>
   uuid \<times> (rate_key \<times> rate_row) list" where
  "put_segment_days tenant_id seg [] acc = acc"
| "put_segment_days tenant_id seg (day # days) (fresh, by_key) =
     put_segment_days tenant_id seg days
       (fresh + 1, dict_put (sg_room_type_id seg, sg_rate_plan_id seg, day)
                     (segment_row fresh tenant_id seg day) by_key)"

fun collect_segments ::
  "db \<Rightarrow> uuid \<Rightarrow> rate_segment list \<Rightarrow> uuid \<times> (rate_key \<times> rate_row) list \<Rightarrow>
   (uuid \<times> (rate_key \<times> rate_row) list) result" where
  "collect_segments d tenant_id [] acc = Inr acc"
| "collect_segments d tenant_id (seg # segs) acc =
     r_bind (require_room_type_and_plan_same_property d tenant_id
               (sg_room_type_id seg) (sg_rate_plan_id seg)) (\<lambda>_.
       collect_segments d tenant_id segs
         (put_segment_days tenant_id seg
            (iter_inclusive_dates (sg_start_date seg) (sg_end_date seg)) acc))"

definition ra_key :: "rate_row \<Rightarrow> uuid \<times> uuid \<times> uuid \<times> date" where
  "ra_key r = (ra_tenant_id r, ra_room_type_id r, ra_rate_plan_id r, ra_date r)"

text \<open>One row of \<^verbatim>\<open>INSERT ... ON CONFLICT (tenant, room type, plan, date) DO UPDATE\<close>.\<close>

definition upsert_rate :: "rate_row \<Rightarrow> rate_row list \<Rightarrow> rate_row list" where
  "upsert_rate row rows =
     (if \<exists>r\<in>set rows. ra_key r = ra_key row
      then update_rows (\<lambda>r. ra_key r = ra_key row)
             (\<lambda>r. r\<lparr>ra_price := numeric2 (ra_price row), ra_stop_sell := ra_stop_sell row,
                    ra_min_stay_arrival := ra_min_stay_arrival row, ra_max_stay := ra_max_stay row\<rparr>) rows
      else rows @ [row\<lparr>ra_price := numeric2 (ra_price row)\<rparr>])"

definition bulk_upsert_rates ::
  "db \<Rightarrow> uuid \<Rightarrow> rate_segment list \<Rightarrow>
   ((nat \<times> (uuid \<times> uuid \<times> date \<times> decimal) list) \<times> db) result" where
  "bulk_upsert_rates d tenant_id segments =
     r_bind (collect_segments d tenant_id segments (next_uuid d, [])) (\<lambda>(fresh, by_key).
       let rows = map snd by_key
       in if rows = [] then Inr ((0, []), d)
          else Inr ((length rows, map (\<lambda>r. (ra_room_type_id r, ra_rate_plan_id r, ra_date r, ra_price r)) rows),
                    d\<lparr>rates := fold upsert_rate rows (rates d), next_uuid := fresh\<rparr>))"

subsection \<open>Rate lookup\<close>

definition rates_wf :: "db \<Rightarrow> bool" where
  "rates_wf d \<longleftrightarrow> distinct (map ra_key (rates d))"

definition rate_price :: "db \<Rightarrow> uuid \<Rightarrow> rate_key \<Rightarrow> decimal option" where
  "rate_price d t k = map_option ra_price (lookup_row ra_key (rates d) (t, k))"

interpretation tb_rate: keyed_table ra_key .

lemma find_rev_unique:
  assumes "distinct (map ra_key rows)"
  shows "find (\<lambda>r. ra_key r = k) (rev rows) = find (\<lambda>r. ra_key r = k) rows"
  using tb_rate.lookup_iff [of rows k] tb_rate.lookup_iff [of "rev rows" k] assms
  unfolding lookup_row_def by (intro option_eqI) (simp add: rev_map [symmetric])

lemma map_of_find:
  "map_of (map (\<lambda>r. (f r, g r)) rows) k = map_option g (find (\<lambda>r. f r = k) rows)"
  by (induction rows) auto

lemma find_filter_key:
  "find (\<lambda>r. ra_date r = n) (filter (\<lambda>r. ra_tenant_id r = t \<and> ra_room_type_id r = rt \<and>
       ra_rate_plan_id r = rp \<and> ra_date r \<in> set nights) rows) =
   (if n \<in> set nights then find (\<lambda>r. ra_key r = (t, rt, rp, n)) rows else None)"
  by (induction rows) (auto simp: ra_key_def find_None_iff)

lemma price_by_date_eq:
  assumes "rates_wf d"
  shows "price_by_date (rate_select d t rt rp nights) n =
    (if n \<in> set nights then rate_price d t (rt, rp, n) else None)"
  using find_rev_unique [OF assms [unfolded rates_wf_def], of "(t, rt, rp, n)"]
  by (simp add: price_by_date_def rate_select_def rev_map rev_filter map_of_find find_filter_key
      rate_price_def lookup_row_def)

lemma sum_rates_eq:
  assumes "rates_wf d"
  shows "sum_rates_for_stay d t rt rp ci co =
    r_bind (iter_stay_nights ci co) (\<lambda>nights.
      let missing = filter (\<lambda>n. rate_price d t (rt, rp, n) = None) nights
      in if missing \<noteq> [] then Inl (MissingRatesError missing)
         else Inr (sum_list (map (\<lambda>n. the (rate_price d t (rt, rp, n))) nights),
                   map (\<lambda>n. (n, the (rate_price d t (rt, rp, n)))) nights))"
proof (cases "iter_stay_nights ci co")
  case (Inl e)
  then show ?thesis by (simp add: sum_rates_for_stay_def)
next
  case (Inr nights)
  let ?by = "price_by_date (rate_select d t rt rp nights)"
  have bd: "?by n = rate_price d t (rt, rp, n)" if "n \<in> set nights" for n
    using that price_by_date_eq [OF assms] by simp
  have "filter (\<lambda>n. ?by n = None) nights = filter (\<lambda>n. rate_price d t (rt, rp, n) = None) nights"
    by (rule filter_cong) (simp_all add: bd)
  moreover have "map (\<lambda>n. (n, the (?by n))) nights = map (\<lambda>n. (n, the (rate_price d t (rt, rp, n)))) nights"
    "map (\<lambda>n. the (?by n)) nights = map (\<lambda>n. the (rate_price d t (rt, rp, n))) nights"
    by (simp_all add: bd)
  moreover have "nights \<noteq> []" using stay_nights_facts(1) [OF Inr] .
  ultimately show ?thesis
    using Inr by (simp add: sum_rates_for_stay_def Let_def comp_def del: map_eq_conv)
qed

lemma sum_rates_Inr:
  assumes "rates_wf d" "sum_rates_for_stay d t rt rp ci co = Inr (tot, per_night)"
  shows "iter_stay_nights ci co = Inr (map fst per_night)"
    and "tot = sum_list (map snd per_night)"
    and "\<And>n p. (n, p) \<in> set per_night \<Longrightarrow> rate_price d t (rt, rp, n) = Some p"
  using assms(2) unfolding sum_rates_eq [OF assms(1)]
  by (auto simp: Let_def comp_def filter_empty_conv split: if_splits)

text \<open>
  Pricing a stay: on success the per-night list names every night of the stay once, in
  order, each with the price stored for tenant, room type, plan and night, and the total is
  the sum; the only other outcomes are an invalid stay and the list of exactly those nights
  that have no rate.
\<close>

theorem sum_rates_for_stay_correct:
  assumes "rates_wf d"
  shows "(\<forall>total per_night. sum_rates_for_stay d t rt rp ci co = Inr (total, per_night) \<longrightarrow>
      iter_stay_nights ci co = Inr (map fst per_night) \<and>
      (\<forall>(n, p)\<in>set per_night. rate_price d t (rt, rp, n) = Some p) \<and>
      total = sum_list (map snd per_night)) \<and>
    (\<forall>e. sum_rates_for_stay d t rt rp ci co = Inl e \<longrightarrow>
      iter_stay_nights ci co = Inl e \<or>
      (\<exists>nights. iter_stay_nights ci co = Inr nights \<and>
         (\<exists>n\<in>set nights. rate_price d t (rt, rp, n) = None) \<and>
         e = MissingRatesError (filter (\<lambda>n. rate_price d t (rt, rp, n) = None) nights)))"
  unfolding sum_rates_eq [OF assms]
  by (cases "iter_stay_nights ci co")
    (auto simp: Let_def comp_def filter_empty_conv split: if_splits)

theorem sum_rates_for_stay_correct_witness:
  "sum_rates_for_stay demo_db 1 20 30 100 102 = Inr (200, [(100, 100), (101, 100)]) \<and>
   iter_stay_nights 100 102 = Inr [100, 101]"
proof -
  have wf: "rates_wf demo_db" by code_simp
  have run: "sum_rates_for_stay demo_db 1 20 30 100 102 = Inr (200, [(100, 100), (101, 100)])"
    by code_simp
  with sum_rates_for_stay_correct [OF wf, of 1 20 30 100 102] show ?thesis by simp
qed

subsection \<open>The bulk upsert\<close>

definition covers :: "rate_segment \<Rightarrow> rate_key \<Rightarrow> bool" where
  "covers seg k = (case k of (rt, rp, n) \<Rightarrow>
     sg_room_type_id seg = rt \<and> sg_rate_plan_id seg = rp \<and>
     sg_start_date seg \<le> n \<and> n \<le> sg_end_date seg)"

definition last_cover :: "rate_segment list \<Rightarrow> rate_key \<Rightarrow> rate_segment option" where
  "last_cover segs k = find (\<lambda>s. covers s k) (rev segs)"

text \<open>What the loop over the segments keeps of its dictionary: keys unique, rows under their key.\<close>

definition keys_ok :: "uuid \<Rightarrow> (rate_key \<times> rate_row) list \<Rightarrow> bool" where
  "keys_ok t kvs \<longleftrightarrow> distinct (map fst kvs) \<and> (\<forall>(k, r)\<in>set kvs. ra_key r = (t, k))"

definition priced :: "(rate_key \<times> rate_row) list \<Rightarrow> rate_key \<Rightarrow> decimal option" where
  "priced kvs k = map_option ra_price (map_of kvs k)"

lemma keys_ok_put:
  "keys_ok t kvs \<Longrightarrow> ra_key row = (t, k) \<Longrightarrow> keys_ok t (dict_put k row kvs)"
  using set_dict_put [of k row kvs] by (auto simp: keys_ok_def distinct_dict_put)

lemma put_segment_days_spec:
  "keys_ok t (snd acc) \<Longrightarrow> keys_ok t (snd (put_segment_days t seg days acc)) \<and>
   priced (snd (put_segment_days t seg days acc)) (rt, rp, n) =
     (if sg_room_type_id seg = rt \<and> sg_rate_plan_id seg = rp \<and> n \<in> set days
      then Some (sg_price seg) else priced (snd acc) (rt, rp, n))"
proof (induction t seg days acc rule: put_segment_days.induct)
  case (2 t seg day days fresh by_key)
  have "keys_ok t (dict_put (sg_room_type_id seg, sg_rate_plan_id seg, day)
          (segment_row fresh t seg day) by_key)"
    using "2.prems" by (intro keys_ok_put) (simp_all add: ra_key_def segment_row_def)
  with 2 show ?case by (auto simp: priced_def segment_row_def)
qed simp

lemma last_cover_Cons:
  "last_cover (seg # segs) k =
     (case last_cover segs k of Some s \<Rightarrow> Some s | None \<Rightarrow> if covers seg k then Some seg else None)"
proof -
  have "find P (xs @ [x]) = (case find P xs of Some s \<Rightarrow> Some s | None \<Rightarrow> if P x then Some x else None)"
    for P :: "rate_segment \<Rightarrow> bool" and xs x
    by (induction xs) auto
  then show ?thesis by (simp add: last_cover_def)
qed

lemma collect_segments_spec:
  "collect_segments d t segs acc = Inr acc' \<Longrightarrow> keys_ok t (snd acc) \<Longrightarrow>
   keys_ok t (snd acc') \<and>
   priced (snd acc') k = (case last_cover segs k of Some s \<Rightarrow> Some (sg_price s) | None \<Rightarrow> priced (snd acc) k)"
proof (induction d t segs acc arbitrary: acc' rule: collect_segments.induct)
  case (1 d t acc)
  then show ?case by (simp add: last_cover_def)
next
  case (2 d t seg segs acc)
  obtain rt rp n where k: "k = (rt, rp, n)" by (cases k)
  let ?acc = "put_segment_days t seg (iter_inclusive_dates (sg_start_date seg) (sg_end_date seg)) acc"
  from "2.prems"(1) have run: "collect_segments d t segs ?acc = Inr acc'" by auto
  note mid = put_segment_days_spec [OF "2.prems"(2), of seg
      "iter_inclusive_dates (sg_start_date seg) (sg_end_date seg)" rt rp n]
  from 2 run mid have "keys_ok t (snd acc') \<and>
     priced (snd acc') k = (case last_cover segs k of Some s \<Rightarrow> Some (sg_price s) | None \<Rightarrow> priced (snd ?acc) k)"
    by auto
  with mid show ?case by (auto simp: last_cover_Cons covers_def k split: option.splits)
qed

lemma collect_segments_checks:
  "collect_segments d t segs acc = Inr acc' \<Longrightarrow>
   \<forall>s\<in>set segs. require_room_type_and_plan_same_property d t
      (sg_room_type_id s) (sg_rate_plan_id s) = Inr ()"
  by (induction d t segs acc rule: collect_segments.induct) auto

lemma ra_key_upd [simp]:
  "ra_key (r\<lparr>ra_price := a, ra_stop_sell := b, ra_min_stay_arrival := c, ra_max_stay := e\<rparr>) = ra_key r"
  "ra_key (r\<lparr>ra_price := a\<rparr>) = ra_key r"
  by (simp_all add: ra_key_def)

lemma upsert_rate_price:
  "map_option ra_price (lookup_row ra_key (upsert_rate row rows) k) =
     (if ra_key row = k then Some (numeric2 (ra_price row)) else map_option ra_price (lookup_row ra_key rows k))"
proof (cases "\<exists>r\<in>set rows. ra_key r = ra_key row")
  case True
  then have "lookup_row ra_key rows (ra_key row) \<noteq> None"
    by (metis tb_rate.lookup_None imageI)
  with True show ?thesis
    by (auto simp: upsert_rate_def tb_rate.lookup_update option.map_comp)
next
  case False
  then have "ra_key row \<notin> ra_key ` set rows" by auto
  with False show ?thesis
    by (auto simp: upsert_rate_def tb_rate.lookup_insert tb_rate.lookup_insert_other)
qed

lemma distinct_upsert_rate:
  "distinct (map ra_key rows) \<Longrightarrow> distinct (map ra_key (upsert_rate row rows))"
  by (auto simp: upsert_rate_def tb_rate.distinct_update)

lemma fold_upsert_spec:
  "keys_ok t kvs \<Longrightarrow> distinct (map ra_key rows) \<Longrightarrow>
   distinct (map ra_key (fold upsert_rate (map snd kvs) rows)) \<and>
   map_option ra_price (lookup_row ra_key (fold upsert_rate (map snd kvs) rows) (t, k)) =
     (case priced kvs k of Some p \<Rightarrow> Some (numeric2 p) | None \<Rightarrow> map_option ra_price (lookup_row ra_key rows (t, k)))"
proof (induction kvs arbitrary: rows)
  case Nil
  then show ?case by (simp add: priced_def)
next
  case (Cons kv kvs)
  obtain k' row where kv: "kv = (k', row)" by (cases kv)
  have ok: "keys_ok t kvs" "ra_key row = (t, k')" "k' \<notin> fst ` set kvs"
    using Cons.prems(1) by (auto simp: keys_ok_def kv)
  then have "map_of kvs k' = None" by (simp add: map_of_eq_None_iff)
  with Cons.IH [OF ok(1) distinct_upsert_rate [OF Cons.prems(2)], of row] ok(2) show ?case
    by (auto simp: kv priced_def upsert_rate_price split: option.splits)
qed

text \<open>
  Writing rates and reading them back: after a bulk upsert the price of every room type,
  plan and night is that of the last segment that covers it, to two decimals, and is unchanged when none does;
  the one-row-per-key constraint is kept. A segment whose room type or plan is unknown or of
  another property makes the whole request fail.
\<close>

theorem bulk_upsert_rates_roundtrip:
  assumes "rates_wf d" "bulk_upsert_rates d t segs = Inr (res, d')"
  shows "rates_wf d' \<and>
    (\<forall>k. rate_price d' t k =
      (case last_cover segs k of Some s \<Rightarrow> Some (numeric2 (sg_price s)) | None \<Rightarrow> rate_price d t k)) \<and>
    (\<forall>s\<in>set segs. require_room_type_and_plan_same_property d t
       (sg_room_type_id s) (sg_rate_plan_id s) = Inr ())"
proof -
  from assms(2) obtain fresh by_key where col: "collect_segments d t segs (next_uuid d, []) = Inr (fresh, by_key)"
    by (auto simp: bulk_upsert_rates_def)
  have ok: "keys_ok t by_key"
    and pr: "\<And>k. priced by_key k = (case last_cover segs k of Some s \<Rightarrow> Some (sg_price s) | None \<Rightarrow> None)"
    using collect_segments_spec [OF col] by (auto simp: keys_ok_def priced_def split: option.splits)
  have "rates d' = fold upsert_rate (map snd by_key) (rates d)"
    using assms(2) col by (auto simp: bulk_upsert_rates_def Let_def split: if_splits)
  moreover have "\<forall>s\<in>set segs. require_room_type_and_plan_same_property d t
       (sg_room_type_id s) (sg_rate_plan_id s) = Inr ()"
    using col by (rule collect_segments_checks)
  ultimately show ?thesis
    using fold_upsert_spec [OF ok assms(1) [unfolded rates_wf_def]]
    by (auto simp: rates_wf_def rate_price_def pr split: option.splits)
qed

definition demo_segments :: "rate_segment list" where
  "demo_segments =
     [\<lparr>sg_room_type_id = 20, sg_rate_plan_id = 30, sg_start_date = 101, sg_end_date = 104,
       sg_price = 120, sg_stop_sell = False, sg_min_stay_arrival = None, sg_max_stay = None\<rparr>,
      \<lparr>sg_room_type_id = 20, sg_rate_plan_id = 30, sg_start_date = 104, sg_end_date = 104,
       sg_price = 90, sg_stop_sell = False, sg_min_stay_arrival = None, sg_max_stay = None\<rparr>]"

theorem bulk_upsert_rates_roundtrip_witness:
  "\<exists>res d'. bulk_upsert_rates demo_db 1 demo_segments = Inr (res, d') \<and>
     rate_price d' 1 (20, 30, 104) = Some 90 \<and> rate_price d' 1 (20, 30, 101) = Some 120 \<and>
     rate_price d' 1 (20, 30, 100) = Some 100"
proof -
  have wf: "rates_wf demo_db" by code_simp
  have "\<not> isl (bulk_upsert_rates demo_db 1 demo_segments)" by code_simp
  then obtain res d' where run: "bulk_upsert_rates demo_db 1 demo_segments = Inr (res, d')"
    by (cases "bulk_upsert_rates demo_db 1 demo_segments") auto
  have "map_option (\<lambda>s. numeric2 (sg_price s)) (last_cover demo_segments (20, 30, 104)) = Some 90"
    "map_option (\<lambda>s. numeric2 (sg_price s)) (last_cover demo_segments (20, 30, 101)) = Some 120"
    "last_cover demo_segments (20, 30, 100) = None" "rate_price demo_db 1 (20, 30, 100) = Some 100"
    by code_simp+
  with bulk_upsert_rates_roundtrip [OF wf run] run show ?thesis by auto
qed

end
