(* ===== verification/Tax.thy ===== *)
theory Tax
  imports Decimal Demo
begin

text \<open>
  The tax engine (\<^verbatim>\<open>app/services/tax_service.py\<close>): evaluation of the JSON rules of a country
  pack (simple rules, then compound ones in the order of Kahn's algorithm with its fallback),
  their posting for a tax mode, the single-rate property tax of receipts and the tax
  configuration rows. Taxes are computed over decoded JSON objects, not over a schema, as the
  source does.
\<close>

definition q2 :: "decimal \<Rightarrow> decimal" where
  "q2 value = quantize round_half_up value"

record tax_line =
  tl_code :: string
  tl_name :: string
  tl_amount :: decimal

record tax_calculation =
  tx_lines :: "tax_line list"
  tx_subtotal :: decimal
  tx_total_with_taxes :: decimal

record tax_posting =
  tp_lines :: "tax_line list"
  tp_room_charge_amount :: decimal
  tp_total_amount :: decimal

type_synonym rule = "(string \<times> json) list"

subsection \<open>Selecting the active rules\<close>

definition rule_applies :: "string list \<Rightarrow> string \<Rightarrow> bool" where
  "rule_applies applies_to category =
     (let norm = map (\<lambda>x. py_lower (py_strip x)) applies_to
      in ''all'' \<in> set norm \<or> py_lower (py_strip category) \<in> set norm)"

definition parse_rules :: "json \<Rightarrow> rule list" where
  "parse_rules raw = (case raw of
       JList items \<Rightarrow> concat (map (\<lambda>item. case item of JObj kvs \<Rightarrow> [kvs] | _ \<Rightarrow> []) items)
     | _ \<Rightarrow> [])"

definition rule_code :: "rule \<Rightarrow> string" where
  "rule_code r = py_strip (py_str (obj_get_default r ''code'' (JStr [])))"

text \<open>
  The rate is parsed and clamped here too in the source, but the result is only assigned to a
  local variable: neither an invalid nor a negative rate keeps a rule from being active.
\<close>

definition rule_active :: "string \<Rightarrow> rule \<Rightarrow> bool" where
  "rule_active category r =
     (truthy (obj_get_default r ''active'' (JBool True)) \<and>
      (case obj_get r ''applies_to'' of
         Some (JList xs) \<Rightarrow> rule_applies (map py_str xs) category
       | _ \<Rightarrow> False) \<and>
      rule_code r \<noteq> [])"

definition is_compound :: "rule \<Rightarrow> bool" where
  "is_compound r = (case obj_get r ''compound_after'' of
       None \<Rightarrow> False
     | Some JNull \<Rightarrow> False
     | Some (JStr s) \<Rightarrow> py_strip s \<noteq> []
     | Some _ \<Rightarrow> True)"

definition rule_dep :: "rule \<Rightarrow> string option" where
  "rule_dep r = (case obj_get r ''compound_after'' of Some (JStr s) \<Rightarrow> Some (py_strip s) | _ \<Rightarrow> None)"

definition rule_rate :: "rule \<Rightarrow> decimal result" where
  "rule_rate r = json_decimal (obj_get_default r ''rate'' (JNum 0))"

definition rule_inclusive :: "rule \<Rightarrow> bool" where
  "rule_inclusive r = truthy (obj_get_default r ''inclusive'' (JBool False))"

subsection \<open>Simple rules\<close>

definition simple_tax_amount :: "decimal \<Rightarrow> rule \<Rightarrow> decimal \<Rightarrow> decimal result" where
  "simple_tax_amount base_price r rate =
     (if rule_inclusive r
      then if rate = 0 then Inr 0
           else let gross = base_price
                in r_bind (dec_div gross (1 + rate)) (\<lambda>quot. let net = q2 quot in Inr (q2 (gross - net)))
      else Inr (q2 (base_price * rate)))"

fun simple_taxes :: "decimal \<Rightarrow> rule list \<Rightarrow> tax_line list \<times> decimal \<Rightarrow>
    (tax_line list \<times> decimal) result" where
  "simple_taxes base_price [] acc = Inr acc"
| "simple_taxes base_price (r # rs) (lines, running) =
     (let name = py_str (obj_get_default r ''name'' (obj_get_default r ''code'' (JStr [])));
          code = py_str (obj_get_default r ''code'' (JStr []))
      in r_bind (rule_rate r) (\<lambda>rate.
         r_bind (simple_tax_amount base_price r rate) (\<lambda>amt.
           simple_taxes base_price rs
             (lines @ [\<lparr>tl_code = code, tl_name = name, tl_amount = amt\<rparr>],
              if rule_inclusive r then running else running + amt))))"

subsection \<open>The order of compound rules\<close>

definition dd_get :: "(string \<times> int) list \<Rightarrow> string \<Rightarrow> int" where
  "dd_get dd k = (case map_of dd k of None \<Rightarrow> 0 | Some v \<Rightarrow> v)"

fun collect_deps :: "rule list \<Rightarrow> (string \<times> string option) list \<Rightarrow> (string \<times> string option) list" where
  "collect_deps [] deps = deps"
| "collect_deps (r # rs) deps = collect_deps rs (dict_put (rule_code r) (rule_dep r) deps)"

fun build_graph :: "string list \<Rightarrow> (string \<times> string option) list \<Rightarrow>
    (string \<times> int) list \<times> (string \<times> string list) list \<Rightarrow>
    (string \<times> int) list \<times> (string \<times> string list) list" where
  "build_graph by_code [] acc = acc"
| "build_graph by_code ((c, dep) # deps) (indeg, adj) =
     build_graph by_code deps
       (case dep of
          Some p \<Rightarrow> if p \<in> set by_code
                    then (dict_put c (dd_get indeg c + 1) indeg,
                          dict_put p ((case map_of adj p of None \<Rightarrow> [] | Some cs \<Rightarrow> cs) @ [c]) adj)
                    else (indeg, adj)
        | None \<Rightarrow> (indeg, adj))"

fun relax :: "string list \<Rightarrow> (string \<times> int) list \<times> string list \<Rightarrow> (string \<times> int) list \<times> string list" where
  "relax [] acc = acc"
| "relax (m # ms) (indeg, q) =
     (let v = dd_get indeg m - 1
      in relax ms (dict_put m v indeg, if v = 0 then q @ [m] else q))"

text \<open>Entries that still wait for a predecessor; each append to the queue uses one up.\<close>

definition waiting :: "(string \<times> int) list \<Rightarrow> nat" where
  "waiting indeg = length (filter (\<lambda>(k, v). 0 < v) indeg)"

lemma waiting_dict_put:
  "waiting (dict_put m (dd_get indeg m - 1) indeg) + (if dd_get indeg m = 1 then 1 else 0) \<le> waiting indeg"
proof (induction indeg)
  case Nil
  then show ?case by (simp add: waiting_def dd_get_def)
next
  case (Cons kv kvs)
  obtain k v where kv: "kv = (k, v)" by (cases kv)
  show ?case
  proof (cases "m = k")
    case True
    then show ?thesis by (simp add: kv waiting_def dd_get_def)
  next
    case False
    then have "dd_get ((k, v) # kvs) m = dd_get kvs m" by (simp add: dd_get_def)
    with Cons False show ?thesis by (auto simp: kv waiting_def)
  qed
qed

lemma relax_measure:
  "length (snd (relax ms (indeg, q))) + waiting (fst (relax ms (indeg, q))) \<le> length q + waiting indeg"
proof (induction ms arbitrary: indeg q)
  case (Cons m ms)
  show ?case
    using Cons [of "dict_put m (dd_get indeg m - 1) indeg" "if dd_get indeg m - 1 = 0 then q @ [m] else q"]
      waiting_dict_put [of m indeg]
    by (simp add: Let_def split: if_splits)
qed simp

function kahn_loop :: "(string \<times> string list) list \<Rightarrow> (string \<times> int) list \<Rightarrow> string list \<Rightarrow>
    string list \<Rightarrow> string list" where
  "kahn_loop adj indeg [] ordered = ordered"
| "kahn_loop adj indeg (n # q) ordered =
     (let ms = sort (case map_of adj n of None \<Rightarrow> [] | Some cs \<Rightarrow> cs);
          st = relax ms (indeg, q)
      in kahn_loop adj (fst st) (snd st) (ordered @ [n]))"
  by pat_completeness auto
termination
  by (relation "measure (\<lambda>(adj, indeg, q, ordered). length q + waiting indeg)")
    (auto simp: le_imp_less_Suc relax_measure)

fun append_missing :: "string list \<Rightarrow> string list \<Rightarrow> string list" where
  "append_missing [] ordered = ordered"
| "append_missing (n # ns) ordered =
     append_missing ns (if n \<in> set ordered then ordered else ordered @ [n])"

definition compound_order :: "rule list \<Rightarrow> rule list \<Rightarrow> string list" where
  "compound_order active compound =
     (let by_code = filter (\<lambda>c. c \<noteq> []) (map rule_code active);
          deps = collect_deps compound [];
          nodes = map rule_code compound;
          indeg0 = fold (\<lambda>n dd. dict_put n 0 dd) nodes [];
          g = build_graph by_code deps (indeg0, []);
          indeg = fst g; adj = snd g;
          q = sort (filter (\<lambda>n. dd_get indeg n = 0) nodes);
          ordered = kahn_loop adj indeg q []
      in if length ordered \<noteq> length nodes then append_missing nodes ordered else ordered)"

subsection \<open>Compound rules\<close>

definition code_to_rule :: "rule list \<Rightarrow> string \<Rightarrow> rule option" where
  "code_to_rule compound = map_of (rev (map (\<lambda>r. (rule_code r, r)) compound))"

definition compound_tax_amount :: "decimal \<Rightarrow> rule \<Rightarrow> decimal \<Rightarrow> decimal result" where
  "compound_tax_amount running r rate =
     (if rule_inclusive r
      then r_bind (if rate \<noteq> 0 then r_bind (dec_div running (1 + rate)) (\<lambda>quot. Inr (q2 quot))
                   else Inr running)
             (\<lambda>net_before. Inr (q2 (running - net_before)))
      else Inr (q2 (running * rate)))"

fun compound_taxes :: "rule list \<Rightarrow> string list \<Rightarrow> tax_line list \<times> decimal \<Rightarrow>
    (tax_line list \<times> decimal) result" where
  "compound_taxes compound [] acc = Inr acc"
| "compound_taxes compound (code_key # ks) (lines, running) =
     (case code_to_rule compound code_key of
        None \<Rightarrow> compound_taxes compound ks (lines, running)
      | Some r \<Rightarrow>
          let name = py_str (obj_get_default r ''name'' (JStr code_key))
          in r_bind (rule_rate r) (\<lambda>rate.
             r_bind (compound_tax_amount running r rate) (\<lambda>amt.
               compound_taxes compound ks
                 (lines @ [\<lparr>tl_code = code_key, tl_name = name, tl_amount = amt\<rparr>],
                  if rule_inclusive r then running else running + amt))))"

definition calculate_taxes_from_rules ::
  "decimal \<Rightarrow> json \<Rightarrow> string \<Rightarrow> tax_calculation result" where
  "calculate_taxes_from_rules base_price raw_rules applies_to_category =
     (let active = filter (rule_active applies_to_category) (parse_rules raw_rules);
          non_compound = filter (\<lambda>r. \<not> is_compound r) active;
          compound = filter is_compound active
      in r_bind (simple_taxes base_price non_compound ([], base_price)) (\<lambda>acc.
         r_bind (if compound \<noteq> []
                 then compound_taxes compound (compound_order active compound) acc
                 else Inr acc) (\<lambda>(lines, running).
           Inr \<lparr>tx_lines = lines, tx_subtotal = base_price, tx_total_with_taxes = q2 running\<rparr>)))"

definition force_inclusive :: "rule list \<Rightarrow> json" where
  "force_inclusive rules = JList (map (\<lambda>r. JObj (dict_put ''inclusive'' (JBool True) r)) rules)"

definition calculate_country_pack_tax_posting ::
  "decimal \<Rightarrow> json \<Rightarrow> string \<Rightarrow> tax_mode option \<Rightarrow> tax_posting result" where
  "calculate_country_pack_tax_posting base_price raw_rules applies_to_category mode =
     (let gross = q2 base_price
      in if mode = Some Off
         then Inr \<lparr>tp_lines = [], tp_room_charge_amount = gross, tp_total_amount = gross\<rparr>
         else let adjusted = (if mode = Some Inclusive then force_inclusive (parse_rules raw_rules)
                              else JList (map JObj (parse_rules raw_rules)))
              in r_bind (calculate_taxes_from_rules gross adjusted applies_to_category) (\<lambda>calc.
                   if mode = Some Inclusive
                   then let tax_total = q2 (sum_list (map tl_amount (tx_lines calc)));
                            room_charge_amount = q2 (gross - tax_total)
                        in Inr \<lparr>tp_lines = tx_lines calc, tp_room_charge_amount = room_charge_amount,
                                tp_total_amount = gross\<rparr>
                   else Inr \<lparr>tp_lines = tx_lines calc, tp_room_charge_amount = gross,
                             tp_total_amount = q2 (tx_total_with_taxes calc)\<rparr>))"

text \<open>
  The pack by code; row-level security shows a tenant the builtin packs and its own.
\<close>

definition visible_pack :: "db \<Rightarrow> uuid \<Rightarrow> string \<Rightarrow> country_pack_row option" where
  "visible_pack d tenant_id code =
     find (\<lambda>p. cp_code p = code \<and>
        ((cp_is_builtin p \<and> cp_tenant_id p = None) \<or> cp_tenant_id p = Some tenant_id)) (country_packs d)"

definition calculate_taxes ::
  "db \<Rightarrow> uuid \<Rightarrow> string \<Rightarrow> decimal \<Rightarrow> string \<Rightarrow> tax_calculation result" where
  "calculate_taxes d tenant_id country_pack_code base_price applies_to =
     (case visible_pack d tenant_id (py_strip country_pack_code) of
        None \<Rightarrow> Inr \<lparr>tx_lines = [], tx_subtotal = base_price, tx_total_with_taxes = q2 base_price\<rparr>
      | Some pack \<Rightarrow> calculate_taxes_from_rules base_price (cp_taxes pack) applies_to)"

subsection \<open>Property tax and its configuration\<close>

record tax_breakdown =
  tb_tax_amount :: decimal
  tb_gross_total :: decimal
  tb_net_total :: decimal

definition calculate_property_tax :: "decimal \<Rightarrow> tax_config_row \<Rightarrow> tax_breakdown result" where
  "calculate_property_tax amount config =
     (let rate = tc_tax_rate config
      in if tc_tax_mode config = Off \<or> rate = 0
         then let base = q2 amount
              in Inr \<lparr>tb_tax_amount = 0, tb_gross_total = base, tb_net_total = base\<rparr>
         else if tc_tax_mode config = Inclusive
         then let gross = q2 amount
              in r_bind (dec_div (gross * rate) (1 + rate)) (\<lambda>quot.
                   let tax = q2 quot; net = q2 (gross - tax)
                   in Inr \<lparr>tb_tax_amount = tax, tb_gross_total = gross, tb_net_total = net\<rparr>)
         else let net = q2 amount; tax = q2 (net * rate); gross = q2 (net + tax)
              in Inr \<lparr>tb_tax_amount = tax, tb_gross_total = gross, tb_net_total = net\<rparr>)"

definition get_tax_config :: "db \<Rightarrow> uuid \<Rightarrow> uuid \<Rightarrow> tax_config_row option" where
  "get_tax_config d tenant_id property_id =
     find (\<lambda>c. tc_tenant_id c = tenant_id \<and> tc_property_id c = property_id) (tax_configs d)"

definition upsert_tax_config ::
  "db \<Rightarrow> uuid \<Rightarrow> uuid \<Rightarrow> tax_mode \<Rightarrow> string \<Rightarrow> decimal \<Rightarrow> tax_config_row \<times> db" where
  "upsert_tax_config d tenant_id property_id mode tax_name tax_rate =
     (let name = py_strip tax_name
      in case get_tax_config d tenant_id property_id of
           Some existing \<Rightarrow>
             let row = existing\<lparr>tc_tax_mode := mode, tc_tax_name := name, tc_tax_rate := numeric4 tax_rate\<rparr>
             in (row, d\<lparr>tax_configs := update_rows (\<lambda>c. tc_id c = tc_id existing) (\<lambda>_. row) (tax_configs d)\<rparr>)
         | None \<Rightarrow>
             let row = \<lparr>tc_id = next_uuid d, tc_tenant_id = tenant_id, tc_property_id = property_id,
                        tc_tax_mode = mode, tc_tax_name = name, tc_tax_rate = numeric4 tax_rate\<rparr>
             in (row, d\<lparr>tax_configs := tax_configs d @ [row], next_uuid := next_uuid d + 1\<rparr>))"

definition delete_tax_config :: "db \<Rightarrow> uuid \<Rightarrow> uuid \<Rightarrow> bool \<times> db" where
  "delete_tax_config d tenant_id property_id =
     (case get_tax_config d tenant_id property_id of
        None \<Rightarrow> (False, d)
      | Some row \<Rightarrow> (True, d\<lparr>tax_configs := delete_rows (\<lambda>c. tc_id c = tc_id row) (tax_configs d)\<rparr>))"

subsection \<open>Amounts are whole cents\<close>

lemma q2_in_cents [simp, intro]: "in_cents (q2 x)"
  by (simp add: q2_def half_up.quantize_in_cents)

lemma q2_exact [simp]: "in_cents x \<Longrightarrow> q2 x = x"
  by (simp add: q2_def half_up.quantize_exact)

definition lines_in_cents :: "tax_line list \<Rightarrow> bool" where
  "lines_in_cents ls \<longleftrightarrow> (\<forall>l\<in>set ls. in_cents (tl_amount l))"

abbreviation line_total :: "tax_line list \<Rightarrow> decimal" where
  "line_total ls \<equiv> sum_list (map tl_amount ls)"

lemma line_total_in_cents: "lines_in_cents ls \<Longrightarrow> in_cents (line_total ls)"
  by (rule in_cents_sum_list) (auto simp: lines_in_cents_def)

text \<open>One turn of each loop: a line with a whole-cent amount, added to the running total iff exclusive.\<close>

lemma tax_amount_in_cents:
  "simple_tax_amount b r rate = Inr amt \<Longrightarrow> in_cents amt"
  "compound_tax_amount run r rate = Inr amt \<Longrightarrow> in_cents amt"
  by (auto simp: simple_tax_amount_def compound_tax_amount_def Let_def split: if_splits)

lemma simple_taxes_step:
  assumes "simple_taxes b (r # rs) (ls, run) = Inr res"
  shows "\<exists>l. in_cents (tl_amount l) \<and> tl_code l = py_str (obj_get_default r ''code'' (JStr [])) \<and>
    simple_taxes b rs (ls @ [l], if rule_inclusive r then run else run + tl_amount l) = Inr res"
proof -
  define code name where "code = py_str (obj_get_default r ''code'' (JStr []))"
    and "name = py_str (obj_get_default r ''name'' (obj_get_default r ''code'' (JStr [])))"
  from assms obtain rate amt where amt: "simple_tax_amount b r rate = Inr amt"
    and rest: "simple_taxes b rs (ls @ [\<lparr>tl_code = code, tl_name = name, tl_amount = amt\<rparr>],
      if rule_inclusive r then run else run + amt) = Inr res"
    unfolding simple_taxes.simps(2) Let_def r_bind_eq_Inr code_def name_def by blast
  from rest tax_amount_in_cents(1) [OF amt] show ?thesis
    by (intro exI [of _ "\<lparr>tl_code = code, tl_name = name, tl_amount = amt\<rparr>"])
      (simp only: tax_line.simps code_def simp_thms)
qed

lemma compound_taxes_step:
  assumes "compound_taxes c (k # ks) (ls, run) = Inr res" "code_to_rule c k = Some r"
  shows "\<exists>l. in_cents (tl_amount l) \<and> tl_code l = k \<and>
    compound_taxes c ks (ls @ [l], if rule_inclusive r then run else run + tl_amount l) = Inr res"
proof -
  define name where "name = py_str (obj_get_default r ''name'' (JStr k))"
  from assms(1) obtain rate amt where amt: "compound_tax_amount run r rate = Inr amt"
    and rest: "compound_taxes c ks (ls @ [\<lparr>tl_code = k, tl_name = name, tl_amount = amt\<rparr>],
      if rule_inclusive r then run else run + amt) = Inr res"
    unfolding compound_taxes.simps(2) assms(2) option.case Let_def r_bind_eq_Inr name_def by blast
  from rest tax_amount_in_cents(2) [OF amt] show ?thesis
    by (intro exI [of _ "\<lparr>tl_code = k, tl_name = name, tl_amount = amt\<rparr>"])
      (simp only: tax_line.simps simp_thms)
qed

lemma simple_taxes_cents:
  "simple_taxes b rs (ls, run) = Inr (ls', run') \<Longrightarrow> lines_in_cents ls \<Longrightarrow> in_cents run \<Longrightarrow>
   lines_in_cents ls' \<and> in_cents run'"
proof (induction rs arbitrary: ls run)
  case (Cons r rs)
  obtain l where l: "in_cents (tl_amount l)" and rest: "simple_taxes b rs
      (ls @ [l], if rule_inclusive r then run else run + tl_amount l) = Inr (ls', run')"
    using simple_taxes_step [OF Cons.prems(1)] by (elim exE conjE) (rule that)
  show ?case
    by (rule Cons.IH [OF rest]) (use Cons.prems(2,3) l in \<open>auto simp: lines_in_cents_def\<close>)
qed simp

lemma compound_taxes_cents:
  "compound_taxes c ks (ls, run) = Inr (ls', run') \<Longrightarrow> lines_in_cents ls \<Longrightarrow> in_cents run \<Longrightarrow>
   lines_in_cents ls' \<and> in_cents run'"
proof (induction ks arbitrary: ls run)
  case (Cons k ks)
  show ?case
  proof (cases "code_to_rule c k")
    case None
    with Cons show ?thesis by simp
  next
    case (Some r)
    obtain l where l: "in_cents (tl_amount l)" and rest: "compound_taxes c ks
        (ls @ [l], if rule_inclusive r then run else run + tl_amount l) = Inr (ls', run')"
      using compound_taxes_step [OF Cons.prems(1) Some] by (elim exE conjE) (rule that)
    show ?thesis
      by (rule Cons.IH [OF rest]) (use Cons.prems(2,3) l in \<open>auto simp: lines_in_cents_def\<close>)
  qed
qed simp

text \<open>The computation in parts: simple rules, then compound ones in their order.\<close>

definition active_rules :: "json \<Rightarrow> string \<Rightarrow> rule list" where
  "active_rules raw cat = filter (rule_active cat) (parse_rules raw)"

definition compound_keys :: "rule list \<Rightarrow> string list" where
  "compound_keys active =
     (if filter is_compound active = [] then [] else compound_order active (filter is_compound active))"

lemma calculate_taxes_parts:
  assumes "calculate_taxes_from_rules b raw cat = Inr c"
  obtains ls run ls' run' where
    "simple_taxes b (filter (\<lambda>r. \<not> is_compound r) (active_rules raw cat)) ([], b) = Inr (ls, run)"
    "compound_taxes (filter is_compound (active_rules raw cat)) (compound_keys (active_rules raw cat)) (ls, run)
       = Inr (ls', run')"
    "c = \<lparr>tx_lines = ls', tx_subtotal = b, tx_total_with_taxes = q2 run'\<rparr>"
proof -
  define act where "act = active_rules raw cat"
  from assms obtain acc acc' where
    s: "simple_taxes b (filter (\<lambda>r. \<not> is_compound r) act) ([], b) = Inr acc"
    and k: "(if filter is_compound act \<noteq> []
             then compound_taxes (filter is_compound act) (compound_order act (filter is_compound act)) acc
             else Inr acc) = Inr acc'"
    and c: "(case acc' of (lines, running) \<Rightarrow>
        Inr \<lparr>tx_lines = lines, tx_subtotal = b, tx_total_with_taxes = q2 running\<rparr>) = (Inr c :: tax_calculation result)"
    unfolding calculate_taxes_from_rules_def Let_def r_bind_eq_Inr act_def active_rules_def by blast
  obtain ls run ls' run' where acc: "acc = (ls, run)" "acc' = (ls', run')" by (cases acc, cases acc')
  have "compound_taxes (filter is_compound act) (compound_keys act) (ls, run) = Inr (ls', run')"
    using k by (simp only: acc compound_keys_def simp_thms if_False if_True compound_taxes.simps split: if_splits)
  with s c that [of ls run ls' run'] show ?thesis by (simp add: acc act_def)
qed

lemma calculate_taxes_cents:
  assumes "calculate_taxes_from_rules b raw cat = Inr c" "in_cents b"
  shows "lines_in_cents (tx_lines c)"
proof -
  from calculate_taxes_parts [OF assms(1)] obtain ls run ls' run' where
    s: "simple_taxes b (filter (\<lambda>r. \<not> is_compound r) (active_rules raw cat)) ([], b) = Inr (ls, run)"
    and k: "compound_taxes (filter is_compound (active_rules raw cat))
      (compound_keys (active_rules raw cat)) (ls, run) = Inr (ls', run')"
    and c: "c = \<lparr>tx_lines = ls', tx_subtotal = b, tx_total_with_taxes = q2 run'\<rparr>" .
  have "lines_in_cents ls \<and> in_cents run"
    using simple_taxes_cents [OF s] assms(2) by (simp add: lines_in_cents_def)
  with compound_taxes_cents [OF k] c show ?thesis by simp
qed

text \<open>
  C6. In inclusive mode the posting splits the room charge without changing the guest's
  total: the reduced room charge and the extracted tax lines add up to the gross amount,
  whatever the rules and however many of them round.
\<close>

theorem inclusive_posting_conserves_gross:
  assumes "calculate_country_pack_tax_posting base rules cat (Some Inclusive) = Inr p"
  shows "tp_room_charge_amount p + line_total (tp_lines p) = q2 base \<and> tp_total_amount p = q2 base"
proof -
  obtain c where c: "calculate_taxes_from_rules (q2 base) (force_inclusive (parse_rules rules)) cat = Inr c"
    and p: "tp_lines p = tx_lines c" "tp_total_amount p = q2 base"
      "tp_room_charge_amount p = q2 (q2 base - q2 (line_total (tx_lines c)))"
    using assms by (auto simp: calculate_country_pack_tax_posting_def Let_def)
  have "in_cents (line_total (tx_lines c))"
    using calculate_taxes_cents [OF c] by (simp add: line_total_in_cents)
  with p show ?thesis by (simp add: in_cents_diff)
qed

theorem inclusive_posting_conserves_gross_witness:
  "\<exists>p. calculate_country_pack_tax_posting 1177 demo_taxes ''room_charge'' (Some Inclusive) = Inr p \<and>
     tp_room_charge_amount p = 993 \<and> tp_room_charge_amount p + line_total (tp_lines p) = 1177"
proof -
  have run: "calculate_country_pack_tax_posting 1177 demo_taxes ''room_charge'' (Some Inclusive) =
    Inr \<lparr>tp_lines = [\<lparr>tl_code = ''VAT'', tl_name = ''VAT'', tl_amount = 77\<rparr>,
           \<lparr>tl_code = ''SERVICE_CHARGE'', tl_name = ''Service Charge'', tl_amount = 107\<rparr>],
         tp_room_charge_amount = 993, tp_total_amount = 1177\<rparr>"
    by code_simp
  have "q2 1177 = 1177" by code_simp
  with inclusive_posting_conserves_gross [OF run] run show ?thesis by auto
qed

subsection \<open>Exclusive taxes\<close>

lemma simple_taxes_exclusive:
  "simple_taxes b rs (ls, run) = Inr (ls', run') \<Longrightarrow> \<forall>r\<in>set rs. \<not> rule_inclusive r \<Longrightarrow>
   run' - line_total ls' = run - line_total ls"
proof (induction rs arbitrary: ls run)
  case (Cons r rs)
  obtain l where rest: "simple_taxes b rs
      (ls @ [l], if rule_inclusive r then run else run + tl_amount l) = Inr (ls', run')"
    using simple_taxes_step [OF Cons.prems(1)] by (elim exE conjE) (rule that)
  show ?case using Cons.IH [OF rest] Cons.prems(2) by simp
qed simp

lemma code_to_rule_mem: "code_to_rule c k = Some r \<Longrightarrow> r \<in> set c \<and> rule_code r = k"
  unfolding code_to_rule_def by (auto dest!: map_of_SomeD)

lemma compound_taxes_exclusive:
  "compound_taxes c ks (ls, run) = Inr (ls', run') \<Longrightarrow> \<forall>r\<in>set c. \<not> rule_inclusive r \<Longrightarrow>
   run' - line_total ls' = run - line_total ls"
proof (induction ks arbitrary: ls run)
  case (Cons k ks)
  show ?case
  proof (cases "code_to_rule c k")
    case None
    with Cons show ?thesis by simp
  next
    case (Some r)
    then have "\<not> rule_inclusive r" using Cons.prems(2) code_to_rule_mem by blast
    moreover obtain l where rest: "compound_taxes c ks
        (ls @ [l], if rule_inclusive r then run else run + tl_amount l) = Inr (ls', run')"
      using compound_taxes_step [OF Cons.prems(1) Some] by (elim exE conjE) (rule that)
    ultimately show ?thesis using Cons.IH [OF rest] Cons.prems(2) by simp
  qed
qed simp

lemma parse_rules_JObj [simp]: "parse_rules (JList (map JObj rs)) = rs"
  unfolding parse_rules_def by (induction rs) auto

lemma calculate_taxes_exclusive:
  assumes "calculate_taxes_from_rules b raw cat = Inr c" "in_cents b"
    and "\<forall>r\<in>set (parse_rules raw). rule_active cat r \<longrightarrow> \<not> rule_inclusive r"
  shows "tx_total_with_taxes c = b + line_total (tx_lines c)"
proof -
  from calculate_taxes_parts [OF assms(1)] obtain ls run ls' run' where
    s: "simple_taxes b (filter (\<lambda>r. \<not> is_compound r) (active_rules raw cat)) ([], b) = Inr (ls, run)"
    and k: "compound_taxes (filter is_compound (active_rules raw cat))
      (compound_keys (active_rules raw cat)) (ls, run) = Inr (ls', run')"
    and c: "c = \<lparr>tx_lines = ls', tx_subtotal = b, tx_total_with_taxes = q2 run'\<rparr>" .
  have excl: "\<forall>r\<in>set (active_rules raw cat). \<not> rule_inclusive r"
    using assms(3) by (simp add: active_rules_def)
  then have "run - line_total ls = b" using simple_taxes_exclusive [OF s] by simp
  moreover have "run' - line_total ls' = run - line_total ls"
    using compound_taxes_exclusive [OF k] excl by simp
  ultimately have "run' = b + line_total ls'" by (simp add: algebra_simps)
  moreover have "in_cents (line_total ls')"
    using calculate_taxes_cents [OF assms(1,2)] c by (simp add: line_total_in_cents)
  ultimately show ?thesis using assms(2) by (simp add: c in_cents_add)
qed

text \<open>
  In exclusive mode, when no applicable rule is marked inclusive, taxes are added on top:
  the room charge stays gross and the announced total is the room charge plus the posted tax
  lines, to the cent.
\<close>

theorem exclusive_posting_total:
  assumes "calculate_country_pack_tax_posting base rules cat mode = Inr p"
    and "mode = None \<or> mode = Some Exclusive"
    and "\<forall>r\<in>set (parse_rules rules). rule_active cat r \<longrightarrow> \<not> rule_inclusive r"
  shows "tp_room_charge_amount p = q2 base \<and>
    tp_total_amount p = tp_room_charge_amount p + line_total (tp_lines p)"
proof -
  obtain c where c: "calculate_taxes_from_rules (q2 base) (JList (map JObj (parse_rules rules))) cat = Inr c"
    and p: "tp_lines p = tx_lines c" "tp_room_charge_amount p = q2 base"
      "tp_total_amount p = q2 (tx_total_with_taxes c)"
    using assms(1,2) by (auto simp: calculate_country_pack_tax_posting_def Let_def)
  have tot: "tx_total_with_taxes c = q2 base + line_total (tx_lines c)"
    using calculate_taxes_exclusive [OF c] assms(3) by simp
  moreover have "in_cents (q2 base + line_total (tx_lines c))"
    using calculate_taxes_cents [OF c] by (auto simp: line_total_in_cents)
  ultimately show ?thesis using p by simp
qed

theorem exclusive_posting_total_witness:
  "\<exists>p. calculate_country_pack_tax_posting 100 demo_taxes ''room_charge'' (Some Exclusive) = Inr p \<and>
     tp_total_amount p = 11770/100 \<and> tp_total_amount p = 100 + line_total (tp_lines p)"
proof -
  have run: "calculate_country_pack_tax_posting 100 demo_taxes ''room_charge'' (Some Exclusive) =
    Inr \<lparr>tp_lines = [\<lparr>tl_code = ''VAT'', tl_name = ''VAT'', tl_amount = 7\<rparr>,
           \<lparr>tl_code = ''SERVICE_CHARGE'', tl_name = ''Service Charge'', tl_amount = 107/10\<rparr>],
         tp_room_charge_amount = 100, tp_total_amount = 1177/10\<rparr>"
    by code_simp
  have "list_all (\<lambda>r. rule_active ''room_charge'' r \<longrightarrow> \<not> rule_inclusive r) (parse_rules demo_taxes)"
    by code_simp
  then have "\<forall>r\<in>set (parse_rules demo_taxes). rule_active ''room_charge'' r \<longrightarrow> \<not> rule_inclusive r"
    by (simp add: list_all_iff)
  with exclusive_posting_total [OF run] run show ?thesis by auto
qed

end
