(* ===== verification/Folio.thy ===== *)
theory Folio
  imports Tax Audit_Trail
begin

text \<open>
  The guest folio (\<^verbatim>\<open>app/services/folio_service.py\<close>) and the catalogue of charge categories
  (\<^verbatim>\<open>app/services/folio_category_service.py\<close>): balance, posting, reversal and the replacement of the
  generated country-pack tax lines. The balance of a folio is a sum over the transaction table
  and instantiates the locale \<open>measured_table\<close> of the schema.
\<close>

subsection \<open>Charge categories\<close>

definition BUILTIN_CHARGE_ROWS :: "(string \<times> string \<times> int) list" where
  "BUILTIN_CHARGE_ROWS =
     [(''room_charge'', ''Room charge'', 0), (''food_beverage'', ''Food & beverage'', 10),
      (''spa'', ''Spa'', 20), (''minibar'', ''Minibar'', 30), (''tax'', ''Tax'', 40),
      (''discount'', ''Discount'', 50), (''misc'', ''Miscellaneous'', 60), (''service'', ''Service'', 70)]"

definition category_at :: "db \<Rightarrow> uuid \<Rightarrow> string \<Rightarrow> category_row option" where
  "category_at d tenant_id code =
     find (\<lambda>c. fc_tenant_id c = tenant_id \<and> fc_code c = code) (folio_categories d)"

definition insert_category :: "uuid \<Rightarrow> string \<Rightarrow> string \<Rightarrow> bool \<Rightarrow> bool \<Rightarrow> int \<Rightarrow> db \<Rightarrow> category_row \<times> db" where
  "insert_category tenant_id code label builtin active sort_order d =
     (let row = \<lparr>fc_id = next_uuid d, fc_tenant_id = tenant_id, fc_code = code, fc_label = label,
                 fc_is_builtin = builtin, fc_is_active = active, fc_sort_order = sort_order\<rparr>
      in (row, d\<lparr>folio_categories := folio_categories d @ [row], next_uuid := next_uuid d + 1\<rparr>))"

fun ensure_rows :: "uuid \<Rightarrow> (string \<times> string \<times> int) list \<Rightarrow> db \<Rightarrow> db" where
  "ensure_rows tenant_id [] d = d"
| "ensure_rows tenant_id ((code, label, sort_order) # rs) d =
     ensure_rows tenant_id rs
       (case category_at d tenant_id code of
          Some _ \<Rightarrow> d
        | None \<Rightarrow> snd (insert_category tenant_id code label True True sort_order d))"

definition ensure_builtin_categories :: "uuid \<Rightarrow> db \<Rightarrow> db" where
  "ensure_builtin_categories tenant_id d = ensure_rows tenant_id BUILTIN_CHARGE_ROWS d"

definition list_categories :: "db \<Rightarrow> uuid \<Rightarrow> category_row list \<times> db" where
  "list_categories d tenant_id =
     (let d = ensure_builtin_categories tenant_id d
      in (sort_key fc_sort_order (sort_key fc_code
            (filter (\<lambda>c. fc_tenant_id c = tenant_id) (folio_categories d))), d))"

definition active_category_codes :: "db \<Rightarrow> uuid \<Rightarrow> string list \<times> db" where
  "active_category_codes d tenant_id =
     (let d = ensure_builtin_categories tenant_id d
      in (map fc_code (filter (\<lambda>c. fc_tenant_id c = tenant_id \<and> fc_is_active c) (folio_categories d)), d))"

definition get_category_by_code :: "db \<Rightarrow> uuid \<Rightarrow> string \<Rightarrow> category_row option \<times> db" where
  "get_category_by_code d tenant_id code =
     (let d = ensure_builtin_categories tenant_id d in (category_at d tenant_id code, d))"

text \<open>The unique constraint on tenant and code raises at the flush.\<close>

definition create_category ::
  "db \<Rightarrow> uuid \<Rightarrow> string \<Rightarrow> string \<Rightarrow> int \<Rightarrow> bool \<Rightarrow> (category_row \<times> db) result" where
  "create_category d tenant_id code label sort_order is_active =
     (let d = ensure_builtin_categories tenant_id d
      in case category_at d tenant_id code of
           Some _ \<Rightarrow> Inl (FolioCategoryError ''category code already exists'' 409)
         | None \<Rightarrow> Inr (insert_category tenant_id code label False is_active sort_order d))"

definition update_category ::
  "db \<Rightarrow> uuid \<Rightarrow> string \<Rightarrow> string option \<Rightarrow> int option \<Rightarrow> bool option \<Rightarrow> (category_row \<times> db) result" where
  "update_category d tenant_id code label sort_order is_active =
     (case get_category_by_code d tenant_id code of
        (None, d) \<Rightarrow> Inl (FolioCategoryError ''category not found'' 404)
      | (Some row, d) \<Rightarrow>
          let row' = row\<lparr>fc_label := (case label of None \<Rightarrow> fc_label row | Some l \<Rightarrow> l),
                         fc_sort_order := (case sort_order of None \<Rightarrow> fc_sort_order row | Some n \<Rightarrow> n),
                         fc_is_active := (case is_active of None \<Rightarrow> fc_is_active row | Some b \<Rightarrow> b)\<rparr>
          in Inr (row', d\<lparr>folio_categories := update_rows (\<lambda>c. fc_id c = fc_id row) (\<lambda>_. row') (folio_categories d)\<rparr>))"

definition delete_category :: "db \<Rightarrow> uuid \<Rightarrow> string \<Rightarrow> db result" where
  "delete_category d tenant_id code =
     (case get_category_by_code d tenant_id code of
        (None, d) \<Rightarrow> Inl (FolioCategoryError ''category not found'' 404)
      | (Some row, d) \<Rightarrow>
          if fc_is_builtin row then Inl (FolioCategoryError ''cannot delete built-in category'' 400)
          else Inr (d\<lparr>folio_categories := delete_rows (\<lambda>c. fc_id c = fc_id row) (folio_categories d)\<rparr>))"

subsection \<open>Folio\<close>

definition COUNTRY_PACK_TAX_PREFIX :: string where
  "COUNTRY_PACK_TAX_PREFIX = ''[country-pack-tax]''"

definition booking_at :: "db \<Rightarrow> uuid \<Rightarrow> uuid \<Rightarrow> booking_row option" where
  "booking_at d tenant_id booking_id =
     find (\<lambda>b. bk_tenant_id b = tenant_id \<and> bk_id b = booking_id) (bookings d)"

definition require_booking :: "db \<Rightarrow> uuid \<Rightarrow> uuid \<Rightarrow> booking_row result" where
  "require_booking d tenant_id booking_id =
     require (booking_at d tenant_id booking_id) (FolioError ''booking not found'' 404)"

definition of_folio :: "uuid \<Rightarrow> uuid \<Rightarrow> folio_row \<Rightarrow> bool" where
  "of_folio tenant_id booking_id r \<longleftrightarrow> ft_tenant_id r = tenant_id \<and> ft_booking_id r = booking_id"

definition sum_booking_charge_amounts :: "db \<Rightarrow> uuid \<Rightarrow> uuid \<Rightarrow> decimal" where
  "sum_booking_charge_amounts d tenant_id booking_id =
     q_even (sum_list (map ft_amount (filter (\<lambda>r. of_folio tenant_id booking_id r \<and>
       ft_transaction_type r = ''Charge'') (folio_transactions d))))"

definition case_sum :: "string \<Rightarrow> folio_row list \<Rightarrow> decimal" where
  "case_sum kind rows = sum_list (map (\<lambda>r. if ft_transaction_type r = kind then ft_amount r else 0) rows)"

definition compute_folio_balance :: "db \<Rightarrow> uuid \<Rightarrow> uuid \<Rightarrow> decimal" where
  "compute_folio_balance d tenant_id booking_id =
     (let rows = filter (of_folio tenant_id booking_id) (folio_transactions d)
      in q_even (case_sum ''Charge'' rows - case_sum ''Payment'' rows))"

text \<open>
  The bookings of a property that owe money. The grouped query joins on the booking id alone;
  rows are ordered by falling balance.
\<close>

definition unpaid_balance :: "db \<Rightarrow> uuid \<Rightarrow> uuid \<Rightarrow> decimal" where
  "unpaid_balance d tenant_id booking_id =
     (let rows = filter (of_folio tenant_id booking_id) (folio_transactions d)
      in case_sum ''Charge'' rows - case_sum ''Payment'' rows)"

definition last_night :: "db \<Rightarrow> booking_row \<Rightarrow> date option" where
  "last_night d b =
     (let ds = map bl_date (filter (\<lambda>l. bl_tenant_id l = bk_tenant_id b \<and> bl_booking_id l = bk_id b) (booking_lines d))
      in if ds = [] then None else Some (Max (set ds)))"

definition list_unpaid_folio_summary_for_property ::
  "db \<Rightarrow> uuid \<Rightarrow> uuid \<Rightarrow> date option \<Rightarrow> bool \<Rightarrow> (uuid \<times> decimal \<times> string \<times> string) list" where
  "list_unpaid_folio_summary_for_property d tenant_id property_id departed_on checked_out_only =
     map (\<lambda>(bid, bal, fn, ln). (bid, q_even bal, fn, ln))
       (sort_key (\<lambda>(bid, bal, fn, ln). - bal)
         (concat (map (\<lambda>b.
            map (\<lambda>g. (bk_id b, unpaid_balance d tenant_id (bk_id b), gu_first_name g, gu_last_name g))
              (filter (\<lambda>g. gu_tenant_id g = bk_tenant_id b \<and> gu_id g = bk_guest_id b) (guests d)))
           (filter (\<lambda>b. bk_tenant_id b = tenant_id \<and> bk_property_id b = property_id \<and>
                (checked_out_only \<longrightarrow> bk_status b = ''checked_out'') \<and>
                (case departed_on of None \<Rightarrow> True | Some dep \<Rightarrow> last_night d b = Some (dep - 1)) \<and>
                0 < unpaid_balance d tenant_id (bk_id b)) (bookings d)))))"

definition list_folio_transactions :: "db \<Rightarrow> uuid \<Rightarrow> uuid \<Rightarrow> (folio_row list \<times> decimal) result" where
  "list_folio_transactions d tenant_id booking_id =
     r_bind (require_booking d tenant_id booking_id) (\<lambda>_.
       Inr (sort_key ft_created_at (sort_key ft_id (filter (of_folio tenant_id booking_id) (folio_transactions d))),
            compute_folio_balance d tenant_id booking_id))"

record folio_post =
  fp_entry_type :: string
  fp_amount :: decimal
  fp_category :: string
  fp_description :: "string option"
  fp_payment_method :: "string option"

definition code_char :: "char \<Rightarrow> bool" where
  "code_char c \<longleftrightarrow> (CHR ''a'' \<le> c \<and> c \<le> CHR ''z'') \<or> (CHR ''0'' \<le> c \<and> c \<le> CHR ''9'') \<or> c = CHR ''_''"

definition category_pattern :: "string \<Rightarrow> bool" where
  "category_pattern s = (case s of [] \<Rightarrow> False
     | c # cs \<Rightarrow> CHR ''a'' \<le> c \<and> c \<le> CHR ''z'' \<and> length cs \<le> 31 \<and> list_all code_char cs)"

definition strip_opt :: "string option \<Rightarrow> string option" where
  "strip_opt x = (case x of None \<Rightarrow> None | Some s \<Rightarrow> if s = [] then None else Some (py_strip s))"

definition folio_post_valid :: "folio_post \<Rightarrow> bool" where
  "folio_post_valid p \<longleftrightarrow>
     fp_entry_type p \<in> set [''charge'', ''payment''] \<and> 0 < fp_amount p \<and> category_pattern (fp_category p) \<and>
     (fp_entry_type p = ''payment'' \<longrightarrow> fp_category p = ''payment'') \<and>
     (fp_entry_type p = ''charge'' \<longrightarrow> fp_category p \<noteq> ''payment'') \<and>
     (fp_entry_type p = ''payment'' \<longrightarrow>
        (case fp_payment_method p of None \<Rightarrow> False | Some m \<Rightarrow> py_strip m \<noteq> []))"

definition insert_folio ::
  "uuid \<Rightarrow> uuid \<Rightarrow> string \<Rightarrow> decimal \<Rightarrow> string option \<Rightarrow> string option \<Rightarrow> uuid option \<Rightarrow> string \<Rightarrow>
   db \<Rightarrow> folio_row \<times> db" where
  "insert_folio tenant_id booking_id kind amount payment_method description created_by category d =
     (let row = \<lparr>ft_id = next_uuid d, ft_tenant_id = tenant_id, ft_booking_id = booking_id,
                 ft_transaction_type = kind, ft_amount = numeric2 amount, ft_payment_method = payment_method,
                 ft_description = description, ft_created_at = db_now d, ft_created_by = created_by,
                 ft_category = category, ft_source_channel = None\<rparr>
      in (row, d\<lparr>folio_transactions := folio_transactions d @ [row], next_uuid := next_uuid d + 1\<rparr>))"

definition add_folio_entry ::
  "db \<Rightarrow> uuid \<Rightarrow> uuid \<Rightarrow> folio_post \<Rightarrow> uuid option \<Rightarrow> (folio_row \<times> db) result" where
  "add_folio_entry d tenant_id booking_id body created_by =
     r_bind (require_booking d tenant_id booking_id) (\<lambda>_.
     r_bind (if fp_entry_type body = ''charge''
             then let (allowed, d) = active_category_codes d tenant_id
                  in if fp_category body \<notin> set allowed
                     then Inl (FolioError ''invalid category for charge'' 422)
                     else Inr (if fp_category body = ''discount'' then - \<bar>fp_amount body\<bar> else fp_amount body,
                               ''Charge'', None, d)
             else Inr (fp_amount body, ''Payment'', strip_opt (fp_payment_method body), d))
       (\<lambda>(stored_amount, tx_type, payment_method, d).
         let (tx, d) = insert_folio tenant_id booking_id tx_type (q_even stored_amount) payment_method
               (strip_opt (fp_description body)) created_by (fp_category body) d
         in Inr (tx, record_audit tenant_id ''folio.post'' ''folio_transaction'' (Some (ft_id tx)) d)))"

definition folio_at :: "db \<Rightarrow> uuid \<Rightarrow> uuid \<Rightarrow> uuid \<Rightarrow> folio_row option" where
  "folio_at d tenant_id booking_id transaction_id =
     find (\<lambda>r. of_folio tenant_id booking_id r \<and> ft_id r = transaction_id) (folio_transactions d)"

text \<open>\<open>uuid_str\<close> renders an identifier; it only feeds the description.\<close>

definition uuid_str :: "uuid \<Rightarrow> string" where
  "uuid_str u = num_str (of_int u)"

definition reverse_folio_transaction ::
  "db \<Rightarrow> uuid \<Rightarrow> uuid \<Rightarrow> uuid \<Rightarrow> uuid option \<Rightarrow> (folio_row \<times> db) result" where
  "reverse_folio_transaction d tenant_id booking_id transaction_id created_by =
     r_bind (require_booking d tenant_id booking_id) (\<lambda>_.
     r_bind (require (folio_at d tenant_id booking_id transaction_id)
               (FolioError ''folio transaction not found'' 404)) (\<lambda>tx.
     r_bind (guard (ft_amount tx \<noteq> 0) (FolioError ''cannot reverse zero-amount transaction'' 409)) (\<lambda>_.
       let (rev, d) = insert_folio tenant_id booking_id (ft_transaction_type tx) (q_even (- ft_amount tx))
             (ft_payment_method tx) (Some (''Reversal of '' @ uuid_str transaction_id)) created_by (ft_category tx) d
       in Inr (rev, record_audit tenant_id ''folio.reverse'' ''folio_transaction'' (Some (ft_id rev)) d))))"

subsection \<open>Generated tax lines\<close>

text \<open>\<^verbatim>\<open>LIKE '[country-pack-tax]%'\<close>: a prefix match, false for a missing description.\<close>

definition starts_with :: "string \<Rightarrow> string \<Rightarrow> bool" where
  "starts_with p s \<longleftrightarrow> take (length p) s = p"

definition generated_tax :: "uuid \<Rightarrow> uuid \<Rightarrow> folio_row \<Rightarrow> bool" where
  "generated_tax tenant_id booking_id r \<longleftrightarrow>
     of_folio tenant_id booking_id r \<and> ft_transaction_type r = ''Charge'' \<and> ft_category r = ''tax'' \<and>
     (case ft_description r of None \<Rightarrow> False | Some s \<Rightarrow> starts_with COUNTRY_PACK_TAX_PREFIX s)"

fun post_tax_lines :: "uuid \<Rightarrow> uuid \<Rightarrow> tax_line list \<Rightarrow> db \<Rightarrow> db" where
  "post_tax_lines tenant_id booking_id [] d = d"
| "post_tax_lines tenant_id booking_id (l # ls) d =
     post_tax_lines tenant_id booking_id ls
       (snd (insert_folio tenant_id booking_id ''Charge'' (q_even (tl_amount l)) None
          (Some (COUNTRY_PACK_TAX_PREFIX @ '' '' @ tl_code l @ '': '' @ tl_name l)) None ''tax'' d))"

definition property_at :: "db \<Rightarrow> uuid \<Rightarrow> uuid \<Rightarrow> property_row option" where
  "property_at d tenant_id property_id =
     find (\<lambda>p. pr_tenant_id p = tenant_id \<and> pr_id p = property_id) (properties d)"

text \<open>The posting for a property: \<^const>\<open>None\<close> where the source returns after the clean-up.\<close>

definition property_tax_posting :: "db \<Rightarrow> uuid \<Rightarrow> uuid \<Rightarrow> decimal \<Rightarrow> tax_posting option result" where
  "property_tax_posting d tenant_id property_id base =
     (case property_at d tenant_id property_id of
        None \<Rightarrow> Inr None
      | Some prop \<Rightarrow>
          (case pr_country_pack_code prop of
             None \<Rightarrow> Inr None
           | Some code \<Rightarrow>
               if code = [] then Inr None
               else let mode = (case get_tax_config d tenant_id property_id of
                                  None \<Rightarrow> Exclusive | Some cfg \<Rightarrow> tc_tax_mode cfg)
                    in if mode = Off then Inr None
                       else (case visible_pack d tenant_id (py_strip code) of
                               None \<Rightarrow> Inr None
                             | Some pack \<Rightarrow>
                                 r_bind (calculate_country_pack_tax_posting base (cp_taxes pack)
                                           ''room_charge'' (Some mode)) (\<lambda>p. Inr (Some p)))))"

definition replace_country_pack_tax_charges ::
  "db \<Rightarrow> uuid \<Rightarrow> uuid \<Rightarrow> uuid \<Rightarrow> decimal \<Rightarrow> (decimal \<times> db) result" where
  "replace_country_pack_tax_charges d tenant_id booking_id property_id base_room_charge =
     r_bind (require_booking d tenant_id booking_id) (\<lambda>_.
       let d = d\<lparr>folio_transactions := delete_rows (generated_tax tenant_id booking_id) (folio_transactions d)\<rparr>
       in r_bind (property_tax_posting d tenant_id property_id base_room_charge) (\<lambda>posting.
            case posting of
              None \<Rightarrow> Inr (q_even base_room_charge, d)
            | Some p \<Rightarrow> Inr (tp_room_charge_amount p, post_tax_lines tenant_id booking_id (tp_lines p) d)))"


subsection \<open>Balance as a sum\<close>

definition signed_amount :: "folio_row \<Rightarrow> decimal" where
  "signed_amount r =
     (if ft_transaction_type r = ''Charge'' then ft_amount r
      else if ft_transaction_type r = ''Payment'' then - ft_amount r else 0)"

definition folio_weight :: "uuid \<Rightarrow> uuid \<Rightarrow> folio_row \<Rightarrow> decimal" where
  "folio_weight t b r = (if of_folio t b r then signed_amount r else 0)"

interpretation folio_sum: measured_table "folio_weight t b" "of_folio t b" for t b
  by unfold_locales (simp add: folio_weight_def)

definition folio_cents :: "db \<Rightarrow> bool" where
  "folio_cents d \<longleftrightarrow> list_all (\<lambda>r. in_cents (ft_amount r)) (folio_transactions d)"

definition folio_wf :: "db \<Rightarrow> bool" where
  "folio_wf d \<longleftrightarrow> folio_cents d \<and> distinct (map ft_id (folio_transactions d)) \<and>
     list_all (\<lambda>r. ft_id r < next_uuid d) (folio_transactions d)"

lemma signed_amount_cents: "in_cents (ft_amount r) \<Longrightarrow> in_cents (signed_amount r)"
  by (auto simp: signed_amount_def)

lemma case_sums_measure:
  "case_sum ''Charge'' (filter (of_folio t b) rows) - case_sum ''Payment'' (filter (of_folio t b) rows) =
   measure_of (folio_weight t b) rows"
  by (induction rows) (auto simp: case_sum_def measure_of_def folio_weight_def signed_amount_def)

lemma measure_cents: "folio_cents d \<Longrightarrow> in_cents (measure_of (folio_weight t b) (folio_transactions d))"
  unfolding measure_of_def folio_cents_def
  by (rule in_cents_sum_list) (auto simp: folio_weight_def list_all_iff signed_amount_cents)

lemma balance_measure:
  "folio_cents d \<Longrightarrow> compute_folio_balance d t b = measure_of (folio_weight t b) (folio_transactions d)"
  unfolding compute_folio_balance_def Let_def case_sums_measure
  by (rule half_even.quantize_exact [OF measure_cents])

lemma insert_folio_simps [simp]:
  "folio_transactions (snd (insert_folio t b k a pm ds cb c d)) =
     folio_transactions d @ [fst (insert_folio t b k a pm ds cb c d)]"
  "ft_tenant_id (fst (insert_folio t b k a pm ds cb c d)) = t"
  "ft_booking_id (fst (insert_folio t b k a pm ds cb c d)) = b"
  "ft_amount (fst (insert_folio t b k a pm ds cb c d)) = numeric2 a"
  "ft_transaction_type (fst (insert_folio t b k a pm ds cb c d)) = k"
  "ft_category (fst (insert_folio t b k a pm ds cb c d)) = c"
  "ft_description (fst (insert_folio t b k a pm ds cb c d)) = ds"
  "ft_created_at (fst (insert_folio t b k a pm ds cb c d)) = db_now d"
  "ft_id (fst (insert_folio t b k a pm ds cb c d)) = next_uuid d"
  "next_uuid (snd (insert_folio t b k a pm ds cb c d)) = next_uuid d + 1"
  "bookings (snd (insert_folio t b k a pm ds cb c d)) = bookings d"
  "booking_lines (snd (insert_folio t b k a pm ds cb c d)) = booking_lines d"
  "ledger (snd (insert_folio t b k a pm ds cb c d)) = ledger d"
  "rooms (snd (insert_folio t b k a pm ds cb c d)) = rooms d"
  "room_types (snd (insert_folio t b k a pm ds cb c d)) = room_types d"
  "properties (snd (insert_folio t b k a pm ds cb c d)) = properties d"
  "country_packs (snd (insert_folio t b k a pm ds cb c d)) = country_packs d"
  "tax_configs (snd (insert_folio t b k a pm ds cb c d)) = tax_configs d"
  "db_now (snd (insert_folio t b k a pm ds cb c d)) = db_now d"
  by (simp_all add: insert_folio_def Let_def)

lemma folio_wf_insert:
  "folio_wf d \<Longrightarrow> folio_wf (snd (insert_folio t b k a pm ds cb c d))"
  unfolding folio_wf_def folio_cents_def by (fastforce simp: list_all_iff)

lemma ensure_builtin_folio [simp]:
  "folio_transactions (ensure_builtin_categories t d) = folio_transactions d"
  "bookings (ensure_builtin_categories t d) = bookings d"
proof -
  have "folio_transactions (ensure_rows t rs d) = folio_transactions d \<and> bookings (ensure_rows t rs d) = bookings d" for rs
    by (induction rs arbitrary: d rule: list.induct)
      (auto simp: insert_category_def Let_def split: option.splits)
  then show "folio_transactions (ensure_builtin_categories t d) = folio_transactions d"
    "bookings (ensure_builtin_categories t d) = bookings d"
    by (simp_all add: ensure_builtin_categories_def)
qed

lemma balance_append:
  assumes "folio_cents d" "folio_transactions d' = folio_transactions d @ [tx]" "in_cents (ft_amount tx)"
  shows "folio_cents d' \<and> compute_folio_balance d' t b = compute_folio_balance d t b + folio_weight t b tx"
proof -
  have "folio_cents d'" using assms by (simp add: folio_cents_def)
  then show ?thesis
    using assms by (simp add: balance_measure folio_sum.measure_append folio_sum.measure_Cons folio_sum.measure_Nil)
qed

lemma add_folio_entry_charge:
  assumes "add_folio_entry d t b body u = Inr (tx, d')" "fp_entry_type body = ''charge''"
  shows "folio_transactions d' = folio_transactions d @ [tx] \<and> of_folio t b tx \<and> ft_transaction_type tx = ''Charge'' \<and>
    ft_amount tx = q_even (if fp_category body = ''discount'' then - \<bar>fp_amount body\<bar> else fp_amount body)"
  using assms
  by (auto simp: add_folio_entry_def active_category_codes_def Let_def of_folio_def case_prod_beta
      half_even.quantize_in_cents split: if_splits)

lemma add_folio_entry_payment:
  assumes "add_folio_entry d t b body u = Inr (tx, d')" "fp_entry_type body \<noteq> ''charge''"
  shows "folio_transactions d' = folio_transactions d @ [tx] \<and> of_folio t b tx \<and> ft_transaction_type tx = ''Payment'' \<and>
    ft_amount tx = q_even (fp_amount body)"
  using assms
  by (auto simp: add_folio_entry_def Let_def of_folio_def case_prod_beta half_even.quantize_in_cents)

text \<open>
  Posting an entry moves the balance of its own folio by the entry and no other: a charge
  raises it by the amount rounded to cents, a discount or a payment lowers it by as much.
\<close>

theorem folio_entry_effect:
  assumes "folio_cents d" "folio_post_valid body"
    and "add_folio_entry d t b body u = Inr (tx, d')"
  shows "compute_folio_balance d' t' b' = compute_folio_balance d t' b' +
    (if t' \<noteq> t \<or> b' \<noteq> b then 0
     else if fp_entry_type body = ''charge'' \<and> fp_category body \<noteq> ''discount''
     then q_even (fp_amount body) else - q_even (fp_amount body))"
proof -
  have pos: "0 < fp_amount body" using assms(2) by (simp add: folio_post_valid_def)
  have tx: "folio_transactions d' = folio_transactions d @ [tx] \<and> of_folio t b tx \<and> in_cents (ft_amount tx) \<and>
    signed_amount tx = (if fp_entry_type body = ''charge'' \<and> fp_category body \<noteq> ''discount''
       then q_even (fp_amount body) else - q_even (fp_amount body))"
  proof (cases "fp_entry_type body = ''charge''")
    case True
    with add_folio_entry_charge [OF assms(3)] pos show ?thesis
      by (simp add: signed_amount_def q_even_uminus half_even.quantize_in_cents in_cents_uminus)
  next
    case False
    with add_folio_entry_payment [OF assms(3)] show ?thesis
      by (simp add: signed_amount_def half_even.quantize_in_cents)
  qed
  then have "of_folio t' b' tx \<longleftrightarrow> t' = t \<and> b' = b" by (auto simp: of_folio_def)
  with tx balance_append [OF assms(1), of d' tx t' b'] show ?thesis by (simp add: folio_weight_def)
qed

definition demo_folio_db :: db where
  "demo_folio_db = demo_db\<lparr>bookings := [\<lparr>bk_id = 900, bk_tenant_id = 1, bk_property_id = 10, bk_guest_id = 800,
     bk_rate_plan_id = Some 30, bk_external_booking_id = None, bk_status = ''confirmed'', bk_source = ''api'',
     bk_total_amount = 200, bk_notes = None\<rparr>],
   folio_transactions := [\<lparr>ft_id = 901, ft_tenant_id = 1, ft_booking_id = 900, ft_transaction_type = ''Charge'',
     ft_amount = 200, ft_payment_method = None, ft_description = Some ''Room charge (stay)'', ft_created_at = 0,
     ft_created_by = None, ft_category = ''room_charge'', ft_source_channel = None\<rparr>]\<rparr>"

definition demo_discount :: folio_post where
  "demo_discount = \<lparr>fp_entry_type = ''charge'', fp_amount = 25/2, fp_category = ''discount'',
     fp_description = None, fp_payment_method = None\<rparr>"

theorem folio_entry_effect_witness:
  "\<exists>tx d'. add_folio_entry demo_folio_db 1 900 demo_discount None = Inr (tx, d') \<and>
     compute_folio_balance d' 1 900 = 375/2"
proof -
  have "case add_folio_entry demo_folio_db 1 900 demo_discount None of Inl _ \<Rightarrow> False | Inr _ \<Rightarrow> True"
    by code_simp
  then obtain tx d' where run: "add_folio_entry demo_folio_db 1 900 demo_discount None = Inr (tx, d')"
    by (auto split: sum.splits)
  have "folio_cents demo_folio_db" "folio_post_valid demo_discount"
    "compute_folio_balance demo_folio_db 1 900 = 200" "q_even (fp_amount demo_discount) = 25/2"
    "fp_entry_type demo_discount = ''charge''" "fp_category demo_discount = ''discount''"
    by code_simp+
  with folio_entry_effect [OF _ _ run, of 1 900] run show ?thesis by simp
qed

subsection \<open>Reversal\<close>

text \<open>
  C5. A reversal appends one row and cancels the transaction it names: the balance becomes what
  it would be without that transaction, no earlier row changes and no other folio is touched.
\<close>

theorem reversal_cancels:
  assumes "folio_wf d" "folio_at d t b i = Some tx"
    and "reverse_folio_transaction d t b i u = Inr (rv, d')"
  shows "folio_transactions d' = folio_transactions d @ [rv] \<and> folio_wf d' \<and>
    signed_amount rv = - signed_amount tx \<and>
    compute_folio_balance d' t b = compute_folio_balance (d\<lparr>folio_transactions :=
      delete_rows (\<lambda>r. ft_id r = i) (folio_transactions d)\<rparr>) t b \<and>
    (\<forall>t' b'. (t', b') \<noteq> (t, b) \<longrightarrow> compute_folio_balance d' t' b' = compute_folio_balance d t' b')"
proof -
  have mem: "tx \<in> set (folio_transactions d)" "of_folio t b tx" "ft_id tx = i"
    using find_Some_mem [of _ _ tx] assms(2) unfolding folio_at_def by blast+
  have cents: "folio_cents d" "in_cents (ft_amount tx)"
    using assms(1) mem(1) by (auto simp: folio_wf_def folio_cents_def list_all_iff)
  from assms(3) have rv: "folio_transactions d' = folio_transactions d @ [rv]" "of_folio t b rv"
      "ft_amount rv = - ft_amount tx" "ft_transaction_type rv = ft_transaction_type tx" "folio_wf d'"
    using cents folio_wf_insert [OF assms(1)]
    by (auto simp: reverse_folio_transaction_def Let_def assms(2) q_even_uminus of_folio_def case_prod_beta
        half_even.quantize_exact in_cents_uminus folio_wf_def folio_cents_def split: if_splits)
  have signed: "signed_amount rv = - signed_amount tx"
    using rv by (simp add: signed_amount_def)
  have only: "filter (\<lambda>r. ft_id r = i) (folio_transactions d) = [tx]"
    using assms(1) mem by (auto simp: folio_wf_def intro: filter_unique_key)
  have del: "compute_folio_balance (d\<lparr>folio_transactions := delete_rows (\<lambda>r. ft_id r = i) (folio_transactions d)\<rparr>) t b
      = compute_folio_balance d t b - signed_amount tx"
    using cents mem(2) by (simp add: balance_measure folio_cents_def list_all_iff folio_sum.measure_delete only
        folio_sum.measure_Cons folio_sum.measure_Nil folio_weight_def)
  have app: "compute_folio_balance d' t' b' = compute_folio_balance d t' b' + folio_weight t' b' rv" for t' b'
    using balance_append [OF cents(1) rv(1)] rv(3) cents(2) by (simp add: in_cents_uminus)
  show ?thesis
    using rv signed del app by (auto simp: folio_weight_def of_folio_def)
qed

theorem reversal_cancels_witness:
  "\<exists>rv d'. reverse_folio_transaction demo_folio_db 1 900 901 None = Inr (rv, d') \<and>
     compute_folio_balance d' 1 900 = 0"
proof -
  have "case reverse_folio_transaction demo_folio_db 1 900 901 None of Inl _ \<Rightarrow> False | Inr _ \<Rightarrow> True"
    by code_simp
  then obtain rv d' where run: "reverse_folio_transaction demo_folio_db 1 900 901 None = Inr (rv, d')"
    by (auto split: sum.splits)
  have wf: "folio_wf demo_folio_db" by code_simp
  have "case folio_at demo_folio_db 1 900 901 of None \<Rightarrow> False | Some r \<Rightarrow> True" by code_simp
  then obtain tx where tx: "folio_at demo_folio_db 1 900 901 = Some tx" by (auto split: option.splits)
  have "compute_folio_balance (demo_folio_db\<lparr>folio_transactions :=
      delete_rows (\<lambda>r. ft_id r = 901) (folio_transactions demo_folio_db)\<rparr>) 1 900 = 0"
    by code_simp
  with reversal_cancels [OF wf tx run] run show ?thesis by simp
qed

subsection \<open>Replacing the generated tax lines\<close>

definition no_id :: "folio_row \<Rightarrow> folio_row" where
  "no_id r = r\<lparr>ft_id := 0\<rparr>"

definition tax_row :: "uuid \<Rightarrow> uuid \<Rightarrow> timestamp \<Rightarrow> uuid \<Rightarrow> tax_line \<Rightarrow> folio_row" where
  "tax_row t b now i l = \<lparr>ft_id = i, ft_tenant_id = t, ft_booking_id = b, ft_transaction_type = ''Charge'',
     ft_amount = numeric2 (q_even (tl_amount l)), ft_payment_method = None,
     ft_description = Some (COUNTRY_PACK_TAX_PREFIX @ '' '' @ tl_code l @ '': '' @ tl_name l),
     ft_created_at = now, ft_created_by = None, ft_category = ''tax'', ft_source_channel = None\<rparr>"

fun tax_rows :: "uuid \<Rightarrow> uuid \<Rightarrow> timestamp \<Rightarrow> uuid \<Rightarrow> tax_line list \<Rightarrow> folio_row list" where
  "tax_rows t b now i [] = []"
| "tax_rows t b now i (l # ls) = tax_row t b now i l # tax_rows t b now (i + 1) ls"

lemma post_tax_lines_eq:
  "post_tax_lines t b ls d = d\<lparr>folio_transactions := folio_transactions d @ tax_rows t b (db_now d) (next_uuid d) ls,
     next_uuid := next_uuid d + int (length ls)\<rparr>"
proof (induction ls arbitrary: d)
  case (Cons l ls)
  show ?case by (simp add: Cons insert_folio_def Let_def tax_row_def)
qed simp

lemma generated_tax_row [simp]: "generated_tax t b (tax_row t b now i l)"
  by (simp add: generated_tax_def tax_row_def of_folio_def starts_with_def)

lemma generated_tax_rows: "r \<in> set (tax_rows t b now i ls) \<Longrightarrow> generated_tax t b r"
  by (induction ls arbitrary: i) auto

lemma no_id_tax_rows: "map no_id (tax_rows t b now i ls) = map (tax_row t b now 0) ls"
  by (induction ls arbitrary: i) (simp_all add: no_id_def tax_row_def)

lemma delete_generated:
  "delete_rows (generated_tax t b) (delete_rows (generated_tax t b) rows @ tax_rows t b now i ls) =
   delete_rows (generated_tax t b) rows"
  using generated_tax_rows by (auto simp: delete_rows_def filter_empty_conv)

lemma property_tax_posting_cong:
  "properties d = properties d' \<Longrightarrow> tax_configs d = tax_configs d' \<Longrightarrow> country_packs d = country_packs d' \<Longrightarrow>
   property_tax_posting d t p base = property_tax_posting d' t p base"
proof -
  assume eq: "properties d = properties d'" "tax_configs d = tax_configs d'" "country_packs d = country_packs d'"
  then have views: "property_at d = property_at d'" "get_tax_config d = get_tax_config d'"
      "visible_pack d = visible_pack d'"
    by (simp_all add: fun_eq_iff property_at_def get_tax_config_def visible_pack_def)
  show ?thesis unfolding property_tax_posting_def views ..
qed

text \<open>The operation in closed form: what it returns and which rows it leaves.\<close>

definition with_tax_rows :: "uuid \<Rightarrow> uuid \<Rightarrow> tax_line list \<Rightarrow> db \<Rightarrow> db" where
  "with_tax_rows t b ls d = d\<lparr>folio_transactions := delete_rows (generated_tax t b) (folio_transactions d) @
     tax_rows t b (db_now d) (next_uuid d) ls, next_uuid := next_uuid d + int (length ls)\<rparr>"

definition posted :: "decimal \<Rightarrow> tax_posting option \<Rightarrow> decimal \<times> tax_line list" where
  "posted base p = (case p of None \<Rightarrow> (q_even base, []) | Some p \<Rightarrow> (tp_room_charge_amount p, tp_lines p))"

lemma replace_eq:
  "replace_country_pack_tax_charges d t b p base =
     r_bind (require_booking d t b) (\<lambda>_. r_bind (property_tax_posting d t p base) (\<lambda>posting.
       Inr (fst (posted base posting), with_tax_rows t b (snd (posted base posting)) d)))"
proof -
  have post: "property_tax_posting (d\<lparr>folio_transactions := x\<rparr>) t p base = property_tax_posting d t p base" for x
    by (rule property_tax_posting_cong) simp_all
  show ?thesis
    unfolding replace_country_pack_tax_charges_def Let_def post
    by (intro r_bind_cong refl)
      (auto simp: posted_def with_tax_rows_def post_tax_lines_eq split: option.splits)
qed

lemma replace_Inr:
  assumes "replace_country_pack_tax_charges d t b p base = Inr (room, d')"
  obtains posting bk where "booking_at d t b = Some bk" "property_tax_posting d t p base = Inr posting"
    "room = fst (posted base posting)" "d' = with_tax_rows t b (snd (posted base posting)) d"
  using assms by (auto simp: replace_eq require_booking_def)

lemma balance_no_id:
  assumes "map no_id (folio_transactions d) = map no_id (folio_transactions d')"
  shows "compute_folio_balance d t b = compute_folio_balance d' t b"
proof -
  have w: "folio_weight t b \<circ> no_id = folio_weight t b"
    by (auto simp: fun_eq_iff folio_weight_def no_id_def of_folio_def signed_amount_def)
  have "map (folio_weight t b) (folio_transactions x) = map (folio_weight t b) (map no_id (folio_transactions x))" for x
    by (simp add: w)
  then have "measure_of (folio_weight t b) (folio_transactions d) = measure_of (folio_weight t b) (folio_transactions d')"
    using assms unfolding measure_of_def by metis
  then show ?thesis
    unfolding compute_folio_balance_def Let_def case_sums_measure by simp
qed

text \<open>
  Replacing the generated tax lines touches nothing but them, and doing it again changes
  nothing but their identifiers: the same room charge is returned and the same rows stand in
  the folio.
\<close>

theorem replace_tax_charges_idempotent:
  assumes "replace_country_pack_tax_charges d t b p base = Inr (room, d')"
  shows "delete_rows (generated_tax t b) (folio_transactions d') = delete_rows (generated_tax t b) (folio_transactions d) \<and>
    d'\<lparr>folio_transactions := [], next_uuid := 0\<rparr> = d\<lparr>folio_transactions := [], next_uuid := 0\<rparr> \<and>
    (\<exists>d''. replace_country_pack_tax_charges d' t b p base = Inr (room, d'') \<and>
       map no_id (folio_transactions d'') = map no_id (folio_transactions d') \<and>
       (\<forall>t' b'. compute_folio_balance d'' t' b' = compute_folio_balance d' t' b'))"
proof -
  obtain posting bk where p: "booking_at d t b = Some bk" "property_tax_posting d t p base = Inr posting"
    "room = fst (posted base posting)" "d' = with_tax_rows t b (snd (posted base posting)) d"
    using replace_Inr [OF assms] .
  define ls d'' where "ls = snd (posted base posting)" and "d'' = with_tax_rows t b ls d'"
  have "property_tax_posting d' t p base = property_tax_posting d t p base"
    by (rule property_tax_posting_cong) (simp_all add: p(4) with_tax_rows_def)
  moreover have "booking_at d' t b = booking_at d t b"
    by (simp add: p(4) with_tax_rows_def booking_at_def)
  ultimately have run: "replace_country_pack_tax_charges d' t b p base = Inr (room, d'')"
    using p by (simp add: replace_eq require_booking_def d''_def ls_def)
  have rows: "map no_id (folio_transactions d'') = map no_id (folio_transactions d')"
    by (simp add: d''_def p(4) with_tax_rows_def ls_def delete_generated no_id_tax_rows)
  have "compute_folio_balance d'' t' b' = compute_folio_balance d' t' b'" for t' b'
    by (rule balance_no_id [OF rows])
  with run rows show ?thesis
    by (auto simp: p(4) with_tax_rows_def delete_generated)
qed

theorem replace_tax_charges_idempotent_witness:
  "\<exists>d' d''. replace_country_pack_tax_charges demo_folio_db 1 900 10 200 = Inr (200, d') \<and>
     replace_country_pack_tax_charges d' 1 900 10 200 = Inr (200, d'') \<and>
     compute_folio_balance d'' 1 900 = compute_folio_balance d' 1 900"
proof -
  have "case replace_country_pack_tax_charges demo_folio_db 1 900 10 200 of Inl _ \<Rightarrow> False | Inr (room, _) \<Rightarrow> room = 200"
    by code_simp
  then obtain d' where "replace_country_pack_tax_charges demo_folio_db 1 900 10 200 = Inr (200, d')"
    by (auto split: sum.splits)
  with replace_tax_charges_idempotent [OF this] show ?thesis by auto
qed

end
