(* ===== verification/Extension.thy ===== *)
theory Extension
  imports Demo
begin

text \<open>
  Country-pack extensions (\<^verbatim>\<open>app/services/extension_service.py\<close>): the registry, the activation of
  an extension on a property and the guest data a property requires at check-in.
\<close>

record extension_create =
  ec_country_code :: "string option"
  ec_code :: string
  ec_name :: string
  ec_webhook_url :: string
  ec_required_fields :: "string list"
  ec_ui_config_schema :: "json option"

definition extension_by_code :: "db \<Rightarrow> uuid \<Rightarrow> string \<Rightarrow> extension_row option" where
  "extension_by_code d tenant_id code =
     find (\<lambda>e. ex_tenant_id e = tenant_id \<and> ex_code e = code) (extensions d)"

definition register_extension :: "db \<Rightarrow> uuid \<Rightarrow> extension_create \<Rightarrow> (extension_row \<times> db) result" where
  "register_extension d tenant_id data =
     (case extension_by_code d tenant_id (py_strip (ec_code data)) of
        Some _ \<Rightarrow> Inl (ExtensionServiceError ''extension code already registered'' 409)
      | None \<Rightarrow>
          let row = \<lparr>ex_id = next_uuid d, ex_tenant_id = tenant_id, ex_country_code = ec_country_code data,
                     ex_code = py_strip (ec_code data), ex_name = py_strip (ec_name data),
                     ex_webhook_url = py_strip (ec_webhook_url data),
                     ex_required_fields = JList (map JStr (ec_required_fields data)),
                     ex_ui_config_schema = ec_ui_config_schema data, ex_is_active = True\<rparr>
          in Inr (row, d\<lparr>extensions := extensions d @ [row], next_uuid := next_uuid d + 1\<rparr>))"

definition list_extensions :: "db \<Rightarrow> uuid \<Rightarrow> string option \<Rightarrow> extension_row list" where
  "list_extensions d tenant_id country_code =
     sort_key ex_code (filter (\<lambda>e. ex_tenant_id e = tenant_id \<and>
       (case country_code of None \<Rightarrow> True
        | Some cc \<Rightarrow> ex_country_code e = Some (py_upper (py_strip cc)) \<or> ex_country_code e = None)) (extensions d))"

definition upsert_property_extension ::
  "db \<Rightarrow> uuid \<Rightarrow> uuid \<Rightarrow> uuid \<Rightarrow> json option \<Rightarrow> bool \<Rightarrow> (property_extension_row \<times> db) result" where
  "upsert_property_extension d tenant_id property_id extension_id config is_active =
     r_bind (require (find (\<lambda>p. pr_tenant_id p = tenant_id \<and> pr_id p = property_id) (properties d))
               (ExtensionServiceError ''property not found'' 404)) (\<lambda>_.
     r_bind (require (find (\<lambda>e. ex_tenant_id e = tenant_id \<and> ex_id e = extension_id) (extensions d))
               (ExtensionServiceError ''extension not found'' 404)) (\<lambda>_.
       case find (\<lambda>r. pe_tenant_id r = tenant_id \<and> pe_property_id r = property_id \<and>
                      pe_extension_id r = extension_id) (property_extensions d) of
         None \<Rightarrow>
           let row = \<lparr>pe_id = next_uuid d, pe_tenant_id = tenant_id, pe_property_id = property_id,
                      pe_extension_id = extension_id, pe_config = config, pe_is_active = is_active\<rparr>
           in Inr (row, d\<lparr>property_extensions := property_extensions d @ [row], next_uuid := next_uuid d + 1\<rparr>)
       | Some old \<Rightarrow>
           let row = old\<lparr>pe_config := config, pe_is_active := is_active\<rparr>
           in Inr (row, d\<lparr>property_extensions :=
                update_rows (\<lambda>r. pe_id r = pe_id old) (\<lambda>_. row) (property_extensions d)\<rparr>)))"

text \<open>
  \<^verbatim>\<open>getattr(guest, field, None)\<close> over the columns of a guest: columns that cannot be null are
  present unless they hold a blank string; an unknown attribute is absent.
\<close>

definition text_present :: "string \<Rightarrow> bool" where
  "text_present s \<longleftrightarrow> py_strip s \<noteq> []"

definition opt_text_present :: "string option \<Rightarrow> bool" where
  "opt_text_present x = (case x of None \<Rightarrow> False | Some s \<Rightarrow> text_present s)"

definition guest_field_present :: "guest_row \<Rightarrow> string \<Rightarrow> bool" where
  "guest_field_present g field =
     (if field \<in> set [''id'', ''tenant_id'', ''vip_status'', ''created_at'', ''updated_at''] then True
      else if field = ''first_name'' then text_present (gu_first_name g)
      else if field = ''last_name'' then text_present (gu_last_name g)
      else if field = ''email'' then text_present (gu_email g)
      else if field = ''phone'' then text_present (gu_phone g)
      else if field = ''passport_data'' then opt_text_present (gu_passport_data g)
      else if field = ''nationality'' then opt_text_present (gu_nationality g)
      else if field = ''notes'' then opt_text_present (gu_notes g)
      else if field = ''date_of_birth'' then gu_date_of_birth g \<noteq> None
      else False)"

definition missing_fields :: "guest_row \<Rightarrow> json \<Rightarrow> string list" where
  "missing_fields g rf = (case rf of
       JList xs \<Rightarrow> filter (\<lambda>k. k \<noteq> [] \<and> \<not> guest_field_present g k) (map (\<lambda>x. py_strip (py_str x)) xs)
     | _ \<Rightarrow> [])"

definition validate_extension_required_fields_for_checkin ::
  "db \<Rightarrow> uuid \<Rightarrow> uuid \<Rightarrow> guest_row \<Rightarrow> string list" where
  "validate_extension_required_fields_for_checkin d tenant_id property_id guest =
     (let links = filter (\<lambda>r. pe_tenant_id r = tenant_id \<and> pe_property_id r = property_id \<and> pe_is_active r)
                    (property_extensions d)
      in concat (map (\<lambda>ln.
           case find (\<lambda>e. ex_tenant_id e = tenant_id \<and> ex_id e = pe_extension_id ln \<and> ex_is_active e) (extensions d) of
             None \<Rightarrow> []
           | Some ext \<Rightarrow>
               let missing = missing_fields guest (ex_required_fields ext)
               in if missing = [] then []
                  else [ex_code ext @ '' requires: '' @ join '', '' missing]) links))"

definition list_property_extensions :: "db \<Rightarrow> uuid \<Rightarrow> uuid \<Rightarrow> property_extension_row list" where
  "list_property_extensions d tenant_id property_id =
     filter (\<lambda>r. pe_tenant_id r = tenant_id \<and> pe_property_id r = property_id) (property_extensions d)"

text \<open>
  Check-in is allowed exactly when every active extension of the property finds each of its
  required fields on the guest.
\<close>

lemma checkin_allowed_iff:
  "validate_extension_required_fields_for_checkin d t p g = [] \<longleftrightarrow>
   (\<forall>ln\<in>set (property_extensions d). pe_tenant_id ln = t \<and> pe_property_id ln = p \<and> pe_is_active ln \<longrightarrow>
      (case find (\<lambda>e. ex_tenant_id e = t \<and> ex_id e = pe_extension_id ln \<and> ex_is_active e) (extensions d) of
         None \<Rightarrow> True | Some ext \<Rightarrow> missing_fields g (ex_required_fields ext) = []))"
  by (auto simp: validate_extension_required_fields_for_checkin_def Let_def split: option.splits if_splits)

end
