(* ===== verification/Booking.thy ===== *)
theory Booking
  imports Availability Pricing Folio Extension
begin

text \<open>
  The booking service (\<^verbatim>\<open>app/services/booking_service.py\<close>): creating, assigning a room to, patching
  and deleting a booking, with the guest lookup, and the read side (the tape). Details of an
  error text that interpolate dates are cut to their constant prefix.

  Only \<open>patch_booking\<close> can run a query while assigned attributes are not yet flushed; it works
  on a \<open>session\<close> (theory Schema), the others on the database itself. The conflict query of
  \<open>assign_booking_room\<close> excludes the booking being changed, so both views answer it alike.
\<close>

subsection \<open>Requests\<close>

record guest_payload =
  gp_first_name :: string
  gp_last_name :: string
  gp_email :: string
  gp_phone :: string
  gp_passport_data :: "string option"

record booking_create =
  cb_property_id :: uuid
  cb_room_type_id :: uuid
  cb_rate_plan_id :: uuid
  cb_check_in :: date
  cb_check_out :: date
  cb_guest :: guest_payload
  cb_status :: string
  cb_source :: string
  cb_force_new_guest :: bool
  cb_external_booking_id :: "string option"

definition booking_create_valid :: "booking_create \<Rightarrow> bool" where
  "booking_create_valid body \<longleftrightarrow>
     cb_status body \<in> set [''pending'', ''confirmed''] \<and> cb_check_in body < cb_check_out body \<and>
     cb_check_out body - cb_check_in body \<le> int MAX_STAY_NIGHTS"

record booking_created =
  bc_booking_id :: uuid
  bc_guest_id :: uuid
  bc_total_amount :: decimal
  bc_nights :: "(date \<times> decimal) list"
  bc_guest_merged :: bool

text \<open>
  A patch: the outer option says whether the key was sent (\<^verbatim>\<open>exclude_unset\<close>), the inner one is the
  value, which may be null.
\<close>

record booking_patch =
  pb_room_id :: "uuid option option"
  pb_status :: "string option option"
  pb_check_in :: "date option option"
  pb_check_out :: "date option option"
  pb_cancellation_reason :: "string option option"
  pb_notes :: "string option option"

subsection \<open>Guests and context of a booking\<close>

definition guest_by_email :: "db \<Rightarrow> uuid \<Rightarrow> string \<Rightarrow> guest_row option" where
  "guest_by_email d tenant_id email =
     find (\<lambda>g. gu_tenant_id g = tenant_id \<and> gu_email g = email) (guests d)"

definition insert_guest :: "uuid \<Rightarrow> guest_payload \<Rightarrow> db \<Rightarrow> guest_row \<times> db" where
  "insert_guest tenant_id payload d =
     (let g = \<lparr>gu_id = next_uuid d, gu_tenant_id = tenant_id,
               gu_first_name = py_strip (gp_first_name payload), gu_last_name = py_strip (gp_last_name payload),
               gu_email = py_lower (py_strip (gp_email payload)), gu_phone = py_strip (gp_phone payload),
               gu_passport_data = strip_opt (gp_passport_data payload), gu_nationality = None,
               gu_date_of_birth = None, gu_notes = None, gu_vip_status = False, gu_updated_at = db_now d\<rparr>
      in (g, d\<lparr>guests := guests d @ [g], next_uuid := next_uuid d + 1\<rparr>))"

text \<open>
  The flush in the nested transaction violates the unique constraint on tenant and email
  exactly when the address is taken. Without \<open>force_new_guest\<close> the address was looked up
  before, in the same transaction, so the second lookup of the source is not reached.
\<close>

definition get_or_create_guest_for_booking ::
  "db \<Rightarrow> uuid \<Rightarrow> guest_payload \<Rightarrow> bool \<Rightarrow> (guest_row \<times> bool \<times> db) result" where
  "get_or_create_guest_for_booking d tenant_id payload force_new_guest =
     (let email_norm = py_lower (py_strip (gp_email payload))
      in case guest_by_email d tenant_id email_norm of
           Some existing \<Rightarrow> if force_new_guest then Inl GuestConflictError else Inr (existing, True, d)
         | None \<Rightarrow> let (g, d) = insert_guest tenant_id payload d in Inr (g, False, d))"

definition require_room_type_on_property :: "db \<Rightarrow> uuid \<Rightarrow> uuid \<Rightarrow> uuid \<Rightarrow> room_type_row result" where
  "require_room_type_on_property d tenant_id property_id room_type_id =
     require (find (\<lambda>r. rt_tenant_id r = tenant_id \<and> rt_id r = room_type_id \<and>
                        rt_property_id r = property_id \<and> rt_deleted_at r = None) (room_types d))
       (InvalidBookingContextError ''room_type not found for this property'')"

definition require_rate_plan_on_property :: "db \<Rightarrow> uuid \<Rightarrow> uuid \<Rightarrow> uuid \<Rightarrow> rate_plan_row result" where
  "require_rate_plan_on_property d tenant_id property_id rate_plan_id =
     require (find (\<lambda>r. rp_tenant_id r = tenant_id \<and> rp_id r = rate_plan_id \<and>
                        rp_property_id r = property_id) (rate_plans d))
       (InvalidBookingContextError ''rate_plan not found for this property'')"

subsection \<open>Lines of a booking\<close>

definition of_booking :: "uuid \<Rightarrow> uuid \<Rightarrow> line_row \<Rightarrow> bool" where
  "of_booking tenant_id booking_id l \<longleftrightarrow> bl_tenant_id l = tenant_id \<and> bl_booking_id l = booking_id"

definition lines_of :: "db \<Rightarrow> booking_row \<Rightarrow> line_row list" where
  "lines_of d b = filter (of_booking (bk_tenant_id b) (bk_id b)) (booking_lines d)"

fun line_rows :: "uuid \<Rightarrow> uuid \<Rightarrow> uuid \<Rightarrow> uuid \<Rightarrow> (date \<times> decimal) list \<Rightarrow> line_row list" where
  "line_rows i tenant_id booking_id room_type_id [] = []"
| "line_rows i tenant_id booking_id room_type_id ((night, price) # ns) =
     \<lparr>bl_id = i, bl_tenant_id = tenant_id, bl_booking_id = booking_id, bl_date = night,
      bl_room_type_id = room_type_id, bl_room_id = None, bl_price_for_date = numeric2 price\<rparr>
     # line_rows (i + 1) tenant_id booking_id room_type_id ns"

definition insert_lines :: "uuid \<Rightarrow> uuid \<Rightarrow> uuid \<Rightarrow> (date \<times> decimal) list \<Rightarrow> db \<Rightarrow> db" where
  "insert_lines tenant_id booking_id room_type_id per_night d =
     d\<lparr>booking_lines := booking_lines d @ line_rows (next_uuid d) tenant_id booking_id room_type_id per_night,
       next_uuid := next_uuid d + int (length per_night)\<rparr>"

definition the_room_type :: "line_row list \<Rightarrow> uuid option" where
  "the_room_type ls = (case remdups (map bl_room_type_id ls) of [rt] \<Rightarrow> Some rt | _ \<Rightarrow> None)"

definition stay_bounds_from_lines :: "line_row list \<Rightarrow> date \<times> date" where
  "stay_bounds_from_lines ls = (Min (set (map bl_date ls)), Max (set (map bl_date ls)) + 1)"

definition unified_room_id_from_lines :: "line_row list \<Rightarrow> uuid option" where
  "unified_room_id_from_lines ls =
     (case remdups (List.map_filter bl_room_id ls) of [r] \<Rightarrow> Some r | _ \<Rightarrow> None)"

definition mark_assigned_rooms_dirty_on_checkout :: "uuid \<Rightarrow> uuid \<Rightarrow> session \<Rightarrow> session" where
  "mark_assigned_rooms_dirty_on_checkout tenant_id booking_id s =
     (let room_ids = List.map_filter bl_room_id (filter (of_booking tenant_id booking_id) (booking_lines (sql s)))
      in s\<lparr>orm := (orm s)\<lparr>rooms := update_rows
           (\<lambda>r. rm_tenant_id r = tenant_id \<and> rm_id r \<in> set room_ids \<and> rm_deleted_at r = None)
           (\<lambda>r. r\<lparr>rm_housekeeping_status := ''dirty''\<rparr>) (rooms (orm s))\<rparr>\<rparr>)"

subsection \<open>Physical rooms\<close>

definition active_booking :: "booking_row \<Rightarrow> bool" where
  "active_booking b \<longleftrightarrow> bk_status b \<notin> set [''cancelled'', ''no_show'']"

definition room_conflict :: "db \<Rightarrow> uuid \<Rightarrow> uuid \<Rightarrow> date list \<Rightarrow> uuid \<Rightarrow> bool" where
  "room_conflict d tenant_id room_id nights exclude_booking_id =
     list_ex (\<lambda>l. bl_tenant_id l = tenant_id \<and> bl_room_id l = Some room_id \<and> bl_date l \<in> set nights \<and>
        bl_booking_id l \<noteq> exclude_booking_id \<and>
        list_ex (\<lambda>b. bk_tenant_id b = bl_tenant_id l \<and> bk_id b = bl_booking_id l \<and> active_booking b) (bookings d))
       (booking_lines d)"

definition assert_no_room_conflict :: "db \<Rightarrow> uuid \<Rightarrow> uuid \<Rightarrow> date list \<Rightarrow> uuid \<Rightarrow> unit result" where
  "assert_no_room_conflict d tenant_id room_id nights exclude_booking_id =
     (if nights = [] then Inr ()
      else guard (\<not> room_conflict d tenant_id room_id nights exclude_booking_id)
        (AssignBookingRoomError ''room is already used by another active booking on overlapping nights'' 409))"

definition pick_first_free_room_for_stay ::
  "db \<Rightarrow> uuid \<Rightarrow> uuid \<Rightarrow> uuid \<Rightarrow> date list \<Rightarrow> uuid \<Rightarrow> uuid option" where
  "pick_first_free_room_for_stay d tenant_id property_id room_type_id nights exclude_booking_id =
     (let night_list = sort (remdups nights)
      in if night_list = [] then None
         else map_option rm_id (find (\<lambda>room.
             assert_no_room_conflict d tenant_id (rm_id room) night_list exclude_booking_id = Inr ())
           (sort_key rm_name (filter (\<lambda>r. rm_tenant_id r = tenant_id \<and> rm_room_type_id r = room_type_id \<and>
              rm_deleted_at r = None \<and>
              list_ex (\<lambda>rt. rt_tenant_id rt = rm_tenant_id r \<and> rt_id rt = rm_room_type_id r \<and>
                 rt_tenant_id rt = tenant_id \<and> rt_property_id rt = property_id) (room_types d)) (rooms d)))))"

definition release_booking_inventory :: "db \<Rightarrow> uuid \<Rightarrow> line_row list \<Rightarrow> db result" where
  "release_booking_inventory d tenant_id ls =
     (if ls = [] then Inr d
      else case the_room_type ls of
             None \<Rightarrow> Inr d
           | Some room_type_id \<Rightarrow> lock_and_decrement d tenant_id room_type_id (map bl_date ls))"

text \<open>\<^verbatim>\<open>ORDER BY created_at LIMIT 1\<close>.\<close>

definition room_charge_rows :: "db \<Rightarrow> uuid \<Rightarrow> uuid \<Rightarrow> folio_row list" where
  "room_charge_rows d tenant_id booking_id =
     sort_key ft_created_at (filter (\<lambda>r. of_folio tenant_id booking_id r \<and>
        ft_transaction_type r = ''Charge'' \<and> ft_category r = ''room_charge'') (folio_transactions d))"

definition update_folio_charge_amount :: "uuid \<Rightarrow> uuid \<Rightarrow> decimal \<Rightarrow> db \<Rightarrow> db" where
  "update_folio_charge_amount tenant_id booking_id amount d =
     (case room_charge_rows d tenant_id booking_id of
        [] \<Rightarrow> d
      | ft # _ \<Rightarrow> d\<lparr>folio_transactions := update_rows (\<lambda>r. ft_id r = ft_id ft)
                     (\<lambda>r. r\<lparr>ft_amount := numeric2 amount\<rparr>) (folio_transactions d)\<rparr>)"

definition set_line_rooms :: "uuid \<Rightarrow> uuid \<Rightarrow> uuid option \<Rightarrow> db \<Rightarrow> db" where
  "set_line_rooms tenant_id booking_id room_id d =
     d\<lparr>booking_lines := update_rows (of_booking tenant_id booking_id) (\<lambda>l. l\<lparr>bl_room_id := room_id\<rparr>) (booking_lines d)\<rparr>"

definition assign_booking_room :: "db \<Rightarrow> uuid \<Rightarrow> uuid \<Rightarrow> uuid option \<Rightarrow> db result" where
  "assign_booking_room d tenant_id booking_id room_id =
     r_bind (require (booking_at d tenant_id booking_id) (AssignBookingRoomError ''booking not found'' 404)) (\<lambda>booking.
     r_bind (guard (normalize_booking_status (bk_status booking) \<notin> set [''cancelled'', ''no_show''])
               (AssignBookingRoomError ''cannot assign room on an inactive booking'' 409)) (\<lambda>_.
     let ls = lines_of d booking in
     r_bind (guard (ls \<noteq> []) (AssignBookingRoomError ''booking has no lines'' 400)) (\<lambda>_.
     r_bind (require (the_room_type ls)
               (AssignBookingRoomError ''booking lines must share a single room type'' 409)) (\<lambda>line_room_type_id.
     let nights = sort (remdups (map bl_date ls)) in
     case room_id of
       None \<Rightarrow> Inr (set_line_rooms tenant_id booking_id None d)
     | Some rid \<Rightarrow>
         r_bind (require (find (\<lambda>r. rm_tenant_id r = tenant_id \<and> rm_id r = rid \<and> rm_deleted_at r = None) (rooms d))
                   (AssignBookingRoomError ''room not found'' 404)) (\<lambda>room.
         r_bind (guard (rm_room_type_id room = line_room_type_id)
                   (AssignBookingRoomError ''room category does not match booking'' 409)) (\<lambda>_.
         r_bind (guard (case find (\<lambda>r. rt_tenant_id r = tenant_id \<and> rt_id r = rm_room_type_id room \<and>
                                      rt_deleted_at r = None) (room_types d) of
                          None \<Rightarrow> False | Some rt \<Rightarrow> rt_property_id rt = bk_property_id booking)
                   (AssignBookingRoomError ''room is not on the same property as the booking'' 409)) (\<lambda>_.
         r_bind (assert_no_room_conflict d tenant_id rid nights (bk_id booking)) (\<lambda>_.
           Inr (set_line_rooms tenant_id booking_id (Some rid) d)))))))))"

subsection \<open>Creating a booking\<close>

definition external_ref :: "string option \<Rightarrow> string option" where
  "external_ref x = (case x of None \<Rightarrow> None
     | Some s \<Rightarrow> if py_strip s = [] then None else Some (take 128 (py_strip s)))"

definition insert_booking :: "uuid \<Rightarrow> booking_create \<Rightarrow> uuid \<Rightarrow> string option \<Rightarrow> decimal \<Rightarrow> db \<Rightarrow> booking_row \<times> db" where
  "insert_booking tenant_id body guest_id ext_ref total_amount d =
     (let b = \<lparr>bk_id = next_uuid d, bk_tenant_id = tenant_id, bk_property_id = cb_property_id body,
               bk_guest_id = guest_id, bk_rate_plan_id = Some (cb_rate_plan_id body),
               bk_external_booking_id = ext_ref, bk_status = cb_status body, bk_source = py_strip (cb_source body),
               bk_total_amount = numeric2 total_amount, bk_notes = None\<rparr>
      in (b, d\<lparr>bookings := bookings d @ [b], next_uuid := next_uuid d + 1\<rparr>))"

definition check_external_ref :: "db \<Rightarrow> uuid \<Rightarrow> string option \<Rightarrow> unit result" where
  "check_external_ref d tenant_id ext_ref = (case ext_ref of None \<Rightarrow> Inr ()
     | Some e \<Rightarrow> guard (\<not> list_ex (\<lambda>b. bk_tenant_id b = tenant_id \<and> bk_external_booking_id b = Some e) (bookings d))
         DuplicateExternalBookingError)"

text \<open>What follows the claim: the rows of the booking, its folio and its first free room.\<close>

definition record_booking ::
  "db \<Rightarrow> uuid \<Rightarrow> booking_create \<Rightarrow> string option \<Rightarrow> decimal \<Rightarrow> (date \<times> decimal) list \<Rightarrow>
   (booking_created \<times> db) result" where
  "record_booking d tenant_id body ext_ref total_amount per_night =
     r_bind (get_or_create_guest_for_booking d tenant_id (cb_guest body) (cb_force_new_guest body))
       (\<lambda>(guest, guest_merged, d).
     let (booking, d) = insert_booking tenant_id body (gu_id guest) ext_ref total_amount d;
         d = insert_lines tenant_id (bk_id booking) (cb_room_type_id body) per_night d;
         d = snd (insert_folio tenant_id (bk_id booking) ''Charge'' total_amount None
                    (Some ''Room charge (stay)'') None ''room_charge'' d)
     in r_bind (replace_country_pack_tax_charges d tenant_id (bk_id booking) (cb_property_id body) total_amount)
          (\<lambda>(room_charge_amount, d).
        let d = update_folio_charge_amount tenant_id (bk_id booking) room_charge_amount d;
            picked_room = pick_first_free_room_for_stay d tenant_id (cb_property_id body) (cb_room_type_id body)
                            (map fst per_night) (bk_id booking)
        in r_bind (case picked_room of None \<Rightarrow> Inr d
                   | Some r \<Rightarrow> assign_booking_room d tenant_id (bk_id booking) (Some r)) (\<lambda>d.
             Inr (\<lparr>bc_booking_id = bk_id booking, bc_guest_id = gu_id guest, bc_total_amount = total_amount,
                   bc_nights = per_night, bc_guest_merged = guest_merged\<rparr>, d))))"

definition create_booking :: "db \<Rightarrow> uuid \<Rightarrow> booking_create \<Rightarrow> (booking_created \<times> db) result" where
  "create_booking d tenant_id body =
     r_bind (iter_stay_nights (cb_check_in body) (cb_check_out body)) (\<lambda>nights.
     let ext_ref = external_ref (cb_external_booking_id body) in
     r_bind (check_external_ref d tenant_id ext_ref) (\<lambda>_.
     r_bind (require_room_type_on_property d tenant_id (cb_property_id body) (cb_room_type_id body)) (\<lambda>_.
     r_bind (require_rate_plan_on_property d tenant_id (cb_property_id body) (cb_rate_plan_id body)) (\<lambda>_.
     r_bind (sum_rates_for_stay d tenant_id (cb_room_type_id body) (cb_rate_plan_id body)
               (cb_check_in body) (cb_check_out body)) (\<lambda>(total_amount, per_night).
     r_bind (claim_availability_for_new_booking d tenant_id (cb_room_type_id body) nights 1) (\<lambda>d.
       record_booking d tenant_id body ext_ref total_amount per_night))))))"

subsection \<open>Patching a booking\<close>

definition set_booking :: "booking_row \<Rightarrow> (booking_row \<Rightarrow> booking_row) \<Rightarrow> db \<Rightarrow> db" where
  "set_booking b f d = d\<lparr>bookings := update_rows (\<lambda>x. bk_id x = bk_id b) f (bookings d)\<rparr>"

definition on_orm :: "(db \<Rightarrow> db) \<Rightarrow> session \<Rightarrow> session" where
  "on_orm f s = s\<lparr>orm := f (orm s)\<rparr>"

definition on_orm_r :: "(db \<Rightarrow> db result) \<Rightarrow> session \<Rightarrow> session result" where
  "on_orm_r f s = r_bind (f (orm s)) (\<lambda>d. Inr (s\<lparr>orm := d\<rparr>))"

definition patched_notes :: "string option \<Rightarrow> string option" where
  "patched_notes n = (case n of None \<Rightarrow> None
     | Some s \<Rightarrow> if py_strip s = [] then None else Some (take 8000 (py_strip s)))"

definition status_text :: "string option \<Rightarrow> string" where
  "status_text s = (case s of None \<Rightarrow> ''None'' | Some x \<Rightarrow> x)"

definition patch_transition :: "string \<Rightarrow> string \<Rightarrow> unit result" where
  "patch_transition old new = (case validate_status_transition old new of
       Inl (BookingStatusTransitionError m) \<Rightarrow> Inl (PatchBookingError m 409)
     | r \<Rightarrow> r)"

definition cancel_booking :: "db \<Rightarrow> uuid \<Rightarrow> booking_row \<Rightarrow> db result" where
  "cancel_booking d tenant_id booking =
     (if normalize_booking_status (bk_status booking) = ''cancelled'' then Inr d
      else r_bind (patch_transition (bk_status booking) ''cancelled'') (\<lambda>_.
           r_bind (release_booking_inventory d tenant_id (lines_of d booking)) (\<lambda>d.
             Inr (set_booking booking (\<lambda>b. b\<lparr>bk_status := ''cancelled''\<rparr>) d))))"

text \<open>Repricing after a date change: the new lines and the folio, then the flush.\<close>

definition reprice ::
  "db \<Rightarrow> uuid \<Rightarrow> booking_row \<Rightarrow> uuid \<Rightarrow> decimal \<Rightarrow> (date \<times> decimal) list \<Rightarrow> session result" where
  "reprice d tenant_id booking room_type_id total_amount per_night =
     (let d = d\<lparr>booking_lines := delete_rows (of_booking tenant_id (bk_id booking)) (booking_lines d)\<rparr>;
          d = insert_lines tenant_id (bk_id booking) room_type_id per_night d;
          d = set_booking booking (\<lambda>b. b\<lparr>bk_total_amount := numeric2 total_amount\<rparr>) d;
          d = update_folio_charge_amount tenant_id (bk_id booking) total_amount d
      in r_bind (replace_country_pack_tax_charges d tenant_id (bk_id booking) (bk_property_id booking) total_amount)
           (\<lambda>(room_charge_amount, d).
              Inr (on_orm (update_folio_charge_amount tenant_id (bk_id booking) room_charge_amount) (open_session d))))"

definition rates_or_patch_error :: "'a result \<Rightarrow> 'a result" where
  "rates_or_patch_error r = (case r of
       Inl (MissingRatesError _) \<Rightarrow> Inl (PatchBookingError ''missing rates for dates'' 422)
     | r \<Rightarrow> r)"

definition change_dates ::
  "session \<Rightarrow> uuid \<Rightarrow> booking_row \<Rightarrow> line_row list \<Rightarrow> date \<Rightarrow> date \<Rightarrow> session result" where
  "change_dates s tenant_id booking ls new_ci new_co =
     r_bind (require (bk_rate_plan_id booking)
               (PatchBookingError ''booking has no stored rate_plan_id; cannot repricing on date change'' 422)) (\<lambda>plan.
     r_bind (require (the_room_type ls) (PatchBookingError ''booking lines must share a single room type'' 409))
       (\<lambda>room_type_id.
     r_bind (lock_and_decrement (orm s) tenant_id room_type_id (sort (remdups (map bl_date ls)))) (\<lambda>d.
     r_bind (rates_or_patch_error (sum_rates_for_stay d tenant_id room_type_id plan new_ci new_co))
       (\<lambda>(total_amount, per_night).
     r_bind (iter_stay_nights new_ci new_co) (\<lambda>new_nights.
     r_bind (lock_and_increment d tenant_id room_type_id new_nights) (\<lambda>d.
       reprice d tenant_id booking room_type_id total_amount per_night))))))"

text \<open>
  The second component of the result tells whether \<^verbatim>\<open>booking.lines\<close> is expired afterwards: the
  date change expires it and \<open>assign_booking_room\<close> loads it again.
\<close>

definition patch_dates :: "session \<Rightarrow> uuid \<Rightarrow> booking_row \<Rightarrow> booking_patch \<Rightarrow> (session \<times> bool) result" where
  "patch_dates s tenant_id booking body =
     (if pb_check_in body = None \<and> pb_check_out body = None then Inr (s, False)
      else let ls = lines_of (orm s) booking in
        if ls = [] then Inl (PatchBookingError ''booking has no lines'' 409)
        else let (ci, co) = stay_bounds_from_lines ls
          in case (case pb_check_in body of None \<Rightarrow> Some ci | Some v \<Rightarrow> v,
                   case pb_check_out body of None \<Rightarrow> Some co | Some v \<Rightarrow> v) of
            (Some new_ci, Some new_co) \<Rightarrow>
              if new_co \<le> new_ci then Inl (PatchBookingError ''check_out must be after check_in'' 422)
              else if int MAX_STAY_NIGHTS < new_co - new_ci
              then Inl (PatchBookingError ''stay cannot exceed 365 nights'' 422)
              else if new_ci \<noteq> ci \<or> new_co \<noteq> co
              then r_bind (change_dates s tenant_id booking ls new_ci new_co) (\<lambda>s.
                     case (if pb_room_id body = None then unified_room_id_from_lines ls else None) of
                       None \<Rightarrow> Inr (s, True)
                     | Some prior \<Rightarrow>
                         r_bind (on_orm_r (\<lambda>d. assign_booking_room d tenant_id (bk_id booking) (Some prior)) s)
                           (\<lambda>s. Inr (s, False)))
              else Inr (s, False)
          | _ \<Rightarrow> Inl TypeError)"

definition patch_room :: "session \<times> bool \<Rightarrow> uuid \<Rightarrow> booking_row \<Rightarrow> booking_patch \<Rightarrow> (session \<times> bool) result" where
  "patch_room se tenant_id booking body = (case pb_room_id body of
       None \<Rightarrow> Inr se
     | Some room \<Rightarrow> r_bind (on_orm_r (\<lambda>d. assign_booking_room d tenant_id (bk_id booking) room) (fst se))
         (\<lambda>s. Inr (s, False)))"

definition checkin_guard :: "db \<Rightarrow> uuid \<Rightarrow> booking_row \<Rightarrow> string \<Rightarrow> unit result" where
  "checkin_guard d tenant_id booking new_s =
     (if new_s = ''checked_in'' \<and> normalize_booking_status (bk_status booking) \<noteq> ''checked_in''
      then r_bind (require (find (\<lambda>g. gu_tenant_id g = tenant_id \<and> gu_id g = bk_guest_id booking) (guests d))
                     (PatchBookingError ''guest not found'' 404)) (\<lambda>guest_row.
             let ext_msgs = validate_extension_required_fields_for_checkin d tenant_id (bk_property_id booking) guest_row
             in guard (ext_msgs = []) (PatchBookingError (join ''; '' ext_msgs) 400))
      else Inr ())"

definition patch_status :: "session \<times> bool \<Rightarrow> uuid \<Rightarrow> booking_row \<Rightarrow> booking_patch \<Rightarrow> session result" where
  "patch_status se tenant_id booking body = (case pb_status body of
       None \<Rightarrow> Inr (fst se)
     | Some st \<Rightarrow>
         let (s, lines_expired) = se; new_s = normalize_booking_status (status_text st)
         in r_bind (patch_transition (bk_status booking) new_s) (\<lambda>_.
            r_bind (checkin_guard (orm s) tenant_id booking new_s) (\<lambda>_.
            r_bind (if new_s = ''no_show'' \<and> normalize_booking_status (bk_status booking) = ''confirmed''
                    then if lines_expired then Inl MissingGreenlet
                         else on_orm_r (\<lambda>d. release_booking_inventory d tenant_id (lines_of d booking)) s
                    else Inr s) (\<lambda>s.
              Inr (on_orm (set_booking booking (\<lambda>b. b\<lparr>bk_status := new_s\<rparr>)) s)))))"

definition checkout_warning :: "session \<Rightarrow> uuid \<Rightarrow> booking_row \<Rightarrow> decimal option \<times> session" where
  "checkout_warning s tenant_id booking =
     (case booking_at (orm s) tenant_id (bk_id booking) of
        None \<Rightarrow> (None, s)
      | Some now \<Rightarrow>
          if normalize_booking_status (bk_status now) = ''checked_out'' \<and>
             normalize_booking_status (bk_status booking) \<noteq> ''checked_out''
          then let s = mark_assigned_rooms_dirty_on_checkout tenant_id (bk_id booking) s;
                   bal = compute_folio_balance (sql s) tenant_id (bk_id booking)
               in (if bal \<noteq> 0 then Some bal else None, s)
          else (None, s))"

definition inactive_guard :: "booking_row \<Rightarrow> booking_patch \<Rightarrow> unit result" where
  "inactive_guard booking body =
     (if normalize_booking_status (bk_status booking) \<in> set [''cancelled'', ''no_show'']
      then r_bind (case pb_status body of None \<Rightarrow> Inr ()
                   | Some st \<Rightarrow> patch_transition (bk_status booking) (status_text st)) (\<lambda>_.
             guard (pb_check_in body = None \<and> pb_check_out body = None \<and> pb_room_id body = None)
               (PatchBookingError ''cannot change stay dates or room on an inactive booking'' 409))
      else Inr ())"

definition patch_empty :: "booking_patch \<Rightarrow> bool" where
  "patch_empty body \<longleftrightarrow> pb_room_id body = None \<and> pb_status body = None \<and> pb_check_in body = None \<and>
     pb_check_out body = None \<and> pb_cancellation_reason body = None"

definition cancel_requested :: "booking_patch \<Rightarrow> bool" where
  "cancel_requested body = (case pb_status body of
     Some (Some st) \<Rightarrow> normalize_booking_status st = ''cancelled'' | _ \<Rightarrow> False)"

definition patch_booking :: "db \<Rightarrow> uuid \<Rightarrow> uuid \<Rightarrow> booking_patch \<Rightarrow> (decimal option \<times> db) result" where
  "patch_booking d tenant_id booking_id body =
     (if patch_empty body \<and> pb_notes body = None then Inr (None, d)
      else r_bind (require (booking_at d tenant_id booking_id) (PatchBookingError ''booking not found'' 404)) (\<lambda>booking.
        let s = (case pb_notes body of None \<Rightarrow> open_session d
                 | Some n \<Rightarrow> on_orm (set_booking booking (\<lambda>b. b\<lparr>bk_notes := patched_notes n\<rparr>)) (open_session d))
        in if patch_empty body then Inr (None, orm s)
           else if cancel_requested body
           then r_bind (cancel_booking (orm s) tenant_id booking) (\<lambda>d. Inr (None, d))
           else r_bind (inactive_guard booking body) (\<lambda>_.
                r_bind (patch_dates s tenant_id booking body) (\<lambda>se.
                r_bind (patch_room se tenant_id booking body) (\<lambda>se.
                r_bind (patch_status se tenant_id booking body) (\<lambda>s.
                  let (warning, s) = checkout_warning s tenant_id booking in Inr (warning, orm s)))))))"

subsection \<open>Deleting a booking\<close>

record booking_snapshot =
  bs_id :: uuid
  bs_property_id :: uuid
  bs_guest_id :: uuid
  bs_status :: string
  bs_total_amount :: decimal
  bs_check_in :: "date option"
  bs_check_out :: "date option"
  bs_room_id :: "uuid option"
  bs_notes :: "string option"

definition booking_quick_snapshot :: "db \<Rightarrow> booking_row \<Rightarrow> booking_snapshot" where
  "booking_quick_snapshot d b =
     (let ls = lines_of d b
      in \<lparr>bs_id = bk_id b, bs_property_id = bk_property_id b, bs_guest_id = bk_guest_id b,
          bs_status = py_lower (py_strip (bk_status b)), bs_total_amount = bk_total_amount b,
          bs_check_in = (if ls = [] then None else Some (fst (stay_bounds_from_lines ls))),
          bs_check_out = (if ls = [] then None else Some (snd (stay_bounds_from_lines ls))),
          bs_room_id = (case List.map_filter bl_room_id ls of [] \<Rightarrow> None | r # _ \<Rightarrow> Some r),
          bs_notes = bk_notes b\<rparr>)"

definition remove_booking_rows :: "uuid \<Rightarrow> uuid \<Rightarrow> db \<Rightarrow> db" where
  "remove_booking_rows tenant_id booking_id d =
     d\<lparr>stripe_charges := delete_rows (\<lambda>r. sc_tenant_id r = tenant_id \<and> sc_booking_id r = Some booking_id) (stripe_charges d),
       stripe_payment_methods := update_rows (\<lambda>r. sp_tenant_id r = tenant_id \<and> sp_booking_id r = Some booking_id)
         (\<lambda>r. r\<lparr>sp_booking_id := None\<rparr>) (stripe_payment_methods d),
       email_logs := update_rows (\<lambda>r. el_tenant_id r = tenant_id \<and> el_booking_id r = Some booking_id)
         (\<lambda>r. r\<lparr>el_booking_id := None\<rparr>) (email_logs d),
       channex_revisions := update_rows (\<lambda>r. cr_tenant_id r = tenant_id \<and> cr_openpms_booking_id r = Some booking_id)
         (\<lambda>r. r\<lparr>cr_openpms_booking_id := None\<rparr>) (channex_revisions d),
       folio_transactions := delete_rows (of_folio tenant_id booking_id) (folio_transactions d),
       booking_lines := delete_rows (of_booking tenant_id booking_id) (booking_lines d),
       bookings := delete_rows (\<lambda>b. bk_id b = booking_id) (bookings d)\<rparr>"

definition delete_booking :: "db \<Rightarrow> uuid \<Rightarrow> uuid \<Rightarrow> (booking_snapshot \<times> db) result" where
  "delete_booking d tenant_id booking_id =
     r_bind (require (booking_at d tenant_id booking_id) (DeleteBookingError ''booking not found'' 404)) (\<lambda>booking.
     let st = normalize_booking_status (bk_status booking) in
     r_bind (guard (st \<notin> set [''checked_in'', ''checked_out''])
               (DeleteBookingError ''cannot delete booking after check-in or check-out'' 409)) (\<lambda>_.
     let old_values = booking_quick_snapshot d booking in
     r_bind (if st \<notin> set [''cancelled'', ''no_show'']
             then release_booking_inventory d tenant_id (lines_of d booking) else Inr d) (\<lambda>d.
       Inr (old_values, remove_booking_rows tenant_id booking_id d))))"


subsection \<open>Translated exceptions\<close>

lemma rates_or_patch_error_Inr [simp]: "rates_or_patch_error r = Inr x \<longleftrightarrow> r = Inr x"
  unfolding rates_or_patch_error_def by (cases r) (auto split: error.splits)

lemma patch_transition_Inr [simp]: "patch_transition a b = Inr u \<longleftrightarrow> validate_status_transition a b = Inr u"
  unfolding patch_transition_def by (cases "validate_status_transition a b") (auto split: error.splits)

end
