(* ===== verification/Email.thy ===== *)
theory Email
  imports Access Booking
begin

text \<open>
  Transactional mail (\<^verbatim>\<open>email_service.py\<close>, \<^verbatim>\<open>email_log_service.py\<close>, \<^verbatim>\<open>tasks/email_tasks.py\<close>): who is
  written to, when, and what the log of sent mail keeps. The provider and the HTML templates are
  not part of the program: \<open>mailer\<close> maps a message (addressee, template and the values given to
  the template) to the provider's identifier or the text of the exception it raises. The subject
  line repeats values of the context and is not represented.
\<close>

datatype ctx_value =
    XText string
  | XDay "date option"
  | XCount nat
  | XMoney decimal
  | XRef uuid
  | XRows "(string \<times> decimal) list"

record email =
  em_to :: string
  em_template :: string
  em_context :: "(string \<times> ctx_value) list"

type_synonym mailer = "email \<Rightarrow> string + string"

definition guest_may_receive_email :: "guest_row option \<Rightarrow> bool" where
  "guest_may_receive_email guest = (case guest of None \<Rightarrow> False
     | Some g \<Rightarrow> py_strip (gu_email g) \<noteq> [] \<and> \<not> ends_with ''.invalid'' (py_lower (py_strip (gu_email g))))"

definition log_email ::
  "uuid \<Rightarrow> uuid option \<Rightarrow> uuid option \<Rightarrow> string \<Rightarrow> string \<Rightarrow> string \<Rightarrow> string option \<Rightarrow> string option \<Rightarrow> db \<Rightarrow> db" where
  "log_email tenant_id property_id booking_id to_address template_name status resend_id error_message d =
     d\<lparr>email_logs := email_logs d @ [\<lparr>el_id = next_uuid d, el_tenant_id = tenant_id, el_property_id = property_id,
         el_booking_id = booking_id, el_to_address = to_address, el_template_name = template_name, el_status = status,
         el_resend_id = resend_id, el_error_message = error_message, el_sent_at = db_now d\<rparr>],
       next_uuid := next_uuid d + 1\<rparr>"

definition send_booking_email ::
  "mailer \<Rightarrow> settings \<Rightarrow> uuid \<Rightarrow> email \<Rightarrow> uuid option \<Rightarrow> uuid option \<Rightarrow> db \<Rightarrow> db" where
  "send_booking_email mailer st tenant_id m property_id booking_id d =
     (if py_strip (resend_api_key st) = [] then d
      else case mailer m of
          Inl exc \<Rightarrow> log_email tenant_id property_id booking_id (em_to m) (em_template m) ''failed'' None (Some (take 8000 exc)) d
        | Inr resend_id \<Rightarrow> log_email tenant_id property_id booking_id (em_to m) (em_template m) ''sent'' (Some resend_id) None d)"

definition send_invite_email ::
  "mailer \<Rightarrow> settings \<Rightarrow> uuid \<Rightarrow> string \<Rightarrow> string \<Rightarrow> string \<Rightarrow> string \<Rightarrow> db \<Rightarrow> db" where
  "send_invite_email mailer st tenant_id to_email full_name tenant_name temporary_password =
     send_booking_email mailer st tenant_id
       \<lparr>em_to = py_strip to_email, em_template = ''user_invite'',
        em_context = [(''full_name'', XText full_name), (''email'', XText to_email), (''tenant_name'', XText tenant_name),
          (''temporary_password'', XText temporary_password)]\<rparr> None None"

definition send_password_reset_email ::
  "mailer \<Rightarrow> settings \<Rightarrow> uuid \<Rightarrow> string \<Rightarrow> string \<Rightarrow> string \<Rightarrow> db \<Rightarrow> db" where
  "send_password_reset_email mailer st tenant_id to_email full_name reset_link =
     send_booking_email mailer st tenant_id
       \<lparr>em_to = py_strip to_email, em_template = ''password_reset'',
        em_context = [(''full_name'', XText full_name), (''reset_link'', XText reset_link)]\<rparr> None None"

definition send_property_test_email ::
  "mailer \<Rightarrow> settings \<Rightarrow> uuid \<Rightarrow> uuid \<Rightarrow> string \<Rightarrow> string \<Rightarrow> string \<Rightarrow> db \<Rightarrow> db" where
  "send_property_test_email mailer st tenant_id property_id property_name sender_display to_address =
     send_booking_email mailer st tenant_id
       \<lparr>em_to = py_strip to_address, em_template = ''test_email'',
        em_context = [(''sender_name'', XText sender_display), (''property_name'', XText property_name)]\<rparr> (Some property_id) None"

subsection \<open>Mail about a booking\<close>

definition stay_summary :: "line_row list \<Rightarrow> date option \<times> date option \<times> nat" where
  "stay_summary ls =
     (if ls = [] then (None, None, 0)
      else let nights = sort (remdups (map bl_date ls)) in (Some (hd nights), Some (last nights + 1), length nights))"

definition room_type_name :: "db \<Rightarrow> uuid \<Rightarrow> line_row list \<Rightarrow> string" where
  "room_type_name d tenant_id ls =
     (case ls of [] \<Rightarrow> []
      | l # _ \<Rightarrow> (case find (\<lambda>r. rt_tenant_id r = tenant_id \<and> rt_id r = bl_room_type_id l) (room_types d) of
                    None \<Rightarrow> ''Room''
                  | Some r \<Rightarrow> if py_strip (rt_name r) = [] then ''Room'' else py_strip (rt_name r)))"

fun room_label :: "db \<Rightarrow> uuid \<Rightarrow> line_row list \<Rightarrow> string option" where
  "room_label d tenant_id [] = None"
| "room_label d tenant_id (l # ls) =
     (case bl_room_id l of
        None \<Rightarrow> room_label d tenant_id ls
      | Some i \<Rightarrow> (case find (\<lambda>r. rm_tenant_id r = tenant_id \<and> rm_id r = i) (rooms d) of
                     None \<Rightarrow> room_label d tenant_id ls
                   | Some r \<Rightarrow> Some (rm_name r)))"

definition full_guest_name :: "guest_row \<Rightarrow> string" where
  "full_guest_name g = py_strip (gu_first_name g @ '' '' @ gu_last_name g)"

definition send_booking_confirmation ::
  "mailer \<Rightarrow> settings \<Rightarrow> uuid \<Rightarrow> booking_row \<Rightarrow> property_row \<Rightarrow> guest_row \<Rightarrow> db \<Rightarrow> db" where
  "send_booking_confirmation mailer st tenant_id booking prop guest d =
     (if \<not> guest_may_receive_email (Some guest) then d
      else let ls = lines_of d booking; (ci, co, n_nights) = stay_summary ls
        in send_booking_email mailer st tenant_id
             \<lparr>em_to = py_strip (gu_email guest), em_template = ''booking_confirmation'',
              em_context = [(''guest_name'', XText (full_guest_name guest)), (''booking_reference'', XRef (bk_id booking)),
                (''check_in'', XDay ci), (''check_out'', XDay co), (''nights'', XCount n_nights),
                (''room_type_name'', XText (room_type_name d tenant_id ls)),
                (''room_name'', XText (case room_label d tenant_id ls of None \<Rightarrow> [] | Some r \<Rightarrow> r)),
                (''total_amount'', XMoney (bk_total_amount booking)), (''currency'', XText (pr_currency prop)),
                (''property'', XText (pr_name prop))]\<rparr>
             (Some (bk_property_id booking)) (Some (bk_id booking)) d)"

definition cancellation_policy_line :: "db \<Rightarrow> uuid \<Rightarrow> booking_row \<Rightarrow> string" where
  "cancellation_policy_line d tenant_id booking =
     (case bk_rate_plan_id booking of
        None \<Rightarrow> []
      | Some i \<Rightarrow> (case find (\<lambda>p. rp_tenant_id p = tenant_id \<and> rp_id p = i) (rate_plans d) of
                     None \<Rightarrow> []
                   | Some p \<Rightarrow> take 2000 (py_strip (rp_cancellation_policy p))))"

definition send_cancellation_email ::
  "mailer \<Rightarrow> settings \<Rightarrow> uuid \<Rightarrow> booking_row \<Rightarrow> property_row \<Rightarrow> guest_row \<Rightarrow> db \<Rightarrow> db" where
  "send_cancellation_email mailer st tenant_id booking prop guest d =
     (if \<not> guest_may_receive_email (Some guest) then d
      else let ls = lines_of d booking; (ci, co, n) = stay_summary ls
        in send_booking_email mailer st tenant_id
             \<lparr>em_to = py_strip (gu_email guest), em_template = ''booking_cancellation'',
              em_context = [(''guest_name'', XText (full_guest_name guest)), (''booking_reference'', XRef (bk_id booking)),
                (''check_in'', XDay ci), (''check_out'', XDay co), (''room_type_name'', XText (room_type_name d tenant_id ls)),
                (''cancellation_policy'', XText (cancellation_policy_line d tenant_id booking)),
                (''property'', XText (pr_name prop))]\<rparr>
             (Some (bk_property_id booking)) (Some (bk_id booking)) d)"

text \<open>A day is counted in UTC: a timestamp is the microseconds since day 0.\<close>

definition day_of :: "timestamp \<Rightarrow> date" where
  "day_of ts = ts div days 1"

definition sent_between :: "timestamp \<Rightarrow> timestamp \<Rightarrow> string \<Rightarrow> email_log_row \<Rightarrow> bool" where
  "sent_between start finish template r \<longleftrightarrow>
     el_template_name r = template \<and> el_status r = ''sent'' \<and> start \<le> el_sent_at r \<and> el_sent_at r < finish"

definition checkin_reminder_sent_today :: "db \<Rightarrow> uuid \<Rightarrow> uuid \<Rightarrow> bool" where
  "checkin_reminder_sent_today d tenant_id booking_id =
     (let day_start = days (day_of (db_now d)); day_end = day_start + days 1
      in list_ex (\<lambda>r. el_tenant_id r = tenant_id \<and> el_booking_id r = Some booking_id \<and>
                      sent_between day_start day_end ''checkin_reminder'' r) (email_logs d))"

definition send_checkin_reminder_email ::
  "mailer \<Rightarrow> settings \<Rightarrow> uuid \<Rightarrow> booking_row \<Rightarrow> property_row \<Rightarrow> guest_row \<Rightarrow> db \<Rightarrow> db" where
  "send_checkin_reminder_email mailer st tenant_id booking prop guest d =
     (if bk_status booking \<noteq> ''confirmed'' \<or> \<not> guest_may_receive_email (Some guest) \<or>
         checkin_reminder_sent_today d tenant_id (bk_id booking) then d
      else let ls = lines_of d booking; (ci, co, n) = stay_summary ls
        in send_booking_email mailer st tenant_id
             \<lparr>em_to = py_strip (gu_email guest), em_template = ''checkin_reminder'',
              em_context = [(''guest_name'', XText (full_guest_name guest)), (''booking_reference'', XRef (bk_id booking)),
                (''check_in'', XDay ci), (''check_out'', XDay co), (''room_type_name'', XText (room_type_name d tenant_id ls)),
                (''room_name'', XText (case room_label d tenant_id ls of None \<Rightarrow> [] | Some r \<Rightarrow> r)),
                (''property'', XText (pr_name prop))]\<rparr>
             (Some (bk_property_id booking)) (Some (bk_id booking)) d)"

definition guest_of :: "db \<Rightarrow> booking_row \<Rightarrow> guest_row option" where
  "guest_of d b = find (\<lambda>g. gu_tenant_id g = bk_tenant_id b \<and> gu_id g = bk_guest_id b) (guests d)"

text \<open>The background tasks load booking, guest and property again and do nothing when one is gone.\<close>

definition with_booking ::
  "(booking_row \<Rightarrow> property_row \<Rightarrow> guest_row \<Rightarrow> db \<Rightarrow> db) \<Rightarrow> uuid \<Rightarrow> uuid \<Rightarrow> db \<Rightarrow> db" where
  "with_booking send tenant_id booking_id d =
     (case booking_at d tenant_id booking_id of None \<Rightarrow> d
      | Some b \<Rightarrow> (case guest_of d b of None \<Rightarrow> d
          | Some g \<Rightarrow> (case property_at d tenant_id (bk_property_id b) of None \<Rightarrow> d
              | Some p \<Rightarrow> send b p g d)))"

definition run_send_booking_confirmation_task :: "mailer \<Rightarrow> settings \<Rightarrow> uuid \<Rightarrow> uuid \<Rightarrow> db \<Rightarrow> db" where
  "run_send_booking_confirmation_task mailer st tenant_id =
     with_booking (send_booking_confirmation mailer st tenant_id) tenant_id"

definition run_send_cancellation_email_task :: "mailer \<Rightarrow> settings \<Rightarrow> uuid \<Rightarrow> uuid \<Rightarrow> db \<Rightarrow> db" where
  "run_send_cancellation_email_task mailer st tenant_id =
     with_booking (send_cancellation_email mailer st tenant_id) tenant_id"

text \<open>
  Check-in reminders: the candidates are the confirmed bookings of all tenants that arrive
  tomorrow (UTC) and whose guest has a deliverable address; each is handled in its own
  transaction.
\<close>

definition first_night :: "db \<Rightarrow> booking_row \<Rightarrow> date option" where
  "first_night d b = (let ds = map bl_date (lines_of d b) in if ds = [] then None else Some (Min (set ds)))"

definition checkin_reminder_target_date :: "timestamp \<Rightarrow> date" where
  "checkin_reminder_target_date now_utc = day_of now_utc + 1"

definition lookup_checkin_reminder_candidates :: "db \<Rightarrow> date \<Rightarrow> (uuid \<times> uuid) list" where
  "lookup_checkin_reminder_candidates d for_date =
     concat (map (\<lambda>b. map (\<lambda>g. (bk_tenant_id b, bk_id b))
         (filter (\<lambda>g. gu_tenant_id g = bk_tenant_id b \<and> gu_id g = bk_guest_id b \<and> \<not> ends_with ''.invalid'' (gu_email g))
           (guests d)))
       (filter (\<lambda>b. bk_status b = ''confirmed'' \<and> first_night d b = Some for_date) (bookings d)))"

definition send_checkin_reminders :: "mailer \<Rightarrow> settings \<Rightarrow> db \<Rightarrow> db" where
  "send_checkin_reminders mailer st d =
     fold (\<lambda>(tid, bid). with_booking (send_checkin_reminder_email mailer st tid) tid bid)
       (lookup_checkin_reminder_candidates d (checkin_reminder_target_date (db_now d))) d"

subsection \<open>Invoices and the log\<close>

text \<open>
  The PDF is attached to the message and its layout is not represented; its data are the folio
  lines and the tax settings the query returns.
\<close>

definition text_or :: "string option \<Rightarrow> string" where
  "text_or x = (case x of None \<Rightarrow> [] | Some s \<Rightarrow> s)"

definition send_invoice_email_for_booking ::
  "mailer \<Rightarrow> settings \<Rightarrow> db \<Rightarrow> uuid \<Rightarrow> uuid \<Rightarrow> string option \<Rightarrow> db result" where
  "send_invoice_email_for_booking mailer st d tenant_id booking_id to_override =
     r_bind (require (Option.bind (booking_at d tenant_id booking_id) (\<lambda>b. map_option (Pair b) (guest_of d b)))
               (ValueError ''booking not found'')) (\<lambda>(booking, guest).
     r_bind (require (property_at d tenant_id (bk_property_id booking)) (ValueError ''property not found'')) (\<lambda>prop.
     let target = (if py_strip (text_or to_override) \<noteq> [] then py_strip (text_or to_override) else py_strip (gu_email guest)) in
     r_bind (guard (target \<noteq> [] \<and> \<not> ends_with ''.invalid'' (py_lower target)) (ValueError ''guest has no valid email'')) (\<lambda>_.
     r_bind (list_folio_transactions d tenant_id booking_id) (\<lambda>_.
     Inr (send_booking_email mailer st tenant_id
       \<lparr>em_to = target, em_template = ''invoice_email'',
        em_context = [(''guest_name'', XText (full_guest_name guest)), (''booking_reference'', XRef (bk_id booking)),
          (''amount_due'', XMoney (bk_total_amount booking)), (''currency'', XText (pr_currency prop)),
          (''property_name'', XText (pr_name prop))]\<rparr>
       (Some (bk_property_id booking)) (Some (bk_id booking)) d)))))"

definition list_email_logs_for_booking :: "db \<Rightarrow> uuid \<Rightarrow> uuid \<Rightarrow> email_log_row list" where
  "list_email_logs_for_booking d tenant_id booking_id =
     sort_key (\<lambda>r. - el_sent_at r) (filter (\<lambda>r. el_tenant_id r = tenant_id \<and> el_booking_id r = Some booking_id) (email_logs d))"

subsection \<open>Night audit mail\<close>

definition night_audit_sent_for_local_day :: "db \<Rightarrow> uuid \<Rightarrow> uuid \<Rightarrow> timestamp \<Rightarrow> timestamp \<Rightarrow> bool" where
  "night_audit_sent_for_local_day d tenant_id property_id day_start_utc day_end_utc =
     list_ex (\<lambda>r. el_tenant_id r = tenant_id \<and> el_property_id r = Some property_id \<and>
       sent_between day_start_utc day_end_utc ''night_audit'' r) (email_logs d)"

definition resolve_night_audit_recipients :: "server \<Rightarrow> uuid \<Rightarrow> string list" where
  "resolve_night_audit_recipients sv tenant_id =
     (let emails = sort (remdups (filter (\<lambda>e. e \<noteq> []) (map (\<lambda>u. py_strip (us_email u))
            (filter (\<lambda>u. us_tenant_id u = tenant_id \<and> us_role u = ''owner'' \<and> us_is_active u) (users sv)))))
      in if emails \<noteq> [] then emails
         else (case find (\<lambda>t. te_id t = tenant_id) (tenants sv) of None \<Rightarrow> []
               | Some t \<Rightarrow> if py_strip (te_billing_email t) = [] then [] else [py_strip (te_billing_email t)]))"

record audit_summary =
  as_audit_date :: date
  as_arrivals :: nat
  as_departures :: nat
  as_no_shows :: nat
  as_auto_no_shows :: nat
  as_payments_total :: decimal
  as_unpaid_folios :: "(string \<times> decimal) list"

definition send_night_audit_email ::
  "mailer \<Rightarrow> settings \<Rightarrow> server \<Rightarrow> uuid \<Rightarrow> property_row \<Rightarrow> audit_summary \<Rightarrow> timestamp \<Rightarrow> timestamp \<Rightarrow> bool \<times> server" where
  "send_night_audit_email mailer st sv tenant_id prop sm day_start_utc day_end_utc =
     (let recipients = resolve_night_audit_recipients sv tenant_id in
      if night_audit_sent_for_local_day (hotel sv) tenant_id (pr_id prop) day_start_utc day_end_utc then (False, sv)
      else if recipients = [] then (False, sv)
      else (True, sv\<lparr>hotel := fold (\<lambda>to. send_booking_email mailer st tenant_id
             \<lparr>em_to = to, em_template = ''night_audit'',
              em_context = [(''audit_date'', XDay (Some (as_audit_date sm))), (''arrivals'', XCount (as_arrivals sm)),
                (''departures'', XCount (as_departures sm)), (''no_shows'', XCount (as_no_shows sm)),
                (''auto_no_shows'', XCount (as_auto_no_shows sm)), (''payments_total'', XMoney (as_payments_total sm)),
                (''currency'', XText (pr_currency prop)), (''unpaid_folios'', XRows (as_unpaid_folios sm)),
                (''property'', XText (pr_name prop))]\<rparr> (Some (pr_id prop)) None) recipients (hotel sv)\<rparr>))"


subsection \<open>What the log shows\<close>

definition reminders :: "db \<Rightarrow> uuid \<Rightarrow> uuid \<Rightarrow> date \<Rightarrow> email_log_row list" where
  "reminders d tenant_id booking_id day =
     filter (\<lambda>r. el_tenant_id r = tenant_id \<and> el_booking_id r = Some booking_id \<and>
       el_template_name r = ''checkin_reminder'' \<and> el_status r = ''sent'' \<and> day_of (el_sent_at r) = day) (email_logs d)"

definition deliverable :: "string \<Rightarrow> bool" where
  "deliverable a \<longleftrightarrow> a \<noteq> [] \<and> \<not> ends_with ''.invalid'' (py_lower a)"

definition log_ok :: "db \<Rightarrow> bool" where
  "log_ok d \<longleftrightarrow> (\<forall>t b day. length (reminders d t b day) \<le> 1) \<and>
     (\<forall>r\<in>set (email_logs d). el_booking_id r \<noteq> None \<longrightarrow> deliverable (el_to_address r))"

text \<open>
  The operations that write the log or null its booking column; every other operation of the
  system, and the passing of time, leaves it alone.
\<close>

inductive mail_step :: "db \<Rightarrow> db \<Rightarrow> bool" where
  confirm: "mail_step d (run_send_booking_confirmation_task mailer st t b d)"
| cancel: "mail_step d (run_send_cancellation_email_task mailer st t b d)"
| remind: "mail_step d (send_checkin_reminders mailer st d)"
| invoice: "send_invoice_email_for_booking mailer st d t b to = Inr d' \<Longrightarrow> mail_step d d'"
| invite: "mail_step d (send_invite_email mailer st t to name org pw d)"
| reset: "mail_step d (send_password_reset_email mailer st t to name link d)"
| test_mail: "mail_step d (send_property_test_email mailer st t p pn sender to d)"
| erase: "delete_booking d t b = Inr (snap, d') \<Longrightarrow> mail_step d d'"
| elsewhere: "email_logs d' = email_logs d \<Longrightarrow> mail_step d d'"

lemma day_of_iff: "days (day_of x) \<le> y \<and> y < days (day_of x) + days 1 \<longleftrightarrow> day_of y = day_of x"
  unfolding day_of_def days_def by auto

lemma sent_today_iff:
  "checkin_reminder_sent_today d t b \<longleftrightarrow> reminders d t b (day_of (db_now d)) \<noteq> []"
  by (auto simp: checkin_reminder_sent_today_def reminders_def sent_between_def list_ex_iff filter_empty_conv Let_def
      simp flip: day_of_iff)

lemma send_booking_email_log:
  "\<exists>rs. email_logs (send_booking_email mailer st t m p b d) = email_logs d @ rs \<and> length rs \<le> 1 \<and>
     (\<forall>r\<in>set rs. el_tenant_id r = t \<and> el_booking_id r = b \<and> el_template_name r = em_template m \<and>
       el_to_address r = em_to m \<and> el_sent_at r = db_now d)"
  by (auto simp: send_booking_email_def log_email_def split: sum.splits)

lemma send_booking_email_hotel [simp]:
  "db_now (send_booking_email mailer st t m p b d) = db_now d"
  "bookings (send_booking_email mailer st t m p b d) = bookings d"
  by (simp_all add: send_booking_email_def log_email_def split: sum.split)

text \<open>
  A mail keeps the log sound when its addressee can be written to, if it concerns a booking, and
  when it is not a second reminder of the day.
\<close>

lemma send_keeps_log_ok:
  assumes ok: "log_ok d" and addressee: "b \<noteq> None \<Longrightarrow> deliverable (em_to m)"
    and once: "\<And>i. b = Some i \<Longrightarrow> em_template m = ''checkin_reminder'' \<Longrightarrow> \<not> checkin_reminder_sent_today d t i"
  shows "log_ok (send_booking_email mailer st t m p b d)"
proof -
  obtain rs where rs: "email_logs (send_booking_email mailer st t m p b d) = email_logs d @ rs" "length rs \<le> 1"
      "\<forall>r\<in>set rs. el_tenant_id r = t \<and> el_booking_id r = b \<and> el_template_name r = em_template m \<and>
         el_to_address r = em_to m \<and> el_sent_at r = db_now d"
    using send_booking_email_log by blast
  have "length (reminders (send_booking_email mailer st t m p b d) t' b' day) \<le> 1" for t' b' day
  proof (cases "t' = t \<and> b = Some b' \<and> em_template m = ''checkin_reminder'' \<and> day = day_of (db_now d)")
    case True
    with once have "reminders d t' b' day = []" by (simp add: sent_today_iff)
    with rs(1,2) show ?thesis
      by (auto simp: reminders_def intro: order.trans [OF length_filter_le])
  next
    case False
    with rs(3) have "reminders (send_booking_email mailer st t m p b d) t' b' day = reminders d t' b' day"
      by (auto simp: reminders_def rs(1) filter_empty_conv)
    with ok show ?thesis by (simp add: log_ok_def)
  qed
  moreover have "\<forall>r\<in>set (email_logs (send_booking_email mailer st t m p b d)).
      el_booking_id r \<noteq> None \<longrightarrow> deliverable (el_to_address r)"
    using ok addressee rs(1,3) by (auto simp: log_ok_def)
  ultimately show ?thesis by (simp add: log_ok_def)
qed

lemma may_receive_deliverable: "guest_may_receive_email (Some g) \<Longrightarrow> deliverable (py_strip (gu_email g))"
  by (simp add: guest_may_receive_email_def deliverable_def)

lemma booking_mail_keeps_log_ok:
  assumes "log_ok d"
  shows "log_ok (send_booking_confirmation mailer st t b p g d)" "log_ok (send_cancellation_email mailer st t b p g d)"
    "log_ok (send_checkin_reminder_email mailer st t b p g d)"
  using assms
  by (auto simp: send_booking_confirmation_def send_cancellation_email_def send_checkin_reminder_email_def Let_def
      split: prod.splits intro!: send_keeps_log_ok may_receive_deliverable)

lemma with_booking_keeps_log_ok:
  "(\<And>b p g. log_ok (send b p g d)) \<Longrightarrow> log_ok d \<Longrightarrow> log_ok (with_booking send t i d)"
  by (simp add: with_booking_def split: option.split)

lemma fold_keeps: "(\<And>x d. P d \<Longrightarrow> P (f x d)) \<Longrightarrow> P d \<Longrightarrow> P (fold f xs d)"
  by (induction xs arbitrary: d) auto

lemma decrement_only_ledger: "\<exists>l. snd (decrement_booked_rooms rows k d) = d\<lparr>ledger := l\<rparr>"
proof (induction rows arbitrary: d)
  case (Cons row rows)
  have self: "\<exists>l. d\<lparr>ledger := l'\<rparr> = d\<lparr>ledger := l\<rparr>" for l' by blast
  have "\<exists>l. snd (decrement_booked_rooms rows k (d\<lparr>ledger := l'\<rparr>)) = d\<lparr>ledger := l\<rparr>" for l'
    using Cons.IH [of "d\<lparr>ledger := l'\<rparr>"] by auto
  with self show ?case by (auto simp: Let_def)
qed (metis decrement_booked_rooms.simps(1) snd_conv db.surjective db.update_convs(6))

lemma release_only_ledger: "release_booking_inventory d t ls = Inr d' \<Longrightarrow> \<exists>l. d' = d\<lparr>ledger := l\<rparr>"
proof -
  have self: "\<exists>l. d = d\<lparr>ledger := l\<rparr>" by (rule exI [of _ "ledger d"]) simp
  have "\<exists>l. x = d\<lparr>ledger := l\<rparr>" if "raise_or (decrement_booked_rooms rows 1 d) = Inr x" for rows x
    using decrement_only_ledger [of rows 1 d] that by (auto simp: raise_or_def split: prod.splits option.splits)
  then show "release_booking_inventory d t ls = Inr d' \<Longrightarrow> \<exists>l. d' = d\<lparr>ledger := l\<rparr>"
    using self by (auto simp: release_booking_inventory_def lock_and_decrement_def split: if_splits option.splits)
qed

lemma delete_booking_log:
  assumes "delete_booking d t b = Inr (snap, d')"
  shows "email_logs d' = update_rows (\<lambda>r. el_tenant_id r = t \<and> el_booking_id r = Some b) (\<lambda>r. r\<lparr>el_booking_id := None\<rparr>) (email_logs d)"
proof -
  have "email_logs d2 = email_logs d1" if "release_booking_inventory d1 t ls = Inr d2" for d1 d2 ls
    using release_only_ledger [OF that] by auto
  with assms show ?thesis
    by (auto simp: delete_booking_def remove_booking_rows_def Let_def split: if_splits)
qed

lemma erased_log_ok:
  assumes "log_ok d" "email_logs d' = update_rows P (\<lambda>r. r\<lparr>el_booking_id := None\<rparr>) (email_logs d)"
  shows "log_ok d'"
proof -
  have shorter: "length (filter Q (update_rows P f xs)) \<le> length (filter Q xs)" if "\<And>r. Q (f r) \<Longrightarrow> Q r"
    for Q and f :: "email_log_row \<Rightarrow> email_log_row" and xs
    using that by (induction xs) (auto simp: update_rows_def)
  have "length (reminders d' t b day) \<le> length (reminders d t b day)" for t b day
    unfolding reminders_def assms(2) by (rule shorter) simp
  then have "length (reminders d' t b day) \<le> 1" for t b day
    using assms(1) unfolding log_ok_def by (metis le_trans)
  with assms show ?thesis
    unfolding log_ok_def by (auto simp: set_update_rows split: if_splits)
qed

interpretation mail: invariant_system mail_step log_ok
proof
  fix d d' assume "log_ok d" "mail_step d d'"
  from this(2,1) show "log_ok d'"
  proof (induction rule: mail_step.induct)
    case (remind d mailer st)
    then show ?case
      unfolding send_checkin_reminders_def
      by (auto intro!: fold_keeps with_booking_keeps_log_ok booking_mail_keeps_log_ok)
  next
    case (invoice mailer st d t b to d')
    then show ?case
      by (auto simp: send_invoice_email_for_booking_def Let_def deliverable_def intro!: send_keeps_log_ok split: if_splits)
  next
    case (elsewhere d' d)
    then show ?case by (simp add: log_ok_def reminders_def)
  qed (auto simp: run_send_booking_confirmation_task_def run_send_cancellation_email_task_def send_invite_email_def
      send_password_reset_email_def send_property_test_email_def
      intro!: with_booking_keeps_log_ok booking_mail_keeps_log_ok send_keeps_log_ok dest: delete_booking_log erased_log_ok)
qed

text \<open>
  C21. However often the reminder task runs and whatever else writes mail in between, a booking
  gets at most one check-in reminder per UTC day that the provider accepted, and no mail about a
  booking is ever addressed to nobody or to a placeholder address ending in \<^verbatim>\<open>.invalid\<close>.
\<close>

theorem one_reminder_per_day:
  assumes "mail_step\<^sup>*\<^sup>* d d'" and "email_logs d = []"
  shows "length (reminders d' tenant_id booking_id day) \<le> 1 \<and>
    list_all (\<lambda>r. el_booking_id r = None \<or> deliverable (el_to_address r)) (email_logs d')"
proof -
  have "log_ok d" using assms(2) by (simp add: log_ok_def reminders_def)
  with assms(1) have "log_ok d'" by (rule mail.reachable_keeps)
  then show ?thesis by (auto simp: log_ok_def list_all_iff)
qed

definition demo_mail_db :: db where
  "demo_mail_db = demo_db\<lparr>db_now := days 99 + hours 9,
     guests := [\<lparr>gu_id = 50, gu_tenant_id = 1, gu_first_name = ''Ann'', gu_last_name = ''Lee'', gu_email = '' ann@x '',
       gu_phone = ''0'', gu_passport_data = None, gu_nationality = None, gu_date_of_birth = None, gu_notes = None,
       gu_vip_status = False, gu_updated_at = 0\<rparr>],
     bookings := [\<lparr>bk_id = 700, bk_tenant_id = 1, bk_property_id = 10, bk_guest_id = 50, bk_rate_plan_id = Some 30,
       bk_external_booking_id = None, bk_status = ''confirmed'', bk_source = ''direct'', bk_total_amount = 100, bk_notes = None\<rparr>],
     booking_lines := [\<lparr>bl_id = 800, bl_tenant_id = 1, bl_booking_id = 700, bl_date = 100, bl_room_type_id = 20,
       bl_room_id = None, bl_price_for_date = 100\<rparr>]\<rparr>"

abbreviation demo_mailer :: mailer where
  "demo_mailer \<equiv> \<lambda>m. Inr ''re_1''"

theorem one_reminder_per_day_witness:
  "length (reminders (send_checkin_reminders demo_mailer demo_settings demo_mail_db) 1 700 99) = 1 \<and>
   length (reminders (send_checkin_reminders demo_mailer demo_settings
     (send_checkin_reminders demo_mailer demo_settings demo_mail_db)) 1 700 99) \<le> 1"
proof -
  let ?f = "send_checkin_reminders demo_mailer demo_settings"
  have "mail_step\<^sup>*\<^sup>* demo_mail_db (?f (?f demo_mail_db))"
    by (meson mail_step.remind converse_rtranclp_into_rtranclp rtranclp.rtrancl_refl)
  moreover have "email_logs demo_mail_db = []" by (simp add: demo_mail_db_def demo_defs)
  ultimately have "length (reminders (?f (?f demo_mail_db)) 1 700 99) \<le> 1"
    using one_reminder_per_day by blast
  moreover have "length (reminders (?f demo_mail_db) 1 700 99) = 1" by code_simp
  ultimately show ?thesis by blast
qed

end
