(* ===== verification/Accounts.thy ===== *)
theory Accounts
  imports Email
begin

text \<open>
  Tenants, users and their sessions (\<^verbatim>\<open>auth_service.py\<close>, \<^verbatim>\<open>app/core/security.py\<close>, \<^verbatim>\<open>api/routes/auth.py\<close>):
  registration, login, rotation of refresh tokens, passwords and the administration of users.
  Random values (refresh tokens, temporary passwords, salts) are arguments. All reads of the
  clock within one request give the same instant. Error texts in Russian are given in English.
\<close>

subsection \<open>Passwords and tokens\<close>

definition hash_password :: "crypto \<Rightarrow> string \<Rightarrow> string \<Rightarrow> string" where
  "hash_password cr salt plain = argon_hash cr salt plain"

definition verify_password :: "crypto \<Rightarrow> string \<Rightarrow> string \<Rightarrow> bool result" where
  "verify_password cr plain password_hash =
     (case argon_verify cr password_hash plain of
        Verified \<Rightarrow> Inr True | Mismatch \<Rightarrow> Inr False | InvalidHash \<Rightarrow> Inr False
      | VerificationFailed \<Rightarrow> Inl VerificationError)"

definition hash_refresh_token :: "crypto \<Rightarrow> string \<Rightarrow> string" where
  "hash_refresh_token cr raw = sha256_hex cr raw"

definition access_payload :: "settings \<Rightarrow> timestamp \<Rightarrow> user_row \<Rightarrow> payload" where
  "access_payload st now user =
     [(''sub'', CUuid (us_id user)), (''tenant_id'', CUuid (us_tenant_id user)), (''role'', CText (us_role user)),
      (''typ'', CText ''access''), (''iat'', CTime now), (''exp'', CTime (now + minutes (access_token_ttl_minutes st)))]"

definition issue_access_token :: "crypto \<Rightarrow> settings \<Rightarrow> timestamp \<Rightarrow> user_row \<Rightarrow> string result" where
  "issue_access_token cr st now user = encode_token cr st (access_payload st now user)"

definition MAX_ACTIVE_REFRESH_TOKENS :: nat where
  "MAX_ACTIVE_REFRESH_TOKENS = 10"

definition active_token :: "timestamp \<Rightarrow> uuid \<Rightarrow> uuid \<Rightarrow> token_row \<Rightarrow> bool" where
  "active_token now tenant_id user_id r \<longleftrightarrow>
     tk_user_id r = user_id \<and> tk_tenant_id r = tenant_id \<and> tk_revoked_at r = None \<and> now < tk_expires_at r"

definition revoke_where :: "(token_row \<Rightarrow> bool) \<Rightarrow> server \<Rightarrow> server" where
  "revoke_where P sv = sv\<lparr>refresh_tokens :=
     update_rows P (\<lambda>r. r\<lparr>tk_revoked_at := Some (now_of sv)\<rparr>) (refresh_tokens sv)\<rparr>"

definition revoke_excess_active_refresh_tokens :: "user_row \<Rightarrow> server \<Rightarrow> server" where
  "revoke_excess_active_refresh_tokens user sv =
     (let stale_ids = map tk_id (drop MAX_ACTIVE_REFRESH_TOKENS (sort_key (\<lambda>r. - tk_created_at r)
            (filter (active_token (now_of sv) (us_tenant_id user) (us_id user)) (refresh_tokens sv))))
      in revoke_where (\<lambda>r. tk_id r \<in> set stale_ids) sv)"

definition persist_refresh_pair :: "crypto \<Rightarrow> settings \<Rightarrow> user_row \<Rightarrow> string \<Rightarrow> server \<Rightarrow> server" where
  "persist_refresh_pair cr st user raw sv =
     (let (i, sv) = new_id sv;
          row = \<lparr>tk_id = i, tk_tenant_id = us_tenant_id user, tk_user_id = us_id user,
                 tk_token_hash = hash_refresh_token cr raw,
                 tk_expires_at = now_of sv + days (refresh_token_ttl_days st), tk_revoked_at = None,
                 tk_created_at = now_of sv\<rparr>
      in revoke_excess_active_refresh_tokens user (sv\<lparr>refresh_tokens := refresh_tokens sv @ [row]\<rparr>))"

record session_out =
  so_access_token :: string
  so_refresh_token :: string
  so_user :: user_row

definition open_user_session ::
  "crypto \<Rightarrow> settings \<Rightarrow> user_row \<Rightarrow> string \<Rightarrow> server \<Rightarrow> (session_out \<times> server) result" where
  "open_user_session cr st user raw sv =
     r_bind (issue_access_token cr st (now_of sv) user) (\<lambda>access.
       Inr (\<lparr>so_access_token = access, so_refresh_token = raw, so_user = user\<rparr>, persist_refresh_pair cr st user raw sv))"

subsection \<open>Registration and login\<close>

record register_body =
  rb_tenant_name :: string
  rb_email :: string
  rb_password :: string
  rb_full_name :: string

text \<open>The foreign key to the tenant and the unique pair of tenant and address raise at the flush.\<close>

definition insert_user ::
  "uuid \<Rightarrow> string \<Rightarrow> string \<Rightarrow> string \<Rightarrow> string \<Rightarrow> server \<Rightarrow> (user_row \<times> server) result" where
  "insert_user tenant_id email password_hash full_name role sv =
     (let (i, sv') = new_id sv;
          user = \<lparr>us_id = i, us_tenant_id = tenant_id, us_email = email, us_password_hash = password_hash,
                  us_full_name = full_name, us_role = role, us_is_active = True\<rparr>
      in r_bind (guard (list_ex (\<lambda>t. te_id t = tenant_id) (tenants sv) \<and>
                        \<not> list_ex (\<lambda>u. us_tenant_id u = tenant_id \<and> us_email u = email) (users sv)) IntegrityError) (\<lambda>_.
           Inr (user, sv'\<lparr>users := users sv @ [user]\<rparr>)))"

definition register_tenant_owner ::
  "crypto \<Rightarrow> settings \<Rightarrow> server \<Rightarrow> register_body \<Rightarrow> uuid \<Rightarrow> string \<Rightarrow> string \<Rightarrow> (session_out \<times> server) result" where
  "register_tenant_owner cr st sv body tenant_id salt raw =
     (let email_norm = py_lower (py_strip (rb_email body));
          tenant = \<lparr>te_id = tenant_id, te_name = py_strip (rb_tenant_name body), te_billing_email = email_norm, te_status = ''active''\<rparr>
      in r_bind (guard (\<not> list_ex (\<lambda>t. te_id t = tenant_id) (tenants sv)) IntegrityError) (\<lambda>_.
         let sv = sv\<lparr>tenants := tenants sv @ [tenant], hotel := ensure_builtin_categories tenant_id (hotel sv)\<rparr>
         in r_bind (insert_user tenant_id email_norm (hash_password cr salt (rb_password body)) (py_strip (rb_full_name body)) ''owner'' sv)
              (\<lambda>(user, sv). open_user_session cr st user raw sv)))"

definition post_register ::
  "crypto \<Rightarrow> settings \<Rightarrow> server \<Rightarrow> register_body \<Rightarrow> string \<Rightarrow> string \<Rightarrow> (session_out \<times> server) result" where
  "post_register cr st sv body salt raw =
     r_bind (guard (allow_public_registration st) (HTTPException ''Public registration is disabled. Use /auth/invite.'' 403)) (\<lambda>_.
     let (tenant_id, sv) = new_id sv in register_tenant_owner cr st sv body tenant_id salt raw)"

text \<open>\<^verbatim>\<open>trim(both from x)\<close> of SQL removes blanks only.\<close>

definition sql_trim :: "string \<Rightarrow> string" where
  "sql_trim s = rev (dropWhile (\<lambda>c. c = CHR 32) (rev (dropWhile (\<lambda>c. c = CHR 32) s)))"

definition lookup_active_users_by_email_login :: "server \<Rightarrow> string \<Rightarrow> (uuid \<times> uuid) list" where
  "lookup_active_users_by_email_login sv email =
     map (\<lambda>u. (us_tenant_id u, us_id u))
       (filter (\<lambda>u. py_lower (sql_trim (us_email u)) = py_lower (sql_trim email) \<and> us_is_active u) (users sv))"

definition resolve_tenant_id_for_email_login :: "server \<Rightarrow> string \<Rightarrow> uuid result" where
  "resolve_tenant_id_for_email_login sv email_norm =
     (case lookup_active_users_by_email_login sv email_norm of
        [] \<Rightarrow> Inl (AuthServiceError ''Invalid credentials.'' 401)
      | [row] \<Rightarrow> Inr (fst row)
      | _ \<Rightarrow> Inl (AuthServiceError ''Several accounts with this email. Give the organisation (tenant) ID.'' 401))"

record login_body =
  lb_tenant_id :: "uuid option"
  lb_email :: string
  lb_password :: string

definition set_user :: "uuid \<Rightarrow> (user_row \<Rightarrow> user_row) \<Rightarrow> server \<Rightarrow> server" where
  "set_user user_id f sv = sv\<lparr>users := update_rows (\<lambda>u. us_id u = user_id) f (users sv)\<rparr>"

definition login ::
  "crypto \<Rightarrow> settings \<Rightarrow> server \<Rightarrow> login_body \<Rightarrow> string \<Rightarrow> string \<Rightarrow> (session_out \<times> server) result" where
  "login cr st sv body salt raw =
     r_bind (require (lb_tenant_id body) (AuthServiceError ''tenant_id required'' 500)) (\<lambda>tid.
     let email_norm = py_lower (py_strip (lb_email body)) in
     r_bind (require (find (\<lambda>u. us_tenant_id u = tid \<and> us_email u = email_norm) (users sv))
               (AuthServiceError ''invalid credentials'' 401)) (\<lambda>user.
     r_bind (guard (us_is_active user) (AuthServiceError ''invalid credentials'' 401)) (\<lambda>_.
     r_bind (verify_password cr (lb_password body) (us_password_hash user)) (\<lambda>ok.
     r_bind (guard ok (AuthServiceError ''invalid credentials'' 401)) (\<lambda>_.
     if argon_needs_rehash cr (us_password_hash user)
     then let h = hash_password cr salt (lb_password body)
          in open_user_session cr st (user\<lparr>us_password_hash := h\<rparr>) raw (set_user (us_id user) (\<lambda>u. u\<lparr>us_password_hash := h\<rparr>) sv)
     else open_user_session cr st user raw sv)))))"

definition post_login ::
  "crypto \<Rightarrow> settings \<Rightarrow> server \<Rightarrow> login_body \<Rightarrow> string \<Rightarrow> string \<Rightarrow> (session_out \<times> server) result" where
  "post_login cr st sv body salt raw =
     r_bind (case lb_tenant_id body of Some t \<Rightarrow> Inr t
             | None \<Rightarrow> resolve_tenant_id_for_email_login sv (py_lower (py_strip (lb_email body)))) (\<lambda>tid.
     login cr st sv (body\<lparr>lb_tenant_id := Some tid\<rparr>) salt raw)"

subsection \<open>Refresh tokens\<close>

definition get_user :: "server \<Rightarrow> uuid \<Rightarrow> uuid \<Rightarrow> user_row option" where
  "get_user sv tenant_id user_id = find (\<lambda>u. us_tenant_id u = tenant_id \<and> us_id u = user_id) (users sv)"

definition list_users :: "server \<Rightarrow> uuid \<Rightarrow> user_row list" where
  "list_users sv tenant_id = sort_key us_email (filter (\<lambda>u. us_tenant_id u = tenant_id) (users sv))"

definition refresh_session ::
  "crypto \<Rightarrow> settings \<Rightarrow> server \<Rightarrow> uuid \<Rightarrow> string option \<Rightarrow> string \<Rightarrow> (session_out \<times> server) result" where
  "refresh_session cr st sv tenant_id token raw =
     r_bind (guard (token \<noteq> None \<and> py_strip (the token) \<noteq> []) (AuthServiceError ''missing refresh token'' 401)) (\<lambda>_.
     let digest = hash_refresh_token cr (py_strip (the token)) in
     r_bind (require (find (\<lambda>r. tk_tenant_id r = tenant_id \<and> tk_token_hash r = digest \<and> tk_revoked_at r = None \<and>
                              now_of sv < tk_expires_at r) (refresh_tokens sv))
               (AuthServiceError ''invalid refresh token'' 401)) (\<lambda>row.
     r_bind (require (get_user sv (tk_tenant_id row) (tk_user_id row)) (AuthServiceError ''user inactive'' 401)) (\<lambda>user.
     r_bind (guard (us_is_active user) (AuthServiceError ''user inactive'' 401)) (\<lambda>_.
     open_user_session cr st user raw (revoke_where (\<lambda>r. tk_id r = tk_id row) sv)))))"

definition text_of :: "string option \<Rightarrow> string option" where
  "text_of x = (if present_text x then Some (py_strip (the x)) else None)"

definition post_refresh ::
  "crypto \<Rightarrow> settings \<Rightarrow> server \<Rightarrow> http_request \<Rightarrow> uuid \<Rightarrow> string option \<Rightarrow> string \<Rightarrow> (session_out \<times> server) result" where
  "post_refresh cr st sv rq tenant_id body_token raw =
     (let token = (if text_of body_token \<noteq> None then text_of body_token else text_of (rq_refresh_cookie rq))
      in r_bind (guard (token \<noteq> None) (HTTPException ''missing refresh token'' 401)) (\<lambda>_.
           refresh_session cr st sv tenant_id token raw))"

definition logout :: "crypto \<Rightarrow> server \<Rightarrow> uuid \<Rightarrow> string \<Rightarrow> server" where
  "logout cr sv tenant_id raw_token =
     revoke_where (\<lambda>r. tk_tenant_id r = tenant_id \<and> tk_token_hash r = hash_refresh_token cr (py_strip raw_token) \<and>
       tk_revoked_at r = None) sv"

definition post_logout :: "crypto \<Rightarrow> server \<Rightarrow> http_request \<Rightarrow> uuid option \<Rightarrow> string option \<Rightarrow> server" where
  "post_logout cr sv rq tenant_id body_token =
     (let token = (if text_of body_token \<noteq> None then text_of body_token else text_of (rq_refresh_cookie rq))
      in case (tenant_id, token) of (Some t, Some raw) \<Rightarrow> logout cr sv t raw | _ \<Rightarrow> sv)"

text \<open>The purge runs under the row-level security of one tenant.\<close>

definition purge_stale_refresh_tokens :: "server \<Rightarrow> uuid \<Rightarrow> nat \<times> server" where
  "purge_stale_refresh_tokens sv tenant_id =
     (let stale = (\<lambda>r. tk_tenant_id r = tenant_id \<and> (tk_revoked_at r \<noteq> None \<or> tk_expires_at r < now_of sv))
      in (length (filter stale (refresh_tokens sv)), sv\<lparr>refresh_tokens := delete_rows stale (refresh_tokens sv)\<rparr>))"

definition revoke_all_refresh_tokens_for_user :: "uuid \<Rightarrow> uuid \<Rightarrow> server \<Rightarrow> server" where
  "revoke_all_refresh_tokens_for_user tenant_id user_id =
     revoke_where (\<lambda>r. tk_tenant_id r = tenant_id \<and> tk_user_id r = user_id \<and> tk_revoked_at r = None)"

subsection \<open>Passwords\<close>

definition change_password ::
  "crypto \<Rightarrow> server \<Rightarrow> uuid \<Rightarrow> uuid \<Rightarrow> string \<Rightarrow> string \<Rightarrow> string \<Rightarrow> server result" where
  "change_password cr sv tenant_id user_id current_password new_password salt =
     r_bind (require (get_user sv tenant_id user_id) (AuthServiceError ''user not found'' 404)) (\<lambda>user.
     r_bind (guard (us_is_active user) (AuthServiceError ''user not found'' 404)) (\<lambda>_.
     r_bind (verify_password cr current_password (us_password_hash user)) (\<lambda>ok.
     r_bind (guard ok (AuthServiceError ''invalid current password'' 401)) (\<lambda>_.
     Inr (revoke_all_refresh_tokens_for_user tenant_id user_id
            (set_user (us_id user) (\<lambda>u. u\<lparr>us_password_hash := hash_password cr salt new_password\<rparr>) sv))))))"

definition post_change_password ::
  "crypto \<Rightarrow> server \<Rightarrow> request_state \<Rightarrow> string \<Rightarrow> string \<Rightarrow> string \<Rightarrow> server result" where
  "post_change_password cr sv s current_password new_password salt =
     r_bind (require_jwt_user s) (\<lambda>_. r_bind (get_tenant_id s) (\<lambda>tenant_id. r_bind (get_user_id s) (\<lambda>user_id.
     r_bind (change_password cr sv tenant_id user_id current_password new_password salt) (\<lambda>sv.
     Inr (audited tenant_id ''user.change_password'' ''user'' (Some user_id) sv)))))"

definition password_fingerprint :: "crypto \<Rightarrow> string \<Rightarrow> string" where
  "password_fingerprint cr password_hash = take 12 (sha256_hex cr password_hash)"

definition reset_payload :: "crypto \<Rightarrow> timestamp \<Rightarrow> user_row \<Rightarrow> payload" where
  "reset_payload cr now user =
     [(''sub'', CUuid (us_id user)), (''tenant_id'', CUuid (us_tenant_id user)), (''typ'', CText ''password_reset''),
      (''pwd_fp'', CText (password_fingerprint cr (us_password_hash user))), (''iat'', CTime now), (''exp'', CTime (now + hours 1))]"

definition issue_password_reset_token :: "crypto \<Rightarrow> settings \<Rightarrow> timestamp \<Rightarrow> user_row \<Rightarrow> string result" where
  "issue_password_reset_token cr st now user = encode_token cr st (reset_payload cr now user)"

definition rstrip_slash :: "string \<Rightarrow> string" where
  "rstrip_slash s = rev (dropWhile (\<lambda>c. c = CHR ''/'') (rev s))"

definition send_reset_link :: "crypto \<Rightarrow> settings \<Rightarrow> mailer \<Rightarrow> uuid \<times> uuid \<Rightarrow> server \<Rightarrow> server" where
  "send_reset_link cr st mailer row sv =
     (case get_user sv (fst row) (snd row) of
        None \<Rightarrow> sv
      | Some user \<Rightarrow>
          if \<not> us_is_active user then sv
          else (case issue_password_reset_token cr st (now_of sv) user of
                  Inl _ \<Rightarrow> sv
                | Inr token \<Rightarrow> sv\<lparr>hotel := send_password_reset_email mailer st (fst row) (us_email user) (us_full_name user)
                    (rstrip_slash (frontend_base_url st) @ ''/reset-password?token='' @ token) (hotel sv)\<rparr>))"

definition request_password_reset :: "crypto \<Rightarrow> settings \<Rightarrow> mailer \<Rightarrow> server \<Rightarrow> string \<Rightarrow> server" where
  "request_password_reset cr st mailer sv email =
     fold (send_reset_link cr st mailer) (lookup_active_users_by_email_login sv (py_lower (py_strip email))) sv"

definition claim_text :: "claim option \<Rightarrow> string" where
  "claim_text c = (case c of Some (CText s) \<Rightarrow> s | _ \<Rightarrow> [])"

definition reset_password ::
  "crypto \<Rightarrow> settings \<Rightarrow> server \<Rightarrow> string \<Rightarrow> string \<Rightarrow> string \<Rightarrow> server result" where
  "reset_password cr st sv token new_password salt =
     (let refused = AuthServiceError ''invalid or expired token'' 401 in
      case decode_password_reset_token cr st (now_of sv) token of
        Inl (PyJWTError _) \<Rightarrow> Inl refused
      | Inl e \<Rightarrow> Inl e
      | Inr p \<Rightarrow> (case (map_of p ''tenant_id'', map_of p ''sub'') of
          (Some (CUuid tenant_id), Some (CUuid user_id)) \<Rightarrow>
            r_bind (require (get_user sv tenant_id user_id) refused) (\<lambda>user.
            r_bind (guard (us_is_active user) refused) (\<lambda>_.
            r_bind (guard (password_fingerprint cr (us_password_hash user) = claim_text (map_of p ''pwd_fp'')) refused) (\<lambda>_.
            Inr (audited tenant_id ''user.reset_password'' ''user'' (Some user_id)
              (revoke_all_refresh_tokens_for_user tenant_id user_id
                (set_user (us_id user) (\<lambda>u. u\<lparr>us_password_hash := hash_password cr salt new_password\<rparr>) sv))))))
        | _ \<Rightarrow> Inl refused))"

subsection \<open>Administration of users\<close>

definition USER_ROLES :: "string list" where
  "USER_ROLES = [''housekeeper'', ''manager'', ''owner'', ''receptionist'', ''viewer'']"

text \<open>A field of the body is unset (\<open>None\<close>), null (\<open>Some None\<close>) or set; \<^verbatim>\<open>bool(None)\<close> is false.\<close>

record user_patch =
  up_is_active :: "bool option option"
  up_role :: "string option option"

definition patched_role :: "user_patch \<Rightarrow> string option" where
  "patched_role body = (case up_role body of Some (Some r) \<Rightarrow> Some (py_lower (py_strip r)) | _ \<Rightarrow> None)"

definition patched_active :: "user_patch \<Rightarrow> bool \<Rightarrow> bool" where
  "patched_active body old = (case up_is_active body of None \<Rightarrow> old | Some None \<Rightarrow> False | Some (Some b) \<Rightarrow> b)"

definition active_owner :: "uuid \<Rightarrow> user_row \<Rightarrow> bool" where
  "active_owner tenant_id u \<longleftrightarrow> us_tenant_id u = tenant_id \<and> us_role u = ''owner'' \<and> us_is_active u"

definition patch_user ::
  "server \<Rightarrow> uuid \<Rightarrow> uuid \<Rightarrow> string \<Rightarrow> uuid \<Rightarrow> user_patch \<Rightarrow> (user_row \<times> server) result" where
  "patch_user sv tenant_id actor_user_id actor_role target_user_id body =
     (if up_is_active body = None \<and> up_role body = None
      then r_bind (require (get_user sv tenant_id target_user_id) (AuthServiceError ''user not found'' 404)) (\<lambda>target. Inr (target, sv))
      else let manager = (py_lower (py_strip actor_role) = ''manager''); new_role = patched_role body in
        r_bind (guard (\<not> (actor_user_id = target_user_id \<and> up_is_active body = Some (Some False)))
          (AuthServiceError ''cannot deactivate yourself'' 400)) (\<lambda>_.
        r_bind (require (get_user sv tenant_id target_user_id) (AuthServiceError ''user not found'' 404)) (\<lambda>target.
        r_bind (guard (\<not> (manager \<and> py_lower (py_strip (us_role target)) = ''owner''))
          (AuthServiceError ''managers cannot modify an owner account'' 403)) (\<lambda>_.
        r_bind (guard (\<not> (manager \<and> new_role = Some ''owner''))
          (AuthServiceError ''only an owner can assign the owner role'' 403)) (\<lambda>_.
        r_bind (guard (new_role = None \<or> the new_role \<in> set USER_ROLES)
          (AuthServiceError (''role must be one of: '' @ join '', '' USER_ROLES) 422)) (\<lambda>_.
        let next_role = (case new_role of None \<Rightarrow> py_lower (py_strip (us_role target)) | Some r \<Rightarrow> r);
            next_active = patched_active body (us_is_active target);
            other_active_owners = length (filter (\<lambda>u. active_owner tenant_id u \<and> us_id u \<noteq> target_user_id) (users sv)) in
        r_bind (guard (1 \<le> (if next_role = ''owner'' \<and> next_active then 1 else 0) + other_active_owners)
          (AuthServiceError ''tenant must keep at least one active owner'' 409)) (\<lambda>_.
        let target' = target\<lparr>us_role := (case new_role of None \<Rightarrow> us_role target | Some r \<Rightarrow> r), us_is_active := next_active\<rparr>
        in Inr (target', set_user target_user_id (\<lambda>_. target') sv))))))))"

definition patch_user_route ::
  "server \<Rightarrow> request_state \<Rightarrow> uuid \<Rightarrow> user_patch \<Rightarrow> (user_row \<times> server) result" where
  "patch_user_route sv s user_id body =
     r_bind (manage_dep s) (\<lambda>_. r_bind (get_tenant_id s) (\<lambda>tenant_id. r_bind (get_user_id s) (\<lambda>actor_user_id.
     let actor_role = (case rs_user_role s of None \<Rightarrow> [] | Some r \<Rightarrow> py_lower (py_strip r)) in
     r_bind (guard (actor_role \<noteq> []) (HTTPException ''Insufficient role for this operation'' 403)) (\<lambda>_.
     r_bind (patch_user sv tenant_id actor_user_id actor_role user_id body) (\<lambda>(user, sv).
     Inr (user, audited tenant_id ''user.patch'' ''user'' (Some user_id) sv))))))"

definition INVITABLE_ROLES :: "string list" where
  "INVITABLE_ROLES = [''manager'', ''viewer'', ''housekeeper'', ''receptionist'']"

record invite_body =
  ib_email :: string
  ib_full_name :: string
  ib_role :: string

definition invite_user ::
  "crypto \<Rightarrow> settings \<Rightarrow> mailer \<Rightarrow> server \<Rightarrow> uuid \<Rightarrow> invite_body \<Rightarrow> string \<Rightarrow> string \<Rightarrow> (user_row \<times> server) result" where
  "invite_user cr st mailer sv tenant_id body salt temp_password =
     (let role = py_lower (py_strip (ib_role body)); email_norm = py_lower (py_strip (ib_email body)) in
      r_bind (guard (role \<in> set INVITABLE_ROLES)
        (AuthServiceError ''role must be one of: manager, viewer, housekeeper, receptionist'' 422)) (\<lambda>_.
      r_bind (guard (\<not> list_ex (\<lambda>u. us_tenant_id u = tenant_id \<and> us_email u = email_norm) (users sv))
        (AuthServiceError ''user with this email already exists'' 409)) (\<lambda>_.
      r_bind (insert_user tenant_id email_norm (hash_password cr salt temp_password) (py_strip (ib_full_name body)) role sv) (\<lambda>(user, sv).
      let tenant_name = (case find (\<lambda>t. te_id t = tenant_id) (tenants sv) of None \<Rightarrow> ''OpenPMS'' | Some t \<Rightarrow> py_strip (te_name t))
      in Inr (user, sv\<lparr>hotel := send_invite_email mailer st tenant_id email_norm (py_strip (ib_full_name body)) tenant_name
           temp_password (hotel sv)\<rparr>)))))"

definition post_invite ::
  "crypto \<Rightarrow> settings \<Rightarrow> mailer \<Rightarrow> server \<Rightarrow> request_state \<Rightarrow> invite_body \<Rightarrow> string \<Rightarrow> string \<Rightarrow> (user_row \<times> server) result" where
  "post_invite cr st mailer sv s body salt temp_password =
     r_bind (manage_dep s) (\<lambda>_. r_bind (get_tenant_id s) (\<lambda>tenant_id.
     r_bind (invite_user cr st mailer sv tenant_id body salt temp_password) (\<lambda>(user, sv).
     Inr (user, audited tenant_id ''user.invite'' ''user'' (Some (us_id user)) sv))))"

definition get_me :: "server \<Rightarrow> request_state \<Rightarrow> user_row result" where
  "get_me sv s =
     r_bind (get_tenant_id s) (\<lambda>tenant_id. r_bind (get_jwt_only_user_id s) (\<lambda>user_id.
     require (get_user sv tenant_id user_id) (HTTPException ''user not found'' 404)))"

subsection \<open>Active refresh tokens\<close>

definition active_tokens :: "server \<Rightarrow> uuid \<Rightarrow> uuid \<Rightarrow> token_row list" where
  "active_tokens sv tenant_id user_id = filter (active_token (now_of sv) tenant_id user_id) (refresh_tokens sv)"

lemma revoke_where_simps [simp]:
  "hotel (revoke_where P sv) = hotel sv" "users (revoke_where P sv) = users sv" "tenants (revoke_where P sv) = tenants sv"
  "api_keys (revoke_where P sv) = api_keys sv"
  by (simp_all add: revoke_where_def)

lemma active_tokens_revoke:
  "active_tokens (revoke_where P sv) t u = filter (\<lambda>r. \<not> P r) (active_tokens sv t u)"
proof -
  have "filter A (update_rows P f xs) = filter (\<lambda>r. \<not> P r) (filter A xs)" if "\<And>r. \<not> A (f r)"
    for A and f :: "token_row \<Rightarrow> token_row" and xs
    using that by (induction xs) (auto simp: update_rows_def)
  then show ?thesis by (simp add: active_tokens_def revoke_where_def active_token_def)
qed

lemma length_filter_mset: "mset xs = mset ys \<Longrightarrow> length (filter P xs) = length (filter P ys)"
  by (metis mset_filter size_mset)

lemma excess_eq:
  "revoke_excess_active_refresh_tokens user sv =
     revoke_where (\<lambda>r. tk_id r \<in> tk_id ` set (drop MAX_ACTIVE_REFRESH_TOKENS (sort_key (\<lambda>r. - tk_created_at r)
       (active_tokens sv (us_tenant_id user) (us_id user))))) sv"
  by (simp add: revoke_excess_active_refresh_tokens_def active_tokens_def)

lemma excess_leaves_ten:
  "length (active_tokens (revoke_excess_active_refresh_tokens user sv) (us_tenant_id user) (us_id user)) \<le> MAX_ACTIVE_REFRESH_TOKENS"
proof -
  let ?a = "active_tokens sv (us_tenant_id user) (us_id user)"
  define xs where "xs = sort_key (\<lambda>r. - tk_created_at r) ?a"
  let ?keep = "\<lambda>r. tk_id r \<notin> tk_id ` set (drop MAX_ACTIVE_REFRESH_TOKENS xs)"
  have "length (filter ?keep ?a) = length (filter ?keep xs)"
    by (rule length_filter_mset) (simp add: xs_def)
  also have "\<dots> = length (filter ?keep (take MAX_ACTIVE_REFRESH_TOKENS xs @ drop MAX_ACTIVE_REFRESH_TOKENS xs))" by simp
  also have "\<dots> = length (filter ?keep (take MAX_ACTIVE_REFRESH_TOKENS xs))"
    unfolding filter_append by (simp add: filter_empty_conv)
  also have "\<dots> \<le> MAX_ACTIVE_REFRESH_TOKENS" by (rule order.trans [OF length_filter_le]) simp
  finally show ?thesis unfolding excess_eq active_tokens_revoke xs_def .
qed

lemma persist_active_tokens:
  "length (active_tokens (persist_refresh_pair cr st user raw sv) t u) \<le>
     (if t = us_tenant_id user \<and> u = us_id user then MAX_ACTIVE_REFRESH_TOKENS else length (active_tokens sv t u))"
proof -
  obtain i sv1 where i: "new_id sv = (i, sv1)" by fastforce
  then have same: "now_of sv1 = now_of sv" "refresh_tokens sv1 = refresh_tokens sv" by (auto simp: new_id_def)
  define row where "row = \<lparr>tk_id = i, tk_tenant_id = us_tenant_id user, tk_user_id = us_id user,
     tk_token_hash = hash_refresh_token cr raw, tk_expires_at = now_of sv + days (refresh_token_ttl_days st),
     tk_revoked_at = None, tk_created_at = now_of sv\<rparr>"
  let ?sv = "sv1\<lparr>refresh_tokens := refresh_tokens sv @ [row]\<rparr>"
  have p: "persist_refresh_pair cr st user raw sv = revoke_excess_active_refresh_tokens user ?sv"
    by (simp add: persist_refresh_pair_def i row_def same)
  have "length (active_tokens (revoke_excess_active_refresh_tokens user ?sv) t u) \<le> length (active_tokens ?sv t u)"
    unfolding excess_eq active_tokens_revoke by (rule length_filter_le)
  moreover have "active_tokens ?sv t u = active_tokens sv t u" if "\<not> (t = us_tenant_id user \<and> u = us_id user)"
    using that by (auto simp: active_tokens_def same active_token_def row_def)
  ultimately show ?thesis unfolding p using excess_leaves_ten [of user ?sv] by (auto split: if_split)
qed

lemma persist_simps [simp]:
  "users (persist_refresh_pair cr st user raw sv) = users sv" "tenants (persist_refresh_pair cr st user raw sv) = tenants sv"
  "now_of (persist_refresh_pair cr st user raw sv) = now_of sv"
  "next_uuid (hotel (persist_refresh_pair cr st user raw sv)) = next_uuid (hotel sv) + 1"
  by (simp_all add: persist_refresh_pair_def new_id_def revoke_excess_active_refresh_tokens_def Let_def)

subsection \<open>Reachable states of the accounts\<close>

inductive account_step :: "crypto \<Rightarrow> settings \<Rightarrow> mailer \<Rightarrow> server \<Rightarrow> server \<Rightarrow> bool"
  for cr :: crypto and st :: settings and mailer :: mailer where
  register: "post_register cr st sv body salt raw = Inr (out, sv') \<Longrightarrow> account_step cr st mailer sv sv'"
| log_in: "post_login cr st sv lbody salt raw = Inr (out, sv') \<Longrightarrow> account_step cr st mailer sv sv'"
| refresh: "post_refresh cr st sv rq t token raw = Inr (out, sv') \<Longrightarrow> account_step cr st mailer sv sv'"
| log_out: "account_step cr st mailer sv (post_logout cr sv rq topt token)"
| change: "post_change_password cr sv s old_pw new_pw salt = Inr sv' \<Longrightarrow> account_step cr st mailer sv sv'"
| forgot: "account_step cr st mailer sv (request_password_reset cr st mailer sv email)"
| reset: "reset_password cr st sv token new_pw salt = Inr sv' \<Longrightarrow> account_step cr st mailer sv sv'"
| patch: "patch_user_route sv s uid pbody = Inr (user, sv') \<Longrightarrow> account_step cr st mailer sv sv'"
| invite: "post_invite cr st mailer sv s ibody salt temp = Inr (user, sv') \<Longrightarrow> account_step cr st mailer sv sv'"
| purge: "account_step cr st mailer sv (snd (purge_stale_refresh_tokens sv t))"
| elsewhere: "users sv' = users sv \<Longrightarrow> tenants sv' = tenants sv \<Longrightarrow> refresh_tokens sv' = refresh_tokens sv \<Longrightarrow>
    now_of sv \<le> now_of sv' \<Longrightarrow> next_uuid (hotel sv) \<le> next_uuid (hotel sv') \<Longrightarrow> account_step cr st mailer sv sv'"

text \<open>
  The invariant: identifiers are fresh and unique, roles are the normalised ones, addresses are
  unique within a tenant, every tenant has an active owner, nobody has more than ten live
  sessions.
\<close>

definition roster_ok :: "tenant_row list \<Rightarrow> user_row list \<Rightarrow> uuid \<Rightarrow> bool" where
  "roster_ok ts us n \<longleftrightarrow> distinct (map us_id us) \<and> (\<forall>u\<in>set us. us_id u < n \<and> us_tenant_id u < n \<and> us_role u \<in> set USER_ROLES) \<and>
     distinct (map (\<lambda>u. (us_tenant_id u, us_email u)) us) \<and>
     (\<forall>t\<in>set ts. te_id t < n \<and> (\<exists>u\<in>set us. active_owner (te_id t) u))"

definition sessions_ok :: "server \<Rightarrow> bool" where
  "sessions_ok sv \<longleftrightarrow> (\<forall>t u. length (active_tokens sv t u) \<le> MAX_ACTIVE_REFRESH_TOKENS)"

abbreviation accounts_ok :: "server \<Rightarrow> bool" where
  "accounts_ok sv \<equiv> roster_ok (tenants sv) (users sv) (next_uuid (hotel sv)) \<and> sessions_ok sv"

lemma roster_mono: "roster_ok ts us n \<Longrightarrow> n \<le> m \<Longrightarrow> roster_ok ts us m"
  by (fastforce simp: roster_ok_def)

text \<open>Changing one user keeps the roster sound when identity stays and no last owner is lost.\<close>

lemma roster_update:
  assumes ok: "roster_ok ts us n" and u: "u \<in> set us"
    and same: "us_id u' = us_id u" "us_tenant_id u' = us_tenant_id u" "us_email u' = us_email u" "us_role u' \<in> set USER_ROLES"
    and owner: "active_owner (us_tenant_id u) u \<Longrightarrow> active_owner (us_tenant_id u) u' \<or>
      (\<exists>v\<in>set us. active_owner (us_tenant_id u) v \<and> us_id v \<noteq> us_id u)"
  shows "roster_ok ts (update_rows (\<lambda>x. us_id x = us_id u) (\<lambda>_. u') us) n"
proof -
  let ?us = "update_rows (\<lambda>x. us_id x = us_id u) (\<lambda>_. u') us"
  have only: "x = u" if "x \<in> set us" "us_id x = us_id u" for x
    using ok u that by (auto simp: roster_ok_def distinct_map inj_on_def)
  have eq: "map g ?us = map g us" if "g u' = g u" for g :: "user_row \<Rightarrow> 'b"
    unfolding update_rows_def using that only by (auto simp: map_eq_conv)
  have "\<exists>v\<in>set ?us. active_owner (te_id t) v" if "t \<in> set ts" for t
  proof -
    from ok that obtain v where v: "v \<in> set us" "active_owner (te_id t) v" by (auto simp: roster_ok_def)
    show ?thesis
    proof (cases "us_id v = us_id u")
      case True
      with v only have "v = u" by blast
      with owner v consider "active_owner (te_id t) u'" | w where "w \<in> set us" "active_owner (te_id t) w" "us_id w \<noteq> us_id u"
        by (auto simp: active_owner_def)
      then show ?thesis using u by cases (force simp: set_update_rows)+
    next
      case False
      with v show ?thesis by (force simp: set_update_rows)
    qed
  qed
  then show ?thesis
    using ok same u eq [of us_id] eq [of "\<lambda>u. (us_tenant_id u, us_email u)"]
    by (auto simp: roster_ok_def set_update_rows)
qed

lemma roster_insert:
  assumes "roster_ok ts us n" "n \<le> us_id u" "us_id u < m" "us_tenant_id u < m" "us_role u \<in> set USER_ROLES"
    "\<not> list_ex (\<lambda>v. us_tenant_id v = us_tenant_id u \<and> us_email v = us_email u) us"
  shows "roster_ok ts (us @ [u]) m"
  using assms by (fastforce simp: roster_ok_def list_ex_iff)

lemma roster_map:
  assumes "\<And>v. us_id (h v) = us_id v" "\<And>v. us_tenant_id (h v) = us_tenant_id v" "\<And>v. us_email (h v) = us_email v"
    "\<And>v. us_role (h v) = us_role v" "\<And>v. us_is_active (h v) = us_is_active v"
  shows "roster_ok ts (map h us) n \<longleftrightarrow> roster_ok ts us n"
  using assms by (simp add: roster_ok_def comp_def active_owner_def)

lemma set_password_roster [simp]:
  "roster_ok ts (users (set_user i (us_password_hash_update f) sv)) n \<longleftrightarrow> roster_ok ts (users sv) n"
  by (simp add: set_user_def update_rows_def roster_map)

lemma sessions_revoke: "sessions_ok sv \<Longrightarrow> sessions_ok (revoke_where P sv)"
  by (auto simp: sessions_ok_def active_tokens_revoke intro: order.trans [OF length_filter_le])

lemma sessions_same:
  "sessions_ok sv \<Longrightarrow> refresh_tokens sv' = refresh_tokens sv \<Longrightarrow> now_of sv \<le> now_of sv' \<Longrightarrow> sessions_ok sv'"
proof -
  assume a: "sessions_ok sv" "refresh_tokens sv' = refresh_tokens sv" "now_of sv \<le> now_of sv'"
  have "length (filter (active_token (now_of sv') t u) xs) \<le> length (filter (active_token (now_of sv) t u) xs)" for t u xs
    using a(3) by (induction xs) (auto simp: active_token_def)
  with a(1) show "sessions_ok sv'"
    unfolding sessions_ok_def active_tokens_def a(2) by (meson le_trans)
qed

lemma open_session_effect:
  assumes "open_user_session cr st user raw sv = Inr (out, sv')"
  shows "users sv' = users sv" "tenants sv' = tenants sv" "next_uuid (hotel sv') = next_uuid (hotel sv) + 1"
    and "sessions_ok sv \<Longrightarrow> sessions_ok sv'"
proof -
  from assms have sv': "sv' = persist_refresh_pair cr st user raw sv" by (auto simp: open_user_session_def)
  then show "users sv' = users sv" "tenants sv' = tenants sv" "next_uuid (hotel sv') = next_uuid (hotel sv) + 1" by simp_all
  assume "sessions_ok sv"
  then show "sessions_ok sv'"
    unfolding sv' sessions_ok_def by (auto intro: order.trans [OF persist_active_tokens] split: if_splits)
qed

lemma open_session_keeps:
  "open_user_session cr st user raw sv = Inr (out, sv') \<Longrightarrow> accounts_ok sv \<Longrightarrow> accounts_ok sv'"
  using open_session_effect by (auto elim: roster_mono)

lemma set_user_simps [simp]:
  "hotel (set_user i f sv) = hotel sv" "tenants (set_user i f sv) = tenants sv"
  "refresh_tokens (set_user i f sv) = refresh_tokens sv"
  by (simp_all add: set_user_def)

lemma ensure_categories_ids: "next_uuid d \<le> next_uuid (ensure_builtin_categories t d)" "db_now (ensure_builtin_categories t d) = db_now d"
proof -
  have "next_uuid d \<le> next_uuid (ensure_rows t rs d) \<and> db_now (ensure_rows t rs d) = db_now d" for rs
  proof (induction rs arbitrary: d)
    case (Cons r rs)
    obtain code label so where r: "r = (code, label, so)" by (cases r) auto
    let ?d = "case category_at d t code of Some _ \<Rightarrow> d | None \<Rightarrow> snd (insert_category t code label True True so d)"
    have "next_uuid d \<le> next_uuid ?d" "db_now ?d = db_now d"
      by (auto simp: insert_category_def Let_def split: option.split)
    with Cons.IH [of ?d] show ?case by (simp add: r)
  qed simp
  then show "next_uuid d \<le> next_uuid (ensure_builtin_categories t d)" "db_now (ensure_builtin_categories t d) = db_now d"
    by (simp_all add: ensure_builtin_categories_def)
qed

lemma insert_user_effect:
  assumes "insert_user t email h name role sv = Inr (u, sv')"
  shows "users sv' = users sv @ [u]" "tenants sv' = tenants sv" "refresh_tokens sv' = refresh_tokens sv"
    "us_id u = next_uuid (hotel sv)" "us_tenant_id u = t" "us_email u = email" "us_role u = role" "us_is_active u"
    "next_uuid (hotel sv') = next_uuid (hotel sv) + 1" "now_of sv' = now_of sv"
    "\<not> list_ex (\<lambda>v. us_tenant_id v = t \<and> us_email v = email) (users sv)" "\<exists>x\<in>set (tenants sv). te_id x = t"
  using assms by (auto simp: insert_user_def new_id_def Let_def list_ex_iff split: if_splits)

lemma register_keeps:
  assumes ok: "accounts_ok sv" and "post_register cr st sv body salt raw = Inr (out, sv')"
  shows "accounts_ok sv'"
proof -
  let ?n = "next_uuid (hotel sv)"
  obtain i sv1 where i: "new_id sv = (i, sv1)" "i = ?n" "users sv1 = users sv" "tenants sv1 = tenants sv"
      "refresh_tokens sv1 = refresh_tokens sv" "next_uuid (hotel sv1) = ?n + 1" "now_of sv1 = now_of sv"
    by (simp add: new_id_def)
  define te where "te = \<lparr>te_id = ?n, te_name = py_strip (rb_tenant_name body),
    te_billing_email = py_lower (py_strip (rb_email body)), te_status = ''active''\<rparr>"
  define sv2 where "sv2 = sv1\<lparr>tenants := tenants sv @ [te], hotel := ensure_builtin_categories ?n (hotel sv1)\<rparr>"
  obtain u sv3 where u: "insert_user ?n (py_lower (py_strip (rb_email body))) (hash_password cr salt (rb_password body))
        (py_strip (rb_full_name body)) ''owner'' sv2 = Inr (u, sv3)" "open_user_session cr st u raw sv3 = Inr (out, sv')"
    using assms(2) by (auto simp: post_register_def register_tenant_owner_def i Let_def te_def sv2_def split: if_splits)
  note e = insert_user_effect [OF u(1)]
  have n2: "?n < next_uuid (hotel sv2)" and now2: "now_of sv2 = now_of sv"
    using ensure_categories_ids [where d = "hotel sv1" and t = ?n] by (simp_all add: sv2_def i)
  have "roster_ok (tenants sv) (users sv @ [u]) (next_uuid (hotel sv3))"
    using ok e n2 by (intro roster_insert [of _ _ ?n]) (auto simp: sv2_def i USER_ROLES_def)
  then have "roster_ok (tenants sv3) (users sv3) (next_uuid (hotel sv3))"
    using e n2 by (auto simp: roster_ok_def sv2_def i te_def active_owner_def)
  moreover have "sessions_ok sv3"
    using ok e now2 by (auto intro: sessions_same [of sv] simp: sv2_def i)
  ultimately show ?thesis using open_session_keeps [OF u(2)] by blast
qed

lemma login_keeps:
  assumes ok: "accounts_ok sv" and "post_login cr st sv body salt raw = Inr (out, sv')"
  shows "accounts_ok sv'"
proof -
  from assms(2) obtain user h where "open_user_session cr st user raw sv = Inr (out, sv') \<or>
      open_user_session cr st user raw (set_user (us_id user) (us_password_hash_update (\<lambda>_. h)) sv) = Inr (out, sv')"
    by (auto simp: post_login_def login_def Let_def split: if_splits) (metis user_row.select_convs(1) user_row.surjective user_row.update_convs(4))
  with ok show ?thesis
    using open_session_keeps by (metis sessions_same order_refl set_password_roster set_user_simps)
qed

lemma refresh_keeps:
  assumes ok: "accounts_ok sv" and "post_refresh cr st sv rq t token raw = Inr (out, sv')"
  shows "accounts_ok sv'"
proof -
  from assms(2) obtain user P where "open_user_session cr st user raw (revoke_where P sv) = Inr (out, sv')"
    by (auto simp: post_refresh_def refresh_session_def Let_def split: if_splits)
  from open_session_keeps [OF this] ok show ?thesis by (simp add: sessions_revoke)
qed

lemma patch_user_effect:
  assumes "patch_user sv t actor role i body = Inr (u', sv')"
  shows "sv' = sv \<or> (\<exists>u. u \<in> set (users sv) \<and> us_tenant_id u = t \<and> us_id u = i \<and>
     sv' = set_user i (\<lambda>_. u') sv \<and> u' = u\<lparr>us_role := us_role u', us_is_active := us_is_active u'\<rparr> \<and>
     (us_role u' \<in> set USER_ROLES \<or> us_role u' = us_role u) \<and>
     (py_lower (py_strip role) = ''manager'' \<longrightarrow> us_role u \<noteq> ''owner'' \<and> us_role u' \<noteq> ''owner'') \<and>
     ((case patched_role body of None \<Rightarrow> py_lower (py_strip (us_role u)) | Some r \<Rightarrow> r) = ''owner'' \<and> us_is_active u' \<or>
      (\<exists>v\<in>set (users sv). active_owner t v \<and> us_id v \<noteq> i)) \<and>
     us_role u' = (case patched_role body of None \<Rightarrow> us_role u | Some r \<Rightarrow> r))"
proof (cases "up_is_active body = None \<and> up_role body = None")
  case True
  with assms show ?thesis by (auto simp: patch_user_def)
next
  case False
  with assms obtain u where u: "get_user sv t i = Some u"
      "py_lower (py_strip role) = ''manager'' \<Longrightarrow> py_lower (py_strip (us_role u)) \<noteq> ''owner'' \<and> patched_role body \<noteq> Some ''owner''"
      "patched_role body = None \<or> the (patched_role body) \<in> set USER_ROLES"
      "1 \<le> (if (case patched_role body of None \<Rightarrow> py_lower (py_strip (us_role u)) | Some r \<Rightarrow> r) = ''owner'' \<and>
               patched_active body (us_is_active u) then 1 else 0) +
          length (filter (\<lambda>v. active_owner t v \<and> us_id v \<noteq> i) (users sv))"
      "u' = u\<lparr>us_role := (case patched_role body of None \<Rightarrow> us_role u | Some r \<Rightarrow> r),
              us_is_active := patched_active body (us_is_active u)\<rparr>" "sv' = set_user i (\<lambda>_. u') sv"
    unfolding patch_user_def if_not_P [OF False] Let_def by (clarsimp simp del: guard_bind)
  have "py_lower (py_strip ''owner'') = ''owner''" by code_simp
  moreover have "filter P xs \<noteq> [] \<longleftrightarrow> (\<exists>v\<in>set xs. P v)" for P and xs :: "user_row list" by (auto simp: filter_empty_conv)
  then have "(case patched_role body of None \<Rightarrow> py_lower (py_strip (us_role u)) | Some r \<Rightarrow> r) = ''owner'' \<and> us_is_active u' \<or>
      (\<exists>v\<in>set (users sv). active_owner t v \<and> us_id v \<noteq> i)"
    using u(4,5) by (auto split: if_splits simp: Suc_le_eq)
  moreover have "u \<in> set (users sv)" "us_tenant_id u = t" "us_id u = i"
    using u(1) by (auto simp: get_user_def dest: find_Some_mem)
  ultimately show ?thesis using u(2,3,5,6) by (cases "patched_role body") auto
qed

lemma user_roles_normal: "r \<in> set USER_ROLES \<Longrightarrow> py_lower (py_strip r) = r"
proof -
  have "list_all (\<lambda>r. py_lower (py_strip r) = r) USER_ROLES" by code_simp
  then show "r \<in> set USER_ROLES \<Longrightarrow> py_lower (py_strip r) = r" by (simp add: list_all_iff)
qed

lemma patch_user_keeps:
  assumes ok: "accounts_ok sv" and "patch_user sv t actor role i body = Inr (u', sv')"
  shows "accounts_ok sv'"
proof -
  consider "sv' = sv" | u where "u \<in> set (users sv)" "us_tenant_id u = t" "us_id u = i" "sv' = set_user i (\<lambda>_. u') sv"
      "u' = u\<lparr>us_role := us_role u', us_is_active := us_is_active u'\<rparr>" "us_role u' \<in> set USER_ROLES \<or> us_role u' = us_role u"
      "(case patched_role body of None \<Rightarrow> py_lower (py_strip (us_role u)) | Some r \<Rightarrow> r) = ''owner'' \<and> us_is_active u' \<or>
       (\<exists>v\<in>set (users sv). active_owner t v \<and> us_id v \<noteq> i)"
      "us_role u' = (case patched_role body of None \<Rightarrow> us_role u | Some r \<Rightarrow> r)"
    using patch_user_effect [OF assms(2)] by blast
  then show ?thesis
  proof cases
    case 1
    with ok show ?thesis by simp
  next
    case 2
    from ok 2(1) have role: "us_role u \<in> set USER_ROLES" by (auto simp: roster_ok_def)
    have same: "us_id u' = us_id u" "us_tenant_id u' = us_tenant_id u" "us_email u' = us_email u"
      by (subst 2(5), simp)+
    have "active_owner t u' \<or> (\<exists>v\<in>set (users sv). active_owner t v \<and> us_id v \<noteq> us_id u)"
      using 2(2,3,7,8) same role by (cases "patched_role body") (auto simp: active_owner_def user_roles_normal)
    then have "roster_ok (tenants sv) (update_rows (\<lambda>x. us_id x = us_id u) (\<lambda>_. u') (users sv)) (next_uuid (hotel sv))"
      using ok 2 role same by (intro roster_update) auto
    moreover have "sessions_ok sv'" using ok 2(4) by (auto intro: sessions_same)
    ultimately show ?thesis using 2(3,4) by (simp add: set_user_def)
  qed
qed

lemma send_mail_ids: "next_uuid d \<le> next_uuid (send_booking_email mailer st t m p b d)"
  by (simp add: send_booking_email_def log_email_def split: sum.split)

lemma invite_keeps:
  assumes ok: "accounts_ok sv" and "invite_user cr st mailer sv tenant_id body salt temp = Inr (u, sv')"
  shows "accounts_ok sv'"
proof -
  from assms(2) obtain email h name role sv1 d where i: "insert_user tenant_id email h name role sv = Inr (u, sv1)"
      "role \<in> set INVITABLE_ROLES" "sv' = sv1\<lparr>hotel := d\<rparr>" "next_uuid (hotel sv1) \<le> next_uuid d" "db_now d = now_of sv1"
    using send_mail_ids by (auto simp: invite_user_def Let_def send_invite_email_def split: if_splits)
  note e = insert_user_effect [OF i(1)]
  have "tenant_id < next_uuid (hotel sv)" using e(12) ok by (auto simp: roster_ok_def)
  moreover have "us_role u \<in> set USER_ROLES" using i(2) e(7) by (auto simp: INVITABLE_ROLES_def USER_ROLES_def)
  ultimately have "roster_ok (tenants sv) (users sv @ [u]) (next_uuid d)"
    using ok e i(4) by (intro roster_insert [of _ _ "next_uuid (hotel sv)"]) auto
  moreover have "sessions_ok sv'" using ok e i(3,5) by (auto intro: sessions_same)
  ultimately show ?thesis using e i(3) by simp
qed

lemma reset_link_effect:
  "users (send_reset_link cr st mailer row sv) = users sv \<and> tenants (send_reset_link cr st mailer row sv) = tenants sv \<and>
   refresh_tokens (send_reset_link cr st mailer row sv) = refresh_tokens sv \<and>
   now_of (send_reset_link cr st mailer row sv) = now_of sv \<and>
   next_uuid (hotel sv) \<le> next_uuid (hotel (send_reset_link cr st mailer row sv))"
  using send_mail_ids
  by (auto simp: send_reset_link_def send_password_reset_email_def split: option.split sum.split)

lemma reset_link_keeps: "accounts_ok sv \<Longrightarrow> accounts_ok (send_reset_link cr st mailer row sv)"
  using reset_link_effect [of cr st mailer row sv] by (auto elim: roster_mono intro: sessions_same)

lemma sessions_audited [simp]: "sessions_ok (audited t a e i sv) \<longleftrightarrow> sessions_ok sv"
  by (simp add: sessions_ok_def active_tokens_def)

lemma audited_keeps: "accounts_ok (audited t a e i sv) \<longleftrightarrow> accounts_ok sv"
  by simp

lemma new_password_keeps:
  "accounts_ok sv \<Longrightarrow> accounts_ok (revoke_all_refresh_tokens_for_user t u (set_user i (us_password_hash_update f) sv))"
  by (auto simp: revoke_all_refresh_tokens_for_user_def intro!: sessions_revoke intro: sessions_same)

lemma purge_keeps:
  assumes ok: "accounts_ok sv"
  shows "accounts_ok (snd (purge_stale_refresh_tokens sv t))"
proof -
  obtain D where e: "snd (purge_stale_refresh_tokens sv t) = sv\<lparr>refresh_tokens := delete_rows D (refresh_tokens sv)\<rparr>"
    by (simp add: purge_stale_refresh_tokens_def Let_def)
  have fewer: "length (filter A (delete_rows D xs)) \<le> length (filter A xs)" for A and xs :: "token_row list"
    by (induction xs) (auto simp: delete_rows_def)
  from ok have "\<forall>t u. length (filter (active_token (now_of sv) t u) (refresh_tokens sv)) \<le> MAX_ACTIVE_REFRESH_TOKENS"
    by (simp add: sessions_ok_def active_tokens_def)
  then have "sessions_ok (snd (purge_stale_refresh_tokens sv t))"
    unfolding e by (simp add: sessions_ok_def active_tokens_def) (meson fewer le_trans)
  with ok show ?thesis by (simp add: e)
qed

interpretation accounts: invariant_system "account_step cr st mailer" "\<lambda>sv. accounts_ok sv" for cr st mailer
proof
  fix sv sv' assume "accounts_ok sv" "account_step cr st mailer sv sv'"
  from this(2,1) show "accounts_ok sv'"
  proof (induction rule: account_step.induct)
    case (log_out sv rq topt token)
    then show ?case
      by (auto simp: post_logout_def logout_def Let_def intro: sessions_revoke split: option.splits)
  next
    case (change sv s old_pw new_pw salt sv')
    then obtain t u i f where "sv' = audited t ''user.change_password'' ''user'' (Some u)
        (revoke_all_refresh_tokens_for_user t u (set_user i (us_password_hash_update f) sv))"
      by (fastforce simp: post_change_password_def change_password_def split: if_splits)
    with new_password_keeps [OF change(2), of t u i f] show ?case by simp
  next
    case (forgot sv email)
    then show ?case unfolding request_password_reset_def
      by (rule fold_keeps [of "\<lambda>sv. accounts_ok sv", rotated]) (rule reset_link_keeps)
  next
    case (reset sv token new_pw salt sv')
    then obtain t u i f where "sv' = audited t ''user.reset_password'' ''user'' (Some u)
        (revoke_all_refresh_tokens_for_user t u (set_user i (us_password_hash_update f) sv))"
      by (fastforce simp: reset_password_def Let_def split: sum.splits error.splits option.splits claim.splits if_splits)
    with new_password_keeps [OF reset(2), of t u i f] show ?case by simp
  next
    case (patch sv s uid pbody user sv')
    then obtain t sv1 actor role where "patch_user sv t actor role uid pbody = Inr (user, sv1)"
        "sv' = audited t ''user.patch'' ''user'' (Some uid) sv1"
      by (auto simp: patch_user_route_def Let_def split: if_splits)
    with patch show ?case using patch_user_keeps audited_keeps by blast
  next
    case (invite sv s ibody salt temp user sv')
    then obtain t sv1 where "invite_user cr st mailer sv t ibody salt temp = Inr (user, sv1)"
        "sv' = audited t ''user.invite'' ''user'' (Some (us_id user)) sv1"
      by (auto simp: post_invite_def)
    with invite show ?case using invite_keeps audited_keeps by blast
  next
    case (purge sv t)
    then show ?case by (rule purge_keeps)
  next
    case (elsewhere sv' sv)
    then show ?case by (auto intro: roster_mono sessions_same)
  qed (erule (1) register_keeps login_keeps refresh_keeps)+
qed

lemma succeeds_pair: "succeeds r \<Longrightarrow> \<exists>x y. r = Inr (x, y)"
  by (cases r) auto

lemma empty_accounts_ok: "users sv = [] \<Longrightarrow> tenants sv = [] \<Longrightarrow> refresh_tokens sv = [] \<Longrightarrow> accounts_ok sv"
  by (simp add: roster_ok_def sessions_ok_def active_tokens_def)

text \<open>
  C15. Whatever registrations, invitations, role changes, deactivations, logins and password
  changes a server has gone through since it was empty, every tenant has an active owner.
\<close>

theorem every_tenant_has_an_owner:
  assumes "(account_step cr st mailer)\<^sup>*\<^sup>* sv sv'" "users sv = []" "tenants sv = []" "refresh_tokens sv = []"
  shows "list_all (\<lambda>t. list_ex (active_owner (te_id t)) (users sv')) (tenants sv')"
proof -
  have "accounts_ok sv" using assms(2-) by (rule empty_accounts_ok)
  with assms(1) have "accounts_ok sv'" by (rule accounts.reachable_keeps)
  then show ?thesis by (auto simp: roster_ok_def list_all_iff list_ex_iff)
qed

definition empty_server :: server where
  "empty_server = \<lparr>hotel = empty_db, tenants = [], users = [], refresh_tokens = [], api_keys = []\<rparr>"

definition demo_registered :: "(session_out \<times> server) result" where
  "demo_registered = post_register (demo_crypto []) (demo_settings\<lparr>allow_public_registration := True\<rparr>) empty_server
     \<lparr>rb_tenant_name = ''Inn'', rb_email = '' Ann@x '', rb_password = ''secret77'', rb_full_name = ''Ann''\<rparr> ''s'' ''raw''"

theorem every_tenant_has_an_owner_witness:
  "map te_name (tenants (snd (projr demo_registered))) = [''Inn''] \<and>
   list_all (\<lambda>t. list_ex (active_owner (te_id t)) (users (snd (projr demo_registered)))) (tenants (snd (projr demo_registered)))"
proof -
  have "succeeds demo_registered" by code_simp
  then obtain out sv' where r: "demo_registered = Inr (out, sv')" by (auto dest: succeeds_pair)
  have "(account_step (demo_crypto []) (demo_settings\<lparr>allow_public_registration := True\<rparr>) demo_mailer)\<^sup>*\<^sup>* empty_server sv'"
    by (rule r_into_rtranclp) (rule account_step.register [OF r [unfolded demo_registered_def]])
  from every_tenant_has_an_owner [OF this]
  have "list_all (\<lambda>t. list_ex (active_owner (te_id t)) (users sv')) (tenants sv')" by (simp add: empty_server_def)
  moreover have "map te_name (tenants (snd (projr demo_registered))) = [''Inn'']" by code_simp
  ultimately show ?thesis unfolding r by simp
qed

text \<open>
  C16. No user ever has more than ten live refresh tokens (neither revoked nor expired), on any
  reachable server and at any time.
\<close>

theorem at_most_ten_sessions:
  assumes "(account_step cr st mailer)\<^sup>*\<^sup>* sv sv'" "users sv = []" "tenants sv = []" "refresh_tokens sv = []"
  shows "length (active_tokens sv' tenant_id user_id) \<le> 10"
proof -
  have "accounts_ok sv" using assms(2-) by (rule empty_accounts_ok)
  with assms(1) have "accounts_ok sv'" by (rule accounts.reachable_keeps)
  then show ?thesis by (simp add: sessions_ok_def MAX_ACTIVE_REFRESH_TOKENS_def)
qed

theorem at_most_ten_sessions_witness:
  "length (active_tokens (snd (projr demo_registered)) 0 9) = 1 \<and> length (active_tokens (snd (projr demo_registered)) 0 9) \<le> 10"
proof -
  have "succeeds demo_registered" by code_simp
  then obtain out sv' where r: "demo_registered = Inr (out, sv')" by (auto dest: succeeds_pair)
  have "(account_step (demo_crypto []) (demo_settings\<lparr>allow_public_registration := True\<rparr>) demo_mailer)\<^sup>*\<^sup>* empty_server sv'"
    by (rule r_into_rtranclp) (rule account_step.register [OF r [unfolded demo_registered_def]])
  from at_most_ten_sessions [OF this, of 0 9] have "length (active_tokens sv' 0 9) \<le> 10" by (simp add: empty_server_def)
  moreover have "length (active_tokens (snd (projr demo_registered)) 0 9) = 1" by code_simp
  ultimately show ?thesis unfolding r by simp
qed

text \<open>
  C19. A manager can neither touch an owner nor create one: whatever change or invitation a
  manager gets through, the owner accounts of all tenants stay exactly as they were.
\<close>

theorem managers_cannot_touch_owners:
  assumes role: "rs_user_role s = Some ''manager''" and ids: "distinct (map us_id (users sv))"
    and act: "patch_user_route sv s user_id body = Inr (user, sv') \<or>
      post_invite cr st mailer sv s invitation salt temp = Inr (user, sv')"
  shows "filter (\<lambda>u. us_role u = ''owner'') (users sv') = filter (\<lambda>u. us_role u = ''owner'') (users sv)"
  using act
proof
  assume "post_invite cr st mailer sv s invitation salt temp = Inr (user, sv')"
  then obtain t sv1 where "invite_user cr st mailer sv t invitation salt temp = Inr (user, sv1)" "users sv' = users sv1"
    by (auto simp: post_invite_def)
  then obtain email h name r sv2 where i: "insert_user t email h name r sv = Inr (user, sv2)" "r \<in> set INVITABLE_ROLES"
      "users sv' = users sv2"
    by (auto simp: invite_user_def Let_def split: if_splits)
  with insert_user_effect(1,7) [OF i(1)] show ?thesis by (auto simp: INVITABLE_ROLES_def)
next
  assume "patch_user_route sv s user_id body = Inr (user, sv')"
  then obtain t sv1 actor where p: "patch_user sv t actor (py_lower (py_strip ''manager'')) user_id body = Inr (user, sv1)"
      "users sv' = users sv1"
    using role by (auto simp: patch_user_route_def Let_def split: if_splits)
  have norm: "py_lower (py_strip (py_lower (py_strip ''manager''))) = ''manager''" by code_simp
  from patch_user_effect [OF p(1)] norm
  consider "sv1 = sv" | u where "u \<in> set (users sv)" "us_id u = user_id" "sv1 = set_user user_id (\<lambda>_. user) sv"
      "us_role u \<noteq> ''owner''" "us_role user \<noteq> ''owner''"
    by blast
  then show ?thesis
  proof cases
    case 2
    then have "us_role x \<noteq> ''owner''" if "x \<in> set (users sv)" "us_id x = user_id" for x
      using ids that by (auto simp: distinct_map inj_on_def)
    then have "filter (\<lambda>u. us_role u = ''owner'') (update_rows (\<lambda>u. us_id u = user_id) (\<lambda>_. user) xs) =
        filter (\<lambda>u. us_role u = ''owner'') xs" if "set xs \<subseteq> set (users sv)" for xs
      using that 2(5) by (induction xs) (auto simp: update_rows_def)
    then show ?thesis using p(2) 2(3) by (simp add: set_user_def)
  qed (use p(2) in simp)
qed

theorem managers_cannot_touch_owners_witness:
  "let r = post_invite (demo_crypto []) demo_settings demo_mailer demo_server (demo_actor ''manager'')
       \<lparr>ib_email = ''n@x'', ib_full_name = ''Nina'', ib_role = ''Viewer''\<rparr> ''s'' ''temp''
   in map us_email (filter (\<lambda>u. us_role u = ''owner'') (users (snd (projr r)))) = [''o@x'']"
proof -
  let ?r = "post_invite (demo_crypto []) demo_settings demo_mailer demo_server (demo_actor ''manager'')
       \<lparr>ib_email = ''n@x'', ib_full_name = ''Nina'', ib_role = ''Viewer''\<rparr> ''s'' ''temp''"
  have "succeeds ?r" by code_simp
  then obtain u sv' where r: "?r = Inr (u, sv')" by (auto dest: succeeds_pair)
  have "rs_user_role (demo_actor ''manager'') = Some ''manager''" "distinct (map us_id (users demo_server))" by code_simp+
  from managers_cannot_touch_owners [OF this disjI2, OF r]
  have "filter (\<lambda>u. us_role u = ''owner'') (users sv') = filter (\<lambda>u. us_role u = ''owner'') (users demo_server)" .
  then show ?thesis unfolding r by (simp add: demo_server_def)
qed

subsection \<open>Credentials that stop working\<close>

lemma refresh_refused:
  assumes "\<And>r. r \<in> set (refresh_tokens sv) \<Longrightarrow> tk_tenant_id r = t \<Longrightarrow>
      tk_token_hash r = hash_refresh_token cr (py_strip token) \<Longrightarrow> tk_revoked_at r \<noteq> None \<or> tk_expires_at r \<le> now_of sv"
    and "py_strip token \<noteq> []"
  shows "refresh_session cr st sv t (Some token) raw = Inl (AuthServiceError ''invalid refresh token'' 401)"
proof -
  have "find (\<lambda>r. tk_tenant_id r = t \<and> tk_token_hash r = hash_refresh_token cr (py_strip token) \<and> tk_revoked_at r = None \<and>
      now_of sv < tk_expires_at r) (refresh_tokens sv) = None"
    using assms(1) by (force simp: find_None_iff)
  with assms(2) show ?thesis by (simp add: refresh_session_def Let_def require_def)
qed

lemma revoke_where_tokens:
  "r \<in> set (refresh_tokens (revoke_where P sv)) \<longleftrightarrow>
     (\<exists>r0\<in>set (refresh_tokens sv). r = (if P r0 then r0\<lparr>tk_revoked_at := Some (now_of sv)\<rparr> else r0))"
  by (auto simp: revoke_where_def set_update_rows)

lemma persist_tokens:
  assumes "r \<in> set (refresh_tokens (persist_refresh_pair cr st user raw sv))"
  shows "(\<exists>r0\<in>set (refresh_tokens sv). tk_tenant_id r = tk_tenant_id r0 \<and> tk_user_id r = tk_user_id r0 \<and> tk_token_hash r = tk_token_hash r0 \<and>
      (tk_revoked_at r0 \<noteq> None \<longrightarrow> tk_revoked_at r \<noteq> None)) \<or> tk_token_hash r = hash_refresh_token cr raw"
  using assms
  by (auto simp: persist_refresh_pair_def new_id_def Let_def excess_eq revoke_where_tokens split: if_splits)

text \<open>
  C20. A refresh token works once: after it has been exchanged, presenting it again is refused,
  provided the stored digests are distinct and the digest of the new token is a new one.
\<close>

theorem refresh_token_works_once:
  assumes used: "refresh_session cr st sv t (Some token) raw = Inr (out, sv')"
    and unique: "distinct (map tk_token_hash (refresh_tokens sv))"
    and fresh: "hash_refresh_token cr raw \<noteq> hash_refresh_token cr (py_strip token)"
  shows "refresh_session cr st sv' t (Some token) raw' = Inl (AuthServiceError ''invalid refresh token'' 401)"
proof -
  let ?h = "hash_refresh_token cr (py_strip token)"
  from used obtain row user where row: "row \<in> set (refresh_tokens sv)" "tk_token_hash row = ?h" "py_strip token \<noteq> []"
      "sv' = persist_refresh_pair cr st user raw (revoke_where (\<lambda>r. tk_id r = tk_id row) sv)"
    by (auto simp: refresh_session_def open_user_session_def Let_def dest!: find_Some_mem split: if_splits)
  have "tk_revoked_at r \<noteq> None" if r: "r \<in> set (refresh_tokens sv')" "tk_token_hash r = ?h" for r
  proof -
    from persist_tokens r fresh row(4) obtain r0 where r0: "r0 \<in> set (refresh_tokens (revoke_where (\<lambda>r. tk_id r = tk_id row) sv))"
        "tk_token_hash r0 = ?h" "tk_revoked_at r0 \<noteq> None \<longrightarrow> tk_revoked_at r \<noteq> None"
      by metis
    from r0(1,2) obtain r1 where r1: "r1 \<in> set (refresh_tokens sv)" "tk_token_hash r1 = ?h"
        "r0 = (if tk_id r1 = tk_id row then r1\<lparr>tk_revoked_at := Some (now_of sv)\<rparr> else r1)"
      by (auto simp: revoke_where_tokens split: if_splits)
    from r1(1,2) row(1,2) unique have "r1 = row" by (auto simp: distinct_map inj_on_def)
    with r1(3) r0(3) show ?thesis by simp
  qed
  with row(3) show ?thesis by (intro refresh_refused) auto
qed

definition demo_exchanged :: "(session_out \<times> server) result" where
  "demo_exchanged = refresh_session (demo_crypto []) demo_settings demo_server 1 (Some '' old '') ''new''"

theorem refresh_token_works_once_witness:
  "succeeds demo_exchanged \<and> refresh_session (demo_crypto []) demo_settings (snd (projr demo_exchanged)) 1 (Some '' old '') ''x''
     = Inl (AuthServiceError ''invalid refresh token'' 401)"
proof -
  have ok: "succeeds demo_exchanged" by code_simp
  then obtain out sv' where r: "demo_exchanged = Inr (out, sv')" by (auto dest: succeeds_pair)
  have "distinct (map tk_token_hash (refresh_tokens demo_server))"
    "hash_refresh_token (demo_crypto []) ''new'' \<noteq> hash_refresh_token (demo_crypto []) (py_strip '' old '')" by code_simp+
  from refresh_token_works_once [OF r [unfolded demo_exchanged_def] this] ok show ?thesis unfolding r by simp
qed

lemma active_tokens_audited [simp]: "active_tokens (audited a b c e sv) t u = active_tokens sv t u"
  by (simp add: active_tokens_def)

lemma active_tokens_revoke_all: "active_tokens (revoke_all_refresh_tokens_for_user t u sv) t u = []"
  unfolding revoke_all_refresh_tokens_for_user_def active_tokens_revoke
  by (auto simp: filter_empty_conv active_tokens_def active_token_def)

text \<open>
  A password reset ends what the old password had opened: after it, the user has no live
  refresh token, and the link itself is spent, provided the fingerprint of the new password hash
  is not the one in the link.
\<close>

theorem reset_spends_link_and_sessions:
  assumes reset: "reset_password cr st sv token new_password salt = Inr sv'"
    and link: "decode_password_reset_token cr st (now_of sv) token = Inr p"
      "map_of p ''tenant_id'' = Some (CUuid t)" "map_of p ''sub'' = Some (CUuid u)" "claim_text (map_of p ''pwd_fp'') = fp"
    and changed: "password_fingerprint cr (hash_password cr salt new_password) \<noteq> fp"
  shows "active_tokens sv' t u = [] \<and>
    reset_password cr st sv' token pw salt' = Inl (AuthServiceError ''invalid or expired token'' 401)"
proof -
  let ?h = "hash_password cr salt new_password"
  from reset link obtain user where user: "get_user sv t u = Some user"
      "sv' = audited t ''user.reset_password'' ''user'' (Some u)
         (revoke_all_refresh_tokens_for_user t u (set_user (us_id user) (us_password_hash_update (\<lambda>_. ?h)) sv))"
    by (auto simp: reset_password_def Let_def split: if_splits)
  have "active_tokens sv' t u = []"
    by (simp add: user(2) active_tokens_revoke_all)
  have now: "now_of sv' = now_of sv" by (simp add: user(2) revoke_all_refresh_tokens_for_user_def)
  have "us_password_hash x = ?h" if "get_user sv' t u = Some x" for x
  proof -
    from user(1) have "us_id user = u" by (auto simp: get_user_def dest!: find_Some_mem)
    with that show ?thesis
      by (auto simp: user(2) get_user_def revoke_all_refresh_tokens_for_user_def set_user_def set_update_rows
          split: if_splits dest!: find_Some_mem)
  qed
  then have "reset_password cr st sv' token pw salt' = Inl (AuthServiceError ''invalid or expired token'' 401)"
    using link changed now by (cases "get_user sv' t u") (auto simp: reset_password_def Let_def require_def)
  with \<open>active_tokens sv' t u = []\<close> show ?thesis by blast
qed

definition demo_link :: payload where
  "demo_link = [(''sub'', CUuid 7), (''tenant_id'', CUuid 1), (''typ'', CText ''password_reset''), (''pwd_fp'', CText ''Asecret'')]"

definition demo_reset :: "server result" where
  "demo_reset = reset_password (demo_crypto demo_link) demo_settings demo_server ''jwt'' ''changed!'' ''s''"

theorem reset_spends_link_and_sessions_witness:
  "length (active_tokens demo_server 1 7) = 1 \<and> active_tokens (projr demo_reset) 1 7 = [] \<and>
   reset_password (demo_crypto demo_link) demo_settings (projr demo_reset) ''jwt'' ''again!!!'' ''s''
     = Inl (AuthServiceError ''invalid or expired token'' 401)"
proof -
  have "succeeds demo_reset" by code_simp
  then obtain sv' where r: "demo_reset = Inr sv'" by (auto dest: succeeds_ex)
  have "decode_password_reset_token (demo_crypto demo_link) demo_settings (now_of demo_server) ''jwt'' = Inr demo_link"
    "map_of demo_link ''tenant_id'' = Some (CUuid 1)" "map_of demo_link ''sub'' = Some (CUuid 7)"
    "claim_text (map_of demo_link ''pwd_fp'') = ''Asecret''"
    "password_fingerprint (demo_crypto demo_link) (hash_password (demo_crypto demo_link) ''s'' ''changed!'') \<noteq> ''Asecret''" by code_simp+
  from reset_spends_link_and_sessions [OF r [unfolded demo_reset_def] this]
  have "active_tokens sv' 1 7 = []" "reset_password (demo_crypto demo_link) demo_settings sv' ''jwt'' ''again!!!'' ''s''
     = Inl (AuthServiceError ''invalid or expired token'' 401)" by blast+
  moreover have "length (active_tokens demo_server 1 7) = 1" by code_simp
  ultimately show ?thesis unfolding r by simp
qed

text \<open>
  A login is refused the same way whatever is wrong: with the tenant given and a configured
  signing key, it succeeds exactly when the normalised address belongs to an active user of the
  tenant and the password verifies, and every other attempt gives one and the same error.
\<close>

theorem login_is_exact:
  assumes tenant: "lb_tenant_id body = Some t" and key: "jwt_signing_material st = Inr k"
    and hasher: "\<And>h. argon_verify cr h (lb_password body) \<noteq> VerificationFailed"
  shows "(if list_ex (\<lambda>u. find (\<lambda>u. us_tenant_id u = t \<and> us_email u = py_lower (py_strip (lb_email body))) (users sv) = Some u \<and>
              us_is_active u \<and> argon_verify cr (us_password_hash u) (lb_password body) = Verified) (users sv)
          then succeeds (login cr st sv body salt raw)
          else login cr st sv body salt raw = Inl (AuthServiceError ''invalid credentials'' 401))"
proof (cases "find (\<lambda>u. us_tenant_id u = t \<and> us_email u = py_lower (py_strip (lb_email body))) (users sv)")
  case None
  then show ?thesis using tenant by (simp add: login_def Let_def require_def list_ex_iff)
next
  case (Some u)
  then have u: "u \<in> set (users sv)" by (auto dest: find_Some_mem)
  have verified: "verify_password cr (lb_password body) (us_password_hash u) =
      Inr (argon_verify cr (us_password_hash u) (lb_password body) = Verified)"
    using hasher by (simp add: verify_password_def split: verdict.split)
  have opened: "succeeds (open_user_session cr st v raw s)" for v s
    using key by (cases k) (simp add: open_user_session_def issue_access_token_def encode_token_def)
  show ?thesis
    using Some u tenant opened by (auto simp: login_def Let_def require_def list_ex_iff verified)
qed

theorem login_is_exact_witness:
  "succeeds (login (demo_crypto []) demo_settings demo_server \<lparr>lb_tenant_id = Some 1, lb_email = '' O@x'', lb_password = ''secret''\<rparr> ''s'' ''r'') \<and>
   login (demo_crypto []) demo_settings demo_server \<lparr>lb_tenant_id = Some 1, lb_email = ''nobody@x'', lb_password = ''secret''\<rparr> ''s'' ''r''
     = Inl (AuthServiceError ''invalid credentials'' 401)"
proof -
  have key: "jwt_signing_material demo_settings = Inr (replicate 32 CHR ''k'', ''HS256'')" by code_simp
  have hasher: "argon_verify (demo_crypto []) h p \<noteq> VerificationFailed" for h p by (simp add: demo_crypto_def)
  have yes: "list_ex (\<lambda>u. find (\<lambda>u. us_tenant_id u = 1 \<and> us_email u = py_lower (py_strip '' O@x'')) (users demo_server) = Some u \<and>
      us_is_active u \<and> argon_verify (demo_crypto []) (us_password_hash u) ''secret'' = Verified) (users demo_server)"
    and no: "\<not> list_ex (\<lambda>u. find (\<lambda>u. us_tenant_id u = 1 \<and> us_email u = py_lower (py_strip ''nobody@x'')) (users demo_server) = Some u \<and>
      us_is_active u \<and> argon_verify (demo_crypto []) (us_password_hash u) ''secret'' = Verified) (users demo_server)"
    by code_simp+
  show ?thesis
    using login_is_exact [OF _ key hasher, of "\<lparr>lb_tenant_id = Some 1, lb_email = '' O@x'', lb_password = ''secret''\<rparr>" 1 demo_server "''s''" "''r''"]
      login_is_exact [OF _ key hasher, of "\<lparr>lb_tenant_id = Some 1, lb_email = ''nobody@x'', lb_password = ''secret''\<rparr>" 1 demo_server "''s''" "''r''"]
      yes no by simp
qed

subsection \<open>Two gaps\<close>

text \<open>
  The access decoder does not look at the \<open>typ\<close> claim, so the token mailed for a password reset
  authenticates as its user (without a role) on every route that asks for no role.
\<close>

lemma reset_token_authenticates:
  assumes key: "jwt_verifying_material cr st = Inr (key, alg)"
    and verifies: "jwt_decode cr key alg (jwt_audience st) (jwt_issuer st) now token = Some p"
    and link: "map_of p ''sub'' = Some (CUuid u)" "map_of p ''tenant_id'' = Some (CUuid t)" "map_of p ''role'' = None"
    and rq: "bearer (rq_authorization rq) = Some token" "token \<noteq> []"
  shows "authenticate_jwt cr st now rq = Inr (Some (blank_state\<lparr>rs_tenant_id := Some t, rs_auth_source := Some ''jwt'',
    rs_user_id := Some u, rs_user_role := None\<rparr>))"
  using assms
  by (simp add: authenticate_jwt_def decode_access_token_def claim_get_def jwt_state_def jwt_role_def require_def claim_uuid_def)

text \<open>
  \<^verbatim>\<open>is_active: null\<close> passes the check against deactivating oneself, which compares with false, and
  is then stored as false.
\<close>

lemma null_deactivates_oneself:
  "let r = patch_user demo_server 1 8 ''owner'' 8 \<lparr>up_is_active = Some None, up_role = None\<rparr>
   in succeeds r \<and> \<not> us_is_active (fst (projr r)) \<and> us_id (fst (projr r)) = 8"
  by code_simp

end
