(* ===== verification/Webhooks.thy ===== *)
theory Webhooks
  imports Access Booking
begin

text \<open>
  Outgoing webhooks: subscriptions (\<^verbatim>\<open>webhook_subscription_service.py\<close>), the check of their targets
  (\<^verbatim>\<open>core/webhook_url_validation.py\<close>), the encryption of signing secrets (\<^verbatim>\<open>core/webhook_secrets.py\<close>),
  the delivery queue and its worker (\<^verbatim>\<open>webhook_delivery_engine.py\<close>) and the events the booking
  operations emit (\<^verbatim>\<open>webhook_runner.py\<close>).

  Outside the program, and so parameters: Fernet and HMAC, name resolution, the classification of
  addresses by \<^verbatim>\<open>ipaddress\<close>, and the answers of the subscribers (\<open>http_post\<close>, a function of the
  queued delivery and the number of the attempt).
\<close>

subsection \<open>JSON text\<close>

definition hex_digit :: "nat \<Rightarrow> char" where
  "hex_digit n = (if n < 10 then char_of (48 + n) else char_of (87 + n))"

definition json_escape :: "char \<Rightarrow> string" where
  "json_escape c =
     (let n = (of_char c :: nat)
      in if n = 34 then [CHR 92, CHR 34] else if n = 92 then [CHR 92, CHR 92]
         else if n = 10 then [CHR 92, CHR ''n''] else if n = 13 then [CHR 92, CHR ''r'']
         else if n = 9 then [CHR 92, CHR ''t''] else if n = 8 then [CHR 92, CHR ''b'']
         else if n = 12 then [CHR 92, CHR ''f'']
         else if n < 32 \<or> 126 < n then [CHR 92, CHR ''u'', CHR ''0'', CHR ''0'', hex_digit (n div 16), hex_digit (n mod 16)]
         else [c])"

definition json_string :: "string \<Rightarrow> string" where
  "json_string s = [CHR 34] @ concat (map json_escape s) @ [CHR 34]"

text \<open>\<^verbatim>\<open>json.dumps(x, separators=(",", ":"))\<close>\<close>

fun json_dumps :: "json \<Rightarrow> string" where
  "json_dumps JNull = ''null''"
| "json_dumps (JBool b) = (if b then ''true'' else ''false'')"
| "json_dumps (JNum q) = num_str q"
| "json_dumps (JStr s) = json_string s"
| "json_dumps (JList xs) = ''['' @ join '','' (map json_dumps xs) @ '']''"
| "json_dumps (JObj kvs) = ''{'' @ join '','' (map (\<lambda>(k, v). json_string k @ '':'' @ json_dumps v) kvs) @ ''}''"

definition json_get :: "json \<Rightarrow> string \<Rightarrow> json" where
  "json_get j k = (case j of JObj kvs \<Rightarrow> (case map_of kvs k of None \<Rightarrow> JNull | Some v \<Rightarrow> v) | _ \<Rightarrow> JNull)"

subsection \<open>Targets\<close>

text \<open>
  What \<^verbatim>\<open>urlparse\<close> does with scheme, network location and host name; a bracketed address literal is
  cut out of the location but not validated.
\<close>

definition is_alpha :: "char \<Rightarrow> bool" where
  "is_alpha c \<longleftrightarrow> (CHR ''a'' \<le> c \<and> c \<le> CHR ''z'') \<or> (CHR ''A'' \<le> c \<and> c \<le> CHR ''Z'')"

definition scheme_char :: "char \<Rightarrow> bool" where
  "scheme_char c \<longleftrightarrow> is_alpha c \<or> (CHR ''0'' \<le> c \<and> c \<le> CHR ''9'') \<or> c \<in> set ''+-.''"

definition url_scheme :: "string \<Rightarrow> string \<times> string" where
  "url_scheme url =
     (let s = takeWhile (\<lambda>c. c \<noteq> CHR '':'') url
      in if s \<noteq> [] \<and> length s < length url \<and> is_alpha (hd s) \<and> list_all scheme_char s
         then (py_lower s, drop (length s + 1) url) else ([], url))"

definition urlsplit :: "string \<Rightarrow> (string \<times> string) result" where
  "urlsplit url =
     (let url = filter (\<lambda>c. c \<notin> {CHR 9, CHR 10, CHR 13}) (dropWhile (\<lambda>c. (of_char c :: nat) \<le> 32) url);
          (scheme, rest) = url_scheme url;
          netloc = (if starts_with ''//'' rest then takeWhile (\<lambda>c. c \<notin> set ''/?#'') (drop 2 rest) else [])
      in if (CHR ''['' \<in> set netloc) = (CHR '']'' \<in> set netloc) then Inr (scheme, netloc)
         else Inl (ValueError ''Invalid IPv6 URL''))"

definition after_last :: "char \<Rightarrow> string \<Rightarrow> string" where
  "after_last c s = rev (takeWhile (\<lambda>x. x \<noteq> c) (rev s))"

definition url_hostname :: "string \<Rightarrow> string" where
  "url_hostname netloc =
     (let info = after_last CHR ''@'' netloc
      in py_lower (if CHR ''['' \<in> set info then takeWhile (\<lambda>c. c \<noteq> CHR '']'') (tl (dropWhile (\<lambda>c. c \<noteq> CHR ''['') info))
                   else takeWhile (\<lambda>c. c \<noteq> CHR '':'') info))"

record ip_flags =
  ip_private :: bool
  ip_loopback :: bool
  ip_link_local :: bool
  ip_reserved :: bool
  ip_multicast :: bool

datatype http_outcome = Response nat | Exception string

record net =
  getaddrinfo :: "string \<Rightarrow> string + string list"
  ip_address :: "string \<Rightarrow> ip_flags option"
  http_post :: "uuid \<Rightarrow> nat \<Rightarrow> http_outcome"
  hmac_sha256_hex :: "string \<Rightarrow> string \<Rightarrow> string"
  fernet_ok :: "string \<Rightarrow> bool"
  fernet_encrypt :: "string \<Rightarrow> string \<Rightarrow> string \<Rightarrow> string"
  fernet_decrypt :: "string \<Rightarrow> string \<Rightarrow> string option"
  derived_fernet_key :: "string \<Rightarrow> string"

definition ip_is_blocked :: "ip_flags \<Rightarrow> bool" where
  "ip_is_blocked a \<longleftrightarrow> ip_private a \<or> ip_loopback a \<or> ip_link_local a \<or> ip_reserved a \<or> ip_multicast a"

text \<open>\<^verbatim>\<open>WebhookUrlUnsafeError\<close> is a subclass of \<^verbatim>\<open>ValueError\<close>; the two kinds are kept apart by the sum.\<close>

definition assert_webhook_target_ips_safe_for_url :: "net \<Rightarrow> string \<Rightarrow> (string option) result" where
  "assert_webhook_target_ips_safe_for_url n url =
     r_bind (urlsplit (py_strip url)) (\<lambda>(scheme, netloc).
     if scheme \<noteq> ''https'' then Inr (Some ''url must use HTTPS'')
     else if url_hostname netloc = [] then Inr (Some ''url must include a host'')
     else (case getaddrinfo n (url_hostname netloc) of
             Inl exc \<Rightarrow> Inr (Some (''url host could not be resolved: '' @ exc))
           | Inr ips \<Rightarrow> if list_ex (\<lambda>i. case ip_address n i of None \<Rightarrow> False | Some a \<Rightarrow> ip_is_blocked a) ips
                        then Inr (Some ''url resolves to a non-public address'') else Inr None))"

definition validate_https_url :: "net \<Rightarrow> string \<Rightarrow> string result" where
  "validate_https_url n url =
     (let trimmed = py_strip url in
      r_bind (guard (trimmed \<noteq> []) (WebhookSubscriptionError ''url is required'' 422)) (\<lambda>_.
      r_bind (urlsplit trimmed) (\<lambda>(scheme, netloc).
      r_bind (guard (scheme = ''https'') (WebhookSubscriptionError ''url must use HTTPS'' 422)) (\<lambda>_.
      r_bind (guard (netloc \<noteq> []) (WebhookSubscriptionError ''url must include a host'' 422)) (\<lambda>_.
      r_bind (assert_webhook_target_ips_safe_for_url n trimmed) (\<lambda>unsafe.
      (case unsafe of Some m \<Rightarrow> Inl (WebhookSubscriptionError m 422) | None \<Rightarrow> Inr trimmed)))))))"

subsection \<open>Secrets\<close>

definition fernet_key :: "net \<Rightarrow> settings \<Rightarrow> string" where
  "fernet_key n st =
     (case webhook_secret_fernet_key st of
        None \<Rightarrow> derived_fernet_key n (jwt_secret st)
      | Some k \<Rightarrow> if py_strip k = [] then derived_fernet_key n (jwt_secret st) else py_strip k)"

definition encrypt_webhook_secret :: "net \<Rightarrow> settings \<Rightarrow> string \<Rightarrow> string \<Rightarrow> string result" where
  "encrypt_webhook_secret n st nonce plain =
     r_bind (guard (fernet_ok n (fernet_key n st)) (ValueError ''Fernet key must be 32 url-safe base64-encoded bytes.'')) (\<lambda>_.
       Inr (fernet_encrypt n (fernet_key n st) nonce plain))"

text \<open>A stored value that does not decrypt is taken to be a plain secret of an old row.\<close>

definition decrypt_webhook_secret :: "net \<Rightarrow> settings \<Rightarrow> string \<Rightarrow> string" where
  "decrypt_webhook_secret n st stored =
     (if \<not> fernet_ok n (fernet_key n st) then stored
      else case fernet_decrypt n (fernet_key n st) stored of None \<Rightarrow> stored | Some p \<Rightarrow> p)"

definition encrypt_plaintext_with_fernet_key :: "net \<Rightarrow> string \<Rightarrow> string \<Rightarrow> string \<Rightarrow> string result" where
  "encrypt_plaintext_with_fernet_key n nonce plain key_ascii =
     (let trimmed = py_strip key_ascii in
      r_bind (guard (trimmed \<noteq> []) (ValueError ''Fernet key is required'')) (\<lambda>_.
      r_bind (guard (fernet_ok n trimmed) (ValueError ''Invalid Fernet key material'')) (\<lambda>_.
      Inr (fernet_encrypt n trimmed nonce plain))))"

subsection \<open>Subscriptions\<close>

record subscription_row =
  ws_id :: uuid
  ws_tenant_id :: uuid
  ws_url :: string
  ws_events :: "string list"
  ws_secret :: string
  ws_is_active :: bool

record pending_row =
  pd_id :: uuid
  pd_tenant_id :: uuid
  pd_subscription_id :: uuid
  pd_event_type :: string
  pd_payload :: json
  pd_attempt_count :: nat
  pd_next_retry_at :: timestamp
  pd_status :: string

record delivery_log_row =
  dl_id :: uuid
  dl_tenant_id :: uuid
  dl_subscription_id :: uuid
  dl_event_type :: string
  dl_attempt_number :: nat
  dl_http_status_code :: "nat option"
  dl_error_message :: "string option"
  dl_payload :: json
  dl_created_at :: timestamp

record outbox =
  subscriptions :: "subscription_row list"
  pending :: "pending_row list"
  delivery_logs :: "delivery_log_row list"
  ob_next :: uuid
  ob_now :: timestamp

definition VALID_WEBHOOK_EVENTS :: "string list" where
  "VALID_WEBHOOK_EVENTS = [''availability.changed'', ''booking.cancelled'', ''booking.created'', ''booking.updated'',
     ''guest.checked_in'', ''guest.checked_out'', ''rate.updated'']"

fun known_events :: "string list \<Rightarrow> string list result" where
  "known_events [] = Inr []"
| "known_events (e # es) =
     (let t = py_lower (py_strip e)
      in if t = [] then known_events es
         else if t \<notin> set VALID_WEBHOOK_EVENTS
         then Inl (WebhookSubscriptionError (''unknown event: '' @ py_repr (JStr e) @ ''; valid: '' @
                py_repr (JList (map JStr VALID_WEBHOOK_EVENTS))) 422)
         else r_bind (known_events es) (\<lambda>out. Inr (t # out)))"

fun dedup :: "string list \<Rightarrow> string list \<Rightarrow> string list" where
  "dedup seen [] = []"
| "dedup seen (e # es) = (if e \<in> set seen then dedup seen es else e # dedup (e # seen) es)"

definition normalize_events :: "string list \<Rightarrow> string list result" where
  "normalize_events events =
     r_bind (known_events events) (\<lambda>out.
     r_bind (guard (out \<noteq> []) (WebhookSubscriptionError ''at least one event is required'' 422)) (\<lambda>_.
     Inr (dedup [] out)))"

definition create_subscription ::
  "net \<Rightarrow> settings \<Rightarrow> outbox \<Rightarrow> uuid \<Rightarrow> string \<Rightarrow> string list \<Rightarrow> bool \<Rightarrow> string \<Rightarrow> string
     \<Rightarrow> ((subscription_row \<times> string) \<times> outbox) result" where
  "create_subscription n st ob tenant_id url events is_active rnd nonce =
     r_bind (validate_https_url n url) (\<lambda>u.
     r_bind (normalize_events events) (\<lambda>ev.
     let plain_secret = ''whsec_'' @ rnd in
     r_bind (encrypt_webhook_secret n st nonce plain_secret) (\<lambda>secret.
     let row = \<lparr>ws_id = ob_next ob, ws_tenant_id = tenant_id, ws_url = u, ws_events = ev, ws_secret = secret, ws_is_active = is_active\<rparr>
     in Inr ((row, plain_secret), ob\<lparr>subscriptions := subscriptions ob @ [row], ob_next := ob_next ob + 1\<rparr>))))"

definition list_subscriptions :: "outbox \<Rightarrow> uuid \<Rightarrow> subscription_row list" where
  "list_subscriptions ob tenant_id = sort_key ws_url (filter (\<lambda>s. ws_tenant_id s = tenant_id) (subscriptions ob))"

definition subscription_at :: "outbox \<Rightarrow> uuid \<Rightarrow> uuid \<Rightarrow> subscription_row option" where
  "subscription_at ob tenant_id i = find (\<lambda>s. ws_tenant_id s = tenant_id \<and> ws_id s = i) (subscriptions ob)"

definition set_subscription :: "subscription_row \<Rightarrow> outbox \<Rightarrow> outbox" where
  "set_subscription row ob = ob\<lparr>subscriptions := update_rows (\<lambda>s. ws_id s = ws_id row) (\<lambda>_. row) (subscriptions ob)\<rparr>"

definition patch_subscription ::
  "net \<Rightarrow> outbox \<Rightarrow> uuid \<Rightarrow> uuid \<Rightarrow> string option \<Rightarrow> string list option \<Rightarrow> bool option \<Rightarrow> (subscription_row \<times> outbox) result" where
  "patch_subscription n ob tenant_id subscription_id url events is_active =
     r_bind (require (subscription_at ob tenant_id subscription_id) (WebhookSubscriptionError ''subscription not found'' 404)) (\<lambda>row.
     r_bind (case url of None \<Rightarrow> Inr (ws_url row) | Some u \<Rightarrow> validate_https_url n u) (\<lambda>url.
     r_bind (case events of None \<Rightarrow> Inr (ws_events row) | Some es \<Rightarrow> normalize_events es) (\<lambda>events.
     let row' = row\<lparr>ws_url := url, ws_events := events,
                    ws_is_active := (case is_active of None \<Rightarrow> ws_is_active row | Some b \<Rightarrow> b)\<rparr>
     in Inr (row', set_subscription row' ob))))"

fun reencrypt_rows :: "net \<Rightarrow> settings \<Rightarrow> string \<Rightarrow> (uuid \<Rightarrow> string) \<Rightarrow> subscription_row list \<Rightarrow> outbox \<Rightarrow> (nat \<times> outbox) result" where
  "reencrypt_rows n st new_key nonce [] ob = Inr (0, ob)"
| "reencrypt_rows n st new_key nonce (row # rows) ob =
     (case encrypt_plaintext_with_fernet_key n (nonce (ws_id row)) (decrypt_webhook_secret n st (ws_secret row)) new_key of
        Inl (ValueError m) \<Rightarrow> Inl (WebhookSubscriptionError m 422)
      | Inl e \<Rightarrow> Inl e
      | Inr c \<Rightarrow> r_bind (reencrypt_rows n st new_key nonce rows (set_subscription (row\<lparr>ws_secret := c\<rparr>) ob))
          (\<lambda>(updated, ob). Inr (updated + 1, ob)))"

definition reencrypt_subscription_secrets_for_tenant ::
  "net \<Rightarrow> settings \<Rightarrow> outbox \<Rightarrow> uuid \<Rightarrow> string \<Rightarrow> (uuid \<Rightarrow> string) \<Rightarrow> (nat \<times> outbox) result" where
  "reencrypt_subscription_secrets_for_tenant n st ob tenant_id new_fernet_key nonce =
     (case encrypt_plaintext_with_fernet_key n [] [] new_fernet_key of
        Inl (ValueError m) \<Rightarrow> Inl (WebhookSubscriptionError m 422)
      | Inl e \<Rightarrow> Inl e
      | Inr _ \<Rightarrow> reencrypt_rows n st new_fernet_key nonce (list_subscriptions ob tenant_id) ob)"

text \<open>\<^verbatim>\<open>session.delete(row)\<close> is not awaited here either.\<close>

definition delete_subscription :: "outbox \<Rightarrow> uuid \<Rightarrow> uuid \<Rightarrow> (unit \<times> outbox) result" where
  "delete_subscription ob tenant_id subscription_id =
     r_bind (require (subscription_at ob tenant_id subscription_id) (WebhookSubscriptionError ''subscription not found'' 404))
       (\<lambda>_. Inr ((), ob))"

definition list_matching_subscriptions :: "outbox \<Rightarrow> uuid \<Rightarrow> string \<Rightarrow> subscription_row list" where
  "list_matching_subscriptions ob tenant_id event_type =
     filter (\<lambda>s. ws_tenant_id s = tenant_id \<and> ws_is_active s \<and> py_lower (py_strip event_type) \<in> set (ws_events s)) (subscriptions ob)"

subsection \<open>The queue and its worker\<close>

definition webhook_envelope :: "string \<Rightarrow> json \<Rightarrow> json" where
  "webhook_envelope event_type data = JObj [(''event'', JStr event_type), (''data'', data)]"

definition enqueue_delivery :: "uuid \<Rightarrow> string \<Rightarrow> json \<Rightarrow> subscription_row \<Rightarrow> outbox \<Rightarrow> outbox" where
  "enqueue_delivery tenant_id event_type data sub ob =
     ob\<lparr>pending := pending ob @ [\<lparr>pd_id = ob_next ob, pd_tenant_id = tenant_id,
          pd_subscription_id = ws_id sub, pd_event_type = event_type, pd_payload = webhook_envelope event_type data,
          pd_attempt_count = 0, pd_next_retry_at = ob_now ob, pd_status = ''pending''\<rparr>],
        ob_next := ob_next ob + 1\<rparr>"

definition dispatch_webhook_event :: "uuid \<Rightarrow> string \<Rightarrow> json \<Rightarrow> outbox \<Rightarrow> outbox" where
  "dispatch_webhook_event tenant_id event_type data ob =
     fold (enqueue_delivery tenant_id event_type data) (list_matching_subscriptions ob tenant_id event_type) ob"

definition append_delivery_log ::
  "uuid \<Rightarrow> uuid \<Rightarrow> string \<Rightarrow> nat \<Rightarrow> nat option \<Rightarrow> string option \<Rightarrow> json \<Rightarrow> outbox \<Rightarrow> outbox" where
  "append_delivery_log tenant_id subscription_id event_type attempt_number http_status_code error_message payload ob =
     ob\<lparr>delivery_logs := delivery_logs ob @ [\<lparr>dl_id = ob_next ob, dl_tenant_id = tenant_id,
          dl_subscription_id = subscription_id, dl_event_type = event_type, dl_attempt_number = attempt_number,
          dl_http_status_code = http_status_code, dl_error_message = error_message, dl_payload = payload,
          dl_created_at = ob_now ob\<rparr>],
        ob_next := ob_next ob + 1\<rparr>"

record post_request =
  po_url :: string
  po_body :: string
  po_signature :: string

definition sign_webhook_body :: "net \<Rightarrow> string \<Rightarrow> string \<Rightarrow> string" where
  "sign_webhook_body n secret body = hmac_sha256_hex n secret body"

definition signed_request :: "net \<Rightarrow> settings \<Rightarrow> subscription_row \<Rightarrow> json \<Rightarrow> post_request" where
  "signed_request n st sub envelope =
     (let body = json_dumps envelope
      in \<lparr>po_url = ws_url sub, po_body = body,
          po_signature = ''sha256='' @ sign_webhook_body n (decrypt_webhook_secret n st (ws_secret sub)) body\<rparr>)"

text \<open>
  One attempt: whether it succeeded, the status and the error text. A \<^verbatim>\<open>ValueError\<close> of the URL
  parser that is not a \<^verbatim>\<open>WebhookUrlUnsafeError\<close> escapes.
\<close>

definition single_http_delivery_attempt ::
  "net \<Rightarrow> string \<Rightarrow> uuid \<Rightarrow> nat \<Rightarrow> (bool \<times> nat option \<times> string option) result" where
  "single_http_delivery_attempt n url delivery attempt_no =
     r_bind (assert_webhook_target_ips_safe_for_url n url) (\<lambda>unsafe.
     (case unsafe of Some m \<Rightarrow> Inr (False, None, Some (take 4000 m))
      | None \<Rightarrow> (case http_post n delivery attempt_no of
          Exception e \<Rightarrow> Inr (False, None, Some (take 4000 e))
        | Response code \<Rightarrow> if 200 \<le> code \<and> code < 300 then Inr (True, Some code, None)
            else Inr (False, Some code, Some (''HTTP '' @ digits_of code)))))"

definition QUEUE_RETRY_DELAYS_SEC :: "int list" where
  "QUEUE_RETRY_DELAYS_SEC = [10, 60]"

definition set_pending :: "pending_row \<Rightarrow> (pending_row \<Rightarrow> pending_row) \<Rightarrow> outbox \<Rightarrow> outbox" where
  "set_pending row f ob = ob\<lparr>pending := update_rows (\<lambda>r. pd_id r = pd_id row) f (pending ob)\<rparr>"

definition drop_pending :: "pending_row \<Rightarrow> outbox \<Rightarrow> outbox" where
  "drop_pending row ob = ob\<lparr>pending := delete_rows (\<lambda>r. pd_id r = pd_id row) (pending ob)\<rparr>"

definition event_of :: "pending_row \<Rightarrow> string" where
  "event_of row = (let e = json_get (pd_payload row) ''event'' in if truthy e then py_str e else pd_event_type row)"

definition after_failure :: "nat \<Rightarrow> timestamp \<Rightarrow> pending_row \<Rightarrow> pending_row" where
  "after_failure attempt_no now r =
     (if 3 \<le> attempt_no then r\<lparr>pd_status := ''dead_letter'', pd_attempt_count := attempt_no\<rparr>
      else let delay_idx = min (attempt_no - 1) (length QUEUE_RETRY_DELAYS_SEC - 1)
           in r\<lparr>pd_attempt_count := attempt_no, pd_next_retry_at := now + seconds (QUEUE_RETRY_DELAYS_SEC ! delay_idx)\<rparr>)"

definition process_one_pending_row ::
  "net \<Rightarrow> settings \<Rightarrow> pending_row \<Rightarrow> outbox \<Rightarrow> (post_request option \<times> outbox) result" where
  "process_one_pending_row n st row ob =
     (let tenant_id = pd_tenant_id row; ev = event_of row; attempt_no = pd_attempt_count row + 1;
          gone = (None, drop_pending row (append_delivery_log tenant_id (pd_subscription_id row) ev attempt_no None
            (Some ''subscription inactive, missing, or event no longer subscribed'') (pd_payload row) ob))
      in case subscription_at ob tenant_id (pd_subscription_id row) of
           None \<Rightarrow> Inr gone
         | Some sub \<Rightarrow>
             if \<not> ws_is_active sub \<or> ev \<notin> set (ws_events sub) then Inr gone
             else r_bind (single_http_delivery_attempt n (ws_url sub) (pd_id row) attempt_no) (\<lambda>(ok, http_status, err_msg).
               let rq = Some (signed_request n st sub (pd_payload row));
                   logged = append_delivery_log tenant_id (ws_id sub) ev attempt_no http_status err_msg (pd_payload row) ob
               in if ok then Inr (rq, drop_pending row logged)
                  else Inr (rq, set_pending row (after_failure attempt_no (ob_now ob)) logged)))"

definition due_rows :: "outbox \<Rightarrow> pending_row list" where
  "due_rows ob = sort_key pd_next_retry_at (filter (\<lambda>r. pd_status r = ''pending'' \<and> pd_next_retry_at r \<le> ob_now ob) (pending ob))"

text \<open>The batch: an exception ends it, what was committed before stays.\<close>

fun process_webhook_delivery_queue_batch :: "nat \<Rightarrow> net \<Rightarrow> settings \<Rightarrow> outbox \<Rightarrow> nat result \<times> outbox" where
  "process_webhook_delivery_queue_batch 0 n st ob = (Inr 0, ob)"
| "process_webhook_delivery_queue_batch (Suc k) n st ob =
     (case due_rows ob of
        [] \<Rightarrow> (Inr 0, ob)
      | row # _ \<Rightarrow> (case process_one_pending_row n st row ob of
          Inl e \<Rightarrow> (Inl e, ob)
        | Inr (_, ob') \<Rightarrow> (case process_webhook_delivery_queue_batch k n st ob' of
            (Inl e, ob'') \<Rightarrow> (Inl e, ob'') | (Inr m, ob'') \<Rightarrow> (Inr (m + 1), ob''))))"

text \<open>
  Inline delivery with three attempts, each logged in its own transaction; the sleeps between
  them are not represented.
\<close>

fun inline_attempts :: "nat list \<Rightarrow> net \<Rightarrow> uuid \<Rightarrow> subscription_row \<Rightarrow> string \<Rightarrow> json \<Rightarrow> outbox \<Rightarrow> outbox result" where
  "inline_attempts [] n tenant_id sub event_type env ob = Inr ob"
| "inline_attempts (attempt_no # rest) n tenant_id sub event_type env ob =
     r_bind (single_http_delivery_attempt n (ws_url sub) (ws_id sub) attempt_no) (\<lambda>(ok, http_status, err_msg).
     let ob = append_delivery_log tenant_id (ws_id sub) event_type attempt_no http_status err_msg env ob
     in if ok then Inr ob else inline_attempts rest n tenant_id sub event_type env ob)"

definition deliver_to_subscription ::
  "net \<Rightarrow> uuid \<Rightarrow> subscription_row \<Rightarrow> string \<Rightarrow> json \<Rightarrow> outbox \<Rightarrow> outbox result" where
  "deliver_to_subscription n tenant_id sub event_type data ob =
     inline_attempts [1, 2, 3] n tenant_id sub event_type (webhook_envelope event_type data) ob"

definition cleanup_old_delivery_logs :: "uuid list \<Rightarrow> int \<Rightarrow> outbox \<Rightarrow> nat \<times> outbox" where
  "cleanup_old_delivery_logs tenant_ids retention_days ob =
     (let old = (\<lambda>r. dl_tenant_id r \<in> set tenant_ids \<and> dl_created_at r < ob_now ob - days retention_days)
      in (length (filter old (delivery_logs ob)), ob\<lparr>delivery_logs := delete_rows old (delivery_logs ob)\<rparr>))"

subsection \<open>The life of a delivery\<close>

text \<open>
  The contract of the queue, without rows, clocks and logs: a job waits with the number of
  attempts made, and an attempt delivers it, gives it up because nobody is subscribed any more,
  puts it back, or after the third failure buries it.
\<close>

datatype job = Queued nat | Settled | Dead

inductive job_step :: "job \<Rightarrow> job \<Rightarrow> bool" where
  settle: "k < 3 \<Longrightarrow> job_step (Queued k) Settled"
| retry: "k < 2 \<Longrightarrow> job_step (Queued k) (Queued (k + 1))"
| bury: "job_step (Queued 2) Dead"

inductive_cases job_stepE: "job_step j j'"

definition job_of :: "outbox \<Rightarrow> uuid \<Rightarrow> job" where
  "job_of ob i = (case find (\<lambda>r. pd_id r = i) (pending ob) of
       None \<Rightarrow> Settled
     | Some r \<Rightarrow> if pd_status r = ''pending'' then Queued (pd_attempt_count r) else Dead)"

definition queue_ok :: "outbox \<Rightarrow> bool" where
  "queue_ok ob \<longleftrightarrow> distinct (map pd_id (pending ob)) \<and>
     (\<forall>r\<in>set (pending ob). pd_id r < ob_next ob \<and>
        (pd_status r = ''pending'' \<and> pd_attempt_count r < 3 \<or> pd_status r = ''dead_letter'' \<and> pd_attempt_count r = 3)) \<and>
     (\<forall>l\<in>set (delivery_logs ob). 1 \<le> dl_attempt_number l \<and> dl_attempt_number l \<le> 3)"

inductive outbox_step :: "net \<Rightarrow> settings \<Rightarrow> outbox \<Rightarrow> outbox \<Rightarrow> bool" for n :: net and st :: settings where
  subscribe: "create_subscription n st ob t url evs act rnd nonce = Inr (out, ob') \<Longrightarrow> outbox_step n st ob ob'"
| resubscribe: "patch_subscription n ob t i url evs act = Inr (row, ob') \<Longrightarrow> outbox_step n st ob ob'"
| rekey: "reencrypt_subscription_secrets_for_tenant n st ob t key nonces = Inr (k, ob') \<Longrightarrow> outbox_step n st ob ob'"
| emit: "outbox_step n st ob (dispatch_webhook_event t ev data ob)"
| attempt: "row \<in> set (due_rows ob) \<Longrightarrow> process_one_pending_row n st row ob = Inr (rq, ob') \<Longrightarrow> outbox_step n st ob ob'"
| inline: "deliver_to_subscription n t sub ev data ob = Inr ob' \<Longrightarrow> outbox_step n st ob ob'"
| cleanup: "outbox_step n st ob (snd (cleanup_old_delivery_logs ts keep ob))"
| clock: "ob_now ob \<le> now \<Longrightarrow> outbox_step n st ob (ob\<lparr>ob_now := now\<rparr>)"

lemma due_rowsD: "row \<in> set (due_rows ob) \<Longrightarrow> row \<in> set (pending ob) \<and> pd_status row = ''pending'' \<and> pd_next_retry_at row \<le> ob_now ob"
  by (simp add: due_rows_def)

lemma append_log_simps [simp]:
  "pending (append_delivery_log t s e a h m p ob) = pending ob"
  "subscriptions (append_delivery_log t s e a h m p ob) = subscriptions ob"
  "ob_next (append_delivery_log t s e a h m p ob) = ob_next ob + 1" "ob_now (append_delivery_log t s e a h m p ob) = ob_now ob"
  by (simp_all add: append_delivery_log_def)

lemma append_log_mem:
  "l \<in> set (delivery_logs (append_delivery_log t s e a h m p ob)) \<Longrightarrow> l \<in> set (delivery_logs ob) \<or> dl_attempt_number l = a"
  by (auto simp: append_delivery_log_def)

text \<open>
  What one attempt does: its row leaves the queue or is marked as failed once more, and one log
  row with the number of the attempt is written.
\<close>

lemma process_shape:
  assumes "process_one_pending_row n st row ob = Inr (rq, ob')"
  shows "\<exists>sub ev h m. let logged = append_delivery_log (pd_tenant_id row) sub ev (pd_attempt_count row + 1) h m (pd_payload row) ob
    in ob' = drop_pending row logged \<or> ob' = set_pending row (after_failure (pd_attempt_count row + 1) (ob_now ob)) logged"
proof (cases "subscription_at ob (pd_tenant_id row) (pd_subscription_id row)")
  case None
  with assms show ?thesis by (auto simp: process_one_pending_row_def Let_def)
next
  case (Some sub)
  show ?thesis
  proof (cases "\<not> ws_is_active sub \<or> event_of row \<notin> set (ws_events sub)")
    case True
    with Some assms show ?thesis by (auto simp: process_one_pending_row_def Let_def)
  next
    case False
    with Some assms show ?thesis
      by (clarsimp simp: process_one_pending_row_def Let_def split: if_splits) blast+
  qed
qed

lemma process_cases:
  assumes "process_one_pending_row n st row ob = Inr (rq, ob')"
  obtains (out) "pending ob' = delete_rows (\<lambda>r. pd_id r = pd_id row) (pending ob)"
  | (failed) "pending ob' = update_rows (\<lambda>r. pd_id r = pd_id row) (after_failure (pd_attempt_count row + 1) (ob_now ob)) (pending ob)"
proof -
  from process_shape [OF assms] have "pending ob' = delete_rows (\<lambda>r. pd_id r = pd_id row) (pending ob) \<or>
      pending ob' = update_rows (\<lambda>r. pd_id r = pd_id row) (after_failure (pd_attempt_count row + 1) (ob_now ob)) (pending ob)"
    by (auto simp: Let_def drop_pending_def set_pending_def)
  then show thesis using out failed by blast
qed

lemma process_frame:
  assumes "process_one_pending_row n st row ob = Inr (rq, ob')"
  shows "ob_next ob' = ob_next ob + 1" "ob_now ob' = ob_now ob" "subscriptions ob' = subscriptions ob"
    "l \<in> set (delivery_logs ob') \<Longrightarrow> l \<in> set (delivery_logs ob) \<or> dl_attempt_number l = pd_attempt_count row + 1"
  using process_shape [OF assms] by (auto simp: Let_def drop_pending_def set_pending_def dest!: append_log_mem)

lemma after_failure_id [simp]: "pd_id (after_failure a now r) = pd_id r"
  by (simp add: after_failure_def Let_def)

lemma after_failure_state:
  "pd_status (after_failure a now r) = (if 3 \<le> a then ''dead_letter'' else pd_status r)" "pd_attempt_count (after_failure a now r) = a"
  by (simp_all add: after_failure_def Let_def)

lemma find_delete:
  "find (\<lambda>r. key r = i) (delete_rows (\<lambda>r. key r = j) xs) = (if i = j then None else find (\<lambda>r. key r = i) xs)"
  by (induction xs) (auto simp: delete_rows_def)

lemma find_update:
  "(\<And>r. key (f r) = key r) \<Longrightarrow> find (\<lambda>r. key r = i) (update_rows (\<lambda>r. key r = j) f xs) =
     (if i = j then map_option f (find (\<lambda>r. key r = i) xs) else find (\<lambda>r. key r = i) xs)"
  by (induction xs) (auto simp: update_rows_def)

lemma find_key: "distinct (map key xs) \<Longrightarrow> x \<in> set xs \<Longrightarrow> find (\<lambda>r. key r = key x) xs = Some x"
  by (induction xs) (auto simp: image_iff)

lemma process_job:
  assumes ok: "queue_ok ob" and due: "row \<in> set (due_rows ob)"
    and step: "process_one_pending_row n st row ob = Inr (rq, ob')"
  shows "job_step (job_of ob (pd_id row)) (job_of ob' (pd_id row))" and "i \<noteq> pd_id row \<Longrightarrow> job_of ob' i = job_of ob i"
proof -
  from due have row: "row \<in> set (pending ob)" "pd_status row = ''pending''" by (auto dest: due_rowsD)
  with ok have found: "find (\<lambda>r. pd_id r = pd_id row) (pending ob) = Some row" and "pd_attempt_count row < 3"
    by (auto simp: queue_ok_def intro: find_key)
  then have k: "job_of ob (pd_id row) = Queued (pd_attempt_count row)" "pd_attempt_count row < 3"
    by (simp_all add: job_of_def row(2))
  show "job_step (job_of ob (pd_id row)) (job_of ob' (pd_id row))"
    using step
  proof (cases rule: process_cases)
    case out
    then have "job_of ob' (pd_id row) = Settled" by (simp add: job_of_def find_delete)
    with k show ?thesis by (simp add: job_step.settle)
  next
    case failed
    then have "job_of ob' (pd_id row) = (if pd_attempt_count row < 2 then Queued (pd_attempt_count row + 1) else Dead)"
      using found by (simp add: job_of_def find_update after_failure_state row(2))
    moreover have "pd_attempt_count row < 2 \<or> pd_attempt_count row = 2" using k(2) by linarith
    ultimately show ?thesis using k job_step.retry [of "pd_attempt_count row"] job_step.bury by auto
  qed
  show "job_of ob' i = job_of ob i" if "i \<noteq> pd_id row"
    using step that by (cases rule: process_cases) (auto simp: job_of_def find_delete find_update)
qed

lemma process_queue_ok:
  assumes ok: "queue_ok ob" and due: "row \<in> set (due_rows ob)" and step: "process_one_pending_row n st row ob = Inr (rq, ob')"
  shows "queue_ok ob'"
proof -
  from due have row: "row \<in> set (pending ob)" "pd_status row = ''pending''" by (auto dest: due_rowsD)
  with ok have k: "pd_attempt_count row < 3" by (auto simp: queue_ok_def)
  note frame = process_frame [OF step]
  have rows: "distinct (map pd_id (pending ob')) \<and> (\<forall>r\<in>set (pending ob'). pd_id r < ob_next ob' \<and>
      (pd_status r = ''pending'' \<and> pd_attempt_count r < 3 \<or> pd_status r = ''dead_letter'' \<and> pd_attempt_count r = 3))"
    using step
  proof (cases rule: process_cases)
    case out
    with ok frame(1) show ?thesis by (auto simp: queue_ok_def delete_rows_def distinct_map_filter)
  next
    case failed
    have only: "r = row" if "r \<in> set (pending ob)" "pd_id r = pd_id row" for r
      using ok row(1) that by (auto simp: queue_ok_def distinct_map inj_on_def)
    from failed ok frame(1) k row only show ?thesis
      by (fastforce simp: queue_ok_def map_update_rows_inv set_update_rows after_failure_state split: if_splits)
  qed
  moreover have "\<forall>l\<in>set (delivery_logs ob'). 1 \<le> dl_attempt_number l \<and> dl_attempt_number l \<le> 3"
    using ok k frame(4) by (fastforce simp: queue_ok_def)
  ultimately show ?thesis unfolding queue_ok_def by blast
qed

lemma queue_ok_frame:
  "queue_ok ob \<Longrightarrow> pending ob' = pending ob \<Longrightarrow> set (delivery_logs ob') \<subseteq> set (delivery_logs ob) \<Longrightarrow> ob_next ob \<le> ob_next ob' \<Longrightarrow> queue_ok ob'"
  by (fastforce simp: queue_ok_def)

lemma subscription_steps_frame:
  "create_subscription n st ob t url evs act rnd nonce = Inr (out, ob') \<Longrightarrow>
     pending ob' = pending ob \<and> delivery_logs ob' = delivery_logs ob \<and> ob_next ob' = ob_next ob + 1"
  "patch_subscription n ob t i uopt eopt aopt = Inr (row, ob') \<Longrightarrow>
     pending ob' = pending ob \<and> delivery_logs ob' = delivery_logs ob \<and> ob_next ob' = ob_next ob"
  by (auto simp: create_subscription_def patch_subscription_def set_subscription_def Let_def)

lemma encrypt_with_key_cases:
  "encrypt_plaintext_with_fernet_key n nonce p key =
     (if py_strip key = [] then Inl (ValueError ''Fernet key is required'')
      else if fernet_ok n (py_strip key) then Inr (fernet_encrypt n (py_strip key) nonce p)
      else Inl (ValueError ''Invalid Fernet key material''))"
  by (simp add: encrypt_plaintext_with_fernet_key_def Let_def)

lemma reencrypt_rows_ok:
  assumes "py_strip key \<noteq> []" "fernet_ok n (py_strip key)"
  shows "reencrypt_rows n st key nonce rows ob = Inr (length rows,
    fold (\<lambda>r. set_subscription (r\<lparr>ws_secret := fernet_encrypt n (py_strip key) (nonce (ws_id r))
      (decrypt_webhook_secret n st (ws_secret r))\<rparr>)) rows ob)"
  using assms by (induction rows arbitrary: ob) (simp_all add: encrypt_with_key_cases)

lemma reencrypt_Inr:
  assumes "reencrypt_subscription_secrets_for_tenant n st ob t key nonce = Inr (k, ob')"
  shows "py_strip key \<noteq> []" "fernet_ok n (py_strip key)" "k = length (list_subscriptions ob t)"
    "ob' = fold (\<lambda>r. set_subscription (r\<lparr>ws_secret := fernet_encrypt n (py_strip key) (nonce (ws_id r))
      (decrypt_webhook_secret n st (ws_secret r))\<rparr>)) (list_subscriptions ob t) ob"
proof -
  from assms show ok: "py_strip key \<noteq> []" "fernet_ok n (py_strip key)"
    by (auto simp: reencrypt_subscription_secrets_for_tenant_def encrypt_with_key_cases split: if_splits)
  with assms reencrypt_rows_ok show "k = length (list_subscriptions ob t)"
    "ob' = fold (\<lambda>r. set_subscription (r\<lparr>ws_secret := fernet_encrypt n (py_strip key) (nonce (ws_id r))
      (decrypt_webhook_secret n st (ws_secret r))\<rparr>)) (list_subscriptions ob t) ob"
    by (simp_all add: reencrypt_subscription_secrets_for_tenant_def encrypt_with_key_cases)
qed

lemma fold_set_subscription_frame:
  "pending (fold (\<lambda>r. set_subscription (g r)) rows ob) = pending ob \<and>
   delivery_logs (fold (\<lambda>r. set_subscription (g r)) rows ob) = delivery_logs ob \<and>
   ob_next (fold (\<lambda>r. set_subscription (g r)) rows ob) = ob_next ob"
  by (induction rows arbitrary: ob) (simp_all add: set_subscription_def)

lemma find_append: "find P (xs @ ys) = (case find P xs of None \<Rightarrow> find P ys | Some x \<Rightarrow> Some x)"
  by (induction xs) auto

text \<open>Queueing deliveries adds fresh jobs without attempts and leaves the others alone.\<close>

lemma enqueue_frame:
  "queue_ok ob \<Longrightarrow> queue_ok (enqueue_delivery t ev data sub ob)"
  "i < ob_next ob \<Longrightarrow> job_of (enqueue_delivery t ev data sub ob) i = job_of ob i"
  "ob_next (enqueue_delivery t ev data sub ob) = ob_next ob + 1"
  by (fastforce simp: queue_ok_def job_of_def find_append enqueue_delivery_def split: option.split)+

lemma dispatch_frame:
  assumes "queue_ok ob"
  shows "queue_ok (dispatch_webhook_event t ev data ob) \<and> ob_next ob \<le> ob_next (dispatch_webhook_event t ev data ob) \<and>
    (\<forall>i < ob_next ob. job_of (dispatch_webhook_event t ev data ob) i = job_of ob i)"
proof -
  let ?put = "enqueue_delivery t ev data"
  have "queue_ok (fold ?put subs ob) \<and> ob_next ob \<le> ob_next (fold ?put subs ob) \<and>
      (\<forall>i < ob_next ob. job_of (fold ?put subs ob) i = job_of ob i)" if "queue_ok ob" for subs
    using that
  proof (induction subs arbitrary: ob)
    case (Cons sub subs)
    from Cons.IH [OF enqueue_frame(1) [OF Cons.prems, of t ev data sub]] show ?case
      by (auto simp: enqueue_frame(2,3))
  qed simp
  then show ?thesis using assms unfolding dispatch_webhook_event_def by blast
qed

lemma inline_frame:
  assumes "inline_attempts as n t sub ev env ob = Inr ob'" "set as \<subseteq> {1, 2, 3}" "queue_ok ob"
  shows "queue_ok ob' \<and> pending ob' = pending ob \<and> ob_next ob \<le> ob_next ob'"
  using assms
proof (induction as n t sub ev env ob arbitrary: ob' rule: inline_attempts.induct)
  case (2 a rest n t sub ev env ob)
  from 2(2) obtain ok h m where p: "single_http_delivery_attempt n (ws_url sub) (ws_id sub) a = Inr (ok, h, m)"
    by auto
  let ?ob = "append_delivery_log t (ws_id sub) ev a h m env ob"
  have ok1: "queue_ok ?ob" using 2(3,4) by (fastforce simp: queue_ok_def dest!: append_log_mem)
  show ?case
  proof (cases ok)
    case True
    with 2(2) p have "ob' = ?ob" by simp
    with ok1 show ?thesis by simp
  next
    case False
    with 2(2) p have "inline_attempts rest n t sub ev env ?ob = Inr ob'" by simp
    from 2(1) [OF p refl refl refl False this _ ok1] 2(3) show ?thesis by simp
  qed
qed simp

text \<open>Every step of the outbox is, on each job issued before it, at most one step of the abstract machine.\<close>

lemma outbox_step_sim:
  assumes "outbox_step n st ob ob'" "queue_ok ob"
  shows "queue_ok ob' \<and> ob_next ob \<le> ob_next ob' \<and>
    (\<forall>i < ob_next ob. job_of ob' i = job_of ob i \<or> job_step (job_of ob i) (job_of ob' i))"
proof -
  have idle: "queue_ok ob' \<and> ob_next ob \<le> ob_next ob' \<and>
      (\<forall>i < ob_next ob. job_of ob' i = job_of ob i \<or> job_step (job_of ob i) (job_of ob' i))"
    if "queue_ok ob" "pending ob' = pending ob" "set (delivery_logs ob') \<subseteq> set (delivery_logs ob)" "ob_next ob \<le> ob_next ob'"
    for ob ob'
    using that queue_ok_frame [OF that] by (simp add: job_of_def)
  from assms show ?thesis
  proof (induction rule: outbox_step.induct)
    case (subscribe ob t url evs act rnd nonce out ob')
    with subscription_steps_frame(1) show ?case by (intro idle) auto
  next
    case (resubscribe ob t i url evs act row ob')
    with subscription_steps_frame(2) show ?case by (intro idle) auto
  next
    case (rekey ob t key nonces k ob')
    show ?case
      using rekey(2) by (rule idle) (simp_all add: reencrypt_Inr(4) [OF rekey(1)] fold_set_subscription_frame)
  next
    case (emit ob t ev data)
    with dispatch_frame show ?case by blast
  next
    case (attempt row ob rq ob')
    have "job_of ob' i = job_of ob i \<or> job_step (job_of ob i) (job_of ob' i)" for i
      using process_job [OF attempt(3,1,2)] by (cases "i = pd_id row") auto
    with process_queue_ok [OF attempt(3,1,2)] process_frame(1) [OF attempt(2)] show ?case by simp
  next
    case (inline t sub ev data ob ob')
    from inline_frame [OF inline(1) [unfolded deliver_to_subscription_def] _ inline(2)]
    show ?case by (simp add: job_of_def)
  next
    case (cleanup ob ts keep)
    show ?case
      using cleanup by (rule idle) (auto simp: cleanup_old_delivery_logs_def Let_def delete_rows_def)
  next
    case (clock ob now)
    then show ?case by (intro idle) auto
  qed
qed

interpretation queue: invariant_system "outbox_step n st" queue_ok for n st
  by unfold_locales (blast dest: outbox_step_sim)

text \<open>
  C26. The delivery queue refines the job machine: from an empty queue, whatever operations have
  run, each further operation leaves a delivery that was already queued as it is or takes it
  through exactly one step of the abstract machine: delivered or given up, put back with one more
  attempt, or buried after the third.
\<close>

theorem queue_refines_jobs:
  assumes "(outbox_step n st)\<^sup>*\<^sup>* ob0 ob" "pending ob0 = []" "delivery_logs ob0 = []" "outbox_step n st ob ob'" "i < ob_next ob"
  shows "job_of ob' i = job_of ob i \<or> job_step (job_of ob i) (job_of ob' i)"
proof -
  have "queue_ok ob0" using assms(2,3) by (simp add: queue_ok_def)
  with assms(1) have "queue_ok ob" by (rule queue.reachable_keeps)
  with assms(4,5) show ?thesis using outbox_step_sim by blast
qed

definition demo_net :: "http_outcome \<Rightarrow> net" where
  "demo_net answer = \<lparr>getaddrinfo = (\<lambda>h. Inr [''ip'']), ip_address = (\<lambda>i. None), http_post = (\<lambda>i a. answer),
     hmac_sha256_hex = (\<lambda>k b. k @ b), fernet_ok = (\<lambda>k. True), fernet_encrypt = (\<lambda>k nonce p. k @ p),
     fernet_decrypt = (\<lambda>k c. if starts_with k c then Some (drop (length k) c) else None), derived_fernet_key = (\<lambda>s. ''D'')\<rparr>"

definition demo_sub :: subscription_row where
  "demo_sub = \<lparr>ws_id = 1, ws_tenant_id = 1, ws_url = ''https://x/h'', ws_events = [''rate.updated''], ws_secret = ''Dwhsec'', ws_is_active = True\<rparr>"

definition demo_outbox :: outbox where
  "demo_outbox = \<lparr>subscriptions = [demo_sub], pending = [], delivery_logs = [], ob_next = 2, ob_now = 0\<rparr>"

definition demo_queued :: outbox where
  "demo_queued = dispatch_webhook_event 1 ''rate.updated'' (JObj []) demo_outbox"

definition demo_attempted :: "(post_request option \<times> outbox) result" where
  "demo_attempted = process_one_pending_row (demo_net (Response 500)) demo_settings (hd (due_rows demo_queued)) demo_queued"

theorem queue_refines_jobs_witness:
  "job_of demo_queued 2 = Queued 0 \<and> job_of (snd (projr demo_attempted)) 2 = Queued 1 \<and>
   (job_of (snd (projr demo_attempted)) 2 = job_of demo_queued 2 \<or>
    job_step (job_of demo_queued 2) (job_of (snd (projr demo_attempted)) 2))"
proof -
  have "succeeds demo_attempted" by code_simp
  then obtain rq ob' where r: "demo_attempted = Inr (rq, ob')" by (metis succeeds_ex surj_pair)
  have "outbox_step (demo_net (Response 500)) demo_settings demo_outbox demo_queued"
    unfolding demo_queued_def by (rule outbox_step.emit)
  then have reach: "(outbox_step (demo_net (Response 500)) demo_settings)\<^sup>*\<^sup>* demo_outbox demo_queued" by (rule r_into_rtranclp)
  have due: "hd (due_rows demo_queued) \<in> set (due_rows demo_queued)"
    by (rule hd_in_set) (simp add: demo_queued_def dispatch_webhook_event_def enqueue_delivery_def demo_outbox_def demo_sub_def
        list_matching_subscriptions_def due_rows_def, code_simp)
  have step: "outbox_step (demo_net (Response 500)) demo_settings demo_queued ob'"
    using due r [unfolded demo_attempted_def] by (rule outbox_step.attempt)
  have "pending demo_outbox = []" "delivery_logs demo_outbox = []" by (simp_all add: demo_outbox_def)
  moreover have "2 < ob_next demo_queued" "job_of demo_queued 2 = Queued 0" "job_of (snd (projr demo_attempted)) 2 = Queued 1" by code_simp+
  ultimately show ?thesis using queue_refines_jobs [OF reach _ _ step, of 2] unfolding r by simp
qed

subsection \<open>The worker comes to rest\<close>

text \<open>A run of the worker: attempts on due deliveries, in any order, and waiting in between.\<close>

inductive worker_run :: "net \<Rightarrow> settings \<Rightarrow> nat \<Rightarrow> outbox \<Rightarrow> outbox \<Rightarrow> bool" for n :: net and st :: settings where
  rest: "worker_run n st 0 ob ob"
| attempt: "worker_run n st k ob0 ob \<Longrightarrow> row \<in> set (due_rows ob) \<Longrightarrow> process_one_pending_row n st row ob = Inr (rq, ob') \<Longrightarrow>
    worker_run n st (Suc k) ob0 ob'"
| wait: "worker_run n st k ob0 ob \<Longrightarrow> ob_now ob \<le> now \<Longrightarrow> worker_run n st k ob0 (ob\<lparr>ob_now := now\<rparr>)"

definition attempts_left :: "pending_row \<Rightarrow> int" where
  "attempts_left r = (if pd_status r = ''pending'' then 3 - int (pd_attempt_count r) else 0)"

definition backlog :: "outbox \<Rightarrow> int" where
  "backlog ob = measure_of attempts_left (pending ob)"

interpretation tb_pending: measured_table attempts_left "\<lambda>r. pd_status r = ''pending''"
  by unfold_locales (simp add: attempts_left_def)

lemma process_backlog:
  assumes ok: "queue_ok ob" and due: "row \<in> set (due_rows ob)" and step: "process_one_pending_row n st row ob = Inr (rq, ob')"
  shows "backlog ob' < backlog ob"
proof -
  from due have row: "row \<in> set (pending ob)" "pd_status row = ''pending''" by (auto dest: due_rowsD)
  with ok have k: "pd_attempt_count row < 3" and ids: "distinct (map pd_id (pending ob))" by (auto simp: queue_ok_def)
  then have left: "0 < attempts_left row" by (simp add: attempts_left_def row(2))
  show ?thesis
    using step
  proof (cases rule: process_cases)
    case out
    have "filter (\<lambda>r. pd_id r = pd_id row) (pending ob) = [row]" using ids row(1) by (rule filter_unique_key) simp
    then have "backlog ob' = backlog ob - attempts_left row"
      by (simp add: backlog_def out tb_pending.measure_delete tb_pending.measure_Cons tb_pending.measure_Nil)
    with left show ?thesis by simp
  next
    case failed
    have "backlog ob' = backlog ob - attempts_left row + attempts_left (after_failure (pd_attempt_count row + 1) (ob_now ob) row)"
      unfolding backlog_def failed by (rule tb_pending.measure_update_one [OF ids row(1)])
    with k show ?thesis by (simp add: attempts_left_def after_failure_state row(2))
  qed
qed

lemma backlog_bounds:
  assumes "queue_ok ob"
  shows "0 \<le> backlog ob" "backlog ob \<le> 3 * int (length (pending ob))"
proof -
  have "0 \<le> measure_of attempts_left rs \<and> measure_of attempts_left rs \<le> 3 * int (length rs)"
    if "\<forall>r\<in>set rs. pd_status r = ''pending'' \<and> pd_attempt_count r < 3 \<or> pd_status r = ''dead_letter'' \<and> pd_attempt_count r = 3" for rs
    using that by (induction rs) (auto simp: measure_of_def attempts_left_def)
  with assms show "0 \<le> backlog ob" "backlog ob \<le> 3 * int (length (pending ob))" by (auto simp: queue_ok_def backlog_def)
qed

lemma worker_run_backlog:
  assumes "worker_run n st k ob ob'" "queue_ok ob"
  shows "queue_ok ob' \<and> int k + backlog ob' \<le> backlog ob"
  using assms
proof (induction rule: worker_run.induct)
  case (attempt k ob0 ob row rq ob')
  then show ?case using process_queue_ok process_backlog by fastforce
next
  case (wait k ob0 ob now)
  then show ?case by (auto simp: backlog_def intro: queue_ok_frame)
qed simp

lemma attempts_left_member:
  "r \<in> set rs \<Longrightarrow> \<forall>x\<in>set rs. 0 \<le> attempts_left x \<Longrightarrow> attempts_left r \<le> measure_of attempts_left rs"
proof (induction rs)
  case (Cons x rs)
  then have "0 \<le> sum_list (map attempts_left rs)" by (intro sum_list_nonneg) auto
  with Cons show ?case by (auto simp: measure_of_def)
qed simp

text \<open>
  C27. The worker comes to rest: however it is scheduled and whatever the subscribers answer, it
  makes at most three attempts per queued delivery, and after that many no delivery is pending.
\<close>

theorem worker_makes_at_most_three_attempts:
  assumes "(outbox_step n st)\<^sup>*\<^sup>* ob0 ob" "pending ob0 = []" "delivery_logs ob0 = []" "worker_run n st k ob ob'"
  shows "k \<le> 3 * length (pending ob) \<and> (k = 3 * length (pending ob) \<longrightarrow> list_all (\<lambda>r. pd_status r \<noteq> ''pending'') (pending ob'))"
proof -
  have "queue_ok ob0" using assms(2,3) by (simp add: queue_ok_def)
  with assms(1) have ok: "queue_ok ob" by (rule queue.reachable_keeps)
  with worker_run_backlog [OF assms(4)] have ok': "queue_ok ob'" and bound: "int k + backlog ob' \<le> backlog ob" by auto
  have "pd_status r \<noteq> ''pending''" if "backlog ob' \<le> 0" "r \<in> set (pending ob')" for r
  proof
    assume "pd_status r = ''pending''"
    with ok' that(2) have "0 < attempts_left r" by (auto simp: queue_ok_def attempts_left_def)
    moreover have "\<forall>x\<in>set (pending ob'). 0 \<le> attempts_left x" using ok' by (auto simp: queue_ok_def attempts_left_def)
    ultimately show False using that attempts_left_member [OF that(2)] unfolding backlog_def by linarith
  qed
  with bound backlog_bounds [OF ok] backlog_bounds [OF ok'] show ?thesis by (auto simp: list_all_iff)
qed

theorem worker_makes_at_most_three_attempts_witness:
  "worker_run (demo_net (Response 500)) demo_settings 1 demo_queued (snd (projr demo_attempted)) \<and>
   length (pending demo_queued) = 1 \<and> (1::nat) \<le> 3 * length (pending demo_queued)"
proof -
  have "succeeds demo_attempted" by code_simp
  then obtain rq ob' where r: "demo_attempted = Inr (rq, ob')" by (metis succeeds_ex surj_pair)
  have reach: "(outbox_step (demo_net (Response 500)) demo_settings)\<^sup>*\<^sup>* demo_outbox demo_queued"
    unfolding demo_queued_def by (rule r_into_rtranclp) (rule outbox_step.emit)
  have due: "hd (due_rows demo_queued) \<in> set (due_rows demo_queued)"
    by (rule hd_in_set) (simp add: demo_queued_def dispatch_webhook_event_def enqueue_delivery_def demo_outbox_def demo_sub_def
        list_matching_subscriptions_def due_rows_def, code_simp)
  have run: "worker_run (demo_net (Response 500)) demo_settings 1 demo_queued ob'"
    using worker_run.attempt [OF worker_run.rest due r [unfolded demo_attempted_def]] by simp
  have "pending demo_outbox = []" "delivery_logs demo_outbox = []" by (simp_all add: demo_outbox_def)
  from worker_makes_at_most_three_attempts [OF reach this run] run
  have "worker_run (demo_net (Response 500)) demo_settings 1 demo_queued ob' \<and> (1::nat) \<le> 3 * length (pending demo_queued)" by blast
  moreover have "length (pending demo_queued) = 1" by code_simp
  ultimately show ?thesis unfolding r by simp
qed

subsection \<open>Signatures\<close>

lemma decrypt_encrypted:
  assumes "fernet_ok n (fernet_key n st)" "fernet_decrypt n (fernet_key n st) (fernet_encrypt n (fernet_key n st) nonce p) = Some p"
  shows "decrypt_webhook_secret n st (fernet_encrypt n (fernet_key n st) nonce p) = p"
  using assms by (simp add: decrypt_webhook_secret_def)

text \<open>The secret returned on creation is the one the deliveries are signed with.\<close>

lemma created_secret_signs:
  assumes created: "create_subscription n st ob t url evs act rnd nonce = Inr ((row, secret), ob')"
    and fernet: "\<And>key nonce p. fernet_ok n key \<Longrightarrow> fernet_decrypt n key (fernet_encrypt n key nonce p) = Some p"
  shows "po_signature (signed_request n st row env) = ''sha256='' @ hmac_sha256_hex n secret (json_dumps env)"
proof -
  from created have "fernet_ok n (fernet_key n st)" "ws_secret row = fernet_encrypt n (fernet_key n st) nonce secret"
    by (auto simp: create_subscription_def encrypt_webhook_secret_def Let_def split: if_splits)
  with fernet show ?thesis by (simp add: signed_request_def sign_webhook_body_def decrypt_encrypted Let_def)
qed

lemma fold_set_subscriptions:
  assumes "distinct (map ws_id rows)" "set rows \<subseteq> set (subscriptions ob)" "distinct (map ws_id (subscriptions ob))"
    and g: "\<And>r. ws_id (g r) = ws_id r"
  shows "subscriptions (fold (\<lambda>r. set_subscription (g r)) rows ob) = map (\<lambda>s. if s \<in> set rows then g s else s) (subscriptions ob)"
  using assms(1-3)
proof (induction rows arbitrary: ob)
  case (Cons row rows)
  have only: "ws_id s = ws_id row \<longleftrightarrow> s = row" if "s \<in> set (subscriptions ob)" for s
    using Cons.prems(2,3) that by (auto simp: distinct_map inj_on_def)
  define ob1 where "ob1 = set_subscription (g row) ob"
  have subs1: "subscriptions ob1 = map (\<lambda>s. if s = row then g row else s) (subscriptions ob)"
    by (auto simp: ob1_def set_subscription_def update_rows_def g only)
  have "set rows \<subseteq> set (subscriptions ob1)"
    using Cons.prems(1,2) by (force simp: subs1)
  moreover have "map ws_id (subscriptions ob1) = map ws_id (subscriptions ob)"
    by (auto simp: subs1 g)
  ultimately have "subscriptions (fold (\<lambda>r. set_subscription (g r)) rows ob1) =
      map (\<lambda>s. if s \<in> set rows then g s else s) (subscriptions ob1)"
    using Cons.IH [of ob1] Cons.prems(1,3) by simp
  moreover have "g row \<notin> set rows"
    using Cons.prems(1) by (metis g distinct.simps(2) image_eqI list.set_map list.simps(9))
  moreover have "row \<notin> set rows" using Cons.prems(1) by auto
  ultimately show ?case by (auto simp: subs1 simp flip: ob1_def)
qed simp

lemma find_map_same: "(\<And>x. P (h x) = P x) \<Longrightarrow> find P (map h xs) = map_option h (find P xs)"
  by (induction xs) auto


definition demo_rotated :: "(nat \<times> outbox) result" where
  "demo_rotated = reencrypt_subscription_secrets_for_tenant (demo_net (Response 200)) demo_settings demo_outbox 1 '' K '' (\<lambda>_. [])"


text \<open>
  Until the new key is deployed the ciphertext does not decrypt and is taken for a plain secret
  of an old row, so deliveries are signed with the ciphertext itself.
\<close>

lemma undeployed_rotation_signs_with_ciphertext:
  assumes "fernet_ok n (fernet_key n st)" "fernet_decrypt n (fernet_key n st) (ws_secret sub) = None"
  shows "po_signature (signed_request n st sub env) = ''sha256='' @ hmac_sha256_hex n (ws_secret sub) (json_dumps env)"
  using assms by (simp add: signed_request_def sign_webhook_body_def decrypt_webhook_secret_def Let_def)

lemma subscription_survives_deletion:
  "delete_subscription ob t i = Inr ((), ob') \<Longrightarrow> subscriptions ob' = subscriptions ob"
  by (simp add: delete_subscription_def)

end
