(* ===== verification/Webhook_Runner.thy ===== *)
theory Webhook_Runner
  imports Webhooks
begin

text \<open>
  The events of the booking operations (\<^verbatim>\<open>webhook_runner.py\<close>): their payloads, when they are
  emitted, and the direct posts to country-pack extensions at check-in. A runner is a background
  task: it reads the committed database \<open>d\<close> and queues deliveries in the outbox.
\<close>

subsection \<open>Dates and amounts as text\<close>

text \<open>
  A \<open>date\<close> counts days from 1970-01-01. The year, month and day of the proleptic Gregorian
  calendar, in cycles of 400 years that begin in March, and \<^verbatim>\<open>date.isoformat\<close>.
\<close>

definition civil :: "date \<Rightarrow> int \<times> int \<times> int" where
  "civil z =
     (let z = z + 719468; era = z div 146097; doe = z mod 146097;
          yoe = (doe - doe div 1460 + doe div 36524 - doe div 146096) div 365;
          doy = doe - (365 * yoe + yoe div 4 - yoe div 100); mp = (5 * doy + 2) div 153;
          day = doy - (153 * mp + 2) div 5 + 1; month = (if mp < 10 then mp + 3 else mp - 9)
      in (yoe + era * 400 + (if month \<le> 2 then 1 else 0), month, day))"

definition padded :: "nat \<Rightarrow> int \<Rightarrow> string" where
  "padded width n = (let s = digits_of (nat n) in replicate (width - length s) CHR ''0'' @ s)"

definition iso_date :: "date \<Rightarrow> string" where
  "iso_date z = (let (y, m, d) = civil z in padded 4 y @ ''-'' @ padded 2 m @ ''-'' @ padded 2 d)"

text \<open>\<^verbatim>\<open>format(amount, "f")\<close> of an amount with two decimals.\<close>

definition money_str :: "decimal \<Rightarrow> string" where
  "money_str q =
     (let c = \<lfloor>\<bar>q\<bar> * 100\<rfloor> in (if q < 0 then ''-'' else []) @ digits_of (nat (c div 100)) @ ''.'' @ padded 2 (c mod 100))"

definition json_opt :: "('a \<Rightarrow> string) \<Rightarrow> 'a option \<Rightarrow> json" where
  "json_opt f x = (case x of None \<Rightarrow> JNull | Some y \<Rightarrow> JStr (f y))"

subsection \<open>Payloads\<close>

definition booking_entity_to_read_dict :: "booking_row \<Rightarrow> json" where
  "booking_entity_to_read_dict b =
     JObj [(''id'', JStr (uuid_str (bk_id b))), (''tenant_id'', JStr (uuid_str (bk_tenant_id b))),
       (''property_id'', JStr (uuid_str (bk_property_id b))), (''guest_id'', JStr (uuid_str (bk_guest_id b))),
       (''rate_plan_id'', json_opt uuid_str (bk_rate_plan_id b)), (''status'', JStr (bk_status b)),
       (''source'', JStr (bk_source b)), (''total_amount'', JStr (money_str (bk_total_amount b)))]"

text \<open>The entries of the snapshot dictionary that the events look at.\<close>

definition snapshot_get :: "booking_snapshot \<Rightarrow> string \<Rightarrow> json" where
  "snapshot_get s k =
     (if k = ''guest_id'' then JStr (uuid_str (bs_guest_id s))
      else if k = ''status'' then JStr (bs_status s)
      else if k = ''total_amount'' then JStr (money_str (bs_total_amount s))
      else if k = ''check_in'' then json_opt iso_date (bs_check_in s)
      else if k = ''check_out'' then json_opt iso_date (bs_check_out s)
      else if k = ''room_id'' then json_opt uuid_str (bs_room_id s)
      else if k = ''notes'' then json_opt id (bs_notes s) else JNull)"

definition load_booking_for_webhook :: "db \<Rightarrow> uuid \<Rightarrow> uuid \<Rightarrow> booking_row option" where
  "load_booking_for_webhook = booking_at"

definition available_at :: "db \<Rightarrow> uuid \<Rightarrow> uuid \<Rightarrow> date \<Rightarrow> int" where
  "available_at d tenant_id room_type_id day =
     (case find (\<lambda>r. al_tenant_id r = tenant_id \<and> al_room_type_id r = room_type_id \<and> al_date r = day) (ledger d) of
        None \<Rightarrow> 0 | Some r \<Rightarrow> available_rooms r)"

definition availability_data :: "db \<Rightarrow> uuid \<Rightarrow> uuid \<Rightarrow> date \<Rightarrow> json" where
  "availability_data d tenant_id room_type_id day =
     JObj [(''room_type_id'', JStr (uuid_str room_type_id)), (''date'', JStr (iso_date day)),
       (''available_rooms'', JNum (of_int (available_at d tenant_id room_type_id day)))]"

subsection \<open>Runners\<close>

definition emit_availability_for_dates :: "db \<Rightarrow> uuid \<Rightarrow> uuid \<Rightarrow> date list \<Rightarrow> outbox \<Rightarrow> outbox" where
  "emit_availability_for_dates d tenant_id room_type_id dates ob =
     fold (\<lambda>day. dispatch_webhook_event tenant_id ''availability.changed'' (availability_data d tenant_id room_type_id day))
       (sort (remdups dates)) ob"

definition run_availability_after_override :: "db \<Rightarrow> uuid \<Rightarrow> uuid \<Rightarrow> date list \<Rightarrow> outbox \<Rightarrow> outbox" where
  "run_availability_after_override = emit_availability_for_dates"

definition run_booking_created_webhook :: "db \<Rightarrow> uuid \<Rightarrow> uuid \<Rightarrow> outbox \<Rightarrow> outbox" where
  "run_booking_created_webhook d tenant_id booking_id ob =
     (case load_booking_for_webhook d tenant_id booking_id of
        None \<Rightarrow> ob
      | Some b \<Rightarrow>
          let ls = lines_of d b;
              ob = dispatch_webhook_event tenant_id ''booking.created'' (booking_entity_to_read_dict b) ob
          in case the_room_type ls of None \<Rightarrow> ob
             | Some rt \<Rightarrow> emit_availability_for_dates d tenant_id rt (map bl_date ls) ob)"

definition run_rate_updated_webhooks :: "uuid \<Rightarrow> (uuid \<times> uuid \<times> date \<times> string) list \<Rightarrow> outbox \<Rightarrow> outbox" where
  "run_rate_updated_webhooks tenant_id updates ob =
     fold (\<lambda>(room_type_id, rate_plan_id, day, price). dispatch_webhook_event tenant_id ''rate.updated''
       (JObj [(''room_type_id'', JStr (uuid_str room_type_id)), (''rate_plan_id'', JStr (uuid_str rate_plan_id)),
          (''date'', JStr (iso_date day)), (''price'', JStr price)])) updates ob"

text \<open>
  The posts to extensions at check-in: the requests made and the exception that ends them, if any.
  Unsafe targets are skipped; failures of the transport and error responses are only logged.
\<close>

record ext_post =
  xp_url :: string
  xp_event :: string
  xp_body :: json

definition extension_targets :: "db \<Rightarrow> uuid \<Rightarrow> uuid \<Rightarrow> (string \<times> string \<times> json option) list" where
  "extension_targets d tenant_id property_id =
     concat (map (\<lambda>pe. map (\<lambda>ex. (ex_webhook_url ex, ex_code ex, pe_config pe))
       (filter (\<lambda>ex. ex_id ex = pe_extension_id pe \<and> ex_tenant_id ex = pe_tenant_id pe \<and> ex_is_active ex) (extensions d)))
       (filter (\<lambda>pe. pe_tenant_id pe = tenant_id \<and> pe_property_id pe = property_id \<and> pe_is_active pe) (property_extensions d)))"

fun post_targets :: "net \<Rightarrow> (string \<times> json) list \<Rightarrow> (string \<times> string \<times> json option) list \<Rightarrow> ext_post list \<times> error option" where
  "post_targets n guest_payload [] = ([], None)"
| "post_targets n guest_payload ((url, ext_code, cfg) # ts) =
     (case assert_webhook_target_ips_safe_for_url n url of
        Inl e \<Rightarrow> ([], Some e)
      | Inr (Some _) \<Rightarrow> post_targets n guest_payload ts
      | Inr None \<Rightarrow>
          let (ps, err) = post_targets n guest_payload ts
          in (\<lparr>xp_url = url, xp_event = ''guest.checked_in'',
               xp_body = JObj ([(''event'', JStr ''guest.checked_in''), (''extension_code'', JStr ext_code),
                   (''data'', JObj guest_payload)] @
                 (case cfg of Some (JObj kvs) \<Rightarrow> [(''property_extension_config'', JObj kvs)] | _ \<Rightarrow> []))\<rparr> # ps, err))"

definition post_country_pack_extension_checkin_webhooks ::
  "net \<Rightarrow> db \<Rightarrow> uuid \<Rightarrow> uuid \<Rightarrow> (string \<times> json) list \<Rightarrow> ext_post list \<times> error option" where
  "post_country_pack_extension_checkin_webhooks n d tenant_id booking_id guest_payload =
     (case load_booking_for_webhook d tenant_id booking_id of
        None \<Rightarrow> ([], None)
      | Some b \<Rightarrow> post_targets n guest_payload (extension_targets d tenant_id (bk_property_id b)))"

definition guest_stay_payload :: "uuid \<Rightarrow> booking_snapshot \<Rightarrow> (string \<times> json) list" where
  "guest_stay_payload booking_id after =
     [(''booking_id'', JStr (uuid_str booking_id)), (''guest_id'', JStr (uuid_str (bs_guest_id after))),
      (''room_id'', JStr (case bs_room_id after of None \<Rightarrow> [] | Some r \<Rightarrow> uuid_str r))]"

definition checkin_payload :: "db \<Rightarrow> uuid \<Rightarrow> uuid \<Rightarrow> booking_snapshot \<Rightarrow> (string \<times> json) list" where
  "checkin_payload d tenant_id booking_id after =
     guest_stay_payload booking_id after @
     (case load_booking_for_webhook d tenant_id booking_id of
        None \<Rightarrow> []
      | Some b \<Rightarrow>
          (''property_id'', JStr (uuid_str (bk_property_id b))) #
          (case find (\<lambda>g. gu_tenant_id g = tenant_id \<and> gu_id g = bk_guest_id b) (guests d) of
             None \<Rightarrow> []
           | Some g \<Rightarrow>
               [(''first_name'', JStr (gu_first_name g)), (''last_name'', JStr (gu_last_name g)),
                (''nationality'', json_opt id (gu_nationality g)), (''passport_data'', json_opt id (gu_passport_data g)),
                (''passport_number'', JNull), (''date_of_birth'', json_opt iso_date (gu_date_of_birth g)),
                (''check_in_date'', snapshot_get after ''check_in''), (''room_number'', JNull)]) @
          (case find (\<lambda>p. pr_tenant_id p = tenant_id \<and> pr_id p = bk_property_id b) (properties d) of
             None \<Rightarrow> []
           | Some p \<Rightarrow> [(''property_address'', JStr (pr_name p)), (''property_registration_number'', JNull)]))"

definition tracked_keys :: "string list" where
  "tracked_keys = [''status'', ''total_amount'', ''check_in'', ''check_out'', ''room_id'']"

definition lifecycle_event :: "string \<Rightarrow> bool" where
  "lifecycle_event st \<longleftrightarrow> st \<in> set [''cancelled'', ''checked_in'', ''checked_out'']"

text \<open>The keys of \<^verbatim>\<open>changed\<close>: what differs, less a status that has its own event.\<close>

definition changed_keys :: "booking_snapshot \<Rightarrow> booking_snapshot \<Rightarrow> string list" where
  "changed_keys before after =
     (let bs = py_lower (py_strip (bs_status before)); a_s = py_lower (py_strip (bs_status after));
          ks = filter (\<lambda>k. snapshot_get before k \<noteq> snapshot_get after k) tracked_keys
      in if lifecycle_event a_s \<and> bs \<noteq> a_s then filter (\<lambda>k. k \<noteq> ''status'') ks else ks)"

definition run_booking_patch_webhooks ::
  "net \<Rightarrow> db \<Rightarrow> uuid \<Rightarrow> uuid \<Rightarrow> booking_snapshot \<Rightarrow> booking_snapshot \<Rightarrow> string option \<Rightarrow> string option \<Rightarrow> outbox
     \<Rightarrow> ext_post list \<times> error option \<times> outbox" where
  "run_booking_patch_webhooks n d tenant_id booking_id before after cancellation_reason folio_balance_on_checkout ob =
     (let bs = py_lower (py_strip (bs_status before)); a_s = py_lower (py_strip (bs_status after));
          ob = (if a_s = ''cancelled'' \<and> bs \<noteq> ''cancelled''
                then dispatch_webhook_event tenant_id ''booking.cancelled''
                  (JObj [(''booking_id'', JStr (uuid_str booking_id)),
                         (''cancellation_reason'', JStr (case cancellation_reason of None \<Rightarrow> [] | Some r \<Rightarrow> r))]) ob
                else ob);
          payload = checkin_payload d tenant_id booking_id after;
          (posts, err, ob) = (if a_s = ''checked_in'' \<and> bs \<noteq> ''checked_in''
                then let ob = dispatch_webhook_event tenant_id ''guest.checked_in'' (JObj payload) ob;
                         (ps, e) = post_country_pack_extension_checkin_webhooks n d tenant_id booking_id payload
                     in (ps, e, ob)
                else ([], None, ob))
      in case err of Some e \<Rightarrow> (posts, Some e, ob)
         | None \<Rightarrow>
             let ob = (if a_s = ''checked_out'' \<and> bs \<noteq> ''checked_out''
                  then dispatch_webhook_event tenant_id ''guest.checked_out''
                    (JObj (guest_stay_payload booking_id after @
                      [(''folio_balance'', JStr (case folio_balance_on_checkout of None \<Rightarrow> ''0.00'' | Some b \<Rightarrow> if b = [] then ''0.00'' else b))])) ob
                  else ob);
                 ks = changed_keys before after
             in (posts, None,
                 if ks = [] then ob
                 else dispatch_webhook_event tenant_id ''booking.updated''
                   (JObj [(''booking_id'', JStr (uuid_str booking_id)),
                          (''changed'', JObj (map (\<lambda>k. (k, snapshot_get after k)) ks)),
                          (''previous_values'', JObj (map (\<lambda>k. (k, snapshot_get before k)) ks))]) ob))"

definition run_booking_patch_availability_refresh ::
  "db \<Rightarrow> uuid \<Rightarrow> line_row list \<Rightarrow> line_row list option \<Rightarrow> outbox \<Rightarrow> outbox" where
  "run_booking_patch_availability_refresh d tenant_id lines_before lines_after ob =
     (case lines_after of None \<Rightarrow> ob
      | Some la \<Rightarrow> (case the_room_type lines_before of None \<Rightarrow> ob
          | Some rt \<Rightarrow> if the_room_type la = Some rt
                        then emit_availability_for_dates d tenant_id rt (map bl_date lines_before @ map bl_date la) ob
                        else ob))"
subsection \<open>What is queued for a subscription\<close>

definition queued :: "outbox \<Rightarrow> uuid \<Rightarrow> json list" where
  "queued ob i = map pd_payload (filter (\<lambda>r. pd_subscription_id r = i) (pending ob))"

text \<open>An active subscription of the tenant that listens to an event.\<close>

definition listens :: "outbox \<Rightarrow> uuid \<Rightarrow> uuid \<Rightarrow> string \<Rightarrow> bool" where
  "listens ob tenant_id i ev \<longleftrightarrow> distinct (map ws_id (subscriptions ob)) \<and>
     (\<exists>sub. subscription_at ob tenant_id i = Some sub \<and> ws_is_active sub \<and> ev \<in> set (ws_events sub))"

lemma enqueue_queued:
  "queued (enqueue_delivery t ev data sub ob) i = queued ob i @ (if ws_id sub = i then [webhook_envelope ev data] else [])"
  "subscriptions (enqueue_delivery t ev data sub ob) = subscriptions ob"
  by (simp_all add: queued_def enqueue_delivery_def)

lemma enqueue_all_queued:
  "queued (fold (enqueue_delivery t ev data) subs ob) i =
     queued ob i @ replicate (length (filter (\<lambda>s. ws_id s = i) subs)) (webhook_envelope ev data)"
  "subscriptions (fold (enqueue_delivery t ev data) subs ob) = subscriptions ob"
  by (induction subs arbitrary: ob) (simp_all add: enqueue_queued)

lemma dispatch_subscriptions [simp]:
  "subscriptions (dispatch_webhook_event t ev data ob) = subscriptions ob"
  by (simp add: dispatch_webhook_event_def enqueue_all_queued)

lemma listens_dispatch [simp]: "listens (dispatch_webhook_event t' ev' data ob) t i ev = listens ob t i ev"
  by (simp add: listens_def subscription_at_def)

lemma distinct_filter_id:
  "distinct (map f xs) \<Longrightarrow> x \<in> set xs \<Longrightarrow> P x \<Longrightarrow> length (filter (\<lambda>y. f y = f x) (filter P xs)) = 1"
proof (induction xs)
  case (Cons a xs)
  show ?case
  proof (cases "x = a")
    case True
    then have "filter (\<lambda>y. f y = f a) (filter P xs) = []" using Cons.prems(1) by (auto simp: filter_empty_conv) (metis image_eqI)
    with True Cons.prems(3) show ?thesis by simp
  next
    case False
    then have "x \<in> set xs" "f a \<noteq> f x" using Cons.prems(1,2) by auto
    with Cons show ?thesis by simp
  qed
qed simp

lemma dispatch_queued:
  assumes "listens ob t i ev" "py_lower (py_strip ev) = ev"
  shows "queued (dispatch_webhook_event t ev data ob) i = queued ob i @ [webhook_envelope ev data]"
proof -
  from assms(1) obtain sub where sub: "subscription_at ob t i = Some sub" "ws_is_active sub" "ev \<in> set (ws_events sub)"
    and ids: "distinct (map ws_id (subscriptions ob))" by (auto simp: listens_def)
  from sub(1) have mem: "sub \<in> set (subscriptions ob)" "ws_tenant_id sub = t" "ws_id sub = i"
    by (auto simp: subscription_at_def find_Some_iff in_set_conv_nth)
  have "length (filter (\<lambda>s. ws_id s = i) (list_matching_subscriptions ob t ev)) = 1"
    unfolding list_matching_subscriptions_def assms(2) mem(3) [symmetric]
    by (rule distinct_filter_id) (use ids mem sub in auto)
  then show ?thesis by (simp add: dispatch_webhook_event_def enqueue_all_queued)
qed

lemma event_names:
  "py_lower (py_strip ''availability.changed'') = ''availability.changed''"
  "py_lower (py_strip ''booking.created'') = ''booking.created''"
  "py_lower (py_strip ''booking.cancelled'') = ''booking.cancelled''"
  "py_lower (py_strip ''booking.updated'') = ''booking.updated''"
  "py_lower (py_strip ''guest.checked_in'') = ''guest.checked_in''"
  "py_lower (py_strip ''guest.checked_out'') = ''guest.checked_out''"
  by code_simp+

lemma dispatch_all_queued:
  assumes "listens ob t i ev" "py_lower (py_strip ev) = ev"
  shows "queued (fold (\<lambda>x. dispatch_webhook_event t ev (f x)) xs ob) i = queued ob i @ map (\<lambda>x. webhook_envelope ev (f x)) xs"
  using assms(1) by (induction xs arbitrary: ob) (simp_all add: dispatch_queued assms(2))

lemma emit_availability_queued:
  assumes "listens ob t i ''availability.changed''"
  shows "queued (emit_availability_for_dates d t rt dates ob) i =
    queued ob i @ map (\<lambda>day. webhook_envelope ''availability.changed'' (availability_data d t rt day)) (sort (remdups dates))"
  unfolding emit_availability_for_dates_def by (rule dispatch_all_queued [OF assms event_names(1)])

subsection \<open>Status changes\<close>

definition announces_status :: "json \<Rightarrow> bool" where
  "announces_status env \<longleftrightarrow>
     json_get env ''event'' \<in> set [JStr ''booking.cancelled'', JStr ''guest.checked_in'', JStr ''guest.checked_out''] \<or>
     json_get env ''event'' = JStr ''booking.updated'' \<and> json_get (json_get (json_get env ''data'') ''changed'') ''status'' \<noteq> JNull"

lemma announces_envelope [simp]:
  "announces_status (webhook_envelope ev data) \<longleftrightarrow>
     ev \<in> set [''booking.cancelled'', ''guest.checked_in'', ''guest.checked_out''] \<or>
     ev = ''booking.updated'' \<and> json_get (json_get data ''changed'') ''status'' \<noteq> JNull"
  by (simp add: announces_status_def webhook_envelope_def json_get_def)

lemma map_of_graph: "map_of (map (\<lambda>k. (k, g k)) ks) k = (if k \<in> set ks then Some (g k) else None)"
  by (induction ks) auto

lemma snapshot_get_status: "snapshot_get s ''status'' = JStr (bs_status s)"
  by (simp add: snapshot_get_def)

lemma changed_status:
  "json_get (json_get (JObj [(''booking_id'', x), (''changed'', JObj (map (\<lambda>k. (k, snapshot_get s k)) ks)), y]) ''changed'') ''status''
     \<noteq> JNull \<longleftrightarrow> ''status'' \<in> set ks"
  by (simp add: json_get_def map_of_graph snapshot_get_status)
lemma snapshot_status_norm: "py_lower (py_strip (bs_status (booking_quick_snapshot d b))) = bs_status (booking_quick_snapshot d b)"
  by (simp add: booking_quick_snapshot_def Let_def)

lemma status_in_changed_keys:
  assumes "py_lower (py_strip (bs_status before)) = bs_status before" "py_lower (py_strip (bs_status after)) = bs_status after"
  shows "''status'' \<in> set (changed_keys before after) \<longleftrightarrow> bs_status before \<noteq> bs_status after \<and> \<not> lifecycle_event (bs_status after)"
  by (auto simp: changed_keys_def Let_def assms tracked_keys_def snapshot_get_status)

text \<open>
  A patch of a booking that changes its status is announced to a listening subscription by
  exactly one event: the one of its own for a cancellation, a check-in or a check-out, and
  otherwise one update whose \<^verbatim>\<open>changed\<close> names the status. A patch that does not change the status
  announces none, and one that changes nothing of the stay queues nothing at all.
\<close>

theorem status_change_is_announced_once:
  assumes run: "run_booking_patch_webhooks n d t b (booking_quick_snapshot d0 b0) (booking_quick_snapshot d1 b1) reason bal ob =
      (posts, None, ob')"
    and listening: "\<forall>ev\<in>set [''booking.cancelled'', ''guest.checked_in'', ''guest.checked_out'', ''booking.updated''].
      listens ob t i ev"
  shows "\<exists>envs. queued ob' i = queued ob i @ envs \<and>
    length (filter announces_status envs) =
      (if bs_status (booking_quick_snapshot d0 b0) = bs_status (booking_quick_snapshot d1 b1) then 0 else 1) \<and>
    (list_all (\<lambda>k. snapshot_get (booking_quick_snapshot d0 b0) k = snapshot_get (booking_quick_snapshot d1 b1) k) tracked_keys
       \<longrightarrow> envs = [])"
proof -
  define before after where "before = booking_quick_snapshot d0 b0" and "after = booking_quick_snapshot d1 b1"
  have norm: "py_lower (py_strip (bs_status before)) = bs_status before" "py_lower (py_strip (bs_status after)) = bs_status after"
    by (simp_all add: before_def after_def snapshot_status_norm)
  define own where "own = (if bs_status before = bs_status after then [] else
    if bs_status after = ''cancelled'' then [webhook_envelope ''booking.cancelled''
      (JObj [(''booking_id'', JStr (uuid_str b)), (''cancellation_reason'', JStr (case reason of None \<Rightarrow> [] | Some r \<Rightarrow> r))])]
    else if bs_status after = ''checked_in'' then [webhook_envelope ''guest.checked_in'' (JObj (checkin_payload d t b after))]
    else if bs_status after = ''checked_out'' then [webhook_envelope ''guest.checked_out'' (JObj (guest_stay_payload b after @
        [(''folio_balance'', JStr (case bal of None \<Rightarrow> ''0.00'' | Some x \<Rightarrow> if x = [] then ''0.00'' else x))]))] else [])"
  define ks where "ks = changed_keys before after"
  define upd where "upd = JObj [(''booking_id'', JStr (uuid_str b)), (''changed'', JObj (map (\<lambda>k. (k, snapshot_get after k)) ks)),
      (''previous_values'', JObj (map (\<lambda>k. (k, snapshot_get before k)) ks))]"
  have "queued ob' i = queued ob i @ own @ (if ks = [] then [] else [webhook_envelope ''booking.updated'' upd])"
    using run listening unfolding before_def [symmetric] after_def [symmetric]
    by (auto simp: run_booking_patch_webhooks_def Let_def norm own_def upd_def dispatch_queued event_names simp flip: ks_def
        split: if_splits option.splits prod.splits)
  moreover have "length (filter announces_status (own @ (if ks = [] then [] else [webhook_envelope ''booking.updated'' upd]))) =
      (if bs_status before = bs_status after then 0 else 1)"
  proof -
    have "announces_status (webhook_envelope ''booking.updated'' upd) \<longleftrightarrow> ''status'' \<in> set ks"
      by (simp add: upd_def changed_status)
    moreover have "''status'' \<in> set ks \<longleftrightarrow> bs_status before \<noteq> bs_status after \<and> \<not> lifecycle_event (bs_status after)"
      unfolding ks_def by (rule status_in_changed_keys [OF norm])
    ultimately show ?thesis by (auto simp: own_def lifecycle_event_def)
  qed
  moreover have "own @ (if ks = [] then [] else [webhook_envelope ''booking.updated'' upd]) = []"
    if "list_all (\<lambda>k. snapshot_get before k = snapshot_get after k) tracked_keys"
  proof -
    from that have "bs_status before = bs_status after" by (simp add: tracked_keys_def snapshot_get_status)
    moreover have "ks = []" using that by (auto simp: ks_def changed_keys_def Let_def list_all_iff filter_empty_conv)
    ultimately show ?thesis by (simp add: own_def)
  qed
  ultimately show ?thesis unfolding before_def [symmetric] after_def [symmetric] by blast
qed
definition demo_booking_row :: "string \<Rightarrow> booking_row" where
  "demo_booking_row st = \<lparr>bk_id = 7, bk_tenant_id = 1, bk_property_id = 2, bk_guest_id = 3, bk_rate_plan_id = None,
     bk_external_booking_id = None, bk_status = st, bk_source = ''direct'', bk_total_amount = 200, bk_notes = None\<rparr>"

definition demo_listener :: outbox where
  "demo_listener = demo_outbox\<lparr>subscriptions := [demo_sub\<lparr>ws_events := VALID_WEBHOOK_EVENTS\<rparr>]\<rparr>"

definition demo_patch_run :: "ext_post list \<times> error option \<times> outbox" where
  "demo_patch_run = run_booking_patch_webhooks (demo_net (Response 200)) empty_db 1 7
     (booking_quick_snapshot empty_db (demo_booking_row ''confirmed'')) (booking_quick_snapshot empty_db (demo_booking_row ''no_show''))
     None None demo_listener"

theorem status_change_is_announced_once_witness:
  "\<exists>envs. queued (snd (snd demo_patch_run)) 1 = queued demo_listener 1 @ envs \<and> length (filter announces_status envs) = 1"
proof -
  have err: "fst (snd demo_patch_run) = None" by code_simp
  have "\<forall>ev\<in>set [''booking.cancelled'', ''guest.checked_in'', ''guest.checked_out'', ''booking.updated''].
      listens demo_listener 1 1 ev"
    by (simp add: listens_def demo_listener_def demo_outbox_def demo_sub_def subscription_at_def VALID_WEBHOOK_EVENTS_def)
  moreover have "bs_status (booking_quick_snapshot empty_db (demo_booking_row ''confirmed'')) \<noteq>
      bs_status (booking_quick_snapshot empty_db (demo_booking_row ''no_show''))" by code_simp
  moreover have "run_booking_patch_webhooks (demo_net (Response 200)) empty_db 1 7
     (booking_quick_snapshot empty_db (demo_booking_row ''confirmed'')) (booking_quick_snapshot empty_db (demo_booking_row ''no_show''))
     None None demo_listener = (fst demo_patch_run, None, snd (snd demo_patch_run))"
    using err unfolding demo_patch_run_def by (metis prod.collapse)
  ultimately show ?thesis
    using status_change_is_announced_once [of "demo_net (Response 200)" empty_db 1 7 empty_db "demo_booking_row ''confirmed''"
      empty_db "demo_booking_row ''no_show''" None None demo_listener] by auto
qed

end
