(* ===== verification/Channex_Client.thy ===== *)
theory Channex_Client
  imports Webhook_Runner
begin

text \<open>
  The HTTP client of the channel manager (\<^verbatim>\<open>integrations/channex/client.py\<close>, \<^verbatim>\<open>crypto.py\<close>,
  \<^verbatim>\<open>rate_value.py\<close>): requests with their retries, the shapes of the answers, the stored API key and the
  text of a price. The network is a parameter: the answer to a request, by the number of the attempt,
  or the exception of the transport. The pauses between attempts are not represented.
\<close>

subsection \<open>Requests\<close>

record cx_message =
  rq_method :: string
  rq_url :: string
  rq_key :: string
  rq_body :: "json option"
  rq_params :: "(string \<times> string) list"

text \<open>\<open>cx_json\<close> is the answer read as JSON, \<open>None\<close> when it is not JSON.\<close>

record cx_reply =
  cx_status :: int
  cx_text :: string
  cx_json :: "json option"

type_synonym cx_http = "cx_message \<Rightarrow> nat \<Rightarrow> cx_reply result"

record cx_client =
  cc_base :: string
  cc_key :: string

definition CHANNEX_PROD_BASE :: string where
  "CHANNEX_PROD_BASE = ''https://api.channex.io/api/v1''"

definition CHANNEX_SANDBOX_BASE :: string where
  "CHANNEX_SANDBOX_BASE = ''https://staging.channex.io/api/v1''"

definition channex_client :: "string \<Rightarrow> string \<Rightarrow> cx_client" where
  "channex_client api_key env =
     (let env_lower = py_lower (py_strip (if env = [] then ''production'' else env))
      in \<lparr>cc_base = (if env_lower = ''sandbox'' then CHANNEX_SANDBOX_BASE else CHANNEX_PROD_BASE), cc_key = api_key\<rparr>)"

definition cx_url :: "cx_client \<Rightarrow> string \<Rightarrow> string" where
  "cx_url cl path = rev (dropWhile (\<lambda>c. c = CHR ''/'') (rev (cc_base cl))) @ ''/'' @ dropWhile (\<lambda>c. c = CHR ''/'') path"

text \<open>
  Up to three attempts while the answer is 429 Too Many Requests; when the third is refused as well,
  \<^verbatim>\<open>tenacity\<close> raises its own \<^verbatim>\<open>RetryError\<close> (\<^verbatim>\<open>reraise\<close> concerns exceptions, not results). An exception of
  the transport is not retried.
\<close>

fun with_429_retries :: "nat \<Rightarrow> nat \<Rightarrow> (nat \<Rightarrow> cx_reply result) \<Rightarrow> (cx_reply \<times> nat) result" where
  "with_429_retries 0 k send = Inl RetryError"
| "with_429_retries (Suc n) k send = r_bind (send k) (\<lambda>r.
     if cx_status r = 429 then with_429_retries n (Suc k) send else Inr (r, Suc k))"

fun while_5xx :: "nat \<Rightarrow> nat \<Rightarrow> (nat \<Rightarrow> cx_reply result) \<Rightarrow> cx_reply \<Rightarrow> cx_reply result" where
  "while_5xx 0 k send r = Inr r"
| "while_5xx (Suc n) k send r =
     (if 500 \<le> cx_status r \<and> cx_status r < 600 then r_bind (send k) (while_5xx n (Suc k) send) else Inr r)"

definition raw_request :: "cx_http \<Rightarrow> cx_client \<Rightarrow> string \<Rightarrow> string \<Rightarrow> json option \<Rightarrow> (string \<times> string) list \<Rightarrow> nat \<Rightarrow> cx_reply result" where
  "raw_request http cl meth path body params =
     http \<lparr>rq_method = meth, rq_url = cx_url cl path, rq_key = cc_key cl, rq_body = body, rq_params = params\<rparr>"

definition cx_request :: "cx_http \<Rightarrow> cx_client \<Rightarrow> string \<Rightarrow> string \<Rightarrow> json option \<Rightarrow> (string \<times> string) list \<Rightarrow> cx_reply result" where
  "cx_request http cl meth path body params =
     (let send = raw_request http cl meth path body params
      in r_bind (with_429_retries 3 0 send) (\<lambda>(r, k).
         r_bind (while_5xx 2 k send r) (\<lambda>r.
         if 400 \<le> cx_status r
         then Inl (ChannexApiError (''Channex API error: HTTP '' @ py_repr (JNum (of_int (cx_status r)))) (Some (cx_status r)) (Some (cx_text r)))
         else Inr r)))"

definition reply_json :: "cx_reply \<Rightarrow> json result" where
  "reply_json r = require (cx_json r) (ValueError ''not JSON'')"

subsection \<open>Shapes of the answers\<close>

fun objects :: "json list \<Rightarrow> (string \<times> json) list list" where
  "objects [] = []"
| "objects (JObj kvs # xs) = kvs # objects xs"
| "objects (_ # xs) = objects xs"

definition unwrap_items :: "json \<Rightarrow> (string \<times> json) list list" where
  "unwrap_items data = (case data of
       JList xs \<Rightarrow> objects xs
     | JObj kvs \<Rightarrow> (case map_of kvs ''data'' of
           Some JNull \<Rightarrow> [] | Some (JList xs) \<Rightarrow> objects xs | Some (JObj inner) \<Rightarrow> [inner] | _ \<Rightarrow> [kvs])
     | _ \<Rightarrow> [])"

definition attributes_obj :: "(string \<times> json) list \<Rightarrow> (string \<times> json) list" where
  "attributes_obj item = (case map_of item ''attributes'' of
       Some (JObj attrs) \<Rightarrow>
         (let top_id = obj_get_default item ''id'' JNull; aid = obj_get_default attrs ''id'' JNull;
              resolved = (if top_id = JNull then aid else top_id)
          in if ''id'' \<in> set (map fst attrs) then attrs
             else (''id'', JStr (if resolved = JNull then [] else py_strip (py_str resolved))) # attrs)
     | _ \<Rightarrow> item)"

definition extract_created_resource_id :: "json \<Rightarrow> string option" where
  "extract_created_resource_id payload = (case unwrap_items payload of
       [] \<Rightarrow> None
     | x # _ \<Rightarrow> (let rid = obj_get_default (attributes_obj x) ''id'' JNull
                in if rid = JNull \<or> py_strip (py_str rid) = [] then None else Some (py_strip (py_str rid))))"

text \<open>\<^verbatim>\<open>ChannexProperty\<close>, \<^verbatim>\<open>ChannexRoomType\<close> and \<^verbatim>\<open>ChannexRatePlan\<close> have the same two fields.\<close>

record cx_item =
  ci_id :: string
  ci_title :: "string option"

definition cx_item_validate :: "(string \<times> json) list \<Rightarrow> cx_item result" where
  "cx_item_validate kvs =
     r_bind (case map_of kvs ''id'' of Some (JStr s) \<Rightarrow> Inr s | _ \<Rightarrow> Inl (ValueError ''id'')) (\<lambda>i.
     r_bind (case obj_get_default kvs ''title'' JNull of JNull \<Rightarrow> Inr None | JStr s \<Rightarrow> Inr (Some s) | _ \<Rightarrow> Inl (ValueError ''title'')) (\<lambda>t.
     Inr \<lparr>ci_id = i, ci_title = t\<rparr>))"

fun all_Inr :: "'a result list \<Rightarrow> 'a list result" where
  "all_Inr [] = Inr []"
| "all_Inr (Inl e # xs) = Inl e"
| "all_Inr (Inr x # xs) = r_bind (all_Inr xs) (\<lambda>ys. Inr (x # ys))"

definition items_of :: "json \<Rightarrow> cx_item list result" where
  "items_of payload = all_Inr (map cx_item_validate (filter (\<lambda>kvs. truthy (obj_get_default kvs ''id'' JNull)) (map attributes_obj (unwrap_items payload))))"

definition created_item :: "string \<Rightarrow> json \<Rightarrow> cx_item result" where
  "created_item what payload =
     (let flat = (case unwrap_items payload of x # _ \<Rightarrow> attributes_obj x
                  | [] \<Rightarrow> (case payload of JObj kvs \<Rightarrow> attributes_obj kvs | _ \<Rightarrow> []))
      in if truthy (obj_get_default flat ''id'' JNull) then cx_item_validate flat
         else Inl (ChannexApiError (''Channex create '' @ what @ '': missing id in response'') None
                (if truthy payload then Some (take 500 (py_repr payload)) else None)))"

subsection \<open>Calls\<close>

definition cx_call :: "cx_http \<Rightarrow> cx_client \<Rightarrow> string \<Rightarrow> string \<Rightarrow> json option \<Rightarrow> (string \<times> string) list \<Rightarrow> json result" where
  "cx_call http cl meth path body params = r_bind (cx_request http cl meth path body params) reply_json"

definition get_properties :: "cx_http \<Rightarrow> cx_client \<Rightarrow> cx_item list result" where
  "get_properties http cl = r_bind (cx_call http cl ''GET'' ''properties'' None []) items_of"

definition create_cx_property :: "cx_http \<Rightarrow> cx_client \<Rightarrow> string \<Rightarrow> string \<Rightarrow> string \<Rightarrow> cx_item result" where
  "create_cx_property http cl title currency timezone =
     r_bind (cx_call http cl ''POST'' ''properties'' (Some (JObj [(''property'', JObj (
         [(''title'', JStr (py_strip title)), (''currency'', JStr (py_upper (py_strip currency))), (''property_type'', JStr ''hotel'')] @
         (if py_strip timezone = [] then [] else [(''timezone'', JStr (py_strip timezone))])))])) [])
       (created_item ''property'')"

definition create_cx_room_type :: "cx_http \<Rightarrow> cx_client \<Rightarrow> string \<Rightarrow> string \<Rightarrow> int \<Rightarrow> int \<Rightarrow> int \<Rightarrow> int \<Rightarrow> int \<Rightarrow> cx_item result" where
  "create_cx_room_type http cl property_id title count_of_rooms occ_adults occ_children occ_infants default_occupancy =
     r_bind (cx_call http cl ''POST'' ''room_types'' (Some (JObj [(''room_type'', JObj
         [(''property_id'', JStr (py_strip property_id)), (''title'', JStr (py_strip title)),
          (''count_of_rooms'', JNum (of_int count_of_rooms)), (''occ_adults'', JNum (of_int occ_adults)),
          (''occ_children'', JNum (of_int occ_children)), (''occ_infants'', JNum (of_int occ_infants)),
          (''default_occupancy'', JNum (of_int default_occupancy)), (''facilities'', JList []), (''room_kind'', JStr ''room'')])])) [])
       (created_item ''room type'')"

definition create_cx_rate_plan :: "cx_http \<Rightarrow> cx_client \<Rightarrow> string \<Rightarrow> string \<Rightarrow> string \<Rightarrow> string \<Rightarrow> int \<Rightarrow> cx_item result" where
  "create_cx_rate_plan http cl property_id room_type_id title currency primary_occupancy =
     (let z7 = JList (replicate 7 (JNum 0)); f7 = JList (replicate 7 (JBool False)); o7 = JList (replicate 7 (JNum 1));
          inherited = map (\<lambda>k. (''inherit_'' @ k, JBool False)) [''rate'', ''closed_to_arrival'', ''closed_to_departure'', ''stop_sell'',
            ''min_stay_arrival'', ''min_stay_through'', ''max_stay'', ''max_sell'', ''max_availability'', ''availability_offset'']
      in r_bind (cx_call http cl ''POST'' ''rate_plans'' (Some (JObj [(''rate_plan'', JObj (
         [(''title'', JStr (take 255 (py_strip title))), (''property_id'', JStr (py_strip property_id)),
          (''room_type_id'', JStr (py_strip room_type_id)), (''parent_rate_plan_id'', JNull), (''children_fee'', JStr ''0.00''),
          (''infant_fee'', JStr ''0.00''), (''max_stay'', z7), (''min_stay_arrival'', o7), (''min_stay_through'', o7),
          (''closed_to_arrival'', f7), (''closed_to_departure'', f7), (''stop_sell'', f7),
          (''options'', JList [JObj [(''occupancy'', JNum (of_int (max 1 primary_occupancy))), (''is_primary'', JBool True), (''rate'', JNum 0)]]),
          (''currency'', JStr (py_upper (py_strip currency))), (''sell_mode'', JStr ''per_room''), (''rate_mode'', JStr ''manual'')] @
         inherited @ [(''auto_rate_settings'', JNull)]))])) [])
       (created_item ''rate plan''))"

definition get_cx_room_types :: "cx_http \<Rightarrow> cx_client \<Rightarrow> string \<Rightarrow> cx_item list result" where
  "get_cx_room_types http cl property_id = r_bind (cx_call http cl ''GET'' ''room_types'' None [(''property_id'', property_id)]) items_of"

definition get_cx_rate_plans :: "cx_http \<Rightarrow> cx_client \<Rightarrow> string \<Rightarrow> cx_item list result" where
  "get_cx_rate_plans http cl property_id = r_bind (cx_call http cl ''GET'' ''rate_plans'' None [(''property_id'', property_id)]) items_of"

text \<open>\<^verbatim>\<open>json.dumps\<close> with its default separators.\<close>

fun json_dumps_spaced :: "json \<Rightarrow> string" where
  "json_dumps_spaced JNull = ''null''"
| "json_dumps_spaced (JBool b) = (if b then ''true'' else ''false'')"
| "json_dumps_spaced (JNum q) = num_str q"
| "json_dumps_spaced (JStr s) = json_string s"
| "json_dumps_spaced (JList xs) = ''['' @ join '', '' (map json_dumps_spaced xs) @ '']''"
| "json_dumps_spaced (JObj kvs) = ''{'' @ join '', '' (map (\<lambda>(k, v). json_string k @ '': '' @ json_dumps_spaced v) kvs) @ ''}''"

definition ensure_no_channex_ari_warnings :: "json \<Rightarrow> string \<Rightarrow> unit result" where
  "ensure_no_channex_ari_warnings payload endpoint = (case json_get (json_get payload ''meta'') ''warnings'' of
       JList (w # ws) \<Rightarrow> (let detail = take 1900 (json_dumps_spaced (JList (w # ws)))
         in Inl (ChannexApiError (''Channex rejected part of ARI update ('' @ endpoint @ ''): '' @ detail) (Some 200) (Some detail)))
     | _ \<Rightarrow> Inr ())"

definition push_availability :: "cx_http \<Rightarrow> cx_client \<Rightarrow> json list \<Rightarrow> unit result" where
  "push_availability http cl values =
     r_bind (cx_call http cl ''POST'' ''availability'' (Some (JObj [(''values'', JList values)])) []) (\<lambda>payload.
       ensure_no_channex_ari_warnings payload ''availability'')"

definition push_restrictions :: "cx_http \<Rightarrow> cx_client \<Rightarrow> json list \<Rightarrow> unit result" where
  "push_restrictions http cl values =
     r_bind (cx_call http cl ''POST'' ''restrictions'' (Some (JObj [(''values'', JList values)])) []) (\<lambda>payload.
       ensure_no_channex_ari_warnings payload ''restrictions'')"

definition get_booking_revision_raw :: "cx_http \<Rightarrow> cx_client \<Rightarrow> string \<Rightarrow> json result" where
  "get_booking_revision_raw http cl revision_id =
     r_bind (cx_call http cl ''GET'' (''booking_revisions/'' @ revision_id) None []) (\<lambda>payload.
       Inr (JObj (case unwrap_items payload of x # _ \<Rightarrow> attributes_obj x
                  | [] \<Rightarrow> (case payload of JObj kvs \<Rightarrow> attributes_obj kvs | _ \<Rightarrow> []))))"

definition acknowledge_revision :: "cx_http \<Rightarrow> cx_client \<Rightarrow> string \<Rightarrow> json result" where
  "acknowledge_revision http cl revision_id =
     r_bind (cx_request http cl ''POST'' (''booking_revisions/'' @ revision_id @ ''/acknowledge'') None []) (\<lambda>r.
       if cx_text r = [] then Inr (JObj []) else reply_json r)"

definition create_webhook :: "cx_http \<Rightarrow> cx_client \<Rightarrow> string \<Rightarrow> string list \<Rightarrow> json result" where
  "create_webhook http cl url events =
     cx_call http cl ''POST'' ''webhooks'' (Some (JObj [(''url'', JStr url), (''events'', JList (map JStr events))])) []"

definition delete_webhook :: "cx_http \<Rightarrow> cx_client \<Rightarrow> string \<Rightarrow> unit result" where
  "delete_webhook http cl webhook_id = r_bind (cx_request http cl ''DELETE'' (''webhooks/'' @ webhook_id) None []) (\<lambda>_. Inr ())"

subsection \<open>The stored API key\<close>

definition encrypt_channex_api_key :: "net \<Rightarrow> settings \<Rightarrow> string \<Rightarrow> string \<Rightarrow> string result" where
  "encrypt_channex_api_key n st nonce plain =
     r_bind (guard (fernet_ok n (fernet_key n st)) (ValueError ''Fernet key must be 32 url-safe base64-encoded bytes.'')) (\<lambda>_.
       Inr (fernet_encrypt n (fernet_key n st) nonce plain))"

definition decrypt_channex_api_key :: "net \<Rightarrow> settings \<Rightarrow> string \<Rightarrow> string result" where
  "decrypt_channex_api_key n st stored =
     (if fernet_ok n (fernet_key n st)
      then require (fernet_decrypt n (fernet_key n st) stored) (ValueError ''Invalid or corrupted Channex API key ciphertext'')
      else Inl (ValueError ''Invalid or corrupted Channex API key ciphertext''))"

subsection \<open>Prices as text\<close>

definition MINOR_UNITS :: "(string \<times> nat) list" where
  "MINOR_UNITS = map (\<lambda>c. (c, 3)) [''BHD'', ''IQD'', ''JOD'', ''KWD'', ''LYD'', ''OMR'', ''TND''] @ [(''CLF'', 4), (''UYW'', 4)] @
     map (\<lambda>c. (c, 0)) [''BIF'', ''CLP'', ''DJF'', ''GNF'', ''ISK'', ''JPY'', ''KMF'', ''KRW'', ''PYG'', ''RWF'', ''UGX'', ''VND'', ''VUV'',
       ''XAF'', ''XOF'', ''XPF'']"

definition currency_exponent :: "string \<Rightarrow> nat" where
  "currency_exponent currency_code =
     (let c = take 3 (py_upper (py_strip currency_code))
      in if length c \<noteq> 3 then 2 else case map_of MINOR_UNITS c of None \<Rightarrow> 2 | Some e \<Rightarrow> e)"

text \<open>\<^verbatim>\<open>format(q, "f")\<close> of a number with \<open>e\<close> decimals.\<close>

definition format_fixed :: "nat \<Rightarrow> int \<Rightarrow> string" where
  "format_fixed e n =
     (let a = nat \<bar>n\<bar>
      in (if n < 0 then ''-'' else []) @ digits_of (a div 10 ^ e) @ (if e = 0 then [] else ''.'' @ padded e (int (a mod 10 ^ e))))"

definition channex_rate_string :: "decimal \<Rightarrow> string \<Rightarrow> string" where
  "channex_rate_string price currency_code =
     (let e = currency_exponent currency_code in format_fixed e (round_half_up (price * 10 ^ e)))"

subsection \<open>How often the client asks\<close>

lemma with_429_answer:
  "with_429_retries n k send = Inr (r, k') \<Longrightarrow> k < k' \<and> k' \<le> k + n \<and> send (k' - 1) = Inr r \<and> cx_status r \<noteq> 429"
  by (induction n k send rule: with_429_retries.induct) (auto split: if_splits)

lemma while_5xx_answer: "while_5xx n k send r = Inr r' \<Longrightarrow> r' = r \<or> (\<exists>j<k + n. send j = Inr r')"
proof (induction n k send r rule: while_5xx.induct)
  case (2 n k send r)
  show ?case
  proof (cases "500 \<le> cx_status r \<and> cx_status r < 600")
    case True
    with "2.prems" obtain r2 where r2: "send k = Inr r2" "while_5xx n (Suc k) send r2 = Inr r'" by auto
    from "2.IH" [OF True r2] r2(1) show ?thesis by auto
  qed (use "2.prems" in auto)
qed simp

lemma with_429_cong: "(\<And>j. j < k + n \<Longrightarrow> send j = send' j) \<Longrightarrow> with_429_retries n k send = with_429_retries n k send'"
  by (induction n k send rule: with_429_retries.induct) (auto simp: r_bind_def split: sum.splits)

lemma while_5xx_cong: "(\<And>j. j < k + n \<Longrightarrow> send j = send' j) \<Longrightarrow> while_5xx n k send r = while_5xx n k send' r"
  by (induction n k send r rule: while_5xx.induct) (auto simp: r_bind_def split: sum.splits)

text \<open>
  C36. A call of the channel manager asks at most five times, whatever the network answers: the outcome
  depends only on the answers to the first five attempts. A call that succeeds returns one of these
  answers, and never one whose status says error.
\<close>

theorem client_asks_at_most_five_times:
  assumes "\<And>k. k < 5 \<Longrightarrow> raw_request http cl meth path body params k = raw_request http' cl meth path body params k"
  shows "cx_request http cl meth path body params = cx_request http' cl meth path body params \<and>
    (\<forall>r. cx_request http cl meth path body params = Inr r \<longrightarrow>
      cx_status r < 400 \<and> (\<exists>k<5. raw_request http cl meth path body params k = Inr r))"
proof
  let ?s = "raw_request http cl meth path body params" and ?s' = "raw_request http' cl meth path body params"
  have same: "?s j = ?s' j" if "j < 5" for j using assms that .
  have first: "with_429_retries 3 0 ?s = with_429_retries 3 0 ?s'" by (rule with_429_cong) (rule same, simp)
  have "while_5xx 2 k ?s r = while_5xx 2 k ?s' r" if "with_429_retries 3 0 ?s = Inr (r, k)" for r k
    by (rule while_5xx_cong) (rule same, use with_429_answer [OF that] in simp)
  then show "cx_request http cl meth path body params = cx_request http' cl meth path body params"
    unfolding cx_request_def Let_def first [symmetric] by (cases "with_429_retries 3 0 ?s") auto
  show "\<forall>r. cx_request http cl meth path body params = Inr r \<longrightarrow> cx_status r < 400 \<and> (\<exists>k<5. ?s k = Inr r)"
  proof (intro allI impI)
    fix r assume "cx_request http cl meth path body params = Inr r"
    then obtain r0 k where r0: "with_429_retries 3 0 ?s = Inr (r0, k)" "while_5xx 2 k ?s r0 = Inr r" "cx_status r < 400"
      by (auto simp: cx_request_def Let_def split: if_splits)
    have k: "k \<le> 3" "?s (k - 1) = Inr r0" using with_429_answer [OF r0(1)] by auto
    from while_5xx_answer [OF r0(2)] k have "\<exists>k<5. ?s k = Inr r" by (force intro: exI [of _ "k - 1"])
    with r0(3) show "cx_status r < 400 \<and> (\<exists>k<5. ?s k = Inr r)" by blast
  qed
qed

definition demo_http :: cx_http where
  "demo_http rq k = Inr (if k = 0 then \<lparr>cx_status = 503, cx_text = [], cx_json = None\<rparr>
     else \<lparr>cx_status = 200, cx_text = ''{}'', cx_json = Some (JObj [])\<rparr>)"

definition demo_client :: cx_client where
  "demo_client = channex_client ''key'' ''sandbox''"

theorem client_asks_at_most_five_times_witness:
  "\<exists>r. cx_request demo_http demo_client ''GET'' ''properties'' None [] = Inr r \<and> cx_status r < 400 \<and>
     cx_request (\<lambda>rq k. if k < 5 then demo_http rq k else Inl RetryError) demo_client ''GET'' ''properties'' None [] = Inr r"
proof -
  have "succeeds (cx_request demo_http demo_client ''GET'' ''properties'' None [])" by code_simp
  then obtain r where r: "cx_request demo_http demo_client ''GET'' ''properties'' None [] = Inr r"
    by (cases "cx_request demo_http demo_client ''GET'' ''properties'' None []") auto
  define http where "http = (\<lambda>rq k. if k < 5 then demo_http rq k else Inl RetryError)"
  have "raw_request demo_http demo_client ''GET'' ''properties'' None [] k = raw_request http demo_client ''GET'' ''properties'' None [] k"
    if "k < 5" for k
    using that by (simp add: raw_request_def http_def)
  note tries = client_asks_at_most_five_times [OF this]
  from tries r have "cx_request http demo_client ''GET'' ''properties'' None [] = Inr r" by simp
  moreover from tries r have "cx_status r < 400" by blast
  ultimately show ?thesis using r unfolding http_def by blast
qed

text \<open>Three refusals for too many requests end in an exception that the callers do not expect.\<close>

lemma third_429_raises_RetryError:
  assumes "\<And>k. k < 3 \<Longrightarrow> \<exists>r. raw_request http cl meth path body params k = Inr r \<and> cx_status r = 429"
  shows "cx_request http cl meth path body params = Inl RetryError"
  using assms [of 0] assms [of 1] assms [of 2] by (auto simp: cx_request_def Let_def numeral_eq_Suc)

subsection \<open>The text of a price is read back\<close>

lemma char_digit: "n < 10 \<Longrightarrow> is_digit (char_of (48 + n)) \<and> digit_val (char_of (48 + n)) = n"
  by (simp add: is_digit_def digit_val_def)

lemma nat_of_digits_append: "nat_of_digits (xs @ ys) = nat_of_digits xs * 10 ^ length ys + nat_of_digits ys"
proof -
  have shift: "foldl (\<lambda>a c. 10 * a + digit_val c) a ys = a * 10 ^ length ys + nat_of_digits ys" for a
    by (induction ys rule: rev_induct) (simp_all add: nat_of_digits_def algebra_simps)
  have "nat_of_digits (xs @ ys) = foldl (\<lambda>a c. 10 * a + digit_val c) (nat_of_digits xs) ys" by (simp add: nat_of_digits_def)
  then show ?thesis unfolding shift .
qed

lemma digits_of_value: "list_all is_digit (digits_of n) \<and> nat_of_digits (digits_of n) = n \<and> digits_of n \<noteq> []"
proof (induction n rule: digits_of.induct)
  case (1 n)
  show ?case
  proof (cases "n < 10")
    case True
    then show ?thesis using char_digit [OF True] by (simp add: digits_of.simps [of n] nat_of_digits_def)
  next
    case False
    have "n mod 10 < 10" by simp
    from char_digit [OF this] have d: "is_digit (char_of (48 + n mod 10))" "digit_val (char_of (48 + n mod 10)) = n mod 10" by blast+
    have one: "nat_of_digits [c] = digit_val c" for c by (simp add: nat_of_digits_def)
    have step: "digits_of n = digits_of (n div 10) @ [char_of (48 + n mod 10)]" using False by (simp add: digits_of.simps [of n])
    show ?thesis unfolding step nat_of_digits_append one d(2) using 1 [OF False] d(1) by simp
  qed
qed

lemma digits_of_length: "n < 10 ^ Suc e \<Longrightarrow> length (digits_of n) \<le> Suc e"
proof (induction e arbitrary: n)
  case 0
  then show ?case by (simp add: digits_of.simps [of n])
next
  case (Suc e)
  then have "n div 10 < 10 ^ Suc e" by (simp add: less_mult_imp_div_less mult.commute)
  from Suc.IH [OF this] show ?case by (simp add: digits_of.simps [of n])
qed

lemma padded_value:
  assumes "n < 10 ^ e" "0 < e"
  shows "length (padded e (int n)) = e \<and> list_all is_digit (padded e (int n)) \<and> nat_of_digits (padded e (int n)) = n"
proof -
  obtain e' where "e = Suc e'" using assms(2) by (cases e) auto
  with assms(1) digits_of_length [of n e'] have len: "length (digits_of n) \<le> e" by simp
  have zeros: "nat_of_digits (replicate k CHR ''0'') = 0" for k
    by (induction k) (simp_all add: nat_of_digits_def digit_val_def)
  have "is_digit CHR ''0''" by (simp add: is_digit_def)
  then show ?thesis using len digits_of_value [of n] by (auto simp: padded_def Let_def nat_of_digits_append zeros list_all_iff)
qed

lemma strip_solid: "list_all (\<lambda>c. \<not> py_space c) s \<Longrightarrow> py_strip s = s"
proof -
  have none: "dropWhile py_space t = t" if "list_all (\<lambda>c. \<not> py_space c) t" for t
    using that by (cases t) auto
  assume a: "list_all (\<lambda>c. \<not> py_space c) s"
  then have "list_all (\<lambda>c. \<not> py_space c) (rev s)" by simp
  with a show ?thesis by (simp add: py_strip_def none)
qed

lemma digit_solid: "is_digit c \<Longrightarrow> \<not> py_space c \<and> c \<noteq> CHR ''-'' \<and> c \<noteq> CHR ''+'' \<and> c \<noteq> CHR ''.''"
  by (auto simp: is_digit_def py_space_def Let_def)

lemma parse_fixed:
  assumes "list_all is_digit ip" "ip \<noteq> []" "list_all is_digit fp"
  shows "parse_decimal ((if neg then ''-'' else []) @ ip @ (if fp = [] then [] else ''.'' @ fp)) =
    Some ((if neg then -1 else 1) * of_nat (nat_of_digits (ip @ fp)) / 10 ^ length fp)"
proof -
  let ?t = "ip @ (if fp = [] then [] else ''.'' @ fp)"
  have solid: "list_all (\<lambda>c. \<not> py_space c) ((if neg then ''-'' else []) @ ?t)"
    using assms digit_solid by (auto simp: list_all_iff py_space_def Let_def)
  obtain c cs where ip: "ip = c # cs" "is_digit c" using assms(1,2) by (cases ip) auto
  have sign: "take_sign ((if neg then ''-'' else []) @ ?t) = (if neg then -1 else 1, ?t)"
    using digit_solid [OF ip(2)] ip(1) by (simp add: take_sign_def)
  have dot: "\<not> is_digit CHR ''.''" by (simp add: is_digit_def)
  have tw: "takeWhile is_digit ip = ip" "dropWhile is_digit ip = []"
      "takeWhile is_digit (ip @ CHR ''.'' # fp) = ip" "dropWhile is_digit (ip @ CHR ''.'' # fp) = CHR ''.'' # fp"
      "takeWhile is_digit fp = fp" "dropWhile is_digit fp = []"
    using assms(1,3) dot by (auto simp: list_all_iff takeWhile_eq_all_conv dropWhile_eq_Nil_conv)
  have plain: "parse_exponent [] = Some 0" by (simp add: parse_exponent_def)
  show ?thesis
    unfolding parse_decimal_def strip_solid [OF solid] sign Let_def prod.case
    using assms(2) by (cases "fp = []") (simp_all add: tw plain power_int_minus divide_inverse)
qed

text \<open>
  C39. The text under which a price is sent to the channel manager denotes the price rounded to the
  minor units of the currency: read back as a number it is that amount exactly, for currencies with
  no, two, three or four decimals.
\<close>

theorem rate_string_reads_back:
  "parse_decimal (channex_rate_string price currency_code) =
     Some (of_int (round_half_up (price * 10 ^ currency_exponent currency_code)) / 10 ^ currency_exponent currency_code)"
proof -
  define e where "e = currency_exponent currency_code"
  define n where "n = round_half_up (price * 10 ^ e)"
  define a where "a = nat \<bar>n\<bar>"
  define fp where "fp = (if e = 0 then [] else padded e (int (a mod 10 ^ e)))"
  have fp: "length fp = e" "list_all is_digit fp" "nat_of_digits fp = a mod 10 ^ e"
    using padded_value [of "a mod 10 ^ e" e] by (auto simp: fp_def nat_of_digits_def)
  have "channex_rate_string price currency_code =
      (if n < 0 then ''-'' else []) @ digits_of (a div 10 ^ e) @ (if fp = [] then [] else ''.'' @ fp)"
    using fp(1) by (auto simp: channex_rate_string_def format_fixed_def Let_def fp_def e_def n_def a_def)
  moreover have "nat_of_digits (digits_of (a div 10 ^ e) @ fp) = a"
    using fp digits_of_value [of "a div 10 ^ e"] by (simp only: nat_of_digits_append div_mult_mod_eq)
  moreover have "(if n < 0 then -1 else 1) * of_nat a = (of_int n :: rat)" by (simp add: a_def)
  ultimately show ?thesis
    using parse_fixed [of "digits_of (a div 10 ^ e)" fp "n < 0"] digits_of_value [of "a div 10 ^ e"] fp(1,2)
    by (simp add: e_def n_def)
qed

end
