(* ===== verification/Inventory.thy ===== *)
theory Inventory
  imports Booking
begin

text \<open>
  The inventory invariant of the hotel and its preservation by the booking service: the
  counter \<^verbatim>\<open>booked_rooms\<close> of every ledger row is the number of booking lines of active bookings on
  that night, and no physical room serves two active bookings in one night.
\<close>

subsection \<open>Counting booked nights\<close>

definition bl_bucket :: "line_row \<Rightarrow> bucket" where
  "bl_bucket l = (bl_tenant_id l, bl_room_type_id l, bl_date l)"

definition active_at :: "booking_row list \<Rightarrow> uuid \<Rightarrow> uuid \<Rightarrow> bool" where
  "active_at bs t b = list_ex (\<lambda>x. bk_tenant_id x = t \<and> bk_id x = b \<and> active_booking x) bs"

definition line_active :: "booking_row list \<Rightarrow> line_row \<Rightarrow> bool" where
  "line_active bs l = active_at bs (bl_tenant_id l) (bl_booking_id l)"

definition line_weight :: "booking_row list \<Rightarrow> bucket \<Rightarrow> line_row \<Rightarrow> int" where
  "line_weight bs k l = (if bl_bucket l = k \<and> line_active bs l then 1 else 0)"

interpretation night_count: measured_table "line_weight bs k" "\<lambda>l. bl_bucket l = k" for bs k
  by unfold_locales (simp add: line_weight_def)

definition occupied :: "db \<Rightarrow> bucket \<Rightarrow> int" where
  "occupied d k = measure_of (line_weight (bookings d) k) (booking_lines d)"

definition booked :: "db \<Rightarrow> bucket \<Rightarrow> int" where
  "booked d k = (case booked_at d k of None \<Rightarrow> 0 | Some n \<Rightarrow> n)"

subsection \<open>The invariant\<close>

definition bookings_ok :: "db \<Rightarrow> bool" where
  "bookings_ok d \<longleftrightarrow> distinct (map bk_id (bookings d)) \<and>
     list_all (\<lambda>b. bk_id b < next_uuid d \<and> bk_status b \<in> set KNOWN_STATUSES) (bookings d) \<and>
     list_all (\<lambda>l. bl_booking_id l < next_uuid d) (booking_lines d)"

definition night_of :: "line_row \<Rightarrow> uuid \<times> uuid \<times> date" where
  "night_of l = (bl_tenant_id l, bl_booking_id l, bl_date l)"

definition lines_ok :: "line_row list \<Rightarrow> bool" where
  "lines_ok ls \<longleftrightarrow> distinct (map night_of ls) \<and>
     list_all (\<lambda>l. list_all (\<lambda>m. bl_tenant_id l = bl_tenant_id m \<and> bl_booking_id l = bl_booking_id m \<longrightarrow>
        bl_room_type_id l = bl_room_type_id m) ls) ls"

definition same_room_night :: "line_row \<Rightarrow> line_row \<Rightarrow> bool" where
  "same_room_night l m \<longleftrightarrow> bl_tenant_id l = bl_tenant_id m \<and> bl_date l = bl_date m \<and>
     bl_room_id l = bl_room_id m \<and> bl_room_id l \<noteq> None"

definition rooms_ok :: "booking_row list \<Rightarrow> line_row list \<Rightarrow> bool" where
  "rooms_ok bs ls \<longleftrightarrow> list_all (\<lambda>l. list_all (\<lambda>m. same_room_night l m \<and> line_active bs l \<and> line_active bs m \<longrightarrow>
     bl_booking_id l = bl_booking_id m) ls) ls"

definition counts_ok :: "db \<Rightarrow> bool" where
  "counts_ok d \<longleftrightarrow> list_all (\<lambda>k. booked d k = occupied d k) (map al_bucket (ledger d) @ map bl_bucket (booking_lines d))"

definition inventory_inv :: "db \<Rightarrow> bool" where
  "inventory_inv d \<longleftrightarrow> ledger_wf d \<and> bookings_ok d \<and> lines_ok (booking_lines d) \<and>
     rooms_ok (bookings d) (booking_lines d) \<and> counts_ok d"

lemma counts_ok_iff: "counts_ok d \<longleftrightarrow> (\<forall>k. booked d k = occupied d k)"
proof
  assume "counts_ok d"
  then have here: "booked d k = occupied d k"
    if "k \<in> al_bucket ` set (ledger d) \<or> k \<in> bl_bucket ` set (booking_lines d)" for k
    using that by (auto simp: counts_ok_def list_all_iff)
  have "booked d k = occupied d k"
    if "k \<notin> al_bucket ` set (ledger d)" "k \<notin> bl_bucket ` set (booking_lines d)" for k
  proof -
    have "bucket_row d k = None" using that(1) by (simp add: bucket_row_def tb_bucket.lookup_None)
    moreover have "occupied d k = 0"
      unfolding occupied_def using that(2) by (intro night_count.measure_zero) auto
    ultimately show ?thesis by (simp add: booked_def booked_at_def)
  qed
  with here show "\<forall>k. booked d k = occupied d k" by blast
next
  assume "\<forall>k. booked d k = occupied d k"
  then show "counts_ok d" unfolding counts_ok_def list_all_iff by blast
qed

lemma inventory_invD:
  assumes "inventory_inv d"
  shows "ledger_wf d" "bookings_ok d" "lines_ok (booking_lines d)" "rooms_ok (bookings d) (booking_lines d)"
    "booked d k = occupied d k"
  using assms unfolding inventory_inv_def counts_ok_iff by blast+

lemma inventory_invI:
  assumes "ledger_wf d" "bookings_ok d" "lines_ok (booking_lines d)" "rooms_ok (bookings d) (booking_lines d)"
    "\<And>k. booked d k = occupied d k"
  shows "inventory_inv d"
  using assms unfolding inventory_inv_def counts_ok_iff by blast

text \<open>
  Only four components matter; fresh identifiers may be used up. The calendar and the live rooms
  of each category are kept along, for the capacity of the ledger.
\<close>

definition fleet :: "db \<Rightarrow> date \<times> (uuid \<times> uuid \<times> uuid \<times> bool) list" where
  "fleet d = (utc_today d, map (\<lambda>r. (rm_id r, rm_tenant_id r, rm_room_type_id r, rm_deleted_at r = None)) (rooms d))"

lemma fleet_update [simp]:
  "fleet (d\<lparr>bookings := bs\<rparr>) = fleet d" "fleet (d\<lparr>booking_lines := ls\<rparr>) = fleet d" "fleet (d\<lparr>ledger := al\<rparr>) = fleet d"
  "fleet (d\<lparr>next_uuid := i\<rparr>) = fleet d" "fleet (d\<lparr>folio_categories := fc\<rparr>) = fleet d"
  "fleet (bump_booked K n d) = fleet d" "fleet (record_audit t a e i' d) = fleet d" "fleet (set_booking b f d) = fleet d"
  "fleet (set_line_rooms t b' r d) = fleet d" "fleet (remove_booking_rows t b' d) = fleet d"
  by (simp_all add: fleet_def bump_booked_def record_audit_def set_booking_def set_line_rooms_def remove_booking_rows_def)

definition same_stock :: "db \<Rightarrow> db \<Rightarrow> bool" where
  "same_stock d d' \<longleftrightarrow> ledger d' = ledger d \<and> bookings d' = bookings d \<and> booking_lines d' = booking_lines d \<and>
     next_uuid d \<le> next_uuid d' \<and> fleet d' = fleet d"

lemma same_stock_refl [simp]: "same_stock d d"
  by (simp add: same_stock_def)

lemma same_stock_trans: "same_stock d d' \<Longrightarrow> same_stock d' d'' \<Longrightarrow> same_stock d d''"
  by (auto simp: same_stock_def)

lemma inventory_inv_frame:
  assumes "inventory_inv d" "same_stock d d'"
  shows "inventory_inv d'"
proof -
  have "bookings_ok d'"
    using inventory_invD(2) [OF assms(1)] assms(2)
    by (auto simp: bookings_ok_def same_stock_def list_all_iff)
  then show ?thesis
    using assms by (simp add: inventory_inv_def counts_ok_def booked_def booked_at_def bucket_row_def
        occupied_def ledger_wf_def same_stock_def)
qed

subsection \<open>The share of one booking\<close>

definition own :: "booking_row list \<Rightarrow> line_row list \<Rightarrow> uuid \<Rightarrow> uuid \<Rightarrow> bucket \<Rightarrow> int" where
  "own bs ls t b k = measure_of (line_weight bs k) (filter (of_booking t b) ls)"

lemma own_inactive: "\<not> active_at bs t b \<Longrightarrow> own bs ls t b k = 0"
  unfolding own_def measure_of_def
  by (induction ls) (auto simp: line_weight_def line_active_def of_booking_def)

lemma own_none: "(\<And>l. l \<in> set ls \<Longrightarrow> \<not> of_booking t b l) \<Longrightarrow> own bs ls t b k = 0"
  by (simp add: own_def measure_of_def filter_False)

lemma own_eq:
  assumes "active_at bs t b" "distinct (map bl_date ls)"
    and "\<And>l. l \<in> set ls \<Longrightarrow> of_booking t b l \<and> bl_room_type_id l = rt"
  shows "own bs ls t b k = (if k \<in> stay_buckets t rt (map bl_date ls) then 1 else 0)"
  using assms(2,3)
proof (induction ls)
  case (Cons l ls)
  then have l: "of_booking t b l" "bl_room_type_id l = rt" by auto
  have "line_weight bs k l = (if k = (t, rt, bl_date l) then 1 else 0)"
    using l assms(1) by (auto simp: line_weight_def line_active_def of_booking_def bl_bucket_def)
  then have "own bs (l # ls) t b k = (if k = (t, rt, bl_date l) then 1 else 0) + own bs ls t b k"
    using l(1) by (simp add: own_def night_count.measure_Cons)
  with Cons show ?case by (cases k) auto
qed (simp add: own_def night_count.measure_Nil)

lemma own_append: "own bs (xs @ ys) t b k = own bs xs t b k + own bs ys t b k"
  by (simp add: own_def night_count.measure_append)

lemma occupied_split:
  "measure_of (line_weight bs k) ls =
     own bs ls t b k + measure_of (line_weight bs k) (delete_rows (of_booking t b) ls)"
  by (simp add: own_def night_count.measure_delete)

text \<open>
  A change confined to one booking changes the count of a night by the change of its share.
\<close>

lemma occupied_change:
  assumes "delete_rows (of_booking t b) (booking_lines d') = delete_rows (of_booking t b) (booking_lines d)"
    and "\<And>t' b'. (t', b') \<noteq> (t, b) \<Longrightarrow> active_at (bookings d') t' b' = active_at (bookings d) t' b'"
  shows "occupied d' k = occupied d k - own (bookings d) (booking_lines d) t b k
     + own (bookings d') (booking_lines d') t b k"
proof -
  have "map (line_weight (bookings d') k) (delete_rows (of_booking t b) (booking_lines d)) =
      map (line_weight (bookings d) k) (delete_rows (of_booking t b) (booking_lines d))"
    using assms(2) by (auto simp: line_weight_def line_active_def of_booking_def)
  then have "measure_of (line_weight (bookings d') k) (delete_rows (of_booking t b) (booking_lines d')) =
      measure_of (line_weight (bookings d) k) (delete_rows (of_booking t b) (booking_lines d))"
    unfolding measure_of_def assms(1) by (rule arg_cong)
  then show ?thesis
    using occupied_split [of "bookings d'" k "booking_lines d'" t b]
      occupied_split [of "bookings d" k "booking_lines d" t b]
    by (simp add: occupied_def)
qed

lemma booked_bump:
  assumes "\<And>k. k \<in> K \<Longrightarrow> bucket_row d k \<noteq> None"
  shows "booked (bump_booked K n d) k = booked d k + (if k \<in> K then n else 0)"
proof (cases "bucket_row d k")
  case None
  with assms [of k] show ?thesis by (auto simp: booked_def booked_at_def)
qed (simp add: booked_def booked_at_def)

lemma booked_bump_stay:
  "seeded d t rt nights \<Longrightarrow> booked (bump_booked (stay_buckets t rt nights) n d) k =
     booked d k + (if k \<in> stay_buckets t rt nights then n else 0)"
  by (rule booked_bump) (auto simp: seeded_def stay_buckets_def)

subsection \<open>The lines of one booking\<close>

lemma remdups_singleton: "remdups xs = [x] \<longleftrightarrow> set xs = {x}"
proof
  assume "set xs = {x}"
  then have "set (remdups xs) = {x}" "distinct (remdups xs)" by simp_all
  then show "remdups xs = [x]"
    by (cases "remdups xs") (auto simp: subset_singleton_iff)
next
  assume "remdups xs = [x]"
  then show "set xs = {x}" by (metis set_remdups list.set(1) list.set(2))
qed

lemma the_room_type_iff:
  "the_room_type ls = Some rt \<longleftrightarrow> ls \<noteq> [] \<and> (\<forall>l\<in>set ls. bl_room_type_id l = rt)"
proof -
  have "the_room_type ls = Some rt \<longleftrightarrow> remdups (map bl_room_type_id ls) = [rt]"
    by (auto simp: the_room_type_def split: list.splits)
  also have "\<dots> \<longleftrightarrow> bl_room_type_id ` set ls = {rt}" by (simp add: remdups_singleton)
  also have "\<dots> \<longleftrightarrow> ls \<noteq> [] \<and> (\<forall>l\<in>set ls. bl_room_type_id l = rt)" by (cases ls) auto
  finally show ?thesis .
qed

lemma own_filter: "own bs (filter (of_booking t b) ls) t b k = own bs ls t b k"
  by (simp add: own_def)

lemma lines_ok_dates:
  assumes "lines_ok ls"
  shows "distinct (map bl_date (filter (of_booking t b) ls))"
proof -
  have "distinct (map night_of (filter (of_booking t b) ls))"
    using assms by (simp add: lines_ok_def distinct_map_filter)
  then have "distinct (filter (of_booking t b) ls)" "inj_on night_of (set (filter (of_booking t b) ls))"
    by (simp_all add: distinct_map)
  then show ?thesis
    by (simp add: distinct_map) (auto simp: inj_on_def night_of_def of_booking_def)
qed

lemma lines_ok_room_type:
  assumes "lines_ok ls" "filter (of_booking t b) ls \<noteq> []"
  shows "\<exists>rt. the_room_type (filter (of_booking t b) ls) = Some rt"
proof -
  obtain l where l: "l \<in> set (filter (of_booking t b) ls)" using assms(2) by (meson list.set_sel(1))
  have "bl_room_type_id m = bl_room_type_id l" if "m \<in> set (filter (of_booking t b) ls)" for m
    using that l assms(1) by (auto simp: lines_ok_def list_all_iff of_booking_def)
  with assms(2) show ?thesis by (auto simp: the_room_type_iff)
qed

lemma own_stay:
  assumes "lines_ok ls" "active_at bs t b" "the_room_type (filter (of_booking t b) ls) = Some rt"
  shows "own bs ls t b k = (if k \<in> stay_buckets t rt (map bl_date (filter (of_booking t b) ls)) then 1 else 0)"
proof -
  have "own bs (filter (of_booking t b) ls) t b k =
      (if k \<in> stay_buckets t rt (map bl_date (filter (of_booking t b) ls)) then 1 else 0)"
    using assms by (intro own_eq lines_ok_dates) (auto simp: the_room_type_iff)
  then show ?thesis by (simp add: own_filter)
qed

text \<open>Releasing a booking takes exactly its share out of the ledger.\<close>

lemma decrement_effect:
  assumes "ledger_wf d" "lock_and_decrement d t rt nights = Inr d'"
  shows "d' = bump_booked (stay_buckets t rt nights) (-1) d \<and>
    booked d' k = booked d k - (if k \<in> stay_buckets t rt nights then 1 else 0)"
  using assms(2) booked_bump_stay [of d t rt nights "-1" k]
  by (auto simp: lock_and_decrement_bump [OF assms(1)] split: if_splits)

lemma increment_effect:
  assumes "ledger_wf d" "lock_and_increment d t rt nights = Inr d'"
  shows "d' = bump_booked (stay_buckets t rt nights) 1 d \<and>
    booked d' k = booked d k + (if k \<in> stay_buckets t rt nights then 1 else 0)"
  using assms(2) booked_bump_stay [of d t rt nights 1 k]
  by (auto simp: lock_and_increment_bump [OF assms(1)] split: if_splits)

lemma release_effect:
  assumes "ledger_wf d" "lines_ok (booking_lines d)" "active_at (bookings d) t b"
    and "release_booking_inventory d t (filter (of_booking t b) (booking_lines d)) = Inr d'"
  shows "\<exists>K n. d' = bump_booked K n d" "ledger_wf d'"
    "booked d' k = booked d k - own (bookings d) (booking_lines d) t b k"
proof -
  let ?ms = "filter (of_booking t b) (booking_lines d)"
  have "(\<exists>K n. d' = bump_booked K n d) \<and> booked d' k = booked d k - own (bookings d) (booking_lines d) t b k"
  proof (cases "?ms = []")
    case True
    then have "own (bookings d) (booking_lines d) t b k = 0" by (simp add: own_def night_count.measure_Nil)
    moreover have "d' = d" using assms(4) True by (simp add: release_booking_inventory_def)
    moreover have "d = bump_booked {} 0 d" by simp
    ultimately show ?thesis by (metis diff_zero)
  next
    case False
    then obtain rt where rt: "the_room_type ?ms = Some rt" using lines_ok_room_type [OF assms(2)] by blast
    with False assms(4) have dec: "lock_and_decrement d t rt (map bl_date ?ms) = Inr d'"
      by (simp add: release_booking_inventory_def)
    show ?thesis
      using decrement_effect [OF assms(1) dec, of k] own_stay [OF assms(2,3) rt, of k] by auto
  qed
  then show "\<exists>K n. d' = bump_booked K n d" "booked d' k = booked d k - own (bookings d) (booking_lines d) t b k"
    by auto
  then show "ledger_wf d'" using assms(1) by auto
qed

subsection \<open>Changing the status of a booking\<close>

lemma active_at_set:
  assumes "\<And>x. bk_id (f x) = bk_id x \<and> bk_tenant_id (f x) = bk_tenant_id x"
  shows "active_at (update_rows (\<lambda>x. bk_id x = i) f bs) t b \<longleftrightarrow>
    (if b = i then list_ex (\<lambda>x. bk_tenant_id x = t \<and> bk_id x = b \<and> active_booking (f x)) bs else active_at bs t b)"
  unfolding active_at_def update_rows_def using assms by (induction bs) auto

lemma rooms_ok_mono:
  "rooms_ok bs ls \<Longrightarrow> (\<And>l. l \<in> set ls \<Longrightarrow> line_active bs' l \<Longrightarrow> line_active bs l) \<Longrightarrow> rooms_ok bs' ls"
  unfolding rooms_ok_def list_all_iff by blast

lemma bookings_ok_set:
  assumes "bookings_ok d" "\<And>x. bk_id (f x) = bk_id x"
    "\<And>x. x \<in> set (bookings d) \<Longrightarrow> bk_status (f x) \<in> set KNOWN_STATUSES"
  shows "bookings_ok (set_booking bk f d)"
proof -
  have "map bk_id (update_rows (\<lambda>x. bk_id x = bk_id bk) f (bookings d)) = map bk_id (bookings d)"
    using assms(2) by (simp add: map_update_rows_inv)
  then show ?thesis
    using assms by (auto simp: bookings_ok_def set_booking_def list_all_iff set_update_rows)
qed

lemma set_booking_simps [simp]:
  "ledger (set_booking bk f d) = ledger d" "booking_lines (set_booking bk f d) = booking_lines d"
  "next_uuid (set_booking bk f d) = next_uuid d" "rooms (set_booking bk f d) = rooms d"
  "room_types (set_booking bk f d) = room_types d" "guests (set_booking bk f d) = guests d"
  "folio_transactions (set_booking bk f d) = folio_transactions d"
  by (simp_all add: set_booking_def)

lemma booked_ledger: "ledger d = ledger d' \<Longrightarrow> booked d k = booked d' k"
  by (simp add: booked_def booked_at_def bucket_row_def)

lemma ledger_wf_ledger: "ledger d = ledger d' \<Longrightarrow> ledger_wf d = ledger_wf d'"
  by (simp add: ledger_wf_def)

lemma bookings_at_id:
  assumes "bookings_ok d" "x \<in> set (bookings d)" "y \<in> set (bookings d)" "bk_id x = bk_id y"
  shows "x = y"
  using assms by (auto simp: bookings_ok_def distinct_map inj_on_def)

text \<open>A change of a booking that keeps its activity, for instance its notes.\<close>

lemma inv_set_same:
  assumes "inventory_inv d" "\<And>x. bk_id (f x) = bk_id x \<and> bk_tenant_id (f x) = bk_tenant_id x"
    and "\<And>x. x \<in> set (bookings d) \<Longrightarrow> bk_id x = bk_id bk \<Longrightarrow>
      bk_status (f x) \<in> set KNOWN_STATUSES \<and> active_booking (f x) = active_booking x"
  shows "inventory_inv (set_booking bk f d)"
proof -
  let ?bs = "update_rows (\<lambda>x. bk_id x = bk_id bk) f (bookings d)"
  have bs: "bookings (set_booking bk f d) = ?bs" by (simp add: set_booking_def)
  have act: "active_at ?bs t b = active_at (bookings d) t b" for t b
    unfolding active_at_set [OF assms(2)] using assms(3) by (auto simp: active_at_def list_ex_iff)
  have ids: "map bk_id ?bs = map bk_id (bookings d)" using assms(2) by (simp add: map_update_rows_inv)
  have "bookings_ok (set_booking bk f d)"
    using inventory_invD(2) [OF assms(1)] assms(2,3) ids
    by (auto simp: bookings_ok_def bs list_all_iff set_update_rows)
  moreover have "rooms_ok ?bs (booking_lines d)"
    using inventory_invD(4) [OF assms(1)] by (rule rooms_ok_mono) (simp add: line_active_def act)
  moreover have "occupied (set_booking bk f d) k = occupied d k" for k
    by (simp add: occupied_def bs measure_of_def line_weight_def line_active_def act cong: map_cong)
  ultimately show ?thesis
    using inventory_invD [OF assms(1)]
    by (intro inventory_invI)
      (simp_all add: bs booked_ledger [of "set_booking bk f d" d] ledger_wf_ledger [of "set_booking bk f d" d])
qed

text \<open>Leaving the active statuses after a release: cancellation and no-show.\<close>

lemma active_at_other_tenant:
  assumes "bookings_ok d" "x \<in> set (bookings d)" "active_at (bookings d) t (bk_id x)"
  shows "t = bk_tenant_id x \<and> active_booking x"
proof -
  from assms(3) obtain y where y: "y \<in> set (bookings d)" "bk_tenant_id y = t" "bk_id x = bk_id y" "active_booking y"
    by (auto simp: active_at_def list_ex_iff)
  then have "x = y" using bookings_at_id [OF assms(1,2)] by blast
  with y show ?thesis by simp
qed

lemma inv_deactivate:
  assumes "inventory_inv d" "x \<in> set (bookings d)" "bk_id bk = bk_id x" "bk_tenant_id bk = bk_tenant_id x"
    and "active_booking x" "st \<in> set [''cancelled'', ''no_show'']"
    and "release_booking_inventory d (bk_tenant_id bk) (lines_of d bk) = Inr d1"
  shows "inventory_inv (set_booking bk (\<lambda>b. b\<lparr>bk_status := st\<rparr>) d1)"
proof -
  let ?t = "bk_tenant_id bk" and ?b = "bk_id bk" and ?f = "\<lambda>b. b\<lparr>bk_status := st\<rparr>"
  let ?d = "set_booking bk ?f d1"
  note inv = inventory_invD [OF assms(1)]
  have act: "active_at (bookings d) ?t ?b" using assms(2-5) by (auto simp: active_at_def list_ex_iff)
  note rel = release_effect [OF inv(1,3) act, of d1, folded lines_of_def, OF assms(7)]
  then have d1: "bookings d1 = bookings d" "booking_lines d1 = booking_lines d" "next_uuid d1 = next_uuid d" by auto
  have bs: "bookings ?d = update_rows (\<lambda>x. bk_id x = ?b) ?f (bookings d)" by (simp add: set_booking_def d1)
  have act': "active_at (bookings ?d) t b \<longleftrightarrow> b \<noteq> ?b \<and> active_at (bookings d) t b" for t b
    unfolding bs by (subst active_at_set) (use assms(6) in \<open>auto simp: active_booking_def list_ex_iff\<close>)
  have occ: "occupied ?d k = occupied d k - own (bookings d) (booking_lines d) ?t ?b k" for k
    using occupied_change [of ?t ?b ?d d k] act' active_at_other_tenant [OF inv(2) assms(2)] assms(3,4)
    by (auto simp: d1 own_inactive)
  have "bookings_ok ?d"
    using inv(2) assms(6) by (intro bookings_ok_set) (auto simp: bookings_ok_def d1 KNOWN_STATUSES_def)
  moreover have "rooms_ok (bookings ?d) (booking_lines d)"
    using inv(4) by (rule rooms_ok_mono) (simp add: line_active_def act')
  ultimately show ?thesis
    using inv rel by (intro inventory_invI) (auto simp: d1 occ booked_ledger [of ?d d1] ledger_wf_ledger [of ?d d1])
qed

subsection \<open>Replacing the lines of a booking\<close>

lemma line_rows_facts:
  "map bl_date (line_rows i t b rt ns) = map fst ns"
  "l \<in> set (line_rows i t b rt ns) \<Longrightarrow> of_booking t b l \<and> bl_room_type_id l = rt \<and> bl_room_id l = None"
  by (induction i t b rt ns rule: line_rows.induct) (auto simp: of_booking_def)

lemma lines_ok_subset:
  assumes "lines_ok ls" shows "lines_ok (delete_rows P ls)"
  using assms by (auto simp: lines_ok_def list_all_iff delete_rows_def distinct_map_filter)

lemma rooms_ok_subset:
  "rooms_ok bs ls \<Longrightarrow> set ls' \<subseteq> set ls \<Longrightarrow> rooms_ok bs ls'"
  unfolding rooms_ok_def list_all_iff by blast

lemma lines_ok_replace:
  assumes "lines_ok ls" "distinct (map fst ns)"
  shows "lines_ok (delete_rows (of_booking t b) ls @ line_rows i t b rt ns)"
proof -
  have "distinct (map night_of (line_rows i t b rt ns))"
  proof -
    have "map bl_date (line_rows i t b rt ns) = map (snd \<circ> snd) (map night_of (line_rows i t b rt ns))"
      by (simp add: night_of_def)
    then show ?thesis
      using assms(2) by (metis line_rows_facts(1) distinct_map)
  qed
  moreover have "night_of ` set (delete_rows (of_booking t b) ls) \<inter> night_of ` set (line_rows i t b rt ns) = {}"
    using line_rows_facts(2) [of _ i t b rt ns] by (auto simp: night_of_def of_booking_def)
  ultimately show ?thesis
    using lines_ok_subset [OF assms(1), of "of_booking t b"] line_rows_facts(2) [of _ i t b rt ns]
    by (auto simp: lines_ok_def list_all_iff of_booking_def)
qed

lemma rooms_ok_append_none:
  assumes "rooms_ok bs xs" "\<And>l. l \<in> set ys \<Longrightarrow> bl_room_id l = None"
  shows "rooms_ok bs (xs @ ys)"
proof -
  have "bl_booking_id l = bl_booking_id m"
    if lm: "l \<in> set (xs @ ys)" "m \<in> set (xs @ ys)" "same_room_night l m" "line_active bs l" "line_active bs m" for l m
  proof -
    have "bl_room_id l \<noteq> None" "bl_room_id m \<noteq> None" using lm(3) unfolding same_room_night_def by metis+
    then have "l \<in> set xs" "m \<in> set xs" using lm(1,2) assms(2) by auto
    with lm assms(1) show ?thesis by (auto simp: rooms_ok_def list_all_iff)
  qed
  then show ?thesis unfolding rooms_ok_def list_all_iff by blast
qed

lemma rooms_ok_replace:
  assumes "rooms_ok bs ls" "\<And>l. l \<in> set ls \<Longrightarrow> \<not> of_booking t b l \<Longrightarrow> line_active bs' l \<Longrightarrow> line_active bs l"
  shows "rooms_ok bs' (delete_rows (of_booking t b) ls @ line_rows i t b rt ns)"
proof (rule rooms_ok_append_none)
  have "rooms_ok bs (delete_rows (of_booking t b) ls)"
    using assms(1) by (rule rooms_ok_subset) auto
  then show "rooms_ok bs' (delete_rows (of_booking t b) ls)"
    by (rule rooms_ok_mono) (simp add: assms(2))
qed (simp add: line_rows_facts(2))

lemma own_replace:
  assumes "active_at bs t b" "distinct (map fst ns)"
  shows "own bs (delete_rows (of_booking t b) ls @ line_rows i t b rt ns) t b k =
    (if k \<in> stay_buckets t rt (map fst ns) then 1 else 0)"
proof -
  have "own bs (delete_rows (of_booking t b) ls) t b k = 0" by (rule own_none) simp
  moreover have "own bs (line_rows i t b rt ns) t b k = (if k \<in> stay_buckets t rt (map fst ns) then 1 else 0)"
    using own_eq [OF assms(1), of "line_rows i t b rt ns" rt k] line_rows_facts assms(2) by simp
  ultimately show ?thesis by (simp add: own_append)
qed

lemma delete_replace:
  "delete_rows (of_booking t b) (delete_rows (of_booking t b) ls @ line_rows i t b rt ns) =
   delete_rows (of_booking t b) ls"
  using line_rows_facts(2) [of _ i t b rt ns] by (auto simp: delete_rows_def filter_empty_conv)

subsection \<open>Assigning a room\<close>

definition room_free :: "db \<Rightarrow> uuid \<Rightarrow> uuid \<Rightarrow> uuid option \<Rightarrow> bool" where
  "room_free d t b room = (case room of None \<Rightarrow> True
     | Some r \<Rightarrow> \<not> room_conflict d t r (map bl_date (filter (of_booking t b) (booking_lines d))) b)"

lemma room_conflict_set:
  "set ns = set ns' \<Longrightarrow> room_conflict d t r ns b = room_conflict d t r ns' b"
  by (simp add: room_conflict_def)

lemma booking_atD:
  "booking_at d t b = Some x \<Longrightarrow> x \<in> set (bookings d) \<and> bk_tenant_id x = t \<and> bk_id x = b"
  unfolding booking_at_def using find_Some_mem by fastforce

lemma assign_Inr:
  assumes "assign_booking_room d t b room = Inr d'"
  shows "d' = set_line_rooms t b room d" "room_free d t b room"
    "\<exists>x. booking_at d t b = Some x \<and> normalize_booking_status (bk_status x) \<notin> set [''cancelled'', ''no_show'']"
proof -
  from assms obtain x where x: "booking_at d t b = Some x"
      "normalize_booking_status (bk_status x) \<notin> set [''cancelled'', ''no_show'']"
      "lines_of d x \<noteq> []" "d' = set_line_rooms t b room d"
    and free: "\<And>r. room = Some r \<Longrightarrow>
      assert_no_room_conflict d t r (sort (remdups (map bl_date (lines_of d x)))) (bk_id x) = Inr ()"
    by (cases room) (auto simp: assign_booking_room_def Let_def split: if_splits)
  then show "d' = set_line_rooms t b room d"
    "\<exists>x. booking_at d t b = Some x \<and> normalize_booking_status (bk_status x) \<notin> set [''cancelled'', ''no_show'']" by auto
  have ids: "bk_tenant_id x = t" "bk_id x = b" using booking_atD [OF x(1)] by auto
  have "\<not> room_conflict d t r (map bl_date (lines_of d x)) b" if "room = Some r" for r
  proof -
    have "sort (remdups (map bl_date (lines_of d x))) \<noteq> []" using x(3) by (metis list.map_disc_iff remdups_eq_nil_iff sort_key_simps(1) set_empty set_sort)
    with free [OF that] have "\<not> room_conflict d t r (sort (remdups (map bl_date (lines_of d x)))) b"
      by (simp add: assert_no_room_conflict_def ids)
    then show ?thesis by (subst room_conflict_set [of _ "sort (remdups (map bl_date (lines_of d x)))"]) simp_all
  qed
  then show "room_free d t b room"
    by (auto simp: room_free_def lines_of_def ids split: option.splits)
qed

lemma set_line_rooms_simps [simp]:
  "ledger (set_line_rooms t b room d) = ledger d" "bookings (set_line_rooms t b room d) = bookings d"
  "next_uuid (set_line_rooms t b room d) = next_uuid d"
  "folio_transactions (set_line_rooms t b room d) = folio_transactions d"
  by (simp_all add: set_line_rooms_def)

lemma room_conflictI:
  assumes "m \<in> set (booking_lines d)" "line_active (bookings d) m" "bl_tenant_id m = t" "bl_room_id m = Some r"
    "bl_date m \<in> set ns" "bl_booking_id m \<noteq> b"
  shows "room_conflict d t r ns b"
  using assms unfolding room_conflict_def line_active_def active_at_def list_ex_iff by blast

lemma same_room_night_sym: "same_room_night l m \<Longrightarrow> same_room_night m l"
  unfolding same_room_night_def by (elim conjE) simp

lemma rooms_ok_map:
  assumes "\<And>l m. l \<in> set ls \<Longrightarrow> m \<in> set ls \<Longrightarrow> same_room_night (g l) (g m) \<Longrightarrow> line_active bs (g l) \<Longrightarrow>
      line_active bs (g m) \<Longrightarrow> bl_booking_id (g l) = bl_booking_id (g m)"
  shows "rooms_ok bs (map g ls)"
  using assms by (simp add: rooms_ok_def list_all_iff)

lemma lines_ok_map:
  assumes "lines_ok ls" "\<And>l. night_of (g l) = night_of l \<and> bl_room_type_id (g l) = bl_room_type_id l"
  shows "lines_ok (map g ls)"
proof -
  have ids: "bl_tenant_id (g l) = bl_tenant_id l" "bl_booking_id (g l) = bl_booking_id l"
    "bl_room_type_id (g l) = bl_room_type_id l" for l
    using assms(2) [of l] by (simp_all add: night_of_def)
  have "map night_of (map g ls) = map night_of ls" using assms(2) by simp
  then show ?thesis
    using assms(1) unfolding lines_ok_def list.pred_map o_def ids by (simp only: simp_thms)
qed

lemma rooms_ok_assign:
  assumes "rooms_ok (bookings d) (booking_lines d)" "room_free d t b room"
  shows "rooms_ok (bookings d) (booking_lines (set_line_rooms t b room d))"
proof -
  define g where "g = (\<lambda>l. if of_booking t b l then l\<lparr>bl_room_id := room\<rparr> else l)"
  have keep: "line_active bs (g l) = line_active bs l" "bl_booking_id (g l) = bl_booking_id l"
    "bl_tenant_id (g l) = bl_tenant_id l" "bl_date (g l) = bl_date l" for l bs
    by (simp_all add: line_active_def g_def)
  have own: "of_booking t b l \<Longrightarrow> bl_room_id (g l) = room" and other: "\<not> of_booking t b l \<Longrightarrow> g l = l" for l
    by (simp_all add: g_def)
  have clash: False
    if lm: "l \<in> set (booking_lines d)" "m \<in> set (booking_lines d)" "of_booking t b l" "\<not> of_booking t b m"
      "same_room_night (g l) (g m)" "line_active (bookings d) m" for l m
  proof -
    have "bl_tenant_id l = t" using lm(3) by (simp add: of_booking_def)
    then have eq: "bl_room_id m = room" "bl_date m = bl_date l" "bl_tenant_id m = t" "room \<noteq> None"
      using lm(5) unfolding same_room_night_def other [OF lm(4)] own [OF lm(3)] keep by (simp_all, elim conjE, simp)
    then obtain r where r: "room = Some r" by blast
    have "bl_booking_id m \<noteq> b" using lm(4) eq(3) by (simp add: of_booking_def)
    moreover have "bl_date m \<in> set (map bl_date (filter (of_booking t b) (booking_lines d)))"
      using lm(1,3) eq(2) by simp
    ultimately have "room_conflict d t r (map bl_date (filter (of_booking t b) (booking_lines d))) b"
      using lm(2,6) eq r by (intro room_conflictI) simp_all
    with assms(2) r show False by (simp add: room_free_def)
  qed
  have "bl_booking_id l = bl_booking_id m"
    if lm: "l \<in> set (booking_lines d)" "m \<in> set (booking_lines d)" "same_room_night (g l) (g m)"
      "line_active (bookings d) l" "line_active (bookings d) m" for l m
  proof -
    have sym: "same_room_night (g m) (g l)" using lm(3) by (rule same_room_night_sym)
    consider "of_booking t b l" "of_booking t b m" | "\<not> of_booking t b l" "\<not> of_booking t b m"
      | "of_booking t b l" "\<not> of_booking t b m" | "\<not> of_booking t b l" "of_booking t b m" by blast
    then show ?thesis
    proof cases
      case 1
      then show ?thesis by (simp add: of_booking_def)
    next
      case 2
      then have "same_room_night l m" using lm(3) other by simp
      with lm assms(1) show ?thesis unfolding rooms_ok_def list_all_iff by blast
    next
      case 3
      with clash [OF lm(1,2)] lm show ?thesis by blast
    next
      case 4
      with clash [OF lm(2,1)] lm sym show ?thesis by blast
    qed
  qed
  then have "rooms_ok (bookings d) (map g (booking_lines d))"
    by (intro rooms_ok_map) (simp only: keep)
  then show ?thesis by (simp add: set_line_rooms_def update_rows_def g_def)
qed

lemma inv_assign:
  assumes "inventory_inv d" "room_free d t b room"
  shows "inventory_inv (set_line_rooms t b room d)"
proof -
  let ?d = "set_line_rooms t b room d"
  note inv = inventory_invD [OF assms(1)]
  have lines: "booking_lines ?d = update_rows (of_booking t b) (\<lambda>l. l\<lparr>bl_room_id := room\<rparr>) (booking_lines d)"
    by (simp add: set_line_rooms_def)
  have "lines_ok (booking_lines ?d)"
    unfolding lines update_rows_def using inv(3) by (rule lines_ok_map) (simp add: night_of_def)
  moreover have "bookings_ok ?d"
    using inv(2) by (simp add: bookings_ok_def lines update_rows_def list.pred_map o_def if_distrib)
  moreover have "occupied ?d k = occupied d k" for k
    unfolding occupied_def lines
    by (simp add: night_count.measure_update_cong line_weight_def line_active_def bl_bucket_def)
  ultimately show ?thesis
    using inv rooms_ok_assign [OF inv(4) assms(2)]
    by (intro inventory_invI) (simp_all add: booked_ledger [of ?d d] ledger_wf_ledger [of ?d d])
qed

lemma inv_assign_room:
  assumes "inventory_inv d" "assign_booking_room d t b room = Inr d'"
  shows "inventory_inv d'"
  using inv_assign [OF assms(1) assign_Inr(2) [OF assms(2)]] assign_Inr(1) [OF assms(2)] by simp

end
