(* ===== verification/Inventory_Steps.thy ===== *)
theory Inventory_Steps
  imports Inventory
begin

text \<open>
  The operations of the booking service preserve the inventory invariant: creation, room
  assignment, patching (notes, cancellation, dates, room, status) and deletion; and, as a
  consequence, every state reachable from a consistent one is consistent.
\<close>

subsection \<open>Operations outside the stock\<close>

lemma same_stock_replace:
  "replace_country_pack_tax_charges d t b p base = Inr (room, d') \<Longrightarrow> same_stock d d'"
  by (erule replace_Inr) (simp add: same_stock_def with_tax_rows_def fleet_def)

lemma same_stock_update_folio [simp]: "same_stock d (update_folio_charge_amount t b a d)"
  by (simp add: same_stock_def update_folio_charge_amount_def fleet_def split: list.splits)

lemma same_stock_insert_folio [simp]: "same_stock d (snd (insert_folio t b k a pm ds cb c d))"
  by (simp add: same_stock_def fleet_def insert_folio_def Let_def)

lemma same_stock_guest:
  "get_or_create_guest_for_booking d t g f = Inr (x, m, d') \<Longrightarrow> same_stock d d'"
  by (auto simp: get_or_create_guest_for_booking_def insert_guest_def Let_def same_stock_def fleet_def split: option.splits if_splits)

lemma sum_rates_nights:
  "sum_rates_for_stay d t rt rp ci co = Inr (tot, pn) \<Longrightarrow>
   iter_stay_nights ci co = Inr (map fst pn) \<and> tot = sum_list (map snd pn)"
  by (auto simp: sum_rates_for_stay_def Let_def comp_def split: if_splits)

subsection \<open>Creation\<close>

lemma inv_new_booking:
  assumes inv: "inventory_inv d" and nights: "distinct (map fst pn)" "seeded d t rt (map fst pn)"
    and d2: "same_stock (bump_booked (stay_buckets t rt (map fst pn)) 1 d) d2"
    and b: "bk_id b = next_uuid d2" "bk_tenant_id b = t" "bk_status b \<in> set KNOWN_STATUSES" "active_booking b"
    and d3: "ledger d3 = ledger d2" "bookings d3 = bookings d2 @ [b]" "next_uuid d2 < next_uuid d3"
      "booking_lines d3 = booking_lines d2 @ line_rows i t (bk_id b) rt pn"
  shows "inventory_inv d3"
proof -
  note inv = inventory_invD [OF inv]
  have d2': "ledger d2 = ledger (bump_booked (stay_buckets t rt (map fst pn)) 1 d)" "bookings d2 = bookings d"
      "booking_lines d2 = booking_lines d" "next_uuid d \<le> next_uuid d2"
    using d2 by (simp_all add: same_stock_def)
  have fresh: "\<not> of_booking t (bk_id b) l" if "l \<in> set (booking_lines d)" for l
    using inv(2) that b(1) d2'(4) by (auto simp: bookings_ok_def list_all_iff of_booking_def)
  then have del: "delete_rows (of_booking t (bk_id b)) (booking_lines d) = booking_lines d"
    by (simp add: delete_rows_def)
  have lines: "booking_lines d3 = delete_rows (of_booking t (bk_id b)) (booking_lines d) @ line_rows i t (bk_id b) rt pn"
    by (simp add: d3(4) d2'(3) del)
  have newid: "bk_id x \<noteq> bk_id b" if "x \<in> set (bookings d)" for x
    using inv(2) that b(1) d2'(4) by (force simp: bookings_ok_def list_all_iff)
  have act: "active_at (bookings d3) t' b' \<longleftrightarrow> active_at (bookings d) t' b' \<or> (t', b') = (t, bk_id b)" for t' b'
    using b by (auto simp: d3(2) d2'(2) active_at_def)
  have occ: "occupied d3 k = occupied d k + (if k \<in> stay_buckets t rt (map fst pn) then 1 else 0)" for k
  proof -
    have "occupied d3 k = occupied d k - own (bookings d) (booking_lines d) t (bk_id b) k
        + own (bookings d3) (booking_lines d3) t (bk_id b) k"
      by (rule occupied_change) (auto simp: act lines delete_replace)
    then show ?thesis using own_replace [OF _ nights(1)] act fresh by (simp add: lines own_none)
  qed
  have bkd: "booked d3 k = booked d k + (if k \<in> stay_buckets t rt (map fst pn) then 1 else 0)" for k
    using booked_ledger [of d3 "bump_booked (stay_buckets t rt (map fst pn)) 1 d" k] booked_bump_stay [OF nights(2), of 1 k]
    by (simp add: d3(1) d2'(1))
  have "bl_booking_id l < next_uuid d3" if "l \<in> set (booking_lines d3)" for l
  proof (cases "l \<in> set (booking_lines d)")
    case True
    with inv(2) have "bl_booking_id l < next_uuid d" by (simp add: bookings_ok_def list_all_iff)
    with d2'(4) d3(3) show ?thesis by linarith
  next
    case False
    with that have "of_booking t (bk_id b) l" by (auto simp: d3(4) d2'(3) dest: line_rows_facts(2))
    then show ?thesis using b(1) d3(3) by (simp add: of_booking_def)
  qed
  moreover have "bk_id x < next_uuid d3 \<and> bk_status x \<in> set KNOWN_STATUSES" if "x \<in> set (bookings d3)" for x
    using that inv(2) b(1,3) d2'(4) d3(3) by (auto simp: d3(2) d2'(2) bookings_ok_def list_all_iff)
  moreover have "distinct (map bk_id (bookings d3))"
  proof -
    have "bk_id b \<notin> bk_id ` set (bookings d)" using newid by (metis imageE)
    then show ?thesis using inv(2) by (simp add: d3(2) d2'(2) bookings_ok_def)
  qed
  ultimately have "bookings_ok d3" by (simp add: bookings_ok_def list_all_iff)
  moreover have "lines_ok (booking_lines d3)"
    unfolding lines using inv(3) nights(1) by (rule lines_ok_replace)
  moreover have "rooms_ok (bookings d3) (booking_lines d3)"
    unfolding lines using inv(4) by (rule rooms_ok_replace) (auto simp: line_active_def act of_booking_def)
  moreover have "ledger_wf d3"
    using inv(1) ledger_wf_ledger [of d3 "bump_booked (stay_buckets t rt (map fst pn)) 1 d"] by (simp add: d3(1) d2'(1))
  ultimately show ?thesis
    by (intro inventory_invI) (simp_all add: bkd occ inv(5))
qed

lemma record_booking_Inr:
  assumes "record_booking d1 t body ext tot pn = Inr (res, d')"
  obtains guest merged d2 b d3 room d5 where
    "get_or_create_guest_for_booking d1 t (cb_guest body) (cb_force_new_guest body) = Inr (guest, merged, d2)"
    "insert_booking t body (gu_id guest) ext tot d2 = (b, d3)"
    "replace_country_pack_tax_charges (snd (insert_folio t (bk_id b) ''Charge'' tot None (Some ''Room charge (stay)'')
       None ''room_charge'' (insert_lines t (bk_id b) (cb_room_type_id body) pn d3))) t (bk_id b) (cb_property_id body) tot
     = Inr (room, d5)"
    "d' = update_folio_charge_amount t (bk_id b) room d5 \<or>
     (\<exists>r. assign_booking_room (update_folio_charge_amount t (bk_id b) room d5) t (bk_id b) (Some r) = Inr d')"
    "bc_booking_id res = bk_id b" "bc_total_amount res = tot" "bc_nights res = pn"
proof -
  from assms obtain guest merged d2 where
    g: "get_or_create_guest_for_booking d1 t (cb_guest body) (cb_force_new_guest body) = Inr (guest, merged, d2)"
    by (auto simp: record_booking_def)
  obtain b d3 where b: "insert_booking t body (gu_id guest) ext tot d2 = (b, d3)" by fastforce
  from assms obtain room d5 where
    r: "replace_country_pack_tax_charges (snd (insert_folio t (bk_id b) ''Charge'' tot None (Some ''Room charge (stay)'')
       None ''room_charge'' (insert_lines t (bk_id b) (cb_room_type_id body) pn d3))) t (bk_id b) (cb_property_id body) tot
     = Inr (room, d5)"
    by (auto simp: record_booking_def Let_def g b)
  from assms have fin: "d' = update_folio_charge_amount t (bk_id b) room d5 \<or>
     (\<exists>r. assign_booking_room (update_folio_charge_amount t (bk_id b) room d5) t (bk_id b) (Some r) = Inr d')"
    by (auto simp: record_booking_def Let_def g b r split: option.splits)
  from assms have "bc_booking_id res = bk_id b" "bc_total_amount res = tot" "bc_nights res = pn"
    by (auto simp: record_booking_def Let_def g b r)
  with g b r fin that show ?thesis by blast
qed

lemma create_booking_Inr:
  assumes "create_booking d t body = Inr (res, d')" "ledger_wf d"
  obtains tot pn where
    "iter_stay_nights (cb_check_in body) (cb_check_out body) = Inr (map fst pn)"
    "sum_rates_for_stay d t (cb_room_type_id body) (cb_rate_plan_id body) (cb_check_in body) (cb_check_out body) = Inr (tot, pn)"
    "seeded d t (cb_room_type_id body) (map fst pn)" "has_room d t (cb_room_type_id body) (map fst pn) 1"
    "record_booking (bump_booked (stay_buckets t (cb_room_type_id body) (map fst pn)) 1 d) t body
       (external_ref (cb_external_booking_id body)) tot pn = Inr (res, d')"
proof -
  from assms(1) obtain tot pn d1 ns where
    ns: "iter_stay_nights (cb_check_in body) (cb_check_out body) = Inr ns"
    and rates: "sum_rates_for_stay d t (cb_room_type_id body) (cb_rate_plan_id body) (cb_check_in body) (cb_check_out body) = Inr (tot, pn)"
    and cl: "claim_availability_for_new_booking d t (cb_room_type_id body) ns 1 = Inr d1"
    and rec: "record_booking d1 t body (external_ref (cb_external_booking_id body)) tot pn = Inr (res, d')"
    by (auto simp: create_booking_def Let_def)
  have nights: "iter_stay_nights (cb_check_in body) (cb_check_out body) = Inr (map fst pn)"
    using sum_rates_nights [OF rates] by simp
  with ns cl have claim: "claim_availability_for_new_booking d t (cb_room_type_id body) (map fst pn) 1 = Inr d1" by simp
  note ne = stay_nights_facts(1,2) [OF nights]
  have "d1 = bump_booked (stay_buckets t (cb_room_type_id body) (map fst pn)) 1 d"
      "seeded d t (cb_room_type_id body) (map fst pn)" "has_room d t (cb_room_type_id body) (map fst pn) 1"
    using claim ne by (simp_all add: claim_bump [OF assms(2)] split: if_splits)
  with that nights rates rec show ?thesis by blast
qed

lemma inv_create:
  assumes inv: "inventory_inv d" and valid: "booking_create_valid body"
    and run: "create_booking d t body = Inr (res, d')"
  shows "inventory_inv d'"
proof -
  let ?rt = "cb_room_type_id body"
  from create_booking_Inr [OF run inventory_invD(1) [OF inv]] obtain tot pn where
    nights: "iter_stay_nights (cb_check_in body) (cb_check_out body) = Inr (map fst pn)"
    and seeded: "seeded d t ?rt (map fst pn)"
    and rec: "record_booking (bump_booked (stay_buckets t ?rt (map fst pn)) 1 d) t body
       (external_ref (cb_external_booking_id body)) tot pn = Inr (res, d')" .
  from record_booking_Inr [OF rec] obtain guest merged d2 b d3 room d5 where
    g: "get_or_create_guest_for_booking (bump_booked (stay_buckets t ?rt (map fst pn)) 1 d) t (cb_guest body)
       (cb_force_new_guest body) = Inr (guest, merged, d2)"
    and b: "insert_booking t body (gu_id guest) (external_ref (cb_external_booking_id body)) tot d2 = (b, d3)"
    and d5: "replace_country_pack_tax_charges (snd (insert_folio t (bk_id b) ''Charge'' tot None (Some ''Room charge (stay)'')
       None ''room_charge'' (insert_lines t (bk_id b) ?rt pn d3))) t (bk_id b) (cb_property_id body) tot = Inr (room, d5)"
    and fin: "d' = update_folio_charge_amount t (bk_id b) room d5 \<or>
     (\<exists>r. assign_booking_room (update_folio_charge_amount t (bk_id b) room d5) t (bk_id b) (Some r) = Inr d')" .
  have row: "bk_id b = next_uuid d2" "bk_tenant_id b = t" "bk_status b = cb_status body"
      "ledger d3 = ledger d2" "bookings d3 = bookings d2 @ [b]" "booking_lines d3 = booking_lines d2" "next_uuid d3 = next_uuid d2 + 1"
    using b by (auto simp: insert_booking_def Let_def)
  have "inventory_inv (insert_lines t (bk_id b) ?rt pn d3)"
    by (rule inv_new_booking [OF inv _ seeded same_stock_guest [OF g], of b _ "next_uuid d3"])
      (use row valid stay_nights_facts(2) [OF nights] in \<open>auto simp: insert_lines_def booking_create_valid_def
        KNOWN_STATUSES_def active_booking_def\<close>)
  then have "inventory_inv (update_folio_charge_amount t (bk_id b) room d5)"
    using same_stock_replace [OF d5] by (meson inventory_inv_frame same_stock_insert_folio same_stock_update_folio)
  with fin show ?thesis using inv_assign_room by blast
qed

subsection \<open>Deletion\<close>

lemma inv_remove:
  assumes inv: "inventory_inv d" and x: "x \<in> set (bookings d)" "bk_tenant_id x = t" "bk_id x = b"
    and d1: "bookings d1 = bookings d" "booking_lines d1 = booking_lines d" "next_uuid d1 = next_uuid d" "ledger_wf d1"
    and bkd: "\<And>k. booked d1 k = booked d k - own (bookings d) (booking_lines d) t b k"
  shows "inventory_inv (remove_booking_rows t b d1)"
proof -
  let ?d = "remove_booking_rows t b d1"
  note inv = inventory_invD [OF inv]
  have rows: "bookings ?d = delete_rows (\<lambda>x. bk_id x = b) (bookings d)" "ledger ?d = ledger d1"
      "booking_lines ?d = delete_rows (of_booking t b) (booking_lines d)" "next_uuid ?d = next_uuid d"
    by (simp_all add: remove_booking_rows_def d1)
  have act: "active_at (bookings ?d) t' b' \<longleftrightarrow> b' \<noteq> b \<and> active_at (bookings d) t' b'" for t' b'
    by (auto simp: rows active_at_def list_ex_iff)
  have "occupied ?d k = occupied d k - own (bookings d) (booking_lines d) t b k + own (bookings ?d) (booking_lines ?d) t b k" for k
    by (rule occupied_change)
      (use act active_at_other_tenant [OF inv(2) x(1)] x in \<open>auto simp: rows delete_rows_def\<close>)
  moreover have "own (bookings ?d) (booking_lines ?d) t b k = 0" for k by (rule own_inactive) (simp add: act)
  moreover have "bookings_ok ?d"
    using inv(2) by (auto simp: bookings_ok_def rows list_all_iff delete_rows_def distinct_map_filter)
  moreover have "rooms_ok (bookings ?d) (booking_lines ?d)"
  proof (rule rooms_ok_mono)
    show "rooms_ok (bookings d) (booking_lines ?d)" by (rule rooms_ok_subset [OF inv(4)]) (auto simp: rows)
  qed (simp add: line_active_def act)
  ultimately show ?thesis
    using inv d1(4) bkd lines_ok_subset [OF inv(3)]
    by (intro inventory_invI) (simp_all add: rows booked_ledger [of ?d d1] ledger_wf_ledger [of ?d d1])
qed

lemma normalize_stored:
  "inventory_inv d \<Longrightarrow> x \<in> set (bookings d) \<Longrightarrow> bk_status x \<in> set KNOWN_STATUSES \<and> normalize_booking_status (bk_status x) = bk_status x"
  using inventory_invD(2) by (auto simp: bookings_ok_def list_all_iff)

lemma delete_booking_Inr:
  assumes "delete_booking d t b = Inr (snap, d')"
  obtains x d1 where "booking_at d t b = Some x"
    "normalize_booking_status (bk_status x) \<notin> set [''checked_in'', ''checked_out'']"
    "(if normalize_booking_status (bk_status x) \<notin> set [''cancelled'', ''no_show'']
      then release_booking_inventory d t (lines_of d x) else Inr d) = Inr d1"
    "d' = remove_booking_rows t b d1" "snap = booking_quick_snapshot d x"
  using assms by (auto simp: delete_booking_def Let_def split: if_splits)

lemma inv_delete:
  assumes inv: "inventory_inv d" and run: "delete_booking d t b = Inr (snap, d')"
  shows "inventory_inv d'"
proof -
  from delete_booking_Inr [OF run] obtain x d1 where at: "booking_at d t b = Some x"
    and rel: "(if normalize_booking_status (bk_status x) \<notin> set [''cancelled'', ''no_show'']
       then release_booking_inventory d t (lines_of d x) else Inr d) = Inr d1"
    and d': "d' = remove_booking_rows t b d1" .
  have x: "x \<in> set (bookings d)" "bk_tenant_id x = t" "bk_id x = b" using booking_atD [OF at] by auto
  note nx = normalize_stored [OF inv x(1)]
  show ?thesis
  proof (cases "active_booking x")
    case True
    then have r: "release_booking_inventory d t (filter (of_booking t b) (booking_lines d)) = Inr d1"
      using rel nx by (simp add: active_booking_def lines_of_def x)
    have act: "active_at (bookings d) t b" using True x by (auto simp: active_at_def list_ex_iff)
    note eff = release_effect [OF inventory_invD(1,3) [OF inv] act r]
    from eff(1) have "bookings d1 = bookings d" "booking_lines d1 = booking_lines d" "next_uuid d1 = next_uuid d" by auto
    then show ?thesis unfolding d' using inv x eff by (intro inv_remove) auto
  next
    case False
    then have "d1 = d" using rel nx by (auto simp: active_booking_def)
    moreover have "\<not> active_at (bookings d) t b"
      using False active_at_other_tenant [OF inventory_invD(2) [OF inv] x(1)] x(3) by auto
    ultimately show ?thesis
      unfolding d' using inv x inventory_invD(1) [OF inv] by (intro inv_remove) (auto simp: own_inactive)
  qed
qed

subsection \<open>Patching\<close>

text \<open>The booking row a patch works on is the one it loaded, up to notes and total.\<close>

definition tracks :: "db \<Rightarrow> booking_row \<Rightarrow> bool" where
  "tracks d bk \<longleftrightarrow> (\<exists>x\<in>set (bookings d). bk_id x = bk_id bk \<and> bk_tenant_id x = bk_tenant_id bk \<and> bk_status x = bk_status bk)"

lemma tracks_frame: "same_stock d d' \<Longrightarrow> tracks d bk \<Longrightarrow> tracks d' bk"
  by (simp add: same_stock_def tracks_def)

lemma tracks_set_booking:
  assumes "tracks d bk" "\<And>x. bk_id (f x) = bk_id x \<and> bk_tenant_id (f x) = bk_tenant_id x \<and> bk_status (f x) = bk_status x"
  shows "tracks (set_booking bk' f d) bk"
proof -
  from assms(1) obtain x where x: "x \<in> set (bookings d)" "bk_id x = bk_id bk" "bk_tenant_id x = bk_tenant_id bk" "bk_status x = bk_status bk"
    by (auto simp: tracks_def)
  let ?y = "if bk_id x = bk_id bk' then f x else x"
  have "?y \<in> set (bookings (set_booking bk' f d))"
    using x(1) by (simp add: set_booking_def set_update_rows)
  moreover have "bk_id ?y = bk_id bk" "bk_tenant_id ?y = bk_tenant_id bk" "bk_status ?y = bk_status bk"
    using x assms(2) by auto
  ultimately show ?thesis unfolding tracks_def by blast
qed

lemma tracks_active:
  "tracks d bk \<Longrightarrow> active_booking bk \<Longrightarrow> active_at (bookings d) (bk_tenant_id bk) (bk_id bk)"
  by (auto simp: tracks_def active_at_def list_ex_iff active_booking_def)

lemma tracks_known:
  "inventory_inv d \<Longrightarrow> tracks d bk \<Longrightarrow> bk_status bk \<in> set KNOWN_STATUSES \<and> normalize_booking_status (bk_status bk) = bk_status bk"
  using normalize_stored by (metis tracks_def)

lemma inv_set_field:
  assumes "inventory_inv d"
    "\<And>x. bk_id (f x) = bk_id x \<and> bk_tenant_id (f x) = bk_tenant_id x \<and> bk_status (f x) = bk_status x"
  shows "inventory_inv (set_booking bk f d)"
  using assms normalize_stored [OF assms(1)] by (intro inv_set_same) (auto simp: active_booking_def)

lemma inv_new_lines:
  assumes inv: "inventory_inv d" and act: "active_at (bookings d) t b"
    and d2: "bookings d2 = bookings d" "booking_lines d2 = booking_lines d" "next_uuid d2 = next_uuid d" "ledger_wf d2"
    and bkd: "\<And>k. booked d2 k = booked d k - own (bookings d) (booking_lines d) t b k
       + (if k \<in> stay_buckets t rt (map fst pn) then 1 else 0)"
    and pn: "distinct (map fst pn)"
  shows "inventory_inv (insert_lines t b rt pn (d2\<lparr>booking_lines := delete_rows (of_booking t b) (booking_lines d2)\<rparr>))"
proof -
  let ?d = "insert_lines t b rt pn (d2\<lparr>booking_lines := delete_rows (of_booking t b) (booking_lines d2)\<rparr>)"
  note inv = inventory_invD [OF inv]
  have rows: "bookings ?d = bookings d" "ledger ?d = ledger d2" "next_uuid ?d = next_uuid d + int (length pn)"
      "booking_lines ?d = delete_rows (of_booking t b) (booking_lines d) @ line_rows (next_uuid d) t b rt pn"
    by (simp_all add: insert_lines_def d2)
  have "occupied ?d k = occupied d k - own (bookings d) (booking_lines d) t b k + own (bookings ?d) (booking_lines ?d) t b k" for k
    by (rule occupied_change) (simp_all add: rows delete_replace)
  then have occ: "occupied ?d k = booked d2 k" for k
    using own_replace [OF act pn] bkd inv(5) by (simp add: rows)
  have "bl_booking_id l < next_uuid ?d" if "l \<in> set (booking_lines ?d)" for l
  proof (cases "l \<in> set (booking_lines d)")
    case True
    with inv(2) show ?thesis by (auto simp: rows bookings_ok_def list_all_iff)
  next
    case False
    with that have "of_booking t b l" by (auto simp: rows dest: line_rows_facts(2))
    moreover from act inv(2) have "b < next_uuid d" by (auto simp: active_at_def list_ex_iff bookings_ok_def list_all_iff)
    ultimately show ?thesis by (simp add: rows of_booking_def)
  qed
  moreover have "bk_id x < next_uuid ?d \<and> bk_status x \<in> set KNOWN_STATUSES" if "x \<in> set (bookings d)" for x
    using that inv(2) by (auto simp: rows bookings_ok_def list_all_iff)
  ultimately have "bookings_ok ?d" using inv(2) by (simp add: bookings_ok_def list_all_iff rows(1))
  moreover have "lines_ok (booking_lines ?d)" unfolding rows using inv(3) pn by (rule lines_ok_replace)
  moreover have "rooms_ok (bookings ?d) (booking_lines ?d)" unfolding rows using inv(4) by (rule rooms_ok_replace) simp
  ultimately show ?thesis
    using d2(4) by (intro inventory_invI) (simp_all add: occ booked_ledger [of ?d d2] ledger_wf_ledger [of ?d d2] rows(2))
qed

lemma inv_reprice:
  assumes "inventory_inv (insert_lines t (bk_id bk) rt pn
       (d\<lparr>booking_lines := delete_rows (of_booking t (bk_id bk)) (booking_lines d)\<rparr>))" "tracks d bk"
    and run: "reprice d t bk rt tot pn = Inr s"
  shows "inventory_inv (orm s) \<and> tracks (orm s) bk"
proof -
  let ?f = "\<lambda>b. b\<lparr>bk_total_amount := numeric2 tot\<rparr>"
  let ?d = "set_booking bk ?f (insert_lines t (bk_id bk) rt pn
       (d\<lparr>booking_lines := delete_rows (of_booking t (bk_id bk)) (booking_lines d)\<rparr>))"
  from run obtain room d' where
    r: "replace_country_pack_tax_charges (update_folio_charge_amount t (bk_id bk) tot ?d) t (bk_id bk) (bk_property_id bk) tot
       = Inr (room, d')"
    and s: "orm s = update_folio_charge_amount t (bk_id bk) room d'"
    by (auto simp: reprice_def Let_def on_orm_def)
  have "same_stock ?d (orm s)"
    unfolding s using same_stock_trans [OF same_stock_trans [OF same_stock_update_folio same_stock_replace [OF r]]
      same_stock_update_folio] .
  moreover have "inventory_inv ?d" using assms(1) by (rule inv_set_field) simp
  moreover have "tracks ?d bk"
    by (rule tracks_set_booking) (use assms(2) in \<open>simp_all add: tracks_def insert_lines_def\<close>)
  ultimately show ?thesis using inventory_inv_frame tracks_frame by blast
qed

lemma inv_change_dates:
  assumes inv: "inventory_inv (orm s)" "tracks (orm s) bk" "active_booking bk"
    and run: "change_dates s (bk_tenant_id bk) bk (lines_of (orm s) bk) ci co = Inr s'"
  shows "inventory_inv (orm s') \<and> tracks (orm s') bk"
proof -
  let ?t = "bk_tenant_id bk" and ?b = "bk_id bk" and ?d = "orm s"
  let ?ms = "filter (of_booking ?t ?b) (booking_lines ?d)"
  note i = inventory_invD [OF inv(1)]
  have act: "active_at (bookings ?d) ?t ?b" using inv(2,3) by (rule tracks_active)
  from run obtain plan rt d1 tot pn ns d2 where
    rt: "the_room_type ?ms = Some rt"
    and dec: "lock_and_decrement ?d ?t rt (sort (remdups (map bl_date ?ms))) = Inr d1"
    and rates: "sum_rates_for_stay d1 ?t rt plan ci co = Inr (tot, pn)"
    and ns: "iter_stay_nights ci co = Inr ns"
    and inc: "lock_and_increment d1 ?t rt ns = Inr d2"
    and rep: "reprice d2 ?t bk rt tot pn = Inr s'"
    by (auto simp: change_dates_def lines_of_def)
  have pn: "ns = map fst pn" "distinct (map fst pn)"
    using sum_rates_nights [OF rates] ns stay_nights_facts(2) by auto
  have K: "stay_buckets ?t rt (sort (remdups (map bl_date ?ms))) = stay_buckets ?t rt (map bl_date ?ms)"
    by (simp add: stay_buckets_def)
  have d1: "d1 = bump_booked (stay_buckets ?t rt (map bl_date ?ms)) (-1) ?d"
    using decrement_effect [OF i(1) dec] unfolding K by blast
  have b1: "booked d1 k = booked ?d k - own (bookings ?d) (booking_lines ?d) ?t ?b k" for k
    using decrement_effect [OF i(1) dec, of k] unfolding K own_stay [OF i(3) act rt, of k] by blast
  have wf1: "ledger_wf d1" using i(1) by (simp add: d1)
  have d2: "d2 = bump_booked (stay_buckets ?t rt (map fst pn)) 1 d1"
    using increment_effect [OF wf1 inc [unfolded pn(1)]] by blast
  have b2: "booked d2 k = booked d1 k + (if k \<in> stay_buckets ?t rt (map fst pn) then 1 else 0)" for k
    using increment_effect [OF wf1 inc [unfolded pn(1)], of k] by blast
  show ?thesis
  proof (rule inv_reprice [OF _ _ rep])
    show "inventory_inv (insert_lines ?t ?b rt pn (d2\<lparr>booking_lines := delete_rows (of_booking ?t ?b) (booking_lines d2)\<rparr>))"
    proof (rule inv_new_lines [OF inv(1) act])
      show "booked d2 k = booked ?d k - own (bookings ?d) (booking_lines ?d) ?t ?b k
          + (if k \<in> stay_buckets ?t rt (map fst pn) then 1 else 0)" for k
        by (simp only: b2 b1)
    qed (use i(1) pn(2) in \<open>simp_all add: d1 d2\<close>)
    show "tracks d2 bk" using inv(2) by (simp add: tracks_def d1 d2)
  qed
qed

lemma active_known: "bk_status b \<in> set KNOWN_STATUSES \<Longrightarrow> active_booking b \<longleftrightarrow>
    bk_status b \<in> set [''pending'', ''confirmed'', ''checked_in'', ''checked_out'']"
  by (auto simp: active_booking_def KNOWN_STATUSES_def)

lemma inv_release_status:
  assumes "inventory_inv d" "tracks d bk" "active_booking bk" "st \<in> set [''cancelled'', ''no_show'']"
    and "release_booking_inventory d (bk_tenant_id bk) (lines_of d bk) = Inr d1"
  shows "inventory_inv (set_booking bk (\<lambda>b. b\<lparr>bk_status := st\<rparr>) d1)"
proof -
  from assms(2) obtain x where x: "x \<in> set (bookings d)" "bk_id bk = bk_id x" "bk_tenant_id bk = bk_tenant_id x"
    "bk_status x = bk_status bk" by (auto simp: tracks_def)
  with assms(3) have "active_booking x" by (simp add: active_booking_def)
  from inv_deactivate [OF assms(1) x(1-3) this assms(4,5)] show ?thesis .
qed

lemma inv_cancel:
  assumes "inventory_inv d" "tracks d bk" "cancel_booking d (bk_tenant_id bk) bk = Inr d'"
  shows "inventory_inv d'"
proof (cases "bk_status bk = ''cancelled''")
  case True
  with assms tracks_known [OF assms(1,2)] show ?thesis by (simp add: cancel_booking_def)
next
  case False
  note kn = tracks_known [OF assms(1,2)]
  from assms(3) False kn obtain d1 where v: "validate_status_transition (bk_status bk) ''cancelled'' = Inr ()"
    and r: "release_booking_inventory d (bk_tenant_id bk) (lines_of d bk) = Inr d1"
    and d': "d' = set_booking bk (\<lambda>b. b\<lparr>bk_status := ''cancelled''\<rparr>) d1"
    by (auto simp: cancel_booking_def)
  have "status_step (bk_status bk) ''cancelled''" using v kn False by (auto simp: validate_Inr_iff)
  then have "active_booking bk" by (auto simp: status_step_iff active_booking_def)
  then show ?thesis unfolding d' using assms r by (intro inv_release_status) auto
qed

lemma inv_assign_tracks:
  assumes "inventory_inv (orm s)" "tracks (orm s) bk"
    and "on_orm_r (\<lambda>d. assign_booking_room d t b room) s = Inr s'"
  shows "inventory_inv (orm s') \<and> tracks (orm s') bk"
proof -
  from assms(3) obtain d where d: "assign_booking_room (orm s) t b room = Inr d" "orm s' = d"
    by (auto simp: on_orm_r_def)
  from inv_assign_room [OF assms(1) d(1)] assign_Inr(1) [OF d(1)] assms(2) show ?thesis
    by (simp add: d(2) tracks_def)
qed

lemma patch_dates_cases:
  assumes "patch_dates s t bk body = Inr (s', e)"
  obtains (same) "s' = s"
  | (moved) ci co s1 where "\<not> (pb_check_in body = None \<and> pb_check_out body = None)"
      "change_dates s t bk (lines_of (orm s) bk) ci co = Inr s1"
      "s' = s1 \<or> (\<exists>r. on_orm_r (\<lambda>d. assign_booking_room d t (bk_id bk) (Some r)) s1 = Inr s')"
proof -
  have "s' = s \<or> \<not> (pb_check_in body = None \<and> pb_check_out body = None) \<and>
      (\<exists>ci co s1. change_dates s t bk (lines_of (orm s) bk) ci co = Inr s1 \<and>
        (s' = s1 \<or> (\<exists>r. on_orm_r (\<lambda>d. assign_booking_room d t (bk_id bk) (Some r)) s1 = Inr s')))"
    using assms unfolding patch_dates_def Let_def
    by (auto split: if_splits option.splits prod.splits)
  with same moved show ?thesis by blast
qed

lemma inv_patch_dates:
  assumes inv: "inventory_inv (orm s)" "tracks (orm s) bk"
    and act: "pb_check_in body = None \<and> pb_check_out body = None \<or> active_booking bk"
    and run: "patch_dates s (bk_tenant_id bk) bk body = Inr (s', e)"
  shows "inventory_inv (orm s') \<and> tracks (orm s') bk"
  using run
proof (cases rule: patch_dates_cases)
  case same
  with inv show ?thesis by simp
next
  case (moved ci co s1)
  with act have "active_booking bk" by simp
  with inv_change_dates [OF inv _ moved(2)] have "inventory_inv (orm s1) \<and> tracks (orm s1) bk" by blast
  with moved(3) inv_assign_tracks show ?thesis by blast
qed

lemma inv_patch_room:
  assumes "inventory_inv (orm (fst se))" "tracks (orm (fst se)) bk" "patch_room se t bk body = Inr (s', e)"
  shows "inventory_inv (orm s') \<and> tracks (orm s') bk"
  using assms inv_assign_tracks [of "fst se" bk] by (auto simp: patch_room_def split: option.splits)

lemma status_text_None: "normalize_booking_status (status_text None) \<noteq> ''cancelled''"
  by code_simp

lemma not_cancelled:
  "\<not> cancel_requested body \<Longrightarrow> pb_status body = Some st \<Longrightarrow> normalize_booking_status (status_text st) \<noteq> ''cancelled''"
  using status_text_None by (cases st) (auto simp: cancel_requested_def status_text_def)

lemma patch_status_Inr:
  assumes "patch_status (s, e) t bk body = Inr s'" "pb_status body = Some st"
    and "new = normalize_booking_status (status_text st)"
  shows "validate_status_transition (bk_status bk) new = Inr ()"
    and "if new = ''no_show'' \<and> normalize_booking_status (bk_status bk) = ''confirmed''
      then \<exists>d1. release_booking_inventory (orm s) t (lines_of (orm s) bk) = Inr d1 \<and>
             orm s' = set_booking bk (\<lambda>b. b\<lparr>bk_status := new\<rparr>) d1
      else orm s' = set_booking bk (\<lambda>b. b\<lparr>bk_status := new\<rparr>) (orm s)"
proof -
  from assms obtain u where v: "patch_transition (bk_status bk) new = Inr u"
    and rest: "r_bind (if new = ''no_show'' \<and> normalize_booking_status (bk_status bk) = ''confirmed''
         then if e then Inl MissingGreenlet
              else on_orm_r (\<lambda>d. release_booking_inventory d t (lines_of d bk)) s
         else Inr s) (\<lambda>s. Inr (on_orm (set_booking bk (\<lambda>b. b\<lparr>bk_status := new\<rparr>)) s)) = Inr s'"
    unfolding patch_status_def Let_def by auto
  from v show "validate_status_transition (bk_status bk) new = Inr ()" by simp
  from rest show "if new = ''no_show'' \<and> normalize_booking_status (bk_status bk) = ''confirmed''
      then \<exists>d1. release_booking_inventory (orm s) t (lines_of (orm s) bk) = Inr d1 \<and>
             orm s' = set_booking bk (\<lambda>b. b\<lparr>bk_status := new\<rparr>) d1
      else orm s' = set_booking bk (\<lambda>b. b\<lparr>bk_status := new\<rparr>) (orm s)"
    by (cases "new = ''no_show'' \<and> normalize_booking_status (bk_status bk) = ''confirmed''"; cases e)
      (auto simp: on_orm_r_def on_orm_def)
qed

lemma inv_patch_status:
  assumes inv: "inventory_inv (orm (fst se))" "tracks (orm (fst se)) bk" and nc: "\<not> cancel_requested body"
    and run: "patch_status se (bk_tenant_id bk) bk body = Inr s'"
  shows "inventory_inv (orm s')"
proof (cases "pb_status body")
  case None
  with run inv show ?thesis by (simp add: patch_status_def)
next
  case (Some st)
  define new where "new = normalize_booking_status (status_text st)"
  obtain s e where se: "se = (s, e)" by (cases se)
  note i = inv [unfolded se fst_conv] and kn = tracks_known [OF inv, unfolded se fst_conv]
  note out = patch_status_Inr [OF run [unfolded se] Some new_def]
  have "normalize_booking_status new = new"
    by (simp add: new_def normalize_booking_status_def py_strip_lower)
  then have step: "bk_status bk = new \<or> status_step (bk_status bk) new" and nc: "new \<noteq> ''cancelled''"
    using out(1) kn not_cancelled [OF nc Some] by (simp_all add: validate_Inr_iff new_def)
  let ?f = "\<lambda>b. b\<lparr>bk_status := new\<rparr>"
  show ?thesis
  proof (cases "new = ''no_show'' \<and> bk_status bk = ''confirmed''")
    case True
    with out(2) kn obtain d1 where
      r: "release_booking_inventory (orm s) (bk_tenant_id bk) (lines_of (orm s) bk) = Inr d1"
      and s': "orm s' = set_booking bk ?f d1" by auto
    have "active_booking bk" using True by (simp add: active_booking_def)
    then show ?thesis unfolding s' using i r True by (intro inv_release_status) simp_all
  next
    case False
    with out(2) kn have s': "orm s' = set_booking bk ?f (orm s)" by auto
    have known: "new \<in> set KNOWN_STATUSES" using step kn status_step_known by blast
    have keeps: "active_booking bk = active_booking (?f bk)"
    proof (cases "bk_status bk = new")
      case same: False
      with step have "status_step (bk_status bk) new" by simp
      then show ?thesis
        by (cases rule: status_step.cases) (use False nc in \<open>auto simp: active_booking_def\<close>)
    qed (simp add: active_booking_def)
    from i(2) obtain y where y: "y \<in> set (bookings (orm s))" "bk_id y = bk_id bk" "bk_status y = bk_status bk"
      by (auto simp: tracks_def)
    have "active_booking (?f x) = active_booking x" if "x \<in> set (bookings (orm s))" "bk_id x = bk_id bk" for x
    proof -
      have "x = y" using bookings_at_id [OF inventory_invD(2) [OF i(1)]] that y by simp
      then show ?thesis using keeps y(3) by (simp add: active_booking_def)
    qed
    with known show ?thesis unfolding s' using i(1) by (intro inv_set_same) simp_all
  qed
qed

lemma inactive_guard_active:
  assumes "inactive_guard bk body = Inr u" "bk_status bk \<in> set KNOWN_STATUSES"
  shows "active_booking bk \<or> pb_check_in body = None \<and> pb_check_out body = None \<and> pb_room_id body = None"
  using assms by (auto simp: inactive_guard_def active_booking_def split: if_splits)

lemma checkout_stock: "same_stock (orm s) (orm (snd (checkout_warning s t bk)))"
proof -
  have "fleet (orm (mark_assigned_rooms_dirty_on_checkout t b s)) = fleet (orm s)" for t b
    by (simp add: mark_assigned_rooms_dirty_on_checkout_def Let_def fleet_def update_rows_def)
  then show ?thesis
    by (auto simp: checkout_warning_def mark_assigned_rooms_dirty_on_checkout_def Let_def same_stock_def split: option.splits)
qed

text \<open>The paths through \<open>patch_booking\<close> that return.\<close>

definition noted :: "booking_patch \<Rightarrow> booking_row \<Rightarrow> db \<Rightarrow> session" where
  "noted body bk d = (case pb_notes body of None \<Rightarrow> open_session d
     | Some n \<Rightarrow> on_orm (set_booking bk (\<lambda>b. b\<lparr>bk_notes := patched_notes n\<rparr>)) (open_session d))"

lemma noted_stock: "ledger (orm (noted body bk d)) = ledger d"
  by (simp add: noted_def on_orm_def split: option.splits)

lemma patch_booking_cases:
  assumes "patch_booking d t b body = Inr (w, d')"
  obtains (unchanged) "d' = d"
  | (note_only) bk where "booking_at d t b = Some bk" "d' = orm (noted body bk d)"
  | (cancel) bk where "booking_at d t b = Some bk" "cancel_requested body" "cancel_booking (orm (noted body bk d)) t bk = Inr d'"
  | (change) bk se se' s1 where "booking_at d t b = Some bk" "\<not> cancel_requested body" "inactive_guard bk body = Inr ()"
      "patch_dates (noted body bk d) t bk body = Inr se" "patch_room se t bk body = Inr se'"
      "patch_status se' t bk body = Inr s1" "(w, d') = (fst (checkout_warning s1 t bk), orm (snd (checkout_warning s1 t bk)))"
proof (cases "patch_empty body \<and> pb_notes body = None")
  case True
  with assms unchanged show ?thesis by (simp add: patch_booking_def)
next
  case False
  with assms obtain bk where at: "booking_at d t b = Some bk" by (auto simp: patch_booking_def)
  from assms False consider "d' = orm (noted body bk d)" | "cancel_requested body" "cancel_booking (orm (noted body bk d)) t bk = Inr d'"
    | se se' s1 where "\<not> cancel_requested body" "inactive_guard bk body = Inr ()"
      "patch_dates (noted body bk d) t bk body = Inr se" "patch_room se t bk body = Inr se'"
      "patch_status se' t bk body = Inr s1" "(w, d') = (fst (checkout_warning s1 t bk), orm (snd (checkout_warning s1 t bk)))"
    by (auto simp: patch_booking_def at noted_def [symmetric] Let_def case_prod_beta split: if_splits)
  then show ?thesis using at note_only cancel change by cases blast+
qed

lemma noted_inv:
  assumes "inventory_inv d" "booking_at d t b = Some bk"
  shows "inventory_inv (orm (noted body bk d)) \<and> tracks (orm (noted body bk d)) bk"
proof -
  have "tracks d bk" using booking_atD [OF assms(2)] by (auto simp: tracks_def)
  with assms(1) show ?thesis
    by (auto simp: noted_def on_orm_def inv_set_field tracks_set_booking split: option.splits)
qed

lemma inv_patch:
  assumes inv: "inventory_inv d" and run: "patch_booking d t b body = Inr (w, d')"
  shows "inventory_inv d'"
  using run
proof (cases rule: patch_booking_cases)
  case unchanged
  with inv show ?thesis by simp
next
  case (note_only bk)
  with noted_inv [OF inv] show ?thesis by blast
next
  case (cancel bk)
  with noted_inv [OF inv] inv_cancel booking_atD show ?thesis by blast
next
  case (change bk se se' s1)
  have bk: "bk_tenant_id bk = t" using booking_atD [OF change(1)] by simp
  have st: "inventory_inv (orm (noted body bk d))" "tracks (orm (noted body bk d)) bk"
    using noted_inv [OF inv change(1)] by auto
  have "active_booking bk \<or> pb_check_in body = None \<and> pb_check_out body = None"
    using inactive_guard_active [OF change(3)] tracks_known [OF st] by blast
  then have "inventory_inv (orm (fst se)) \<and> tracks (orm (fst se)) bk"
    using inv_patch_dates [OF st, of body "fst se" "snd se"] change(4) bk by auto
  then have "inventory_inv (orm (fst se')) \<and> tracks (orm (fst se')) bk"
    using inv_patch_room [of se bk t body "fst se'" "snd se'"] change(5) by simp
  then have "inventory_inv (orm s1)" using inv_patch_status change(2,6) bk by blast
  then have "inventory_inv (orm (snd (checkout_warning s1 t bk)))" using checkout_stock by (rule inventory_inv_frame)
  with change(7) show ?thesis by simp
qed

end
