(* ===== verification/Booking_Steps.thy ===== *)
theory Booking_Steps
  imports Inventory_Steps
begin

text \<open>
  The booking service as a step relation on databases. It keeps the inventory invariant and,
  more generally, every predicate of the ledger that giving back nights and taking free nights
  keep: the locale \<open>ledger_predicate\<close> is that contract.
\<close>

inductive booking_step :: "db \<Rightarrow> db \<Rightarrow> bool" where
  create: "booking_create_valid body \<Longrightarrow> create_booking d t body = Inr (res, d') \<Longrightarrow> booking_step d d'"
| patch: "patch_booking d t b patch_body = Inr (warning, d') \<Longrightarrow> booking_step d d'"
| delete: "delete_booking d t b = Inr (snap, d') \<Longrightarrow> booking_step d d'"
| assign: "assign_booking_room d t b room = Inr d' \<Longrightarrow> booking_step d d'"
| post_entry: "add_folio_entry d t b entry u = Inr (tx, d') \<Longrightarrow> booking_step d d'"
| reverse_entry: "reverse_folio_transaction d t b i u = Inr (tx, d') \<Longrightarrow> booking_step d d'"

inductive_cases booking_stepE: "booking_step d d'"

lemma ensure_rows_stock: "same_stock d (ensure_rows t rs d)"
proof (induction rs arbitrary: d)
  case (Cons r rs)
  obtain c l n where r: "r = (c, l, n)" by (cases r)
  have "same_stock d (case category_at d t c of Some _ \<Rightarrow> d | None \<Rightarrow> snd (insert_category t c l True True n d))"
    by (auto simp: insert_category_def Let_def same_stock_def split: option.splits)
  from this Cons show ?case unfolding r ensure_rows.simps by (rule same_stock_trans)
qed simp

lemma record_audit_stock [simp]: "same_stock d (record_audit t a e i d') = same_stock d d'"
  by (simp add: same_stock_def)

lemma folio_step_stock:
  "add_folio_entry d t b entry u = Inr (tx, d') \<Longrightarrow> same_stock d d'"
  "reverse_folio_transaction d t b i u = Inr (tx, d') \<Longrightarrow> same_stock d d'"
proof -
  have ens: "same_stock d (ensure_builtin_categories t d)"
    by (simp add: ensure_builtin_categories_def ensure_rows_stock)
  show "add_folio_entry d t b entry u = Inr (tx, d') \<Longrightarrow> same_stock d d'"
    using same_stock_trans [OF ens same_stock_insert_folio]
    by (auto simp: add_folio_entry_def active_category_codes_def Let_def case_prod_beta split: if_splits)
  show "reverse_folio_transaction d t b i u = Inr (tx, d') \<Longrightarrow> same_stock d d'"
    by (auto simp: reverse_folio_transaction_def Let_def case_prod_beta split: if_splits)
qed

interpretation booking_inventory: invariant_system booking_step inventory_inv
proof
  fix d d'
  assume inv: "inventory_inv d" and "booking_step d d'"
  from this(2) show "inventory_inv d'"
  proof cases
    case create
    with inv show ?thesis using inv_create by blast
  next
    case patch
    with inv show ?thesis using inv_patch by blast
  next
    case delete
    with inv show ?thesis using inv_delete by blast
  next
    case assign
    with inv show ?thesis using inv_assign_room by blast
  next
    case post_entry
    from inventory_inv_frame [OF inv folio_step_stock(1) [OF this]] show ?thesis .
  next
    case reverse_entry
    from inventory_inv_frame [OF inv folio_step_stock(2) [OF this]] show ?thesis .
  qed
qed

subsection \<open>Predicates of the ledger\<close>

definition ledger_kept :: "db \<Rightarrow> db \<Rightarrow> bool" where
  "ledger_kept d d' \<longleftrightarrow> ledger d' = ledger d \<and> next_uuid d \<le> next_uuid d' \<and> fleet d' = fleet d"

lemma ledger_kept_refl [simp]: "ledger_kept d d"
  by (simp add: ledger_kept_def)

lemma ledger_kept_trans: "ledger_kept d d' \<Longrightarrow> ledger_kept d' d'' \<Longrightarrow> ledger_kept d d''"
  by (simp add: ledger_kept_def)

lemma same_stock_kept: "same_stock d d' \<Longrightarrow> ledger_kept d d'"
  by (simp add: same_stock_def ledger_kept_def)

lemma set_booking_kept [simp]: "ledger_kept d (set_booking b f d') = ledger_kept d d'"
  by (simp add: set_booking_def ledger_kept_def)

lemma noted_kept: "ledger_kept d (orm (noted body bk d))"
  by (simp add: noted_def on_orm_def split: option.splits)

lemma assign_kept: "assign_booking_room d t b room = Inr d' \<Longrightarrow> ledger_kept d d'"
  using assign_Inr(1) [of d t b room d'] by (fastforce simp: ledger_kept_def)

lemma on_orm_assign_kept:
  "on_orm_r (\<lambda>d. assign_booking_room d t b room) s = Inr s' \<Longrightarrow> ledger_kept (orm s) (orm s')"
  by (auto simp: on_orm_r_def dest: assign_kept)

lemma record_booking_kept:
  assumes "record_booking d t body ext tot pn = Inr (res, d')"
  shows "ledger_kept d d'"
proof -
  from record_booking_Inr [OF assms] obtain guest merged d2 b d3 room d5 where
    g: "get_or_create_guest_for_booking d t (cb_guest body) (cb_force_new_guest body) = Inr (guest, merged, d2)"
    and b: "insert_booking t body (gu_id guest) ext tot d2 = (b, d3)"
    and d5: "replace_country_pack_tax_charges (snd (insert_folio t (bk_id b) ''Charge'' tot None (Some ''Room charge (stay)'')
       None ''room_charge'' (insert_lines t (bk_id b) (cb_room_type_id body) pn d3))) t (bk_id b) (cb_property_id body) tot
       = Inr (room, d5)"
    and fin: "d' = update_folio_charge_amount t (bk_id b) room d5 \<or>
     (\<exists>r. assign_booking_room (update_folio_charge_amount t (bk_id b) room d5) t (bk_id b) (Some r) = Inr d')" .
  have "ledger_kept d d2" using same_stock_guest [OF g] by (rule same_stock_kept)
  moreover have "ledger_kept d2 (insert_lines t (bk_id b) (cb_room_type_id body) pn d3)"
    using b by (auto simp: insert_booking_def Let_def ledger_kept_def insert_lines_def)
  moreover have "ledger_kept (insert_lines t (bk_id b) (cb_room_type_id body) pn d3) d5"
    using same_stock_trans [OF same_stock_insert_folio same_stock_replace [OF d5]] by (rule same_stock_kept)
  moreover have "ledger_kept d5 d'"
    using fin same_stock_kept [OF same_stock_update_folio] assign_kept ledger_kept_trans by blast
  ultimately show ?thesis using ledger_kept_trans by blast
qed

lemma reprice_kept:
  assumes "reprice d t bk rt tot pn = Inr s"
  shows "ledger_kept d (orm s)"
proof -
  let ?d = "set_booking bk (\<lambda>b. b\<lparr>bk_total_amount := numeric2 tot\<rparr>) (insert_lines t (bk_id bk) rt pn
       (d\<lparr>booking_lines := delete_rows (of_booking t (bk_id bk)) (booking_lines d)\<rparr>))"
  from assms obtain room d' where
    r: "replace_country_pack_tax_charges (update_folio_charge_amount t (bk_id bk) tot ?d) t (bk_id bk) (bk_property_id bk) tot
       = Inr (room, d')"
    and s: "orm s = update_folio_charge_amount t (bk_id bk) room d'"
    by (auto simp: reprice_def Let_def on_orm_def)
  have "ledger_kept d ?d" by (simp add: ledger_kept_def insert_lines_def)
  moreover have "ledger_kept ?d (orm s)"
    unfolding s using same_stock_trans [OF same_stock_trans [OF same_stock_update_folio same_stock_replace [OF r]]
      same_stock_update_folio] by (rule same_stock_kept)
  ultimately show ?thesis by (rule ledger_kept_trans)
qed

lemma patch_room_kept:
  "patch_room se t bk body = Inr se' \<Longrightarrow> ledger_kept (orm (fst se)) (orm (fst se'))"
  by (auto simp: patch_room_def split: option.splits dest: on_orm_assign_kept)

locale ledger_predicate =
  fixes P :: "db \<Rightarrow> bool"
  assumes frame: "ledger_kept d d' \<Longrightarrow> P d \<Longrightarrow> P d'"
    and give: "P d \<Longrightarrow> P (bump_booked K (-1) d)"
    and take: "P d \<Longrightarrow> ledger_wf d \<Longrightarrow> has_room d t rt ns 1 \<Longrightarrow> P (bump_booked (stay_buckets t rt ns) 1 d)"
begin

lemma decrement_keeps:
  "ledger_wf d \<Longrightarrow> lock_and_decrement d t rt ns = Inr d' \<Longrightarrow> P d \<Longrightarrow> P d' \<and> ledger_wf d'"
  using give by (auto simp: lock_and_decrement_bump split: if_splits)

lemma increment_keeps: "ledger_wf d \<Longrightarrow> lock_and_increment d t rt ns = Inr d' \<Longrightarrow> P d \<Longrightarrow> P d'"
  using take by (auto simp: lock_and_increment_bump split: if_splits)

lemma release_keeps: "ledger_wf d \<Longrightarrow> release_booking_inventory d t ls = Inr d' \<Longrightarrow> P d \<Longrightarrow> P d'"
  unfolding release_booking_inventory_def
  by (auto split: if_splits option.splits dest: decrement_keeps)

lemma create_keeps:
  assumes "ledger_wf d" "P d" "create_booking d t body = Inr (res, d')"
  shows "P d'"
proof -
  from create_booking_Inr [OF assms(3,1)] obtain tot pn where
    "has_room d t (cb_room_type_id body) (map fst pn) 1"
    "record_booking (bump_booked (stay_buckets t (cb_room_type_id body) (map fst pn)) 1 d) t body
       (external_ref (cb_external_booking_id body)) tot pn = Inr (res, d')" by metis
  then show ?thesis using assms(1,2) take record_booking_kept frame by metis
qed

lemma change_dates_keeps:
  assumes "ledger_wf (orm s)" "P (orm s)" "change_dates s t bk ls ci co = Inr s'"
  shows "P (orm s')"
proof -
  from assms(3) obtain rt ns ns' d1 d2 tot pn where
    "lock_and_decrement (orm s) t rt ns = Inr d1" "lock_and_increment d1 t rt ns' = Inr d2"
    "reprice d2 t bk rt tot pn = Inr s'"
    by (auto simp: change_dates_def)
  with assms(1,2) decrement_keeps increment_keeps reprice_kept frame show ?thesis by metis
qed

lemma patch_dates_keeps:
  assumes "ledger_wf (orm s)" "P (orm s)" "patch_dates s t bk body = Inr (s', e)"
  shows "P (orm s')"
  using assms(3)
proof (cases rule: patch_dates_cases)
  case same
  with assms(2) show ?thesis by simp
next
  case (moved ci co s1)
  have "ledger_kept (orm s1) (orm s')"
    using moved(3) on_orm_assign_kept by auto
  with change_dates_keeps [OF assms(1,2) moved(2)] show ?thesis using frame by blast
qed

lemma patch_status_keeps:
  assumes "ledger_wf (orm (fst se))" "P (orm (fst se))" "patch_status se t bk body = Inr s'"
  shows "P (orm s')"
proof (cases "pb_status body")
  case None
  with assms show ?thesis by (simp add: patch_status_def)
next
  case (Some st)
  obtain s e where se: "se = (s, e)" by (cases se)
  from patch_status_Inr(2) [OF assms(3) [unfolded se] Some refl]
  have "ledger_kept (orm s) (orm s') \<or>
      (\<exists>d1. release_booking_inventory (orm s) t (lines_of (orm s) bk) = Inr d1 \<and> ledger_kept d1 (orm s'))"
    by (auto split: if_splits)
  with assms(1,2) release_keeps frame show ?thesis unfolding se fst_conv by metis
qed

lemma cancel_keeps:
  assumes "ledger_wf d" "P d" "cancel_booking d t bk = Inr d'"
  shows "P d'"
proof -
  from assms(3) have "d' = d \<or> (\<exists>d1. release_booking_inventory d t (lines_of d bk) = Inr d1 \<and> ledger_kept d1 d')"
    by (auto simp: cancel_booking_def split: if_splits)
  with assms(1,2) release_keeps frame show ?thesis by metis
qed

lemma patch_keeps:
  assumes inv: "inventory_inv d" "P d" and run: "patch_booking d t b body = Inr (w, d')"
  shows "P d'"
  using run
proof (cases rule: patch_booking_cases)
  case unchanged
  with inv show ?thesis by simp
next
  case (note_only bk)
  with inv(2) noted_kept frame show ?thesis by metis
next
  case (cancel bk)
  have "ledger_wf (orm (noted body bk d))"
    using noted_inv [OF inv(1) cancel(1)] inventory_invD(1) by blast
  with cancel(3) cancel_keeps frame [OF noted_kept inv(2)] show ?thesis by blast
next
  case (change bk se se' s1)
  let ?d = "orm (noted body bk d)"
  have tn: "bk_tenant_id bk = t" using booking_atD [OF change(1)] by simp
  have st: "inventory_inv ?d" "tracks ?d bk" "P ?d"
    using inv frame [OF noted_kept] noted_inv [OF inv(1) change(1)] by blast+
  have "active_booking bk \<or> pb_check_in body = None \<and> pb_check_out body = None"
    using inactive_guard_active [OF change(3)] tracks_known [OF st(1,2)] by blast
  then have "inventory_inv (orm (fst se))"
    using inv_patch_dates [OF st(1,2), of body "fst se" "snd se"] change(4) tn by auto
  moreover have k: "ledger_kept (orm (fst se)) (orm (fst se'))" using change(5) by (rule patch_room_kept)
  ultimately have wf: "ledger_wf (orm (fst se'))"
    using inventory_invD(1) ledger_wf_ledger by (metis ledger_kept_def)
  have "P (orm (fst se))"
    using patch_dates_keeps [OF inventory_invD(1) [OF st(1)] st(3), of t bk body "fst se" "snd se"] change(4) by simp
  then have "P (orm s1)" using patch_status_keeps [OF wf _ change(6)] frame [OF k] by blast
  with change(7) show ?thesis using frame [OF same_stock_kept [OF checkout_stock]] by simp
qed

lemma delete_keeps:
  assumes "ledger_wf d" "P d" "delete_booking d t b = Inr (snap, d')"
  shows "P d'"
proof -
  have rm: "ledger_kept d1 (remove_booking_rows t b d1)" for d1 by (simp add: ledger_kept_def) (simp add: remove_booking_rows_def)
  from delete_booking_Inr [OF assms(3)] obtain x d1 where "(if normalize_booking_status (bk_status x) \<notin> set [''cancelled'', ''no_show'']
       then release_booking_inventory d t (lines_of d x) else Inr d) = Inr d1" "d' = remove_booking_rows t b d1" .
  with assms(1,2) release_keeps frame [OF rm] show ?thesis by (metis Inr_inject)
qed

lemma booking_step_keeps:
  assumes "inventory_inv d" "P d" "booking_step d d'"
  shows "P d'"
  using assms(3)
proof cases
  case create
  with assms create_keeps inventory_invD(1) show ?thesis by blast
next
  case patch
  with assms patch_keeps show ?thesis by blast
next
  case delete
  with assms delete_keeps inventory_invD(1) show ?thesis by blast
next
  case assign
  with assms(2) assign_kept frame show ?thesis by blast
next
  case post_entry
  with assms(2) folio_step_stock(1) same_stock_kept frame show ?thesis by blast
next
  case reverse_entry
  with assms(2) folio_step_stock(2) same_stock_kept frame show ?thesis by blast
qed

end

subsection \<open>No overbooking and fresh identifiers\<close>

definition no_overbooking :: "db \<Rightarrow> bool" where
  "no_overbooking d \<longleftrightarrow> list_all (\<lambda>r. al_booked_rooms r + al_blocked_rooms r \<le> al_total_rooms r) (ledger d)"

lemma no_overbooking_iff: "no_overbooking d \<longleftrightarrow> (\<forall>r\<in>set (ledger d). 0 \<le> available_rooms r)"
  by (auto simp: no_overbooking_def list_all_iff available_rooms_def)

lemma no_overbooking_take:
  assumes "no_overbooking d" "ledger_wf d" "has_room d t rt ns 1"
  shows "no_overbooking (bump_booked (stay_buckets t rt ns) 1 d)"
proof -
  have "1 \<le> available_rooms r" if "r \<in> set (ledger d)" "al_bucket r \<in> stay_buckets t rt ns" for r
  proof -
    have "bucket_row d (t, rt, al_date r) = Some r"
      using wf_row_of_bucket [OF assms(2), of r] that by (simp add: al_bucket_def stay_buckets_def)
    with assms(3) that(2) show ?thesis by (auto simp: has_room_iff al_bucket_in_stay)
  qed
  then show ?thesis
    using assms(1) by (fastforce simp: no_overbooking_iff bump_booked_def set_update_rows available_rooms_def)
qed

interpretation fits: ledger_predicate no_overbooking
proof
  show "ledger_kept d d' \<Longrightarrow> no_overbooking d \<Longrightarrow> no_overbooking d'" for d d'
    by (simp add: ledger_kept_def no_overbooking_def)
  show "no_overbooking d \<Longrightarrow> no_overbooking (bump_booked K (-1) d)" for d K
    by (auto simp: no_overbooking_def bump_booked_def list_all_iff set_update_rows)
qed (rule no_overbooking_take)

definition ledger_fresh :: "db \<Rightarrow> bool" where
  "ledger_fresh d \<longleftrightarrow> list_all (\<lambda>r. al_id r < next_uuid d) (ledger d)"

interpretation fresh: ledger_predicate ledger_fresh
proof
  show "ledger_kept d d' \<Longrightarrow> ledger_fresh d \<Longrightarrow> ledger_fresh d'" for d d'
    by (auto simp: ledger_kept_def ledger_fresh_def list_all_iff)
  show "ledger_fresh d \<Longrightarrow> ledger_fresh (bump_booked K (-1) d)" for d K
    by (auto simp: ledger_fresh_def bump_booked_def list_all_iff set_update_rows)
  show "ledger_fresh d \<Longrightarrow> ledger_fresh (bump_booked (stay_buckets t rt ns) 1 d)" for d t rt ns
    by (auto simp: ledger_fresh_def bump_booked_def list_all_iff set_update_rows)
qed

definition rooms_wf :: "db \<Rightarrow> bool" where
  "rooms_wf d \<longleftrightarrow> distinct (map rm_id (rooms d)) \<and> list_all (\<lambda>r. rm_id r < next_uuid d) (rooms d)"

lemma rooms_wf_alt: "rooms_wf d \<longleftrightarrow> distinct (map fst (snd (fleet d))) \<and> list_all (\<lambda>i. i < next_uuid d) (map fst (snd (fleet d)))"
  by (simp add: rooms_wf_def fleet_def comp_def list_all_iff)

interpretation numbered: ledger_predicate rooms_wf
proof
  show "ledger_kept d d' \<Longrightarrow> rooms_wf d \<Longrightarrow> rooms_wf d'" for d d'
    by (auto simp: ledger_kept_def rooms_wf_alt list_all_iff)
qed (simp_all add: rooms_wf_def)

end
