(* ===== verification/Ledger_Admin.thy ===== *)
theory Ledger_Admin
  imports Booking_Steps
begin

text \<open>
  Administration of the availability ledger: manual blocks
  (\<^verbatim>\<open>availability_override_service.py\<close>), seeding, extension and bulk refresh of rows
  (\<^verbatim>\<open>availability_ledger_seed.py\<close>) and the recalculation of capacities
  (\<^verbatim>\<open>room_service.py\<close>). The primary key of a row is drawn when the row is inserted.
\<close>

subsection \<open>Blocked rooms\<close>

record override_put =
  op_room_type_id :: uuid
  op_start_date :: date
  op_end_date :: date
  op_blocked_rooms :: int

definition override_put_valid :: "override_put \<Rightarrow> bool" where
  "override_put_valid body \<longleftrightarrow> 0 \<le> op_blocked_rooms body \<and> op_start_date body \<le> op_end_date body \<and>
     op_end_date body - op_start_date body + 1 \<le> 366"

fun block_rows :: "ledger_row list \<Rightarrow> int \<Rightarrow> db \<Rightarrow> db result" where
  "block_rows [] n d = Inr d"
| "block_rows (row # rows) n d =
     (if al_total_rooms row - al_booked_rooms row < n
      then Inl (AvailabilityOverrideError ''blocked_rooms exceeds capacity'' 409)
      else block_rows rows n (d\<lparr>ledger := update_rows (\<lambda>r. al_id r = al_id row)
             (\<lambda>r. r\<lparr>al_blocked_rooms := n\<rparr>) (ledger d)\<rparr>))"

definition apply_blocked_rooms_override ::
  "db \<Rightarrow> uuid \<Rightarrow> override_put \<Rightarrow> ((nat \<times> uuid \<times> date list) \<times> db) result" where
  "apply_blocked_rooms_override d tenant_id body =
     (let dates = iter_inclusive_dates (op_start_date body) (op_end_date body)
      in if dates = [] then Inr ((0, op_room_type_id body, []), d)
         else let ledger_rows = sort_key al_date (ledger_select d tenant_id (op_room_type_id body) dates)
              in if length ledger_rows \<noteq> length dates then Inl LedgerNotSeededError
                 else r_bind (block_rows ledger_rows (op_blocked_rooms body) d) (\<lambda>d.
                        Inr ((length ledger_rows, op_room_type_id body, dates), d)))"

subsection \<open>Rows of the ledger\<close>

definition count_rooms_for_room_type :: "db \<Rightarrow> uuid \<Rightarrow> uuid \<Rightarrow> int" where
  "count_rooms_for_room_type d tenant_id room_type_id =
     int (length (filter (\<lambda>r. rm_tenant_id r = tenant_id \<and> rm_room_type_id r = room_type_id \<and> rm_deleted_at r = None) (rooms d)))"

definition has_bucket :: "db \<Rightarrow> bucket \<Rightarrow> bool" where
  "has_bucket d k \<longleftrightarrow> k \<in> set (map al_bucket (ledger d))"

definition insert_ledger :: "uuid \<Rightarrow> uuid \<Rightarrow> date \<Rightarrow> int \<Rightarrow> db \<Rightarrow> db" where
  "insert_ledger tenant_id room_type_id day total_rooms d =
     d\<lparr>ledger := ledger d @ [\<lparr>al_id = next_uuid d, al_tenant_id = tenant_id, al_date = day, al_room_type_id = room_type_id,
                             al_total_rooms = total_rooms, al_booked_rooms = 0, al_blocked_rooms = 0\<rparr>],
       next_uuid := next_uuid d + 1\<rparr>"

text \<open>A plain insert violates the unique constraint where the row exists.\<close>

fun seed_days :: "uuid \<Rightarrow> uuid \<Rightarrow> int \<Rightarrow> date list \<Rightarrow> db \<Rightarrow> db result" where
  "seed_days tenant_id room_type_id total_rooms [] d = Inr d"
| "seed_days tenant_id room_type_id total_rooms (day # days) d =
     (if has_bucket d (tenant_id, room_type_id, day) then Inl IntegrityError
      else seed_days tenant_id room_type_id total_rooms days (insert_ledger tenant_id room_type_id day total_rooms d))"

definition days_from :: "date \<Rightarrow> nat \<Rightarrow> date list" where
  "days_from start n = map (\<lambda>offset. start + int offset) [0..<n]"

definition seed_empty_availability_ledger_year_forward ::
  "db \<Rightarrow> uuid \<Rightarrow> uuid \<Rightarrow> int \<Rightarrow> date option \<Rightarrow> nat \<Rightarrow> db result" where
  "seed_empty_availability_ledger_year_forward d tenant_id room_type_id total_rooms start_date horizon_days =
     (let start = (case start_date of None \<Rightarrow> utc_today d | Some s \<Rightarrow> s)
      in seed_days tenant_id room_type_id total_rooms (days_from start horizon_days) d)"

subsection \<open>Extending the horizon\<close>

definition ledger_max_date :: "db \<Rightarrow> uuid \<Rightarrow> uuid \<Rightarrow> date option" where
  "ledger_max_date d tenant_id room_type_id =
     (let ds = map al_date (filter (\<lambda>r. al_tenant_id r = tenant_id \<and> al_room_type_id r = room_type_id) (ledger d))
      in if ds = [] then None else Some (Max (set ds)))"

text \<open>\<^verbatim>\<open>ON CONFLICT DO NOTHING RETURNING id\<close>: the number of rows inserted and the state.\<close>

fun insert_days_do_nothing :: "uuid \<Rightarrow> uuid \<Rightarrow> int \<Rightarrow> date list \<Rightarrow> nat \<times> db \<Rightarrow> nat \<times> db" where
  "insert_days_do_nothing tenant_id room_type_id total_rooms [] s = s"
| "insert_days_do_nothing tenant_id room_type_id total_rooms (day # days) (n, d) =
     insert_days_do_nothing tenant_id room_type_id total_rooms days
       (if has_bucket d (tenant_id, room_type_id, day) then (n, d)
        else (n + 1, insert_ledger tenant_id room_type_id day total_rooms d))"

definition extend_room_type :: "nat \<Rightarrow> room_type_row \<Rightarrow> nat \<times> db \<Rightarrow> (nat \<times> db) result" where
  "extend_room_type extra_days rt s =
     (let (n, d) = s; total_rooms = count_rooms_for_room_type d (rt_tenant_id rt) (rt_id rt)
      in case ledger_max_date d (rt_tenant_id rt) (rt_id rt) of
           None \<Rightarrow> r_bind (seed_empty_availability_ledger_year_forward d (rt_tenant_id rt) (rt_id rt) total_rooms None extra_days)
                    (\<lambda>d. Inr (n + extra_days, d))
         | Some max_date \<Rightarrow> Inr (insert_days_do_nothing (rt_tenant_id rt) (rt_id rt) total_rooms
                              (days_from (max_date + 1) extra_days) (n, d)))"

fun extend_room_types :: "nat \<Rightarrow> room_type_row list \<Rightarrow> nat \<times> db \<Rightarrow> (nat \<times> db) result" where
  "extend_room_types extra_days [] s = Inr s"
| "extend_room_types extra_days (rt # rts) s = r_bind (extend_room_type extra_days rt s) (extend_room_types extra_days rts)"

text \<open>
  The room types the session sees: those of \<^verbatim>\<open>app.tenant_id\<close> under row-level security, all of
  them on a connection that bypasses it.
\<close>

definition visible_room_types :: "db \<Rightarrow> uuid option \<Rightarrow> room_type_row list" where
  "visible_room_types d rls = filter (\<lambda>rt. case rls of None \<Rightarrow> True | Some t \<Rightarrow> rt_tenant_id rt = t) (room_types d)"

definition extend_availability_ledger_days :: "db \<Rightarrow> uuid option \<Rightarrow> int \<Rightarrow> (nat \<times> db) result" where
  "extend_availability_ledger_days d rls extra_days =
     (if extra_days < 1 then Inr (0, d)
      else extend_room_types (nat extra_days) (visible_room_types d rls) (0, d))"

text \<open>The cron script runs it once per tenant in one transaction; \<open>bypass\<close> is a superuser connection.\<close>

fun extend_for_tenants :: "bool \<Rightarrow> int \<Rightarrow> uuid list \<Rightarrow> nat \<times> db \<Rightarrow> (nat \<times> db) result" where
  "extend_for_tenants bypass extra_days [] s = Inr s"
| "extend_for_tenants bypass extra_days (tid # tids) s =
     r_bind (extend_availability_ledger_days (snd s) (if bypass then None else Some tid) extra_days)
       (\<lambda>(k, d). extend_for_tenants bypass extra_days tids (fst s + k, d))"

subsection \<open>Bulk refresh\<close>

record seed_segment =
  ss_room_type_id :: uuid
  ss_start_date :: date
  ss_end_date :: date

definition seed_request_valid :: "seed_segment list \<Rightarrow> bool" where
  "seed_request_valid segs \<longleftrightarrow> segs \<noteq> [] \<and>
     list_all (\<lambda>s. ss_start_date s \<le> ss_end_date s \<and> ss_end_date s - ss_start_date s + 1 \<le> 366) segs \<and>
     sum_list (map (\<lambda>s. ss_end_date s - ss_start_date s + 1) segs) \<le> 366"

text \<open>The dictionary of nights to write, keyed by room type and date, with their capacity.\<close>

fun collect_nights :: "db \<Rightarrow> uuid \<Rightarrow> seed_segment list \<Rightarrow> ((uuid \<times> date) \<times> int) list \<Rightarrow> ((uuid \<times> date) \<times> int) list result" where
  "collect_nights d tenant_id [] by_key = Inr by_key"
| "collect_nights d tenant_id (seg # segs) by_key =
     (if \<not> list_ex (\<lambda>r. rt_tenant_id r = tenant_id \<and> rt_id r = ss_room_type_id seg) (room_types d)
      then Inl (AvailabilityLedgerSeedError ''room_type not found'' 404)
      else let total_rooms = count_rooms_for_room_type d tenant_id (ss_room_type_id seg)
           in collect_nights d tenant_id segs
                (fold (\<lambda>day. dict_put (ss_room_type_id seg, day) total_rooms)
                   (iter_inclusive_dates (ss_start_date seg) (ss_end_date seg)) by_key))"

text \<open>\<^verbatim>\<open>ON CONFLICT DO UPDATE SET total_rooms\<close>.\<close>

fun upsert_totals :: "uuid \<Rightarrow> ((uuid \<times> date) \<times> int) list \<Rightarrow> db \<Rightarrow> db" where
  "upsert_totals tenant_id [] d = d"
| "upsert_totals tenant_id (((rt, day), n) # rows) d =
     upsert_totals tenant_id rows
       (if has_bucket d (tenant_id, rt, day)
        then d\<lparr>ledger := update_rows (\<lambda>r. al_bucket r = (tenant_id, rt, day)) (\<lambda>r. r\<lparr>al_total_rooms := n\<rparr>) (ledger d)\<rparr>
        else insert_ledger tenant_id rt day n d)"

definition bulk_seed_availability_ledger :: "db \<Rightarrow> uuid \<Rightarrow> seed_segment list \<Rightarrow> (nat \<times> db) result" where
  "bulk_seed_availability_ledger d tenant_id segments =
     r_bind (collect_nights d tenant_id segments []) (\<lambda>rows.
       if rows = [] then Inr (0, d) else Inr (length rows, upsert_totals tenant_id rows d))"

subsection \<open>Recalculation\<close>

definition recalculate_ledger_total_rooms :: "uuid \<Rightarrow> uuid \<Rightarrow> db \<Rightarrow> db" where
  "recalculate_ledger_total_rooms tenant_id room_type_id d =
     d\<lparr>ledger := update_rows
         (\<lambda>r. al_tenant_id r = tenant_id \<and> al_room_type_id r = room_type_id \<and> utc_today d \<le> al_date r)
         (\<lambda>r. r\<lparr>al_total_rooms := count_rooms_for_room_type d tenant_id room_type_id\<rparr>) (ledger d)\<rparr>"

subsection \<open>Elementary writes\<close>

text \<open>
  Every operation of this theory is a sequence of three elementary writes, which keep the
  inventory invariant: a new row without bookings, the block counter of some rows, the capacity
  of some rows of one room type set to its live rooms.
\<close>

inductive admin_write :: "db \<Rightarrow> db \<Rightarrow> bool" where
  new_row: "\<not> has_bucket d (t, rt, day) \<Longrightarrow> n = count_rooms_for_room_type d t rt \<Longrightarrow>
     admin_write d (insert_ledger t rt day n d)"
| blocked: "admin_write d (d\<lparr>ledger := update_rows P (\<lambda>r. r\<lparr>al_blocked_rooms := n\<rparr>) (ledger d)\<rparr>)"
| capacity: "(\<And>r. P r \<Longrightarrow> al_tenant_id r = t \<and> al_room_type_id r = rt) \<Longrightarrow> n = count_rooms_for_room_type d t rt \<Longrightarrow>
     admin_write d (d\<lparr>ledger := update_rows P (\<lambda>r. r\<lparr>al_total_rooms := n\<rparr>) (ledger d)\<rparr>)"

definition hotel_inv :: "db \<Rightarrow> bool" where
  "hotel_inv d \<longleftrightarrow> inventory_inv d \<and> ledger_fresh d"

definition totals_current :: "db \<Rightarrow> bool" where
  "totals_current d \<longleftrightarrow> list_all (\<lambda>r. utc_today d \<le> al_date r \<longrightarrow>
     al_total_rooms r = count_rooms_for_room_type d (al_tenant_id r) (al_room_type_id r)) (ledger d)"

lemma fleet_today: "fleet d' = fleet d \<Longrightarrow> utc_today d' = utc_today d"
  by (simp add: fleet_def)

lemma count_alt: "count_rooms_for_room_type d t rt =
    int (length (filter (\<lambda>(i, a, b, c). a = t \<and> b = rt \<and> c) (snd (fleet d))))"
  by (simp add: count_rooms_for_room_type_def fleet_def filter_map comp_def)

lemma fleet_count: "fleet d' = fleet d \<Longrightarrow> count_rooms_for_room_type d' t rt = count_rooms_for_room_type d t rt"
  by (simp add: count_alt)

lemma insert_ledger_fleet [simp]: "fleet (insert_ledger t rt day n d) = fleet d"
  by (simp add: insert_ledger_def)

lemma admin_write_fleet: "admin_write d d' \<Longrightarrow> fleet d' = fleet d"
  by (cases rule: admin_write.cases) auto

lemma inv_rewrite_rows:
  assumes inv: "inventory_inv d"
    and f: "\<And>r. al_id (f r) = al_id r \<and> al_bucket (f r) = al_bucket r \<and> al_booked_rooms (f r) = al_booked_rooms r"
  shows "inventory_inv (d\<lparr>ledger := update_rows P f (ledger d)\<rparr>)"
proof -
  let ?d = "d\<lparr>ledger := update_rows P f (ledger d)\<rparr>"
  note i = inventory_invD [OF inv]
  have "map_option al_booked_rooms (find (\<lambda>r. al_bucket r = k) (update_rows P f rows)) =
      map_option al_booked_rooms (find (\<lambda>r. al_bucket r = k) rows)" for k rows
    by (induction rows) (auto simp: update_rows_def f)
  then have "booked ?d k = booked d k" for k
    unfolding booked_def booked_at_def bucket_row_def lookup_row_def by simp
  moreover have "ledger_wf ?d"
    using i(1) f by (simp add: ledger_wf_def map_update_rows_inv)
  moreover have "occupied ?d k = occupied d k" for k by (simp add: occupied_def)
  ultimately show ?thesis
    using i(2-4) by (intro inventory_invI) (simp_all add: i(5) bookings_ok_def)
qed

lemma inv_insert_row:
  assumes inv: "inventory_inv d" "ledger_fresh d" and new: "\<not> has_bucket d (t, rt, day)"
  shows "inventory_inv (insert_ledger t rt day n d)"
proof -
  let ?d = "insert_ledger t rt day n d"
  note i = inventory_invD [OF inv(1)]
  have nb: "(t, rt, day) \<notin> al_bucket ` set (ledger d)" using new by (simp add: has_bucket_def)
  have "booked ?d k = booked d k" for k
  proof (cases "k = (t, rt, day)")
    case True
    have "booked_at d k = None" using nb True by (simp add: booked_at_def bucket_row_def tb_bucket.lookup_None)
    moreover have "booked_at ?d k = Some 0"
      using nb True by (simp add: booked_at_def bucket_row_def insert_ledger_def tb_bucket.lookup_insert al_bucket_def)
    ultimately show ?thesis unfolding booked_def by simp
  next
    case False
    then have "bucket_row ?d k = bucket_row d k"
      unfolding bucket_row_def insert_ledger_def by (simp add: tb_bucket.lookup_insert_other al_bucket_def)
    then show ?thesis by (simp add: booked_def booked_at_def)
  qed
  moreover have "ledger_wf ?d"
    using i(1) nb inv(2) by (auto simp: ledger_wf_def insert_ledger_def al_bucket_def ledger_fresh_def list_all_iff)
  moreover have "bookings_ok ?d"
    using i(2) by (auto simp: bookings_ok_def insert_ledger_def list_all_iff)
  moreover have "occupied ?d k = occupied d k" for k by (simp add: occupied_def insert_ledger_def)
  ultimately show ?thesis
    using i(3,4) by (intro inventory_invI) (simp_all add: i(5) insert_ledger_def)
qed

lemma fresh_insert_row: "ledger_fresh d \<Longrightarrow> ledger_fresh (insert_ledger t rt day n d)"
  by (auto simp: ledger_fresh_def insert_ledger_def list_all_iff)

lemma fresh_rewrite_rows:
  "ledger_fresh d \<Longrightarrow> (\<And>r. al_id (f r) = al_id r) \<Longrightarrow> ledger_fresh (d\<lparr>ledger := update_rows P f (ledger d)\<rparr>)"
  by (auto simp: ledger_fresh_def list_all_iff set_update_rows)

interpretation admin_inventory: invariant_system admin_write hotel_inv
proof
  fix d d'
  assume "hotel_inv d" "admin_write d d'"
  from this(2,1) show "hotel_inv d'"
    by cases (auto simp: hotel_inv_def intro!: inv_insert_row fresh_insert_row inv_rewrite_rows fresh_rewrite_rows)
qed

interpretation admin_totals: invariant_system admin_write totals_current
proof
  fix d d'
  assume tot: "totals_current d" and w: "admin_write d d'"
  note fl = fleet_today [OF admin_write_fleet [OF w]] fleet_count [OF admin_write_fleet [OF w]]
  from w show "totals_current d'"
    by cases (use tot fl in \<open>auto simp: totals_current_def list_all_iff set_update_rows insert_ledger_def\<close>)
qed

lemma admin_writes_fleet: "admin_write\<^sup>*\<^sup>* d d' \<Longrightarrow> fleet d' = fleet d"
  by (induction rule: rtranclp_induct) (auto dest: admin_write_fleet)

interpretation capacity: ledger_predicate totals_current
proof
  show "ledger_kept d d' \<Longrightarrow> totals_current d \<Longrightarrow> totals_current d'" for d d'
  proof -
    assume k: "ledger_kept d d'" and tot: "totals_current d"
    then have fl: "fleet d' = fleet d" "ledger d' = ledger d" by (simp_all add: ledger_kept_def)
    show ?thesis using tot unfolding totals_current_def fl(2) fleet_today [OF fl(1)] fleet_count [OF fl(1)] .
  qed
qed (auto simp: totals_current_def bump_booked_def list_all_iff set_update_rows count_rooms_for_room_type_def)

lemma block_rows_writes: "block_rows rows n d = Inr d' \<Longrightarrow> admin_write\<^sup>*\<^sup>* d d'"
proof (induction rows n d rule: block_rows.induct)
  case (2 row rows n d)
  then show ?case by (auto split: if_splits intro: converse_rtranclp_into_rtranclp admin_write.blocked)
qed simp

lemma seed_days_writes:
  "seed_days t rt n days d = Inr d' \<Longrightarrow> n = count_rooms_for_room_type d t rt \<Longrightarrow> admin_write\<^sup>*\<^sup>* d d'"
proof (induction days arbitrary: d)
  case (Cons day days)
  let ?d = "insert_ledger t rt day n d"
  from Cons.prems have w: "admin_write d ?d" by (auto intro: admin_write.new_row split: if_splits)
  then have "n = count_rooms_for_room_type ?d t rt" using Cons.prems(2) fleet_count [OF admin_write_fleet] by metis
  with Cons w show ?case by (auto split: if_splits intro: converse_rtranclp_into_rtranclp)
qed simp

lemma insert_days_writes:
  "insert_days_do_nothing t rt n days (k, d) = (k', d') \<Longrightarrow> n = count_rooms_for_room_type d t rt \<Longrightarrow> admin_write\<^sup>*\<^sup>* d d'"
proof (induction days arbitrary: k d)
  case (Cons day days)
  let ?d = "insert_ledger t rt day n d"
  show ?case
  proof (cases "has_bucket d (t, rt, day)")
    case True
    with Cons show ?thesis by simp
  next
    case False
    with Cons.prems(2) have w: "admin_write d ?d" by (auto intro: admin_write.new_row)
    then have "n = count_rooms_for_room_type ?d t rt" using Cons.prems(2) fleet_count [OF admin_write_fleet] by metis
    with Cons False w show ?thesis by (auto intro: converse_rtranclp_into_rtranclp)
  qed
qed simp

lemma extend_room_type_writes: "extend_room_type n rt (k, d) = Inr (k', d') \<Longrightarrow> admin_write\<^sup>*\<^sup>* d d'"
  by (auto simp: extend_room_type_def Let_def seed_empty_availability_ledger_year_forward_def
      split: option.splits intro: seed_days_writes insert_days_writes)

lemma extend_room_types_writes: "extend_room_types n rts s = Inr s' \<Longrightarrow> admin_write\<^sup>*\<^sup>* (snd s) (snd s')"
proof (induction n rts s rule: extend_room_types.induct)
  case (2 n rt rts s)
  then obtain s1 where "extend_room_type n rt s = Inr s1" "extend_room_types n rts s1 = Inr s'" by auto
  with "2.IH" extend_room_type_writes [of n rt "fst s" "snd s" "fst s1" "snd s1"] show ?case
    by (auto intro: rtranclp_trans)
qed simp

lemma extend_writes: "extend_availability_ledger_days d rls n = Inr (k, d') \<Longrightarrow> admin_write\<^sup>*\<^sup>* d d'"
  using extend_room_types_writes [of _ _ "(0, d)" "(k, d')"]
  by (auto simp: extend_availability_ledger_days_def split: if_splits)

definition counted :: "db \<Rightarrow> uuid \<Rightarrow> (uuid \<times> date) \<times> int \<Rightarrow> bool" where
  "counted d t x \<longleftrightarrow> snd x = count_rooms_for_room_type d t (fst (fst x))"

lemma upsert_totals_writes:
  "\<forall>x\<in>set rows. counted d t x \<Longrightarrow> admin_write\<^sup>*\<^sup>* d (upsert_totals t rows d)"
proof (induction t rows d rule: upsert_totals.induct)
  case (2 t rt day n rows d)
  let ?d = "if has_bucket d (t, rt, day)
        then d\<lparr>ledger := update_rows (\<lambda>r. al_bucket r = (t, rt, day)) (\<lambda>r. r\<lparr>al_total_rooms := n\<rparr>) (ledger d)\<rparr>
        else insert_ledger t rt day n d"
  have n: "n = count_rooms_for_room_type d t rt" using "2.prems" by (simp add: counted_def)
  have w: "admin_write d ?d"
    using admin_write.new_row [OF _ n, of day] admin_write.capacity [OF _ n, of "\<lambda>r. al_bucket r = (t, rt, day)"]
    by (auto simp: al_bucket_def)
  have "\<forall>x\<in>set rows. counted ?d t x"
    unfolding counted_def fleet_count [OF admin_write_fleet [OF w]] using "2.prems" by (simp add: counted_def)
  from "2.IH" [OF this] w show ?case by (simp add: converse_rtranclp_into_rtranclp)
qed simp

lemma dict_put_all:
  "\<forall>x\<in>set kvs. Q x \<Longrightarrow> Q (k, v) \<Longrightarrow> \<forall>x\<in>set (dict_put k v kvs). Q x"
  using set_dict_put by fast

lemma collect_nights_totals:
  "collect_nights d t segs by_key = Inr rows \<Longrightarrow> \<forall>x\<in>set by_key. counted d t x \<Longrightarrow> \<forall>x\<in>set rows. counted d t x"
proof (induction d t segs by_key rule: collect_nights.induct)
  case (2 d t seg segs by_key)
  let ?n = "count_rooms_for_room_type d t (ss_room_type_id seg)"
  let ?kvs = "fold (\<lambda>day. dict_put (ss_room_type_id seg, day) ?n) (iter_inclusive_dates (ss_start_date seg) (ss_end_date seg)) by_key"
  have "\<forall>x\<in>set (fold (\<lambda>day. dict_put (ss_room_type_id seg, day) ?n) days kvs). counted d t x"
    if "\<forall>x\<in>set kvs. counted d t x" for days kvs
    using that
  proof (induction days arbitrary: kvs)
    case (Cons day days)
    have "\<forall>x\<in>set (dict_put (ss_room_type_id seg, day) ?n kvs). counted d t x"
      by (rule dict_put_all [OF Cons.prems]) (simp add: counted_def)
    from Cons.IH [OF this] show ?case by simp
  qed simp
  then have "\<forall>x\<in>set ?kvs. counted d t x" using "2.prems"(2) .
  moreover from "2.prems"(1) have "collect_nights d t segs ?kvs = Inr rows"
    and "\<not> \<not> list_ex (\<lambda>r. rt_tenant_id r = t \<and> rt_id r = ss_room_type_id seg) (room_types d)"
    by (auto simp: Let_def split: if_splits)
  ultimately show ?case using "2.IH" by blast
qed simp

lemma bulk_seed_writes:
  assumes "bulk_seed_availability_ledger d t segs = Inr (k, d')"
  shows "admin_write\<^sup>*\<^sup>* d d'"
proof -
  from assms obtain rows where "collect_nights d t segs [] = Inr rows" "d' = d \<or> d' = upsert_totals t rows d"
    by (auto simp: bulk_seed_availability_ledger_def split: if_splits)
  with collect_nights_totals [of d t segs "[]" rows] upsert_totals_writes [of rows d t] show ?thesis by auto
qed

lemma override_writes: "apply_blocked_rooms_override d t body = Inr (x, d') \<Longrightarrow> admin_write\<^sup>*\<^sup>* d d'"
  by (auto simp: apply_blocked_rooms_override_def Let_def split: if_splits intro: block_rows_writes)

lemma recalculate_write: "admin_write d (recalculate_ledger_total_rooms t rt d)"
  unfolding recalculate_ledger_total_rooms_def by (rule admin_write.capacity [of _ t rt]) auto

subsection \<open>What the operations do\<close>

definition set_blocked :: "bucket set \<Rightarrow> int \<Rightarrow> db \<Rightarrow> db" where
  "set_blocked K n d = d\<lparr>ledger := update_rows (\<lambda>r. al_bucket r \<in> K) (\<lambda>r. r\<lparr>al_blocked_rooms := n\<rparr>) (ledger d)\<rparr>"

lemma block_rows_eq:
  "block_rows rows n d =
     (if \<exists>r\<in>set rows. al_total_rooms r - al_booked_rooms r < n
      then Inl (AvailabilityOverrideError ''blocked_rooms exceeds capacity'' 409)
      else Inr (d\<lparr>ledger := update_rows (\<lambda>r. al_id r \<in> al_id ` set rows) (\<lambda>r. r\<lparr>al_blocked_rooms := n\<rparr>) (ledger d)\<rparr>))"
proof (induction rows n d rule: block_rows.induct)
  case (1 n d)
  then show ?case by (simp add: update_rows_def)
next
  case (2 row rows n d)
  have upd: "update_rows (\<lambda>r. al_id r \<in> al_id ` set rows) (\<lambda>r. r\<lparr>al_blocked_rooms := n\<rparr>)
      (update_rows (\<lambda>r. al_id r = al_id row) (\<lambda>r. r\<lparr>al_blocked_rooms := n\<rparr>) al) =
    update_rows (\<lambda>r. al_id r \<in> al_id ` set (row # rows)) (\<lambda>r. r\<lparr>al_blocked_rooms := n\<rparr>) al" for al
    by (auto simp: update_rows_def)
  show ?case
  proof (cases "al_total_rooms row - al_booked_rooms row < n")
    case False
    then have "block_rows (row # rows) n d = block_rows rows n (d\<lparr>ledger := update_rows (\<lambda>r. al_id r = al_id row)
        (\<lambda>r. r\<lparr>al_blocked_rooms := n\<rparr>) (ledger d)\<rparr>)" by simp
    with "2.IH" [OF False] show ?thesis using False upd [of "ledger d"] by simp
  qed simp
qed

lemma set_blocked_fits:
  assumes "no_overbooking d" "\<not> (\<exists>r\<in>set (ledger_select d t rt dates). al_total_rooms r - al_booked_rooms r < n)"
  shows "no_overbooking (set_blocked (stay_buckets t rt dates) n d)"
  using assms unfolding no_overbooking_def set_blocked_def list_all_iff
  by (auto simp: set_update_rows ledger_select_iff not_less algebra_simps)

lemma override_eq:
  assumes wf: "ledger_wf d" and valid: "override_put_valid body"
  shows "apply_blocked_rooms_override d t body =
    (let dates = [op_start_date body..op_end_date body]; rt = op_room_type_id body
     in if \<not> seeded d t rt dates then Inl LedgerNotSeededError
        else if \<exists>r\<in>set (ledger_select d t rt dates). al_total_rooms r - al_booked_rooms r < op_blocked_rooms body
        then Inl (AvailabilityOverrideError ''blocked_rooms exceeds capacity'' 409)
        else Inr ((length dates, rt, dates), set_blocked (stay_buckets t rt dates) (op_blocked_rooms body) d))"
proof -
  let ?rt = "op_room_type_id body" and ?dates = "[op_start_date body..op_end_date body]"
  have dates: "iter_inclusive_dates (op_start_date body) (op_end_date body) = ?dates" "?dates \<noteq> []"
    using valid by (simp_all add: iter_inclusive_dates_upto override_put_valid_def)
  have K: "set (sort_key al_date (ledger_select d t ?rt ?dates)) = {r \<in> set (ledger d). al_bucket r \<in> stay_buckets t ?rt ?dates}"
    by (auto simp: ledger_select_iff)
  have "distinct ?dates" by simp
  from select_length_seeded [OF wf this] dates update_by_id_eq_by_bucket [OF wf K] show ?thesis
    by (auto simp: apply_blocked_rooms_override_def Let_def block_rows_eq set_blocked_def)
qed



subsection \<open>The extended horizon\<close>

definition append_days :: "uuid \<Rightarrow> uuid \<Rightarrow> int \<Rightarrow> date list \<Rightarrow> db \<Rightarrow> db" where
  "append_days t rt n days d = fold (\<lambda>day. insert_ledger t rt day n) days d"

definition next_day :: "db \<Rightarrow> uuid \<Rightarrow> uuid \<Rightarrow> date" where
  "next_day d t rt = (case ledger_max_date d t rt of None \<Rightarrow> utc_today d | Some m \<Rightarrow> m + 1)"

lemma days_from_facts: "set (days_from s n) = {s..<s + int n}" "distinct (days_from s n)" "length (days_from s n) = n"
proof -
  have "x \<in> (\<lambda>offset. s + int offset) ` {0..<n}" if "s \<le> x" "x < s + int n" for x
    using that by (intro image_eqI [of _ _ "nat (x - s)"]) auto
  then show "set (days_from s n) = {s..<s + int n}" by (auto simp: days_from_def)
  show "distinct (days_from s n)" "length (days_from s n) = n"
    by (auto simp: days_from_def distinct_map inj_on_def)
qed

lemma has_bucket_insert [simp]:
  "has_bucket (insert_ledger t rt day n d) k \<longleftrightarrow> has_bucket d k \<or> k = (t, rt, day)"
  by (auto simp: has_bucket_def insert_ledger_def al_bucket_def)

lemma no_conflict:
  "\<forall>day\<in>set days. \<not> has_bucket d (t, rt, day) \<Longrightarrow> distinct days \<Longrightarrow>
   seed_days t rt n days d = Inr (append_days t rt n days d) \<and>
   insert_days_do_nothing t rt n days (k, d) = (k + length days, append_days t rt n days d)"
proof (induction days arbitrary: d k)
  case (Cons a days)
  have new: "\<forall>day\<in>set days. \<not> has_bucket (insert_ledger t rt a n d) (t, rt, day)" "distinct days"
    using Cons.prems by auto
  with Cons.IH [OF new] Cons.prems show ?case by (simp add: append_days_def)
qed (simp add: append_days_def)

lemma next_day_free: "next_day d t rt \<le> day \<Longrightarrow> \<not> has_bucket d (t, rt, day)"
proof (cases "ledger_max_date d t rt")
  case None
  then show ?thesis
    by (auto simp: ledger_max_date_def Let_def has_bucket_def al_bucket_def filter_empty_conv split: if_splits)
next
  case (Some m)
  let ?ds = "map al_date (filter (\<lambda>r. al_tenant_id r = t \<and> al_room_type_id r = rt) (ledger d))"
  from Some have m: "m = Max (set ?ds)" by (simp add: ledger_max_date_def Let_def split: if_splits)
  assume "next_day d t rt \<le> day"
  with Some have "m < day" by (simp add: next_day_def)
  then have "day \<notin> set ?ds" unfolding m by (metis List.finite_set Max_ge not_le)
  then show ?thesis by (auto simp: has_bucket_def al_bucket_def)
qed

lemma extend_room_type_eq:
  "extend_room_type n rt (k, d) = Inr (k + n, append_days (rt_tenant_id rt) (rt_id rt)
     (count_rooms_for_room_type d (rt_tenant_id rt) (rt_id rt)) (days_from (next_day d (rt_tenant_id rt) (rt_id rt)) n) d)"
proof -
  let ?t = "rt_tenant_id rt" and ?rt = "rt_id rt"
  have free: "\<forall>day\<in>set (days_from (next_day d ?t ?rt) n). \<not> has_bucket d (?t, ?rt, day)"
    using next_day_free by (simp add: days_from_facts(1))
  note nc = no_conflict [OF free days_from_facts(2), of "count_rooms_for_room_type d ?t ?rt"]
  show ?thesis
  proof (cases "ledger_max_date d ?t ?rt")
    case None
    then have "next_day d ?t ?rt = utc_today d" by (simp add: next_day_def)
    with nc None show ?thesis
      by (simp add: extend_room_type_def Let_def seed_empty_availability_ledger_year_forward_def)
  next
    case (Some m)
    then have "next_day d ?t ?rt = m + 1" by (simp add: next_day_def)
    with nc [of k] Some show ?thesis by (simp add: extend_room_type_def Let_def days_from_facts(3))
  qed
qed

definition stock_at :: "db \<Rightarrow> bucket \<Rightarrow> (int \<times> int \<times> int) option" where
  "stock_at d k = map_option (\<lambda>r. (al_total_rooms r, al_booked_rooms r, al_blocked_rooms r)) (bucket_row d k)"

lemma stock_at_None: "stock_at d k = None \<longleftrightarrow> \<not> has_bucket d k"
  by (simp add: stock_at_def bucket_row_def tb_bucket.lookup_None has_bucket_def)

lemma stock_at_insert:
  assumes "\<not> has_bucket d (t, rt, day)"
  shows "stock_at (insert_ledger t rt day n d) k = (if k = (t, rt, day) then Some (n, 0, 0) else stock_at d k)"
proof (cases "k = (t, rt, day)")
  case True
  with assms show ?thesis
    by (simp add: stock_at_def bucket_row_def insert_ledger_def has_bucket_def tb_bucket.lookup_insert al_bucket_def)
next
  case False
  then show ?thesis
    unfolding stock_at_def bucket_row_def insert_ledger_def by (simp add: tb_bucket.lookup_insert_other al_bucket_def)
qed

lemma stock_at_append:
  "\<forall>day\<in>set days. \<not> has_bucket d (t, rt, day) \<Longrightarrow> distinct days \<Longrightarrow>
   stock_at (append_days t rt n days d) k = (if k \<in> stay_buckets t rt days then Some (n, 0, 0) else stock_at d k)"
proof (induction days arbitrary: d)
  case (Cons day days)
  let ?d = "insert_ledger t rt day n d"
  have "\<forall>x\<in>set days. \<not> has_bucket ?d (t, rt, x)" "distinct days" using Cons.prems by auto
  from Cons.IH [OF this] Cons.prems show ?case
    by (cases k) (auto simp: append_days_def stock_at_insert)
qed (simp add: append_days_def stay_buckets_def)

lemma append_days_fleet: "fleet (append_days t rt n days d) = fleet d"
  unfolding append_days_def by (induction days arbitrary: d) auto

lemma next_day_append_other:
  "(t', rt') \<noteq> (t, rt) \<Longrightarrow> next_day (append_days t rt n days d) t' rt' = next_day d t' rt'"
proof -
  assume ne: "(t', rt') \<noteq> (t, rt)"
  have "filter (\<lambda>r. al_tenant_id r = t' \<and> al_room_type_id r = rt') (ledger (append_days t rt n days d)) =
      filter (\<lambda>r. al_tenant_id r = t' \<and> al_room_type_id r = rt') (ledger d)"
    unfolding append_days_def using ne by (induction days arbitrary: d) (auto simp: insert_ledger_def)
  then show ?thesis
    using fleet_today [OF append_days_fleet] by (simp add: next_day_def ledger_max_date_def Let_def)
qed

definition rt_key :: "room_type_row \<Rightarrow> uuid \<times> uuid" where
  "rt_key rt = (rt_tenant_id rt, rt_id rt)"

lemma extend_room_types_eq:
  assumes "distinct (map rt_key rts)"
  shows "\<exists>d'. extend_room_types n rts (k, d) = Inr (k + n * length rts, d') \<and>
    (\<forall>t rt day. stock_at d' (t, rt, day) =
       (if (t, rt) \<in> rt_key ` set rts \<and> next_day d t rt \<le> day \<and> day < next_day d t rt + int n
        then Some (count_rooms_for_room_type d t rt, 0, 0) else stock_at d (t, rt, day)))"
  using assms
proof (induction rts arbitrary: k d)
  case (Cons r rts)
  let ?t = "rt_tenant_id r" and ?rt = "rt_id r"
  let ?c = "count_rooms_for_room_type d ?t ?rt" and ?days = "days_from (next_day d ?t ?rt) n"
  define d1 where "d1 = append_days ?t ?rt ?c ?days d"
  have free: "\<forall>day\<in>set ?days. \<not> has_bucket d (?t, ?rt, day)" using next_day_free by (simp add: days_from_facts(1))
  note s1 = stock_at_append [OF free days_from_facts(2), of ?c, folded d1_def]
  have fl: "fleet d1 = fleet d" by (simp add: d1_def append_days_fleet)
  from Cons obtain d' where
    run: "extend_room_types n rts (k + n, d1) = Inr (k + n + n * length rts, d')" and
    st: "\<And>t rt day. stock_at d' (t, rt, day) =
       (if (t, rt) \<in> rt_key ` set rts \<and> next_day d1 t rt \<le> day \<and> day < next_day d1 t rt + int n
        then Some (count_rooms_for_room_type d1 t rt, 0, 0) else stock_at d1 (t, rt, day))"
    by fastforce
  have "extend_room_types n (r # rts) (k, d) = Inr (k + n * length (r # rts), d')"
    using run by (simp add: extend_room_type_eq d1_def)
  moreover have "stock_at d' (t, rt, day) =
       (if (t, rt) \<in> rt_key ` set (r # rts) \<and> next_day d t rt \<le> day \<and> day < next_day d t rt + int n
        then Some (count_rooms_for_room_type d t rt, 0, 0) else stock_at d (t, rt, day))" for t rt day
  proof (cases "(t, rt) = rt_key r")
    case True
    with Cons.prems have "(t, rt) \<notin> rt_key ` set rts" by simp
    with True show ?thesis by (simp add: st s1 days_from_facts(1) rt_key_def)
  next
    case False
    then have "next_day d1 t rt = next_day d t rt" "(t, rt) \<noteq> (?t, ?rt)"
      using next_day_append_other by (auto simp: d1_def rt_key_def)
    with False show ?thesis by (auto simp: st s1 fleet_count [OF fl])
  qed
  ultimately show ?case by blast
qed simp

text \<open>
  C13. Extending the horizon never fails and inserts exactly the announced number of rows: for
  every room type the session sees, the days following its last ledger day (from today where it
  has none) get a row with the live room count and nothing booked or blocked; no other row
  changes.
\<close>

theorem extension_is_exact:
  assumes "1 \<le> n" "distinct (map rt_key (room_types d))"
  shows "\<exists>d'. extend_availability_ledger_days d rls n = Inr (nat n * length (visible_room_types d rls), d') \<and>
    (\<forall>t rt day. stock_at d' (t, rt, day) =
       (if (t, rt) \<in> rt_key ` set (visible_room_types d rls) \<and> next_day d t rt \<le> day \<and> day < next_day d t rt + n
        then Some (count_rooms_for_room_type d t rt, 0, 0) else stock_at d (t, rt, day)))"
proof -
  have "distinct (map rt_key (visible_room_types d rls))" using assms(2) by (simp add: visible_room_types_def distinct_map_filter)
  from extend_room_types_eq [OF this, of "nat n" 0 d] assms(1) show ?thesis
    by (simp add: extend_availability_ledger_days_def)
qed

theorem extension_is_exact_witness:
  "\<exists>d'. extend_availability_ledger_days demo_db (Some 1) 3 = Inr (3, d') \<and> stock_at d' (1, 20, 106) = Some (2, 0, 0)"
proof -
  have d: "distinct (map rt_key (room_types demo_db))" by code_simp
  have s: "length (visible_room_types demo_db (Some 1)) = 1" "rt_key ` set (visible_room_types demo_db (Some 1)) = {(1, 20)}"
    by (simp_all add: demo_db_def rt_key_def visible_room_types_def)
  have n: "next_day demo_db 1 20 = 104" "count_rooms_for_room_type demo_db 1 20 = 2" by code_simp+
  from extension_is_exact [of 3 demo_db "Some 1", OF _ d] obtain d' where
    r: "extend_availability_ledger_days demo_db (Some 1) 3 = Inr (3, d')" and
    st: "\<forall>t rt day. stock_at d' (t, rt, day) = (if (t, rt) \<in> {(1, 20)} \<and> next_day demo_db t rt \<le> day \<and> day < next_day demo_db t rt + 3
        then Some (count_rooms_for_room_type demo_db t rt, 0, 0) else stock_at demo_db (t, rt, day))"
    by (auto simp: s)
  from st [rule_format, of 1 20 106] r n show ?thesis by simp
qed

text \<open>
  On a connection that bypasses row-level security each tenant's turn extends the room types of
  all tenants: with two tenants, one day of extension adds two.
\<close>

lemma superuser_extension_repeats:
  "map_option fst (case extend_for_tenants True 1 [1, 2] (0, demo_db) of Inr x \<Rightarrow> Some x | Inl _ \<Rightarrow> None) = Some 2 \<and>
   map_option fst (case extend_for_tenants False 1 [1, 2] (0, demo_db) of Inr x \<Rightarrow> Some x | Inl _ \<Rightarrow> None) = Some 1"
  by code_simp

subsection \<open>The refreshed nights\<close>

definition in_segment :: "uuid \<times> date \<Rightarrow> seed_segment \<Rightarrow> bool" where
  "in_segment x seg \<longleftrightarrow> fst x = ss_room_type_id seg \<and> ss_start_date seg \<le> snd x \<and> snd x \<le> ss_end_date seg"

lemma fold_dict_put:
  "fst ` set (fold (\<lambda>day. dict_put (rt, day) n) days kvs) = {rt} \<times> set days \<union> fst ` set kvs"
  "distinct (map fst kvs) \<Longrightarrow> distinct (map fst (fold (\<lambda>day. dict_put (rt, day) n) days kvs))"
  by (induction days arbitrary: kvs) (auto simp: fst_dict_put distinct_dict_put)

lemma collect_nights_keys:
  "collect_nights d t segs by_key = Inr rows \<Longrightarrow>
     fst ` set rows = {x. list_ex (in_segment x) segs} \<union> fst ` set by_key \<and>
     (distinct (map fst by_key) \<longrightarrow> distinct (map fst rows))"
proof (induction d t segs by_key rule: collect_nights.induct)
  case (2 d t seg segs by_key)
  let ?n = "count_rooms_for_room_type d t (ss_room_type_id seg)"
  let ?kvs = "fold (\<lambda>day. dict_put (ss_room_type_id seg, day) ?n) (iter_inclusive_dates (ss_start_date seg) (ss_end_date seg)) by_key"
  from "2.prems" have "collect_nights d t segs ?kvs = Inr rows"
    and "\<not> \<not> list_ex (\<lambda>r. rt_tenant_id r = t \<and> rt_id r = ss_room_type_id seg) (room_types d)"
    by (auto simp: Let_def split: if_splits)
  from "2.IH" [OF this(2) refl this(1)] have ih: "fst ` set rows = {x. list_ex (in_segment x) segs} \<union> fst ` set ?kvs"
    "distinct (map fst ?kvs) \<longrightarrow> distinct (map fst rows)" by auto
  have "{x. list_ex (in_segment x) (seg # segs)} =
      {x. list_ex (in_segment x) segs} \<union> {ss_room_type_id seg} \<times> {ss_start_date seg..ss_end_date seg}"
    by (auto simp: in_segment_def)
  with ih(1) have "fst ` set rows = {x. list_ex (in_segment x) (seg # segs)} \<union> fst ` set by_key"
    by (simp add: fold_dict_put(1) iter_inclusive_dates_upto Un_assoc)
  moreover have "distinct (map fst by_key) \<longrightarrow> distinct (map fst rows)"
    by (intro impI ih(2) [rule_format] fold_dict_put(2))
  ultimately show ?case by simp
qed (auto simp: list_ex_iff)

lemma stock_at_capacity:
  "stock_at (d\<lparr>ledger := update_rows (\<lambda>r. al_bucket r = k') (\<lambda>r. r\<lparr>al_total_rooms := n\<rparr>) (ledger d)\<rparr>) k =
     (if k = k' then map_option (\<lambda>(_, b, c). (n, b, c)) (stock_at d k) else stock_at d k)"
  by (simp add: stock_at_def bucket_row_def tb_bucket.lookup_update option.map_comp comp_def)

lemma upsert_totals_stock:
  "distinct (map fst rows) \<Longrightarrow> stock_at (upsert_totals t rows d) (t', rt, day) =
     (if t' \<noteq> t \<or> (rt, day) \<notin> fst ` set rows then stock_at d (t', rt, day)
      else Some (the (map_of rows (rt, day)), case stock_at d (t', rt, day) of None \<Rightarrow> (0, 0) | Some (_, b, c) \<Rightarrow> (b, c)))"
proof (induction t rows d rule: upsert_totals.induct)
  case (2 t rt1 day1 n rows d)
  let ?d = "if has_bucket d (t, rt1, day1)
        then d\<lparr>ledger := update_rows (\<lambda>r. al_bucket r = (t, rt1, day1)) (\<lambda>r. r\<lparr>al_total_rooms := n\<rparr>) (ledger d)\<rparr>
        else insert_ledger t rt1 day1 n d"
  have here: "stock_at ?d (t', rt, day) = (if (t', rt, day) = (t, rt1, day1)
      then Some (n, case stock_at d (t', rt, day) of None \<Rightarrow> (0, 0) | Some (_, b, c) \<Rightarrow> (b, c)) else stock_at d (t', rt, day))"
    using stock_at_None [of d "(t', rt, day)"]
    by (auto simp: stock_at_capacity stock_at_insert split: option.splits)
  have new: "distinct (map fst rows)" "(rt1, day1) \<notin> fst ` set rows" using "2.prems" by auto
  have run: "upsert_totals t (((rt1, day1), n) # rows) d = upsert_totals t rows ?d" by simp
  show ?case
  proof (cases "(t', rt, day) = (t, rt1, day1)")
    case True
    then show ?thesis unfolding run "2.IH" [OF new(1)] here using new(2) by simp
  next
    case False
    then show ?thesis unfolding run "2.IH" [OF new(1)] here by (auto simp: image_iff)
  qed
qed simp

text \<open>
  The bulk refresh writes exactly the nights its segments name: each of them afterwards has
  the live room count of its category as capacity, keeps what is booked and blocked (nothing for
  a new row), and every other ledger row is untouched. The number returned is the number of such
  nights.
\<close>

theorem bulk_seed_refreshes:
  assumes "bulk_seed_availability_ledger d t segs = Inr (n, d')"
  shows "n = card {x. list_ex (in_segment x) segs} \<and>
    (\<forall>t' rt day. stock_at d' (t', rt, day) =
      (if t' = t \<and> list_ex (in_segment (rt, day)) segs
       then Some (count_rooms_for_room_type d t rt,
         case stock_at d (t, rt, day) of None \<Rightarrow> (0, 0) | Some (_, b, c) \<Rightarrow> (b, c))
       else stock_at d (t', rt, day)))"
proof -
  from assms obtain rows where rows: "collect_nights d t segs [] = Inr rows" "n = length rows" "d' = upsert_totals t rows d"
    by (auto simp: bulk_seed_availability_ledger_def split: if_splits)
  have keys: "fst ` set rows = {x. list_ex (in_segment x) segs}" "distinct (map fst rows)"
    using collect_nights_keys [OF rows(1)] by auto
  have tot: "the (map_of rows (rt, day)) = count_rooms_for_room_type d t rt" if "(rt, day) \<in> fst ` set rows" for rt day
  proof -
    from that obtain m where "map_of rows (rt, day) = Some m" using map_of_eq_None_iff [of rows "(rt, day)"] by auto
    moreover from map_of_SomeD [OF this] have "counted d t ((rt, day), m)"
      using collect_nights_totals [OF rows(1)] by simp
    ultimately show ?thesis by (simp add: counted_def)
  qed
  have "n = card (fst ` set rows)" using keys(2) distinct_card [of "map fst rows"] by (simp add: rows(2))
  moreover have "stock_at d' (t', rt, day) =
      (if t' = t \<and> list_ex (in_segment (rt, day)) segs
       then Some (count_rooms_for_room_type d t rt,
         case stock_at d (t, rt, day) of None \<Rightarrow> (0, 0) | Some (_, b, c) \<Rightarrow> (b, c))
       else stock_at d (t', rt, day))" for t' rt day
    unfolding rows(3) upsert_totals_stock [OF keys(2)] using tot [of rt day] keys(1) by auto
  ultimately show ?thesis using keys(1) by simp
qed

theorem bulk_seed_refreshes_witness:
  "stock_at (commit_or_rollback demo_db (bulk_seed_availability_ledger demo_db 1
     [\<lparr>ss_room_type_id = 20, ss_start_date = 103, ss_end_date = 104\<rparr>])) (1, 20, 104) = Some (2, 0, 0)"
proof -
  let ?segs = "[\<lparr>ss_room_type_id = 20, ss_start_date = 103, ss_end_date = 104\<rparr>]"
  have ok: "succeeds (bulk_seed_availability_ledger demo_db 1 ?segs)" by code_simp
  then obtain n where r: "bulk_seed_availability_ledger demo_db 1 ?segs =
      Inr (n, commit_or_rollback demo_db (bulk_seed_availability_ledger demo_db 1 ?segs))"
    using succeeds_Inr by blast
  have n: "count_rooms_for_room_type demo_db 1 20 = 2" "stock_at demo_db (1, 20, 104) = None" by code_simp+
  from bulk_seed_refreshes [OF r] n show ?thesis by (simp add: in_segment_def)
qed

end
