(* ===== verification/Catalog.thy ===== *)
theory Catalog
  imports Booking_Steps
begin

text \<open>
  Master data of a tenant: properties (\<^verbatim>\<open>property_service.py\<close>), rate plans
  (\<^verbatim>\<open>rate_plan_service.py\<close>), guests (\<^verbatim>\<open>guest_service.py\<close>) and country packs
  (\<^verbatim>\<open>country_pack_service.py\<close>). A field of a patch body is unset (\<open>None\<close>) or set, possibly
  to null (\<open>Some None\<close>); a null where the code calls a string method raises.
\<close>

definition strip_set :: "string option option \<Rightarrow> string \<Rightarrow> string result" where
  "strip_set v old = (case v of None \<Rightarrow> Inr old | Some None \<Rightarrow> Inl AttributeError | Some (Some s) \<Rightarrow> Inr (py_strip s))"

definition not_null :: "'a option option \<Rightarrow> 'a \<Rightarrow> 'a result" where
  "not_null v old = (case v of None \<Rightarrow> Inr old | Some None \<Rightarrow> Inl IntegrityError | Some (Some x) \<Rightarrow> Inr x)"

subsection \<open>Properties\<close>

record property_create =
  pc_name :: string
  pc_timezone :: string
  pc_currency :: string
  pc_checkin_time :: int
  pc_checkout_time :: int
  pc_country_pack_code :: "string option"

record property_patch =
  pp_name :: "string option option"
  pp_timezone :: "string option option"
  pp_currency :: "string option option"
  pp_checkin_time :: "int option option"
  pp_checkout_time :: "int option option"
  pp_country_pack_code :: "string option option"

definition currency_upper :: "string \<Rightarrow> string result" where
  "currency_upper v = (let u = py_upper (py_strip v)
     in if length u = 3 \<and> list_all (\<lambda>c. CHR ''A'' \<le> c \<and> c \<le> CHR ''Z'') u then Inr u
        else Inl (ValueError ''currency must be a 3-letter ISO 4217 code''))"

text \<open>The foreign key to \<^verbatim>\<open>country_packs.code\<close>, checked without row-level security.\<close>

definition pack_fk :: "db \<Rightarrow> string option \<Rightarrow> unit result" where
  "pack_fk d code = guard (case code of None \<Rightarrow> True | Some c \<Rightarrow> list_ex (\<lambda>p. cp_code p = c) (country_packs d)) IntegrityError"

definition create_property :: "db \<Rightarrow> uuid \<Rightarrow> property_create \<Rightarrow> (property_row \<times> db) result" where
  "create_property d tenant_id data =
     (let pack_code = (case pc_country_pack_code data of None \<Rightarrow> None | Some c \<Rightarrow> if c = [] then None else Some (py_strip c));
          prop = \<lparr>pr_id = next_uuid d, pr_tenant_id = tenant_id, pr_name = py_strip (pc_name data),
                  pr_country_pack_code = pack_code, pr_timezone = pc_timezone data, pr_currency = pc_currency data,
                  pr_checkin_time = pc_checkin_time data, pr_checkout_time = pc_checkout_time data\<rparr>
      in r_bind (pack_fk d pack_code) (\<lambda>_.
           Inr (prop, d\<lparr>properties := properties d @ [prop], next_uuid := next_uuid d + 1\<rparr>)))"

definition list_properties :: "db \<Rightarrow> uuid \<Rightarrow> property_row list" where
  "list_properties d tenant_id = sort_key pr_name (filter (\<lambda>p. pr_tenant_id p = tenant_id) (properties d))"

definition get_property :: "db \<Rightarrow> uuid \<Rightarrow> uuid \<Rightarrow> property_row option" where
  "get_property d tenant_id property_id = find (\<lambda>p. pr_tenant_id p = tenant_id \<and> pr_id p = property_id) (properties d)"

definition count_bookings_for_property :: "db \<Rightarrow> uuid \<Rightarrow> uuid \<Rightarrow> nat" where
  "count_bookings_for_property d tenant_id property_id =
     length (filter (\<lambda>b. bk_property_id b = property_id \<and> bk_tenant_id b = tenant_id) (bookings d))"

definition set_property :: "property_row \<Rightarrow> property_row \<Rightarrow> db \<Rightarrow> db" where
  "set_property old new d = d\<lparr>properties := update_rows (\<lambda>p. pr_id p = pr_id old) (\<lambda>_. new) (properties d)\<rparr>"

definition update_property :: "db \<Rightarrow> uuid \<Rightarrow> uuid \<Rightarrow> property_patch \<Rightarrow> (property_row option \<times> db) result" where
  "update_property d tenant_id property_id data =
     (case get_property d tenant_id property_id of
        None \<Rightarrow> Inr (None, d)
      | Some prop \<Rightarrow>
          r_bind (strip_set (pp_name data) (pr_name prop)) (\<lambda>name.
          let code = (case pp_country_pack_code data of None \<Rightarrow> pr_country_pack_code prop
                      | Some None \<Rightarrow> None | Some (Some c) \<Rightarrow> if py_strip c = [] then None else Some (py_strip c)) in
          r_bind (not_null (pp_timezone data) (pr_timezone prop)) (\<lambda>tz.
          r_bind (not_null (pp_currency data) (pr_currency prop)) (\<lambda>cur.
          r_bind (not_null (pp_checkin_time data) (pr_checkin_time prop)) (\<lambda>ci.
          r_bind (not_null (pp_checkout_time data) (pr_checkout_time prop)) (\<lambda>co.
          r_bind (pack_fk d code) (\<lambda>_.
            let prop' = prop\<lparr>pr_name := name, pr_timezone := tz, pr_currency := cur, pr_checkin_time := ci,
                             pr_checkout_time := co, pr_country_pack_code := code\<rparr>
            in Inr (Some prop', set_property prop prop' d))))))))"

text \<open>The lock status the API reports for a property's country pack.\<close>

definition get_property_lock_status :: "db \<Rightarrow> uuid \<Rightarrow> uuid \<Rightarrow> (bool \<times> nat) option" where
  "get_property_lock_status d tenant_id property_id =
     (case get_property d tenant_id property_id of
        None \<Rightarrow> None
      | Some _ \<Rightarrow> let n = count_bookings_for_property d tenant_id property_id in Some (0 < n, n))"

subsection \<open>Rate plans\<close>

definition list_rate_plans :: "db \<Rightarrow> uuid \<Rightarrow> uuid option \<Rightarrow> rate_plan_row list" where
  "list_rate_plans d tenant_id property_id =
     sort_key rp_name (filter (\<lambda>r. rp_tenant_id r = tenant_id \<and>
        (case property_id of None \<Rightarrow> True | Some p \<Rightarrow> rp_property_id r = p)) (rate_plans d))"

definition get_rate_plan :: "db \<Rightarrow> uuid \<Rightarrow> uuid \<Rightarrow> rate_plan_row option" where
  "get_rate_plan d tenant_id rate_plan_id = find (\<lambda>r. rp_tenant_id r = tenant_id \<and> rp_id r = rate_plan_id) (rate_plans d)"

definition create_rate_plan :: "db \<Rightarrow> uuid \<Rightarrow> uuid \<Rightarrow> string \<Rightarrow> string \<Rightarrow> (rate_plan_row \<times> db) result" where
  "create_rate_plan d tenant_id property_id name cancellation_policy =
     r_bind (require (get_property d tenant_id property_id) (RatePlanServiceError ''property not found'' 404)) (\<lambda>_.
       let row = \<lparr>rp_id = next_uuid d, rp_tenant_id = tenant_id, rp_property_id = property_id, rp_name = py_strip name,
                  rp_cancellation_policy = py_strip cancellation_policy\<rparr>
       in Inr (row, d\<lparr>rate_plans := rate_plans d @ [row], next_uuid := next_uuid d + 1\<rparr>))"

definition patch_rate_plan ::
  "db \<Rightarrow> uuid \<Rightarrow> uuid \<Rightarrow> string option option \<Rightarrow> string option option \<Rightarrow> (rate_plan_row \<times> db) result" where
  "patch_rate_plan d tenant_id rate_plan_id name cancellation_policy =
     r_bind (require (get_rate_plan d tenant_id rate_plan_id) (RatePlanServiceError ''rate plan not found'' 404)) (\<lambda>row.
     r_bind (strip_set name (rp_name row)) (\<lambda>n.
     r_bind (strip_set cancellation_policy (rp_cancellation_policy row)) (\<lambda>c.
       let row' = row\<lparr>rp_name := n, rp_cancellation_policy := c\<rparr>
       in Inr (row', d\<lparr>rate_plans := update_rows (\<lambda>r. rp_id r = rp_id row) (\<lambda>_. row') (rate_plans d)\<rparr>))))"

text \<open>
  \<^verbatim>\<open>AsyncSession.delete\<close> is a coroutine function: called without \<^verbatim>\<open>await\<close> it only creates the
  coroutine, so the plan itself stays; its rates are deleted by a statement that is awaited.
\<close>

definition delete_rate_plan :: "db \<Rightarrow> uuid \<Rightarrow> uuid \<Rightarrow> db result" where
  "delete_rate_plan d tenant_id rate_plan_id =
     r_bind (require (get_rate_plan d tenant_id rate_plan_id) (RatePlanServiceError ''rate plan not found'' 404)) (\<lambda>_.
     r_bind (guard (\<not> list_ex (\<lambda>b. bk_tenant_id b = tenant_id \<and> bk_rate_plan_id b = Some rate_plan_id) (bookings d))
               (RatePlanServiceError ''cannot delete rate plan referenced by bookings'' 409)) (\<lambda>_.
       Inr (d\<lparr>rates := delete_rows (\<lambda>r. ra_tenant_id r = tenant_id \<and> ra_rate_plan_id r = rate_plan_id) (rates d)\<rparr>)))"

subsection \<open>Searching guests\<close>

text \<open>
  \<^verbatim>\<open>LIKE\<close> of PostgreSQL: \<^verbatim>\<open>%\<close> any string, \<^verbatim>\<open>_\<close> any character, a backslash makes the next
  character literal; \<^verbatim>\<open>ILIKE\<close> ignores case. The search term is not escaped.
\<close>

definition ESCAPE :: char where
  "ESCAPE = char_of (92 :: nat)"

function sql_like :: "string \<Rightarrow> string \<Rightarrow> bool" where
  "sql_like [] s \<longleftrightarrow> s = []"
| "sql_like (p # ps) s \<longleftrightarrow>
     (if p = CHR ''%'' then sql_like ps s \<or> (if s = [] then False else sql_like (p # ps) (tl s))
      else if s = [] then False
      else if p = CHR ''_'' then sql_like ps (tl s)
      else if p = ESCAPE \<and> ps \<noteq> [] then (if hd s = hd ps then sql_like (tl ps) (tl s) else False)
      else hd s = p \<and> sql_like ps (tl s))"
  by pat_completeness auto
termination
  by (relation "measure (\<lambda>(ps, s). length ps + length s)") (auto simp: neq_Nil_conv)

definition sql_ilike :: "string \<Rightarrow> string \<Rightarrow> bool" where
  "sql_ilike pattern s = sql_like (py_lower pattern) (py_lower s)"

definition guest_matches :: "string option \<Rightarrow> guest_row \<Rightarrow> bool" where
  "guest_matches q g = (case q of None \<Rightarrow> True
     | Some s \<Rightarrow> py_strip s = [] \<or>
         (let pat = ''%'' @ py_strip s @ ''%''
          in sql_ilike pat (gu_first_name g) \<or> sql_ilike pat (gu_last_name g) \<or>
             sql_ilike pat (gu_email g) \<or> sql_ilike pat (gu_phone g)))"

definition list_guests :: "db \<Rightarrow> uuid \<Rightarrow> string option \<Rightarrow> nat \<Rightarrow> nat \<Rightarrow> guest_row list \<times> nat" where
  "list_guests d tenant_id q limit offset =
     (let rows = filter (\<lambda>g. gu_tenant_id g = tenant_id \<and> guest_matches q g) (guests d)
      in (take limit (drop offset (sort_key (\<lambda>g. - gu_updated_at g) (sort_key gu_last_name rows))), length rows))"

subsection \<open>Guests\<close>

definition get_guest :: "db \<Rightarrow> uuid \<Rightarrow> uuid \<Rightarrow> guest_row option" where
  "get_guest d tenant_id guest_id = find (\<lambda>g. gu_tenant_id g = tenant_id \<and> gu_id g = guest_id) (guests d)"

record guest_booking_summary =
  gs_id :: uuid
  gs_property_id :: uuid
  gs_status :: string
  gs_source :: string
  gs_total_amount :: decimal
  gs_check_in_date :: "date option"
  gs_check_out_date :: "date option"

definition summarize_booking :: "booking_row \<Rightarrow> date list \<Rightarrow> guest_booking_summary" where
  "summarize_booking b line_dates =
     \<lparr>gs_id = bk_id b, gs_property_id = bk_property_id b, gs_status = bk_status b, gs_source = bk_source b,
      gs_total_amount = bk_total_amount b,
      gs_check_in_date = (if line_dates = [] then None else Some (Min (set line_dates))),
      gs_check_out_date = (if line_dates = [] then None else Some (Max (set line_dates) + 1))\<rparr>"

definition get_guest_with_booking_summaries ::
  "db \<Rightarrow> uuid \<Rightarrow> uuid \<Rightarrow> guest_row option \<times> guest_booking_summary list" where
  "get_guest_with_booking_summaries d tenant_id guest_id =
     (case get_guest d tenant_id guest_id of
        None \<Rightarrow> (None, [])
      | Some guest \<Rightarrow> (Some guest, map (\<lambda>b. summarize_booking b (map bl_date (lines_of d b)))
          (sort_key (\<lambda>b. - bk_id b) (filter (\<lambda>b. bk_tenant_id b = tenant_id \<and> bk_guest_id b = guest_id) (bookings d)))))"

record guest_create =
  gc_first_name :: string
  gc_last_name :: string
  gc_email :: string
  gc_phone :: string
  gc_passport_data :: "string option"
  gc_nationality :: "string option"
  gc_date_of_birth :: "date option"
  gc_notes :: "string option"
  gc_vip_status :: bool

record guest_patch =
  gq_first_name :: "string option option"
  gq_last_name :: "string option option"
  gq_email :: "string option option"
  gq_phone :: "string option option"
  gq_passport_data :: "string option option"
  gq_nationality :: "string option option"
  gq_date_of_birth :: "date option option"
  gq_notes :: "string option option"
  gq_vip_status :: "bool option option"

text \<open>The field validator of the nationality.\<close>

definition uppercase_nationality :: "string option \<Rightarrow> string option result" where
  "uppercase_nationality v = (case v of None \<Rightarrow> Inr None
     | Some x \<Rightarrow> if x = [] then Inr None
         else let s = py_upper (py_strip x)
              in if length s \<noteq> 2 \<or> \<not> list_all (\<lambda>c. CHR ''A'' \<le> c \<and> c \<le> CHR ''Z'') s
                 then Inl (ValueError ''nationality must be ISO 3166-1 alpha-2'') else Inr (Some s))"

definition strip_or_none :: "string option \<Rightarrow> string option" where
  "strip_or_none v = (case v of None \<Rightarrow> None | Some s \<Rightarrow> if s = [] then None else Some (py_strip s))"

definition email_taken :: "db \<Rightarrow> uuid \<Rightarrow> string \<Rightarrow> uuid option \<Rightarrow> bool" where
  "email_taken d tenant_id email but =
     list_ex (\<lambda>g. gu_tenant_id g = tenant_id \<and> gu_email g = email \<and> Some (gu_id g) \<noteq> but) (guests d)"

definition create_guest :: "db \<Rightarrow> uuid \<Rightarrow> guest_create \<Rightarrow> (guest_row \<times> db) result" where
  "create_guest d tenant_id body =
     (let email_norm = py_lower (py_strip (gc_email body));
          row = \<lparr>gu_id = next_uuid d, gu_tenant_id = tenant_id, gu_first_name = py_strip (gc_first_name body),
                 gu_last_name = py_strip (gc_last_name body), gu_email = email_norm, gu_phone = py_strip (gc_phone body),
                 gu_passport_data = strip_or_none (gc_passport_data body), gu_nationality = gc_nationality body,
                 gu_date_of_birth = gc_date_of_birth body, gu_notes = strip_or_none (gc_notes body),
                 gu_vip_status = gc_vip_status body, gu_updated_at = db_now d\<rparr>
      in if email_taken d tenant_id email_norm None
         then Inl (GuestServiceError ''guest with this email already exists'' 409)
         else Inr (row, d\<lparr>guests := guests d @ [row], next_uuid := next_uuid d + 1\<rparr>))"

definition patched_guest :: "guest_patch \<Rightarrow> timestamp \<Rightarrow> guest_row \<Rightarrow> guest_row result" where
  "patched_guest body now row =
     r_bind (strip_set (gq_first_name body) (gu_first_name row)) (\<lambda>first.
     r_bind (strip_set (gq_last_name body) (gu_last_name row)) (\<lambda>last.
     r_bind (strip_set (gq_email body) (gu_email row)) (\<lambda>email.
     r_bind (strip_set (gq_phone body) (gu_phone row)) (\<lambda>phone.
       Inr (row\<lparr>gu_first_name := first, gu_last_name := last,
                gu_email := (if gq_email body = None then gu_email row else py_lower email),
                gu_phone := phone,
                gu_passport_data := (case gq_passport_data body of None \<Rightarrow> gu_passport_data row | Some v \<Rightarrow> strip_or_none v),
                gu_nationality := (case gq_nationality body of None \<Rightarrow> gu_nationality row | Some v \<Rightarrow> v),
                gu_date_of_birth := (case gq_date_of_birth body of None \<Rightarrow> gu_date_of_birth row | Some v \<Rightarrow> v),
                gu_notes := (case gq_notes body of None \<Rightarrow> gu_notes row | Some v \<Rightarrow> strip_or_none v),
                gu_vip_status := (case gq_vip_status body of Some (Some v) \<Rightarrow> v | _ \<Rightarrow> gu_vip_status row),
                gu_updated_at := now\<rparr>)))))"

definition patch_guest :: "db \<Rightarrow> uuid \<Rightarrow> uuid \<Rightarrow> guest_patch \<Rightarrow> (guest_row \<times> db) result" where
  "patch_guest d tenant_id guest_id body =
     r_bind (require (get_guest d tenant_id guest_id) (GuestServiceError ''guest not found'' 404)) (\<lambda>row.
     r_bind (patched_guest body (db_now d) row) (\<lambda>row'.
       if email_taken d tenant_id (gu_email row') (Some (gu_id row))
       then Inl (GuestServiceError ''guest with this email already exists'' 409)
       else Inr (row', d\<lparr>guests := update_rows (\<lambda>g. gu_id g = gu_id row) (\<lambda>_. row') (guests d)\<rparr>)))"

definition delete_guest :: "db \<Rightarrow> uuid \<Rightarrow> uuid \<Rightarrow> (guest_row \<times> db) result" where
  "delete_guest d tenant_id guest_id =
     r_bind (require (get_guest d tenant_id guest_id) (GuestServiceError ''guest not found'' 404)) (\<lambda>row.
     r_bind (guard (\<not> list_ex (\<lambda>b. bk_tenant_id b = tenant_id \<and> bk_guest_id b = guest_id) (bookings d))
               (GuestServiceError ''cannot delete guest with existing bookings; delete bookings first'' 409)) (\<lambda>_.
       Inr (row, d\<lparr>guests := delete_rows (\<lambda>g. gu_id g = gu_id row) (guests d)\<rparr>)))"

subsection \<open>Country packs\<close>

record country_pack_create =
  kc_code :: string
  kc_name :: string
  kc_currency_code :: string
  kc_currency_symbol :: string
  kc_currency_symbol_position :: string
  kc_currency_decimal_places :: int
  kc_timezone :: string
  kc_date_format :: string
  kc_locale :: string
  kc_default_checkin_time :: int
  kc_default_checkout_time :: int
  kc_taxes :: json
  kc_payment_methods :: "string list"
  kc_fiscal_year_start :: "string option"

definition list_country_packs :: "db \<Rightarrow> uuid \<Rightarrow> country_pack_row list" where
  "list_country_packs d tenant_id =
     sort_key (\<lambda>p. if cp_is_builtin p then 0 else (1 :: int)) (sort_key cp_code
       (filter (\<lambda>p. cp_is_builtin p \<or> cp_tenant_id p = Some tenant_id) (country_packs d)))"

text \<open>
  The lookup all operations share. Builtin packs have no tenant (check constraint
  \<^verbatim>\<open>ck_country_packs_builtin_tenant\<close>), so the filter of the query and the row-level security
  policy select the same rows.
\<close>

definition get_country_pack :: "db \<Rightarrow> uuid \<Rightarrow> string \<Rightarrow> country_pack_row option" where
  "get_country_pack d tenant_id code = visible_pack d tenant_id (py_strip code)"

text \<open>
  The duplicate check sees only the packs row-level security shows; the code of another tenant's
  pack passes it and violates the primary key.
\<close>

definition create_country_pack :: "db \<Rightarrow> uuid \<Rightarrow> country_pack_create \<Rightarrow> (country_pack_row \<times> db) result" where
  "create_country_pack d tenant_id data =
     (let code = py_strip (kc_code data);
          row = \<lparr>cp_code = code, cp_tenant_id = Some tenant_id, cp_name = py_strip (kc_name data),
                 cp_currency_code = kc_currency_code data, cp_currency_symbol = py_strip (kc_currency_symbol data),
                 cp_currency_symbol_position = kc_currency_symbol_position data,
                 cp_currency_decimal_places = kc_currency_decimal_places data,
                 cp_timezone = py_strip (kc_timezone data), cp_date_format = py_strip (kc_date_format data),
                 cp_locale = py_strip (kc_locale data), cp_default_checkin_time = kc_default_checkin_time data,
                 cp_default_checkout_time = kc_default_checkout_time data, cp_taxes = kc_taxes data,
                 cp_payment_methods = kc_payment_methods data, cp_fiscal_year_start = strip_or_none (kc_fiscal_year_start data),
                 cp_is_builtin = False\<rparr>
      in if visible_pack d tenant_id code \<noteq> None then Inl (CountryPackServiceError ''country pack code already exists'' 409)
         else if list_ex (\<lambda>p. cp_code p = code) (country_packs d) then Inl IntegrityError
         else Inr (row, d\<lparr>country_packs := country_packs d @ [row]\<rparr>))"

text \<open>The row a tenant may change: visible, not builtin and its own.\<close>

definition own_country_pack :: "db \<Rightarrow> uuid \<Rightarrow> string \<Rightarrow> string \<Rightarrow> country_pack_row result" where
  "own_country_pack d tenant_id code builtin_msg =
     r_bind (require (visible_pack d tenant_id (py_strip code)) (CountryPackServiceError ''country pack not found'' 404)) (\<lambda>row.
     r_bind (guard (\<not> cp_is_builtin row) (CountryPackServiceError builtin_msg 403)) (\<lambda>_.
     r_bind (guard (cp_tenant_id row = Some tenant_id) (CountryPackServiceError ''country pack not found'' 404)) (\<lambda>_. Inr row)))"

record country_pack_patch =
  kp_name :: "string option option"
  kp_currency_code :: "string option option"
  kp_currency_symbol :: "string option option"
  kp_currency_symbol_position :: "string option option"
  kp_currency_decimal_places :: "int option option"
  kp_timezone :: "string option option"
  kp_date_format :: "string option option"
  kp_locale :: "string option option"
  kp_default_checkin_time :: "int option option"
  kp_default_checkout_time :: "int option option"
  kp_taxes :: "json option option"
  kp_payment_methods :: "string list option option"
  kp_fiscal_year_start :: "string option option"

text \<open>\<^verbatim>\<open>str(patch[key]).strip()\<close>: a null becomes the text None.\<close>

definition str_set :: "string option option \<Rightarrow> string \<Rightarrow> string" where
  "str_set v old = (case v of None \<Rightarrow> old | Some x \<Rightarrow> py_strip (status_text x))"

definition update_country_pack :: "db \<Rightarrow> uuid \<Rightarrow> string \<Rightarrow> country_pack_patch \<Rightarrow> (country_pack_row \<times> db) result" where
  "update_country_pack d tenant_id code data =
     r_bind (own_country_pack d tenant_id code ''cannot modify builtin country pack'') (\<lambda>row.
     r_bind (case kp_currency_decimal_places data of Some None \<Rightarrow> Inl TypeError | _ \<Rightarrow> Inr ()) (\<lambda>_.
     r_bind (not_null (kp_currency_code data) (cp_currency_code row)) (\<lambda>cur.
     r_bind (not_null (kp_currency_symbol_position data) (cp_currency_symbol_position row)) (\<lambda>pos.
     r_bind (not_null (kp_currency_decimal_places data) (cp_currency_decimal_places row)) (\<lambda>dp.
     r_bind (not_null (kp_default_checkin_time data) (cp_default_checkin_time row)) (\<lambda>ci.
     r_bind (not_null (kp_default_checkout_time data) (cp_default_checkout_time row)) (\<lambda>co.
       let row' = row\<lparr>cp_name := str_set (kp_name data) (cp_name row), cp_currency_code := cur,
             cp_currency_symbol := str_set (kp_currency_symbol data) (cp_currency_symbol row),
             cp_currency_symbol_position := pos, cp_currency_decimal_places := dp,
             cp_timezone := str_set (kp_timezone data) (cp_timezone row),
             cp_date_format := str_set (kp_date_format data) (cp_date_format row),
             cp_locale := str_set (kp_locale data) (cp_locale row),
             cp_default_checkin_time := ci, cp_default_checkout_time := co,
             cp_taxes := (case kp_taxes data of Some (Some t) \<Rightarrow> t | _ \<Rightarrow> cp_taxes row),
             cp_payment_methods := (case kp_payment_methods data of None \<Rightarrow> cp_payment_methods row
                | Some None \<Rightarrow> [] | Some (Some m) \<Rightarrow> m),
             cp_fiscal_year_start := (case kp_fiscal_year_start data of None \<Rightarrow> cp_fiscal_year_start row
                | Some v \<Rightarrow> strip_or_none v)\<rparr>
       in Inr (row', d\<lparr>country_packs := update_rows (\<lambda>p. cp_code p = cp_code row) (\<lambda>_. row') (country_packs d)\<rparr>))))))))"

text \<open>As for rate plans, the deletion of the row is not awaited.\<close>

definition delete_country_pack :: "db \<Rightarrow> uuid \<Rightarrow> string \<Rightarrow> db result" where
  "delete_country_pack d tenant_id code =
     r_bind (own_country_pack d tenant_id code ''cannot delete builtin country pack'') (\<lambda>row.
     r_bind (guard (\<not> list_ex (\<lambda>p. pr_tenant_id p = tenant_id \<and> pr_country_pack_code p = Some (py_strip code)) (properties d))
               (CountryPackServiceError ''country pack is attached to one or more properties'' 409)) (\<lambda>_.
       Inr d))"

definition apply_country_pack :: "db \<Rightarrow> uuid \<Rightarrow> string \<Rightarrow> uuid \<Rightarrow> (property_row \<times> db) result" where
  "apply_country_pack d tenant_id code property_id =
     r_bind (require (visible_pack d tenant_id (py_strip code)) (CountryPackServiceError ''country pack not found'' 404)) (\<lambda>pack.
     r_bind (require (get_property d tenant_id property_id) (CountryPackServiceError ''property not found'' 404)) (\<lambda>prop.
     r_bind (guard (pr_country_pack_code prop = None \<or> count_bookings_for_property d tenant_id property_id = 0)
               (CountryPackServiceError ''Cannot change country pack: property has bookings'' 409)) (\<lambda>_.
       let prop' = prop\<lparr>pr_country_pack_code := Some (cp_code pack), pr_currency := cp_currency_code pack,
             pr_timezone := cp_timezone pack, pr_checkin_time := cp_default_checkin_time pack,
             pr_checkout_time := cp_default_checkout_time pack\<rparr>
       in Inr (prop', set_property prop prop' d))))"

subsection \<open>The guest directory\<close>

definition guest_key :: "guest_row \<Rightarrow> uuid \<times> string" where
  "guest_key g = (gu_tenant_id g, gu_email g)"

interpretation tb_address: keyed_table guest_key .

definition norm_email :: "string \<Rightarrow> string" where
  "norm_email e = py_lower (py_strip e)"

lemma norm_email_idem [simp]: "norm_email (norm_email e) = norm_email e"
  by (simp add: norm_email_def py_strip_lower)

definition guests_ok :: "db \<Rightarrow> bool" where
  "guests_ok d \<longleftrightarrow> distinct (map guest_key (guests d)) \<and> distinct (map gu_id (guests d)) \<and>
     list_all (\<lambda>g. gu_id g < next_uuid d \<and> norm_email (gu_email g) = gu_email g) (guests d)"

inductive guest_step :: "db \<Rightarrow> db \<Rightarrow> bool" where
  create: "create_guest d t body = Inr (g, d') \<Longrightarrow> guest_step d d'"
| patch: "patch_guest d t i patch_body = Inr (g, d') \<Longrightarrow> guest_step d d'"
| delete: "delete_guest d t i = Inr (g, d') \<Longrightarrow> guest_step d d'"
| booking: "get_or_create_guest_for_booking d t payload force_new = Inr (g, merged, d') \<Longrightarrow> guest_step d d'"

lemma email_taken_iff: "email_taken d t e None \<longleftrightarrow> (t, e) \<in> guest_key ` set (guests d)"
  by (auto simp: email_taken_def list_ex_iff guest_key_def image_iff)

lemma guests_ok_add:
  assumes ok: "guests_ok d" and new: "(gu_tenant_id g, gu_email g) \<notin> guest_key ` set (guests d)"
    and g: "gu_id g = next_uuid d" "norm_email (gu_email g) = gu_email g"
  shows "guests_ok (d\<lparr>guests := guests d @ [g], next_uuid := next_uuid d + 1\<rparr>)"
  using assms by (auto simp: guests_ok_def guest_key_def list_all_iff)

lemma guests_ok_replace:
  assumes ok: "guests_ok d" and g: "g \<in> set (guests d)" "gu_id g' = gu_id g" "gu_tenant_id g' = gu_tenant_id g"
    and new: "\<not> email_taken d (gu_tenant_id g) (gu_email g') (Some (gu_id g))" and n: "norm_email (gu_email g') = gu_email g'"
  shows "guests_ok (d\<lparr>guests := update_rows (\<lambda>x. gu_id x = gu_id g) (\<lambda>_. g') (guests d)\<rparr>)"
proof -
  let ?f = "\<lambda>x. if gu_id x = gu_id g then g' else x"
  have inj: "inj_on guest_key (set (guests d))" "inj_on gu_id (set (guests d))"
    using ok by (simp_all add: guests_ok_def distinct_map)
  have "guest_key (?f x) = guest_key (?f y) \<Longrightarrow> x = y" if "x \<in> set (guests d)" "y \<in> set (guests d)" for x y
  proof -
    assume eq: "guest_key (?f x) = guest_key (?f y)"
    have other: "guest_key g' \<noteq> guest_key z" if "z \<in> set (guests d)" "gu_id z \<noteq> gu_id g" for z
      using new that by (auto simp: email_taken_def list_ex_iff guest_key_def g(3))
    from eq other that have "(gu_id x = gu_id g) = (gu_id y = gu_id g)" by (metis (full_types))
    with eq that inj show "x = y" by (cases "gu_id x = gu_id g") (auto simp: inj_on_def)
  qed
  then have "inj_on (guest_key \<circ> ?f) (set (guests d))" by (auto simp: inj_on_def)
  moreover have "distinct (guests d)" using ok by (simp add: guests_ok_def distinct_map)
  ultimately have "distinct (map guest_key (update_rows (\<lambda>x. gu_id x = gu_id g) (\<lambda>_. g') (guests d)))"
    by (simp add: update_rows_def distinct_map comp_def)
  moreover have "map gu_id (update_rows (\<lambda>x. gu_id x = gu_id g) (\<lambda>_. g') (guests d)) = map gu_id (guests d)"
    by (rule map_update_rows_inv) (simp add: g(2))
  moreover have "gu_id x < next_uuid d \<and> norm_email (gu_email x) = gu_email x"
    if "x \<in> set (update_rows (\<lambda>x. gu_id x = gu_id g) (\<lambda>_. g') (guests d))" for x
    using ok that g n by (auto simp: guests_ok_def list_all_iff set_update_rows)
  ultimately show ?thesis using ok by (simp add: guests_ok_def list_all_iff)
qed

lemma strip_set_Inr: "strip_set v old = Inr x \<Longrightarrow> x = old \<and> v = None \<or> (\<exists>s. v = Some (Some s) \<and> x = py_strip s)"
  by (auto simp: strip_set_def split: option.splits)

lemma patched_guest_Inr:
  assumes "patched_guest body now g = Inr g'"
  shows "gu_id g' = gu_id g \<and> gu_tenant_id g' = gu_tenant_id g \<and>
    (gu_email g' = gu_email g \<or> (\<exists>e. gu_email g' = norm_email e))"
proof -
  from assms obtain e where e: "strip_set (gq_email body) (gu_email g) = Inr e"
    and g': "gu_id g' = gu_id g" "gu_tenant_id g' = gu_tenant_id g"
      "gu_email g' = (if gq_email body = None then gu_email g else py_lower e)"
    by (auto simp: patched_guest_def simp del: if_split)
  from strip_set_Inr [OF e] g' show ?thesis by (auto simp: norm_email_def)
qed

lemma create_guest_Inr:
  assumes "create_guest d t body = Inr (g, d')"
  shows "g \<in> set (guests d') \<and> gu_tenant_id g = t \<and> gu_email g = norm_email (gc_email body)"
  using assms by (auto simp: create_guest_def Let_def norm_email_def split: if_splits)

interpretation guest_directory: invariant_system guest_step guests_ok
proof
  fix d d'
  assume ok: "guests_ok d" and "guest_step d d'"
  from this(2) show "guests_ok d'"
  proof cases
    case (create t body g)
    then show ?thesis
      using ok by (auto simp: create_guest_def Let_def email_taken_iff norm_email_def py_strip_lower split: if_splits intro!: guests_ok_add)
  next
    case (patch t i body g)
    then obtain row where row: "get_guest d t i = Some row" "patched_guest body (db_now d) row = Inr g"
      "\<not> email_taken d t (gu_email g) (Some (gu_id row))"
      "d' = d\<lparr>guests := update_rows (\<lambda>g. gu_id g = gu_id row) (\<lambda>_. g) (guests d)\<rparr>"
      by (auto simp: patch_guest_def split: if_splits)
    have mem: "row \<in> set (guests d)" "gu_tenant_id row = t"
      using find_Some_mem [OF row(1) [unfolded get_guest_def]] by auto
    note g = patched_guest_Inr [OF row(2)]
    have "norm_email (gu_email row) = gu_email row" using ok mem(1) by (simp add: guests_ok_def list_all_iff)
    with g have "norm_email (gu_email g) = gu_email g" by auto
    with row(3,4) mem g ok show ?thesis by (auto intro!: guests_ok_replace)
  next
    case (delete t i g)
    then show ?thesis
      using ok by (auto simp: delete_guest_def guests_ok_def delete_rows_def distinct_map_filter list_all_iff split: if_splits)
  next
    case (booking t payload force_new g merged)
    then show ?thesis
      using ok by (auto simp: get_or_create_guest_for_booking_def insert_guest_def guest_by_email_def Let_def find_None_iff
          norm_email_def py_strip_lower guest_key_def split: option.splits if_splits intro!: guests_ok_add)
  qed
qed

definition demo_guest :: guest_create where
  "demo_guest = \<lparr>gc_first_name = ''Ann'', gc_last_name = ''Lee'', gc_email = '' Ann@X.io '', gc_phone = ''1'',
     gc_passport_data = None, gc_nationality = None, gc_date_of_birth = None, gc_notes = None, gc_vip_status = False\<rparr>"

definition demo_payload :: guest_payload where
  "demo_payload = \<lparr>gp_first_name = ''A.'', gp_last_name = ''Lee'', gp_email = ''ANN@x.io'', gp_phone = ''2'', gp_passport_data = None\<rparr>"

text \<open>
  C11. One profile per address: however guests are created, edited, deleted and found or created by
  bookings, a tenant never has two guest profiles whose e-mail addresses differ only in case and
  surrounding blanks, and a booking that gives such an address joins the profile that has it,
  unless it insists on a new one, which is refused.
\<close>

theorem one_profile_per_address:
  assumes "guests_ok d" "guest_step\<^sup>*\<^sup>* d d'" "g \<in> set (guests d')"
    and "norm_email (gp_email payload) = norm_email (gu_email g)"
  shows "(\<forall>h\<in>set (guests d'). gu_tenant_id h = gu_tenant_id g \<and> norm_email (gu_email h) = norm_email (gu_email g) \<longrightarrow> h = g) \<and>
    get_or_create_guest_for_booking d' (gu_tenant_id g) payload False = Inr (g, True, d') \<and>
    get_or_create_guest_for_booking d' (gu_tenant_id g) payload True = Inl GuestConflictError"
proof -
  have ok: "guests_ok d'" using guest_directory.reachable_keeps [OF assms(2,1)] .
  then have n: "norm_email (gu_email h) = gu_email h" if "h \<in> set (guests d')" for h
    using that by (simp add: guests_ok_def list_all_iff)
  have uniq: "h = g" if "h \<in> set (guests d')" "gu_tenant_id h = gu_tenant_id g" "gu_email h = gu_email g" for h
    using ok that assms(3) by (auto simp: guests_ok_def guest_key_def intro: tb_address.distinct_same)
  have "guest_by_email d' (gu_tenant_id g) (gu_email g) = Some g"
  proof (cases "guest_by_email d' (gu_tenant_id g) (gu_email g)")
    case None
    with assms(3) show ?thesis by (auto simp: guest_by_email_def find_None_iff)
  next
    case (Some h)
    with uniq show ?thesis by (auto simp: guest_by_email_def dest: find_Some_mem)
  qed
  moreover have "py_lower (py_strip (gp_email payload)) = gu_email g"
    using assms(3,4) n by (simp add: norm_email_def)
  ultimately have "get_or_create_guest_for_booking d' (gu_tenant_id g) payload False = Inr (g, True, d')"
    "get_or_create_guest_for_booking d' (gu_tenant_id g) payload True = Inl GuestConflictError"
    by (simp_all add: get_or_create_guest_for_booking_def)
  with uniq n assms(3) show ?thesis by auto
qed

theorem one_profile_per_address_witness:
  "\<exists>g. get_or_create_guest_for_booking (commit_or_rollback demo_db (create_guest demo_db 1 demo_guest)) 1 demo_payload True
     = Inl GuestConflictError \<and> g \<in> set (guests (commit_or_rollback demo_db (create_guest demo_db 1 demo_guest)))"
proof -
  let ?d = "commit_or_rollback demo_db (create_guest demo_db 1 demo_guest)"
  have ok: "guests_ok demo_db" "succeeds (create_guest demo_db 1 demo_guest)" by code_simp+
  then obtain g where g: "create_guest demo_db 1 demo_guest = Inr (g, ?d)" using succeeds_Inr by blast
  then have st: "guest_step\<^sup>*\<^sup>* demo_db ?d" by (blast intro: guest_step.create)
  have mem: "g \<in> set (guests ?d)" "gu_tenant_id g = 1" "gu_email g = norm_email (gc_email demo_guest)"
    using create_guest_Inr [OF g] by blast+
  have "norm_email (gp_email demo_payload) = norm_email (gu_email g)" unfolding mem(3) by code_simp
  from one_profile_per_address [OF ok(1) st mem(1) this] mem(1,2) show ?thesis by metis
qed

subsection \<open>Search terms\<close>

definition wildcard :: "char \<Rightarrow> bool" where
  "wildcard c \<longleftrightarrow> c \<in> {CHR ''%'', CHR ''_'', ESCAPE}"

lemma sql_like_plain: "list_all (\<lambda>c. \<not> wildcard c) ps \<Longrightarrow> sql_like (ps @ ''%'') s \<longleftrightarrow> (\<exists>b. s = ps @ b)"
proof (induction ps arbitrary: s)
  case Nil
  have "sql_like ''%'' s" by (induction s) auto
  then show ?case by simp
next
  case (Cons p ps)
  then show ?case by (cases s) (auto simp: wildcard_def)
qed

lemma sql_like_percent: "sql_like (CHR ''%'' # ps) s \<longleftrightarrow> (\<exists>a b. s = a @ b \<and> sql_like ps b)"
proof (induction s)
  case (Cons c s)
  have "sql_like (CHR ''%'' # ps) (c # s) \<longleftrightarrow> sql_like ps (c # s) \<or> sql_like (CHR ''%'' # ps) s" by simp
  also have "\<dots> \<longleftrightarrow> (\<exists>a b. c # s = a @ b \<and> sql_like ps b)"
    using Cons.IH by (metis append_Cons append_Nil append_eq_Cons_conv)
  finally show ?case .
qed simp

lemma wildcard_lower [simp]: "wildcard (py_lower_char c) \<longleftrightarrow> wildcard c"
proof -
  have "(of_char (py_lower_char c) :: nat) \<in> {37, 95, 92} \<longleftrightarrow> (of_char c :: nat) \<in> {37, 95, 92}"
    by (auto simp: of_char_py_lower_char)
  moreover have "wildcard x \<longleftrightarrow> (of_char x :: nat) \<in> {37, 95, 92}" for x
  proof -
    have "CHR ''%'' = char_of (37 :: nat)" "CHR ''_'' = char_of (95 :: nat)" by code_simp+
    then show ?thesis unfolding wildcard_def ESCAPE_def by (simp only: insert_iff empty_iff char_of_eq_iff eq_commute [of x]) auto
  qed
  ultimately show ?thesis by simp
qed

text \<open>
  The guest search is a case-insensitive substring search for terms without the
  characters \<^verbatim>\<open>%\<close>, \<^verbatim>\<open>_\<close> and backslash: a guest is listed exactly when one of first name,
  last name, e-mail and phone contains the stripped term.
\<close>

theorem search_is_substring:
  assumes "list_all (\<lambda>c. \<not> wildcard c) q"
  shows "sql_ilike (''%'' @ q @ ''%'') s \<longleftrightarrow> (\<exists>a b. py_lower s = a @ py_lower q @ b)"
proof -
  have "py_lower (''%'' @ q @ ''%'') = CHR ''%'' # py_lower q @ ''%''"
    by (simp add: py_lower_def py_lower_char_def)
  moreover have "list_all (\<lambda>c. \<not> wildcard c) (py_lower q)"
    using assms by (simp add: py_lower_def list_all_iff)
  ultimately show ?thesis
    unfolding sql_ilike_def by (auto simp: sql_like_percent sql_like_plain simp del: sql_like.simps)
qed

theorem search_is_substring_witness: "\<exists>a b. py_lower ''Somchai'' = a @ py_lower ''MCH'' @ b"
proof -
  have "list_all (\<lambda>c. \<not> wildcard c) ''MCH''" "sql_ilike (''%'' @ ''MCH'' @ ''%'') ''Somchai''" by code_simp+
  with search_is_substring [of "''MCH''" "''Somchai''"] show ?thesis by blast
qed

text \<open>An unescaped underscore matches any character.\<close>

lemma search_underscore_matches_all: "sql_ilike (''%'' @ ''_'' @ ''%'') ''Bob''"
  by code_simp

subsection \<open>Country packs of other owners\<close>

definition packs_ok :: "db \<Rightarrow> bool" where
  "packs_ok d \<longleftrightarrow> distinct (map cp_code (country_packs d)) \<and>
     list_all (\<lambda>p. cp_is_builtin p = (cp_tenant_id p = None)) (country_packs d)"

inductive pack_step :: "uuid \<Rightarrow> db \<Rightarrow> db \<Rightarrow> bool" for t where
  create: "create_country_pack d t data = Inr (p, d') \<Longrightarrow> pack_step t d d'"
| update: "update_country_pack d t code patch_data = Inr (p, d') \<Longrightarrow> pack_step t d d'"
| delete: "delete_country_pack d t code = Inr d' \<Longrightarrow> pack_step t d d'"
| apply_pack: "apply_country_pack d t code prop = Inr (r, d') \<Longrightarrow> pack_step t d d'"

definition foreign_packs :: "uuid \<Rightarrow> db \<Rightarrow> country_pack_row list" where
  "foreign_packs t d = filter (\<lambda>p. cp_tenant_id p \<noteq> Some t) (country_packs d)"

lemma own_country_pack_Inr:
  "own_country_pack d t code m = Inr row \<Longrightarrow>
   row \<in> set (country_packs d) \<and> cp_code row = py_strip code \<and> cp_tenant_id row = Some t \<and> \<not> cp_is_builtin row"
  by (auto simp: own_country_pack_def visible_pack_def dest: find_Some_mem split: if_splits)

lemma update_own_pack:
  assumes ok: "packs_ok d" and row: "row \<in> set (country_packs d)" "cp_tenant_id row = Some t"
    and row': "cp_code row' = cp_code row" "cp_tenant_id row' = Some t" "\<not> cp_is_builtin row'"
  defines "d' \<equiv> d\<lparr>country_packs := update_rows (\<lambda>p. cp_code p = cp_code row) (\<lambda>_. row') (country_packs d)\<rparr>"
  shows "packs_ok d' \<and> foreign_packs t d' = foreign_packs t d"
proof -
  have own: "cp_tenant_id p = Some t" if "p \<in> set (country_packs d)" "cp_code p = cp_code row" for p
  proof -
    have "p = row" using ok that row(1) by (auto simp: packs_ok_def distinct_map inj_on_def)
    with row(2) show ?thesis by simp
  qed
  have "filter (\<lambda>p. cp_tenant_id p \<noteq> Some t) (update_rows (\<lambda>p. cp_code p = cp_code row) (\<lambda>_. row') ps) =
      filter (\<lambda>p. cp_tenant_id p \<noteq> Some t) ps" if "set ps \<subseteq> set (country_packs d)" for ps
    using that own row'(2) by (induction ps) (auto simp: update_rows_def)
  then have "foreign_packs t d' = foreign_packs t d" by (simp add: foreign_packs_def d'_def)
  moreover have "map cp_code (country_packs d') = map cp_code (country_packs d)"
    unfolding d'_def by (simp add: map_update_rows_inv row'(1))
  moreover have "cp_is_builtin p = (cp_tenant_id p = None)" if "p \<in> set (country_packs d')" for p
    using that ok row' by (auto simp: d'_def set_update_rows packs_ok_def list_all_iff)
  ultimately show ?thesis using ok by (simp add: packs_ok_def list_all_iff)
qed

lemma pack_step_isolated:
  assumes "pack_step t d d'" "packs_ok d"
  shows "packs_ok d' \<and> foreign_packs t d' = foreign_packs t d"
  using assms(1)
proof cases
  case (create data p)
  then have p: "\<not> list_ex (\<lambda>q. cp_code q = cp_code p) (country_packs d)" "cp_tenant_id p = Some t" "\<not> cp_is_builtin p"
    "d' = d\<lparr>country_packs := country_packs d @ [p]\<rparr>"
    by (auto simp: create_country_pack_def Let_def split: if_splits)
  then have "cp_code p \<notin> cp_code ` set (country_packs d)" by (auto simp: list_ex_iff image_iff)
  with p(2-4) assms(2) show ?thesis by (simp add: packs_ok_def foreign_packs_def)
next
  case (update code data p)
  then obtain row where row: "own_country_pack d t code ''cannot modify builtin country pack'' = Inr row"
    and p: "cp_code p = cp_code row" "cp_tenant_id p = cp_tenant_id row" "cp_is_builtin p = cp_is_builtin row"
    and d': "d' = d\<lparr>country_packs := update_rows (\<lambda>p. cp_code p = cp_code row) (\<lambda>_. p) (country_packs d)\<rparr>"
    unfolding update_country_pack_def Let_def by auto
  from own_country_pack_Inr [OF row] p show ?thesis
    unfolding d' using assms(2) by (intro update_own_pack) auto
next
  case (delete pack_code)
  with assms(2) show ?thesis by (auto simp: delete_country_pack_def split: if_splits)
next
  case (apply_pack pack_code pid r)
  with assms(2) show ?thesis
    by (auto simp: apply_country_pack_def set_property_def packs_ok_def foreign_packs_def Let_def split: if_splits)
qed

text \<open>
  Tenants cannot touch packs that are not theirs: whatever sequence of pack operations a
  tenant performs, the builtin packs and those of other tenants stay exactly as they were.
\<close>

theorem packs_of_others_untouched:
  assumes "packs_ok d" "(pack_step t)\<^sup>*\<^sup>* d d'"
  shows "foreign_packs t d' = foreign_packs t d"
proof -
  from assms(2) have "packs_ok d' \<and> foreign_packs t d' = foreign_packs t d"
    by (induction rule: rtranclp_induct) (use assms(1) pack_step_isolated in auto)
  then show ?thesis ..
qed

definition demo_pack :: country_pack_create where
  "demo_pack = \<lparr>kc_code = ''MINE'', kc_name = ''Mine'', kc_currency_code = ''EUR'', kc_currency_symbol = ''E'',
     kc_currency_symbol_position = ''after'', kc_currency_decimal_places = 2, kc_timezone = ''Europe/Rome'',
     kc_date_format = ''D'', kc_locale = ''it'', kc_default_checkin_time = 14, kc_default_checkout_time = 11,
     kc_taxes = JList [], kc_payment_methods = [], kc_fiscal_year_start = None\<rparr>"

theorem packs_of_others_untouched_witness:
  "foreign_packs 1 (commit_or_rollback demo_db (create_country_pack demo_db 1 demo_pack)) = foreign_packs 1 demo_db \<and>
   length (country_packs (commit_or_rollback demo_db (create_country_pack demo_db 1 demo_pack))) = 2"
proof -
  let ?d = "commit_or_rollback demo_db (create_country_pack demo_db 1 demo_pack)"
  have ok: "packs_ok demo_db" "succeeds (create_country_pack demo_db 1 demo_pack)" "length (country_packs ?d) = 2" by code_simp+
  then obtain p where "create_country_pack demo_db 1 demo_pack = Inr (p, ?d)" using succeeds_Inr by blast
  then have "(pack_step 1)\<^sup>*\<^sup>* demo_db ?d" by (blast intro: pack_step.create)
  from packs_of_others_untouched [OF ok(1) this] ok(3) show ?thesis by simp
qed

subsection \<open>Deletions that delete nothing\<close>

lemma rate_plan_survives_deletion:
  "delete_rate_plan d t i = Inr d' \<Longrightarrow> get_rate_plan d' t i = get_rate_plan d t i \<and> get_rate_plan d' t i \<noteq> None \<and>
     \<not> list_ex (\<lambda>r. ra_tenant_id r = t \<and> ra_rate_plan_id r = i) (rates d')"
  by (auto simp: delete_rate_plan_def get_rate_plan_def list_ex_iff split: if_splits)

lemma country_pack_survives_deletion:
  "delete_country_pack d t code = Inr d' \<Longrightarrow> get_country_pack d' t code = get_country_pack d t code \<and> get_country_pack d' t code \<noteq> None"
  by (auto simp: delete_country_pack_def own_country_pack_def get_country_pack_def split: if_splits)

end
