(* ===== verification/Rooms.thy ===== *)
theory Rooms
  imports Ledger_Admin Catalog
begin

text \<open>
  Physical rooms, room categories and housekeeping (\<^verbatim>\<open>room_service.py\<close>,
  \<^verbatim>\<open>room_type_service.py\<close>, \<^verbatim>\<open>housekeeping_service.py\<close>) and the read side of the inventory:
  availability grid, assignable rooms and room lists. Every operation that changes the number of
  live rooms of a category recalculates the capacity of its ledger rows from today on.
\<close>

subsection \<open>Rooms\<close>

definition VALID_ROOM_STATUSES :: "string list" where
  "VALID_ROOM_STATUSES = [''available'', ''maintenance'', ''out_of_order'']"

definition ACTIVE_BOOKING_STATUSES :: "string list" where
  "ACTIVE_BOOKING_STATUSES = [''pending'', ''confirmed'', ''checked_in'', ''in_house'']"

definition norm_status :: "string \<Rightarrow> string" where
  "norm_status s = py_lower (py_strip s)"

definition live_room :: "uuid \<Rightarrow> room_row \<Rightarrow> bool" where
  "live_room tenant_id r \<longleftrightarrow> rm_tenant_id r = tenant_id \<and> rm_deleted_at r = None"

definition list_rooms :: "db \<Rightarrow> uuid \<Rightarrow> uuid option \<Rightarrow> room_row list" where
  "list_rooms d tenant_id property_id = sort_key rm_name (filter (\<lambda>r. live_room tenant_id r \<and>
     (case property_id of None \<Rightarrow> True
      | Some p \<Rightarrow> list_ex (\<lambda>rt. rt_tenant_id rt = rm_tenant_id r \<and> rt_id rt = rm_room_type_id r \<and> rt_property_id rt = p) (room_types d)))
     (rooms d))"

definition get_room :: "db \<Rightarrow> uuid \<Rightarrow> uuid \<Rightarrow> room_row option" where
  "get_room d tenant_id room_id = find (\<lambda>r. rm_tenant_id r = tenant_id \<and> rm_id r = room_id \<and> rm_deleted_at r = None) (rooms d)"

definition get_room_for_patch :: "db \<Rightarrow> uuid \<Rightarrow> uuid \<Rightarrow> room_row option" where
  "get_room_for_patch d tenant_id room_id = find (\<lambda>r. rm_tenant_id r = tenant_id \<and> rm_id r = room_id) (rooms d)"

definition get_room_type :: "db \<Rightarrow> uuid \<Rightarrow> uuid \<Rightarrow> room_type_row option" where
  "get_room_type d tenant_id room_type_id =
     find (\<lambda>r. rt_tenant_id r = tenant_id \<and> rt_id r = room_type_id \<and> rt_deleted_at r = None) (room_types d)"

definition bad_room_status :: error where
  "bad_room_status = RoomServiceError ''status must be one of: available, maintenance, out_of_order'' 422"

definition insert_room :: "uuid \<Rightarrow> uuid \<Rightarrow> string \<Rightarrow> string \<Rightarrow> db \<Rightarrow> room_row \<times> db" where
  "insert_room tenant_id room_type_id name st d =
     (let room = \<lparr>rm_id = next_uuid d, rm_tenant_id = tenant_id, rm_room_type_id = room_type_id, rm_name = name, rm_status = st,
                  rm_deleted_at = None, rm_housekeeping_status = ''clean'', rm_housekeeping_priority = ''normal''\<rparr>
      in (room, d\<lparr>rooms := rooms d @ [room], next_uuid := next_uuid d + 1\<rparr>))"

definition create_room :: "db \<Rightarrow> uuid \<Rightarrow> uuid \<Rightarrow> string \<Rightarrow> string \<Rightarrow> (room_row \<times> db) result" where
  "create_room d tenant_id room_type_id name status =
     (let st = norm_status status in
      r_bind (guard (st \<in> set VALID_ROOM_STATUSES) bad_room_status) (\<lambda>_.
      r_bind (require (get_room_type d tenant_id room_type_id) (RoomServiceError ''room type not found'' 404)) (\<lambda>_.
        let (room, d) = insert_room tenant_id room_type_id (py_strip name) st d
        in Inr (room, recalculate_ledger_total_rooms tenant_id room_type_id d))))"

fun check_batch :: "(string \<times> string) list \<Rightarrow> string list \<Rightarrow> unit result" where
  "check_batch [] batch_seen = Inr ()"
| "check_batch ((name, status) # items) batch_seen =
     (if py_strip name \<in> set batch_seen then Inl (RoomServiceError ''duplicate room name in batch'' 422)
      else if norm_status status \<notin> set VALID_ROOM_STATUSES then Inl bad_room_status
      else check_batch items (py_strip name # batch_seen))"

fun create_batch :: "uuid \<Rightarrow> uuid \<Rightarrow> bool \<Rightarrow> (string \<times> string) list \<Rightarrow> string list \<Rightarrow>
    room_row list \<times> string list \<times> db \<Rightarrow> (room_row list \<times> string list \<times> db) result" where
  "create_batch tenant_id room_type_id fail [] existing_names s = Inr s"
| "create_batch tenant_id room_type_id fail ((name, status) # items) existing_names (created, skipped, d) =
     (let n = py_strip name in
      if n \<in> set existing_names
      then if fail then Inl (RoomServiceError ''room name already exists'' 409)
           else create_batch tenant_id room_type_id fail items existing_names (created, skipped @ [n], d)
      else let (room, d) = insert_room tenant_id room_type_id n (norm_status status) d
           in create_batch tenant_id room_type_id fail items (n # existing_names) (created @ [room], skipped, d))"

definition create_rooms_bulk ::
  "db \<Rightarrow> uuid \<Rightarrow> uuid \<Rightarrow> (string \<times> string) list \<Rightarrow> bool \<Rightarrow> ((room_row list \<times> string list) \<times> db) result" where
  "create_rooms_bulk d tenant_id room_type_id items fail =
     r_bind (require (get_room_type d tenant_id room_type_id) (RoomServiceError ''room type not found'' 404)) (\<lambda>_.
     r_bind (check_batch items []) (\<lambda>_.
     let existing_names = map rm_name (filter (\<lambda>r. live_room tenant_id r \<and> rm_room_type_id r = room_type_id) (rooms d)) in
     r_bind (create_batch tenant_id room_type_id fail items existing_names ([], [], d)) (\<lambda>(created, skipped, d).
       if created = [] then Inr (([], skipped), d)
       else Inr ((created, skipped), recalculate_ledger_total_rooms tenant_id room_type_id d))))"

definition set_room :: "room_row \<Rightarrow> (room_row \<Rightarrow> room_row) \<Rightarrow> db \<Rightarrow> db" where
  "set_room room f d = d\<lparr>rooms := update_rows (\<lambda>r. rm_id r = rm_id room) f (rooms d)\<rparr>"

definition patch_room :: "db \<Rightarrow> uuid \<Rightarrow> uuid \<Rightarrow> string option \<Rightarrow> string option \<Rightarrow> uuid option \<Rightarrow> (room_row \<times> db) result" where
  "patch_room d tenant_id room_id name status room_type_id =
     r_bind (require (case get_room_for_patch d tenant_id room_id of
                        Some r \<Rightarrow> if rm_deleted_at r \<noteq> None then None else Some r | None \<Rightarrow> None)
               (RoomServiceError ''room not found'' 404)) (\<lambda>room.
     let old_type = rm_room_type_id room; new_type = (case room_type_id of None \<Rightarrow> old_type | Some t \<Rightarrow> t) in
     r_bind (if new_type \<noteq> old_type
             then r_bind (require (get_room_type d tenant_id new_type) (RoomServiceError ''room type not found'' 404)) (\<lambda>_. Inr ())
             else Inr ()) (\<lambda>_.
     r_bind (case status of None \<Rightarrow> Inr (rm_status room)
             | Some s \<Rightarrow> r_bind (guard (norm_status s \<in> set VALID_ROOM_STATUSES) bad_room_status) (\<lambda>_. Inr (norm_status s))) (\<lambda>st.
       let room' = room\<lparr>rm_room_type_id := new_type, rm_status := st,
                        rm_name := (case name of None \<Rightarrow> rm_name room | Some n \<Rightarrow> py_strip n)\<rparr>;
           d = set_room room (\<lambda>_. room') d
       in Inr (room', if new_type \<noteq> old_type
                      then recalculate_ledger_total_rooms tenant_id new_type (recalculate_ledger_total_rooms tenant_id old_type d)
                      else d))))"

definition room_in_use :: "db \<Rightarrow> uuid \<Rightarrow> uuid \<Rightarrow> bool" where
  "room_in_use d tenant_id room_id =
     list_ex (\<lambda>l. bl_tenant_id l = tenant_id \<and> bl_room_id l = Some room_id \<and> utc_today d \<le> bl_date l \<and>
        list_ex (\<lambda>b. bk_id b = bl_booking_id l \<and> bk_tenant_id b = tenant_id \<and>
                     bk_status b \<in> set ACTIVE_BOOKING_STATUSES) (bookings d)) (booking_lines d)"

definition soft_delete_room :: "db \<Rightarrow> uuid \<Rightarrow> uuid \<Rightarrow> db result" where
  "soft_delete_room d tenant_id room_id =
     r_bind (require (case get_room_for_patch d tenant_id room_id of
                        Some r \<Rightarrow> if rm_deleted_at r \<noteq> None then None else Some r | None \<Rightarrow> None)
               (RoomServiceError ''room not found'' 404)) (\<lambda>room.
     r_bind (guard (\<not> room_in_use d tenant_id room_id)
               (RoomServiceError ''cannot delete room with future booking lines in active statuses'' 409)) (\<lambda>_.
       Inr (recalculate_ledger_total_rooms tenant_id (rm_room_type_id room)
              (set_room room (\<lambda>r. r\<lparr>rm_deleted_at := Some (db_now d)\<rparr>) d))))"

subsection \<open>Room categories\<close>

record room_type_create =
  tcr_property_id :: uuid
  tcr_name :: string
  tcr_base_occupancy :: int
  tcr_max_occupancy :: int

definition room_type_create_valid :: "room_type_create \<Rightarrow> bool" where
  "room_type_create_valid b \<longleftrightarrow> 1 \<le> tcr_base_occupancy b \<and> 1 \<le> tcr_max_occupancy b \<and> tcr_base_occupancy b \<le> tcr_max_occupancy b"

definition create_room_type :: "db \<Rightarrow> uuid \<Rightarrow> room_type_create \<Rightarrow> (room_type_row \<times> db) result" where
  "create_room_type d tenant_id data =
     r_bind (require (get_property d tenant_id (tcr_property_id data)) (ValueError ''property not found'')) (\<lambda>_.
     let rt = \<lparr>rt_id = next_uuid d, rt_tenant_id = tenant_id, rt_property_id = tcr_property_id data, rt_name = py_strip (tcr_name data),
               rt_base_occupancy = tcr_base_occupancy data, rt_max_occupancy = tcr_max_occupancy data, rt_deleted_at = None\<rparr>;
         d = d\<lparr>room_types := room_types d @ [rt], next_uuid := next_uuid d + 1\<rparr>
     in r_bind (seed_empty_availability_ledger_year_forward d tenant_id (rt_id rt)
                  (count_rooms_for_room_type d tenant_id (rt_id rt)) None 365) (\<lambda>d. Inr (rt, d)))"

definition list_room_types :: "db \<Rightarrow> uuid \<Rightarrow> uuid option \<Rightarrow> room_type_row list" where
  "list_room_types d tenant_id property_id =
     sort_key rt_name (filter (\<lambda>r. rt_tenant_id r = tenant_id \<and> rt_deleted_at r = None \<and>
        (case property_id of None \<Rightarrow> True | Some p \<Rightarrow> rt_property_id r = p)) (room_types d))"

definition get_room_type_for_write :: "db \<Rightarrow> uuid \<Rightarrow> uuid \<Rightarrow> room_type_row option" where
  "get_room_type_for_write d tenant_id room_type_id = find (\<lambda>r. rt_tenant_id r = tenant_id \<and> rt_id r = room_type_id) (room_types d)"

record room_type_patch =
  tpa_name :: "string option option"
  tpa_base_occupancy :: "int option option"
  tpa_max_occupancy :: "int option option"

definition live_room_type :: "db \<Rightarrow> uuid \<Rightarrow> uuid \<Rightarrow> room_type_row result" where
  "live_room_type d tenant_id room_type_id =
     require (case get_room_type_for_write d tenant_id room_type_id of
                Some r \<Rightarrow> if rt_deleted_at r \<noteq> None then None else Some r | None \<Rightarrow> None) (ValueError ''room type not found'')"

text \<open>\<^verbatim>\<open>int(None)\<close> raises a TypeError; \<^verbatim>\<open>str(None)\<close> does not.\<close>

definition int_set :: "int option option \<Rightarrow> int \<Rightarrow> int result" where
  "int_set v old = (case v of None \<Rightarrow> Inr old | Some None \<Rightarrow> Inl TypeError | Some (Some n) \<Rightarrow> Inr n)"

definition patch_room_type :: "db \<Rightarrow> uuid \<Rightarrow> uuid \<Rightarrow> room_type_patch \<Rightarrow> (room_type_row \<times> db) result" where
  "patch_room_type d tenant_id room_type_id body =
     r_bind (live_room_type d tenant_id room_type_id) (\<lambda>rt.
     r_bind (int_set (tpa_base_occupancy body) (rt_base_occupancy rt)) (\<lambda>base.
     r_bind (int_set (tpa_max_occupancy body) (rt_max_occupancy rt)) (\<lambda>mx.
     r_bind (guard (base \<le> mx) (ValueError ''max_occupancy must be >= base_occupancy'')) (\<lambda>_.
       let rt' = rt\<lparr>rt_name := str_set (tpa_name body) (rt_name rt), rt_base_occupancy := base, rt_max_occupancy := mx\<rparr>
       in Inr (rt', d\<lparr>room_types := update_rows (\<lambda>r. rt_id r = rt_id rt) (\<lambda>_. rt') (room_types d)\<rparr>)))))"

definition soft_delete_room_type :: "db \<Rightarrow> uuid \<Rightarrow> uuid \<Rightarrow> db result" where
  "soft_delete_room_type d tenant_id room_type_id =
     r_bind (live_room_type d tenant_id room_type_id) (\<lambda>rt.
       Inr (d\<lparr>room_types := update_rows (\<lambda>r. rt_id r = rt_id rt) (\<lambda>r. r\<lparr>rt_deleted_at := Some (db_now d)\<rparr>) (room_types d)\<rparr>))"

subsection \<open>Housekeeping\<close>

definition VALID_HK_STATUSES :: "string list" where
  "VALID_HK_STATUSES = [''clean'', ''dirty'', ''inspected'', ''out_of_service'']"

definition VALID_HK_PRIORITIES :: "string list" where
  "VALID_HK_PRIORITIES = [''low'', ''normal'', ''high'', ''rush'']"

definition hk_choice :: "string list \<Rightarrow> string \<Rightarrow> string \<Rightarrow> string result" where
  "hk_choice valid msg v = (if norm_status v \<in> set valid then Inr (norm_status v) else Inl (HousekeepingServiceError msg 422))"

definition hk_filter :: "string list \<Rightarrow> string \<Rightarrow> string option \<Rightarrow> string option result" where
  "hk_filter valid msg v = (case v of None \<Rightarrow> Inr None | Some s \<Rightarrow> r_bind (hk_choice valid msg s) (\<lambda>x. Inr (Some x)))"

definition list_rooms_for_housekeeping ::
  "db \<Rightarrow> uuid \<Rightarrow> uuid \<Rightarrow> string option \<Rightarrow> string option \<Rightarrow> date option \<Rightarrow> (room_row \<times> string) list result" where
  "list_rooms_for_housekeeping d tenant_id property_id housekeeping_status housekeeping_priority filter_date =
     r_bind (hk_filter VALID_HK_STATUSES ''status filter'' housekeeping_status) (\<lambda>hs.
     r_bind (hk_filter VALID_HK_PRIORITIES ''priority filter'' housekeeping_priority) (\<lambda>hp.
       Inr (sort_key (\<lambda>(r, n). rm_name r) [(r, rt_name rt). r \<leftarrow> rooms d, rt \<leftarrow> room_types d,
          rt_tenant_id rt = rm_tenant_id r \<and> rt_id rt = rm_room_type_id r \<and> live_room tenant_id r \<and> rt_property_id rt = property_id \<and>
          (case hs of None \<Rightarrow> True | Some s \<Rightarrow> rm_housekeeping_status r = s) \<and>
          (case hp of None \<Rightarrow> True | Some p \<Rightarrow> rm_housekeeping_priority r = p) \<and>
          (case filter_date of None \<Rightarrow> True | Some day \<Rightarrow> list_ex (\<lambda>l. bl_tenant_id l = rm_tenant_id r \<and>
             bl_room_id l = Some (rm_id r) \<and> bl_date l = day) (booking_lines d))])))"

definition patch_room_housekeeping ::
  "db \<Rightarrow> uuid \<Rightarrow> uuid \<Rightarrow> string \<Rightarrow> string option \<Rightarrow> uuid option \<Rightarrow> (room_row \<times> db) result" where
  "patch_room_housekeeping d tenant_id room_id hk_status hk_priority actor_user_id =
     r_bind (require (get_room d tenant_id room_id) (HousekeepingServiceError ''room not found'' 404)) (\<lambda>room.
     r_bind (hk_choice VALID_HK_STATUSES ''housekeeping_status'' hk_status) (\<lambda>new_status.
     r_bind (case hk_priority of None \<Rightarrow> Inr (rm_housekeeping_priority room)
             | Some p \<Rightarrow> hk_choice VALID_HK_PRIORITIES ''housekeeping_priority'' p) (\<lambda>new_priority.
       let room' = room\<lparr>rm_housekeeping_status := new_status, rm_housekeeping_priority := new_priority,
                        rm_status := (if new_status = ''inspected'' \<and> rm_status room \<notin> set [''maintenance'', ''out_of_order'']
                                      then ''available'' else rm_status room)\<rparr>;
           event = \<lparr>he_id = next_uuid d, he_tenant_id = tenant_id, he_room_id = room_id, he_old_status = rm_housekeeping_status room,
                    he_new_status = new_status, he_changed_by_user_id = actor_user_id\<rparr>
       in Inr (room', (set_room room (\<lambda>_. room') d)\<lparr>hk_events := hk_events d @ [event], next_uuid := next_uuid d + 1\<rparr>))))"

subsection \<open>Reading the inventory\<close>

definition room_counts_by_type :: "db \<Rightarrow> uuid \<Rightarrow> uuid list \<Rightarrow> (uuid \<times> int) list" where
  "room_counts_by_type d tenant_id room_type_ids =
     map (\<lambda>rt. (rt, count_rooms_for_room_type d tenant_id rt))
       (filter (\<lambda>rt. 0 < count_rooms_for_room_type d tenant_id rt) (remdups room_type_ids))"

record availability_cell =
  ac_date :: date
  ac_room_type_id :: uuid
  ac_room_type_name :: string
  ac_total_rooms :: int
  ac_booked_rooms :: int
  ac_blocked_rooms :: int
  ac_available_rooms :: int

definition grid_cell :: "(uuid \<times> int) list \<Rightarrow> ledger_row list \<Rightarrow> room_type_row \<Rightarrow> date \<Rightarrow> availability_cell" where
  "grid_cell counts ledger_rows rt day =
     (let (tot, bkd, blk) = (case map_of (rev (map (\<lambda>r. ((al_room_type_id r, al_date r), r)) ledger_rows)) (rt_id rt, day) of
            Some row \<Rightarrow> (al_total_rooms row, al_booked_rooms row, al_blocked_rooms row)
          | None \<Rightarrow> ((case map_of counts (rt_id rt) of None \<Rightarrow> 0 | Some n \<Rightarrow> n), 0, 0))
      in \<lparr>ac_date = day, ac_room_type_id = rt_id rt, ac_room_type_name = rt_name rt, ac_total_rooms = tot,
          ac_booked_rooms = bkd, ac_blocked_rooms = blk, ac_available_rooms = tot - bkd - blk\<rparr>)"

definition get_availability_grid ::
  "db \<Rightarrow> uuid \<Rightarrow> uuid \<Rightarrow> date \<Rightarrow> date \<Rightarrow> uuid option \<Rightarrow> availability_cell list option" where
  "get_availability_grid d tenant_id property_id start_date end_date room_type_id =
     (case get_property d tenant_id property_id of
        None \<Rightarrow> None
      | Some _ \<Rightarrow>
          let rts = sort_key rt_name (filter (\<lambda>r. rt_tenant_id r = tenant_id \<and> rt_property_id r = property_id \<and>
                      (case room_type_id of None \<Rightarrow> True | Some i \<Rightarrow> rt_id r = i)) (room_types d))
          in if rts = [] then Some []
             else let counts = room_counts_by_type d tenant_id (map rt_id rts);
                      dates = iter_inclusive_dates start_date end_date;
                      ledger_rows = filter (\<lambda>r. al_tenant_id r = tenant_id \<and> al_room_type_id r \<in> set (map rt_id rts) \<and>
                                       start_date \<le> al_date r \<and> al_date r \<le> end_date) (ledger d)
                  in Some (concat (map (\<lambda>rt. map (grid_cell counts ledger_rows rt) dates) rts)))"

definition property_belongs_to_tenant :: "db \<Rightarrow> uuid \<Rightarrow> uuid \<Rightarrow> bool" where
  "property_belongs_to_tenant d tenant_id property_id = list_ex (\<lambda>p. pr_tenant_id p = tenant_id \<and> pr_id p = property_id) (properties d)"

definition list_rooms_for_property :: "db \<Rightarrow> uuid \<Rightarrow> uuid \<Rightarrow> room_row list" where
  "list_rooms_for_property d tenant_id property_id =
     sort_key rm_name (filter (\<lambda>r. live_room tenant_id r \<and>
        list_ex (\<lambda>rt. rt_tenant_id rt = rm_tenant_id r \<and> rt_id rt = rm_room_type_id r \<and> rt_property_id rt = property_id \<and>
                      rt_deleted_at rt = None) (room_types d)) (rooms d))"

definition list_assignable_rooms_for_stay ::
  "db \<Rightarrow> uuid \<Rightarrow> uuid \<Rightarrow> uuid \<Rightarrow> date \<Rightarrow> date \<Rightarrow> room_row list option result" where
  "list_assignable_rooms_for_stay d tenant_id property_id room_type_id check_in check_out =
     (if \<not> property_belongs_to_tenant d tenant_id property_id \<or>
         \<not> list_ex (\<lambda>rt. rt_tenant_id rt = tenant_id \<and> rt_id rt = room_type_id \<and> rt_property_id rt = property_id \<and>
              rt_deleted_at rt = None) (room_types d)
      then Inr None
      else r_bind (iter_stay_nights check_in check_out) (\<lambda>nights.
        let rs = sort_key rm_name (filter (\<lambda>r. live_room tenant_id r \<and> rm_room_type_id r = room_type_id \<and>
                    rm_status r = ''available'') (rooms d));
            busy_ids = List.map_filter bl_room_id (filter (\<lambda>l. bl_tenant_id l = tenant_id \<and>
               (case bl_room_id l of None \<Rightarrow> False | Some i \<Rightarrow> i \<in> set (map rm_id rs)) \<and> bl_date l \<in> set nights \<and>
               list_ex (\<lambda>b. bk_tenant_id b = bl_tenant_id l \<and> bk_id b = bl_booking_id l \<and> active_booking b) (bookings d))
               (booking_lines d))
        in Inr (Some (filter (\<lambda>r. rm_id r \<notin> set busy_ids) rs))))"

subsection \<open>Stock and capacity under changes of the room list\<close>

lemma stock_frame:
  "ledger d' = ledger d \<Longrightarrow> bookings d' = bookings d \<Longrightarrow> booking_lines d' = booking_lines d \<Longrightarrow>
   next_uuid d \<le> next_uuid d' \<Longrightarrow> hotel_inv d \<Longrightarrow> hotel_inv d'"
proof -
  assume eq: "ledger d' = ledger d" "bookings d' = bookings d" "booking_lines d' = booking_lines d" "next_uuid d \<le> next_uuid d'"
    and inv: "hotel_inv d"
  let ?d = "d\<lparr>next_uuid := next_uuid d'\<rparr>"
  have "same_stock d ?d" using eq(4) by (simp add: same_stock_def)
  then have "inventory_inv ?d" using inv inventory_inv_frame by (auto simp: hotel_inv_def)
  then have "inventory_inv d'"
    using eq by (simp add: inventory_inv_def counts_ok_def booked_def booked_at_def bucket_row_def occupied_def ledger_wf_def bookings_ok_def)
  moreover have "ledger_fresh d'" using inv eq by (auto simp: hotel_inv_def ledger_fresh_def list_all_iff)
  ultimately show "hotel_inv d'" by (simp add: hotel_inv_def)
qed

lemma hotel_inv_recalculate: "hotel_inv d \<Longrightarrow> hotel_inv (recalculate_ledger_total_rooms t rt d)"
  using admin_inventory.step_keeps recalculate_write by blast

lemma recalculate_simps [simp]:
  "rooms (recalculate_ledger_total_rooms t rt d) = rooms d" "utc_today (recalculate_ledger_total_rooms t rt d) = utc_today d"
  "count_rooms_for_room_type (recalculate_ledger_total_rooms t rt d) t' rt' = count_rooms_for_room_type d t' rt'"
  by (simp_all add: recalculate_ledger_total_rooms_def count_rooms_for_room_type_def)

text \<open>Capacity is current for every category outside a set.\<close>

definition totals_but :: "(uuid \<times> uuid) set \<Rightarrow> db \<Rightarrow> bool" where
  "totals_but X d \<longleftrightarrow> (\<forall>r\<in>set (ledger d). utc_today d \<le> al_date r \<longrightarrow> (al_tenant_id r, al_room_type_id r) \<notin> X \<longrightarrow>
     al_total_rooms r = count_rooms_for_room_type d (al_tenant_id r) (al_room_type_id r))"

lemma totals_but_empty: "totals_but {} d \<longleftrightarrow> totals_current d"
  by (simp add: totals_but_def totals_current_def list_all_iff)

lemma totals_but_recalculate:
  "totals_but X d \<Longrightarrow> totals_but (X - {(t, rt)}) (recalculate_ledger_total_rooms t rt d)"
proof -
  let ?d = "recalculate_ledger_total_rooms t rt d"
  assume but: "totals_but X d"
  have "al_total_rooms r = count_rooms_for_room_type d (al_tenant_id r) (al_room_type_id r)"
    if r: "r \<in> set (ledger ?d)" "utc_today d \<le> al_date r" "(al_tenant_id r, al_room_type_id r) \<notin> X - {(t, rt)}" for r
  proof -
    let ?P = "\<lambda>x. al_tenant_id x = t \<and> al_room_type_id x = rt \<and> utc_today d \<le> al_date x"
    from r(1) obtain x where x: "x \<in> set (ledger d)"
      "r = (if ?P x then x\<lparr>al_total_rooms := count_rooms_for_room_type d t rt\<rparr> else x)"
      by (auto simp: recalculate_ledger_total_rooms_def set_update_rows)
    show ?thesis
    proof (cases "?P x")
      case True
      with x(2) show ?thesis by simp
    next
      case False
      with x r(2,3) have "r = x" "(al_tenant_id x, al_room_type_id x) \<notin> X" by auto
      with but x(1) r(2) show ?thesis by (simp add: totals_but_def)
    qed
  qed
  then show "totals_but (X - {(t, rt)}) ?d" by (simp add: totals_but_def)
qed

lemma totals_but_rooms:
  assumes "totals_current d" "ledger d' = ledger d" "utc_today d' = utc_today d"
    "\<And>t rt. (t, rt) \<notin> X \<Longrightarrow> count_rooms_for_room_type d' t rt = count_rooms_for_room_type d t rt"
  shows "totals_but X d'"
  using assms by (simp add: totals_but_def totals_current_def list_all_iff)

lemma totals_current_recalculate:
  "totals_but {(t, rt)} d \<Longrightarrow> totals_current (recalculate_ledger_total_rooms t rt d)"
  using totals_but_recalculate [of "{(t, rt)}" d t rt] by (simp add: totals_but_empty)

lemma count_insert_room:
  "insert_room t rt n st d = (room, d') \<Longrightarrow> count_rooms_for_room_type d' t' rt' =
     count_rooms_for_room_type d t' rt' + (if (t', rt') = (t, rt) then 1 else 0)"
  by (auto simp: insert_room_def Let_def count_rooms_for_room_type_def)

lemma insert_room_frame:
  "insert_room t rt n st d = (room, d') \<Longrightarrow> ledger d' = ledger d \<and> bookings d' = bookings d \<and> booking_lines d' = booking_lines d \<and>
     next_uuid d \<le> next_uuid d' \<and> utc_today d' = utc_today d"
  by (auto simp: insert_room_def Let_def)

text \<open>More live rooms of one category, everything else in place.\<close>

definition grown :: "uuid \<Rightarrow> uuid \<Rightarrow> db \<Rightarrow> db \<Rightarrow> bool" where
  "grown t rt d d' \<longleftrightarrow> ledger d' = ledger d \<and> bookings d' = bookings d \<and> booking_lines d' = booking_lines d \<and>
     next_uuid d \<le> next_uuid d' \<and> utc_today d' = utc_today d \<and>
     (\<forall>t' rt'. (t', rt') \<noteq> (t, rt) \<longrightarrow> count_rooms_for_room_type d' t' rt' = count_rooms_for_room_type d t' rt') \<and>
     count_rooms_for_room_type d t rt \<le> count_rooms_for_room_type d' t rt"

lemma grown_refl [simp]: "grown t rt d d"
  by (simp add: grown_def)

lemma grown_insert_room:
  assumes "grown t rt d d1" "insert_room t rt n st d1 = (room, d')"
  shows "grown t rt d d'"
  using assms insert_room_frame [OF assms(2)] by (auto simp: grown_def count_insert_room [OF assms(2)])

lemma grown_batch:
  "create_batch t rt fail items names s = Inr s' \<Longrightarrow> grown t rt d (snd (snd s)) \<Longrightarrow> grown t rt d (snd (snd s'))"
proof (induction t rt fail items names s rule: create_batch.induct)
  case (2 t rt fail name status items names created skipped d1)
  obtain room d2 where ins: "insert_room t rt (py_strip name) (norm_status status) d1 = (room, d2)" by fastforce
  from "2.prems"(2) have "grown t rt d d2" using grown_insert_room [OF _ ins] by simp
  with 2 ins show ?case by (auto simp: Let_def split: if_splits)
qed simp

lemma no_overbooking_grown:
  assumes tot: "totals_current d" and fit: "no_overbooking d" and g: "grown t rt d d'"
  shows "no_overbooking (recalculate_ledger_total_rooms t rt d')"
proof -
  let ?n = "count_rooms_for_room_type d' t rt"
  have "al_booked_rooms r + al_blocked_rooms r \<le> ?n"
    if "r \<in> set (ledger d)" "al_tenant_id r = t" "al_room_type_id r = rt" "utc_today d \<le> al_date r" for r
  proof -
    have "al_total_rooms r \<le> ?n" using tot that g by (auto simp: totals_current_def list_all_iff grown_def)
    with fit that(1) show ?thesis by (fastforce simp: no_overbooking_def list_all_iff)
  qed
  with fit g show ?thesis
    by (auto simp: no_overbooking_def recalculate_ledger_total_rooms_def list_all_iff set_update_rows grown_def)
qed

lemma grown_keeps:
  assumes g: "grown t rt d d'"
  shows "hotel_inv d \<Longrightarrow> hotel_inv (recalculate_ledger_total_rooms t rt d')"
    and "totals_current d \<Longrightarrow> totals_current (recalculate_ledger_total_rooms t rt d')"
proof -
  show "hotel_inv d \<Longrightarrow> hotel_inv (recalculate_ledger_total_rooms t rt d')"
    using g stock_frame [of d' d] hotel_inv_recalculate by (simp add: grown_def)
  show "totals_current d \<Longrightarrow> totals_current (recalculate_ledger_total_rooms t rt d')"
    using g totals_but_rooms [of d d' "{(t, rt)}"] totals_current_recalculate by (auto simp: grown_def)
qed

lemma create_room_Inr:
  assumes "create_room d t rt name st = Inr (room, d')"
  obtains d1 where "grown t rt d d1" "d' = recalculate_ledger_total_rooms t rt d1"
    "count_rooms_for_room_type d1 t rt = count_rooms_for_room_type d t rt + 1"
proof -
  obtain r d1 where ins: "insert_room t rt (py_strip name) (norm_status st) d = (r, d1)" by fastforce
  with assms have "d' = recalculate_ledger_total_rooms t rt d1" by (auto simp: create_room_def Let_def split: if_splits)
  with that grown_insert_room [OF grown_refl ins] count_insert_room [OF ins] show ?thesis by simp
qed

lemma create_rooms_bulk_Inr:
  assumes "create_rooms_bulk d t rt items fail = Inr (res, d')"
  obtains d1 where "grown t rt d d1" "d' = d1 \<and> fst res = [] \<or> d' = recalculate_ledger_total_rooms t rt d1"
    "create_batch t rt fail items (map rm_name (filter (\<lambda>r. live_room t r \<and> rm_room_type_id r = rt) (rooms d))) ([], [], d)
      = Inr (fst res, snd res, d1)"
proof -
  let ?names = "map rm_name (filter (\<lambda>r. live_room t r \<and> rm_room_type_id r = rt) (rooms d))"
  from assms obtain created skipped d1 where b: "create_batch t rt fail items ?names ([], [], d) = Inr (created, skipped, d1)"
    and r: "if created = [] then (res, d') = (([], skipped), d1)
      else (res, d') = ((created, skipped), recalculate_ledger_total_rooms t rt d1)"
    by (auto simp: create_rooms_bulk_def split: if_splits)
  from grown_batch [OF b, of d] have "grown t rt d d1" by simp
  moreover have "d' = d1 \<and> fst res = [] \<or> d' = recalculate_ledger_total_rooms t rt d1" using r by (auto split: if_splits)
  moreover have "created = fst res" "skipped = snd res" using r by (auto split: if_splits)
  ultimately show ?thesis using that b by blast
qed

lemma create_batch_created:
  "create_batch t rt fail items names (created, skipped, d) = Inr (created', skipped', d') \<Longrightarrow>
   count_rooms_for_room_type d' t rt = count_rooms_for_room_type d t rt + int (length created') - int (length created) \<and>
   length created \<le> length created' \<and> (length created' = length created \<longrightarrow> d' = d)"
proof (induction items arbitrary: names created skipped d)
  case (Cons it items)
  obtain name status where it: "it = (name, status)" by (cases it)
  obtain room d2 where ins: "insert_room t rt (py_strip name) (norm_status status) d = (room, d2)" by fastforce
  show ?case
  proof (cases "py_strip name \<in> set names")
    case True
    with Cons.prems have "create_batch t rt fail items names (created, skipped @ [py_strip name], d) = Inr (created', skipped', d')"
      unfolding it create_batch.simps Let_def by (simp only: if_True sum.distinct split: if_splits)
    from Cons.IH [OF this] show ?thesis .
  next
    case False
    with Cons.prems ins have "create_batch t rt fail items (py_strip name # names) (created @ [room], skipped, d2) = Inr (created', skipped', d')"
      unfolding it create_batch.simps Let_def by (simp only: if_False prod.case)
    from Cons.IH [OF this] count_insert_room [OF ins, of t rt] show ?thesis by simp
  qed
qed simp

lemma create_rooms_bulk_keeps:
  assumes "create_rooms_bulk d t rt items fail = Inr (res, d')"
  shows "hotel_inv d \<Longrightarrow> hotel_inv d'" "totals_current d \<Longrightarrow> totals_current d'"
    "totals_current d \<Longrightarrow> no_overbooking d \<Longrightarrow> no_overbooking d'"
proof -
  from create_rooms_bulk_Inr [OF assms] obtain d1 where g: "grown t rt d d1"
    and d': "d' = d1 \<and> fst res = [] \<or> d' = recalculate_ledger_total_rooms t rt d1"
    and b: "create_batch t rt fail items (map rm_name (filter (\<lambda>r. live_room t r \<and> rm_room_type_id r = rt) (rooms d))) ([], [], d)
      = Inr (fst res, snd res, d1)" .
  have same: "d' = d" if "d' = d1 \<and> fst res = []" using create_batch_created [OF b] that by simp
  show "hotel_inv d \<Longrightarrow> hotel_inv d'" "totals_current d \<Longrightarrow> totals_current d'"
    "totals_current d \<Longrightarrow> no_overbooking d \<Longrightarrow> no_overbooking d'"
    using d' same grown_keeps [OF g] no_overbooking_grown [OF _ _ g] by auto
qed

definition counts_in :: "uuid \<Rightarrow> uuid \<Rightarrow> room_row \<Rightarrow> int" where
  "counts_in t rt r = (if live_room t r \<and> rm_room_type_id r = rt then 1 else 0)"

interpretation room_count: measured_table "counts_in t rt" "\<lambda>r. live_room t r \<and> rm_room_type_id r = rt" for t rt
  by unfold_locales (simp add: counts_in_def)

lemma count_measure: "count_rooms_for_room_type d t rt = measure_of (counts_in t rt) (rooms d)"
proof -
  have "int (length (filter (\<lambda>r. rm_tenant_id r = t \<and> rm_room_type_id r = rt \<and> rm_deleted_at r = None) rs)) =
      measure_of (counts_in t rt) rs" for rs
    by (induction rs) (auto simp: measure_of_def counts_in_def live_room_def)
  then show ?thesis by (simp add: count_rooms_for_room_type_def)
qed

lemma count_set_room:
  assumes "rooms_wf d" "room \<in> set (rooms d)"
  shows "count_rooms_for_room_type (set_room room f d) t rt =
    count_rooms_for_room_type d t rt - counts_in t rt room + counts_in t rt (f room)"
  using assms room_count.measure_update_one [of rm_id "rooms d" room t rt f]
  by (simp add: count_measure set_room_def rooms_wf_def)

lemma set_room_frame:
  "ledger (set_room room f d) = ledger d" "bookings (set_room room f d) = bookings d"
  "booking_lines (set_room room f d) = booking_lines d" "next_uuid (set_room room f d) = next_uuid d"
  "utc_today (set_room room f d) = utc_today d"
  by (simp_all add: set_room_def)

lemma rooms_wf_set_room: "rooms_wf d \<Longrightarrow> rm_id (f room) = rm_id room \<Longrightarrow> room \<in> set (rooms d) \<Longrightarrow> rooms_wf (set_room room f d)"
proof -
  assume wf: "rooms_wf d" and f: "rm_id (f room) = rm_id room" and mem: "room \<in> set (rooms d)"
  have "rm_id (f r) = rm_id r" if "r \<in> set (rooms d)" "rm_id r = rm_id room" for r
    using wf mem that f tb_room.distinct_same [of "rooms d" r room] by (simp add: rooms_wf_def)
  then have "map rm_id (update_rows (\<lambda>r. rm_id r = rm_id room) f (rooms d)) = map rm_id (rooms d)"
    by (simp add: update_rows_def)
  moreover have "list_all (\<lambda>r. rm_id r < n) rs = list_all (\<lambda>i. i < n) (map rm_id rs)" for n and rs :: "room_row list"
    by (simp add: list_all_iff)
  ultimately show "rooms_wf (set_room room f d)" using wf by (simp add: rooms_wf_def set_room_def)
qed

lemma soft_delete_room_Inr:
  assumes "soft_delete_room d t i = Inr d'"
  obtains room where "room \<in> set (rooms d)" "rm_id room = i" "live_room t room" "\<not> room_in_use d t i"
    "d' = recalculate_ledger_total_rooms t (rm_room_type_id room) (set_room room (\<lambda>r. r\<lparr>rm_deleted_at := Some (db_now d)\<rparr>) d)"
proof -
  from assms obtain room where g: "get_room_for_patch d t i = Some room" and live: "rm_deleted_at room = None"
    and use: "\<not> room_in_use d t i"
    and d': "d' = recalculate_ledger_total_rooms t (rm_room_type_id room) (set_room room (\<lambda>r. r\<lparr>rm_deleted_at := Some (db_now d)\<rparr>) d)"
    by (auto simp: soft_delete_room_def split: if_splits option.splits)
  from find_Some_mem [OF g [unfolded get_room_for_patch_def]] live use d' that show ?thesis
    by (auto simp: live_room_def)
qed

lemma patch_room_Inr:
  assumes "patch_room d t i name st rto = Inr (room', d')"
  obtains room where "room \<in> set (rooms d)" "rm_id room = i" "live_room t room"
    "rm_id room' = rm_id room" "live_room t room'" "rm_room_type_id room' = (case rto of None \<Rightarrow> rm_room_type_id room | Some rt \<Rightarrow> rt)"
    "rm_status room' \<in> insert (rm_status room) (set VALID_ROOM_STATUSES)"
    "rm_housekeeping_status room' = rm_housekeeping_status room" "rm_housekeeping_priority room' = rm_housekeeping_priority room"
    "d' = (let d1 = set_room room (\<lambda>_. room') d in if rm_room_type_id room' \<noteq> rm_room_type_id room
       then recalculate_ledger_total_rooms t (rm_room_type_id room') (recalculate_ledger_total_rooms t (rm_room_type_id room) d1) else d1)"
proof -
  from assms obtain room where g: "get_room_for_patch d t i = Some room" and live: "rm_deleted_at room = None"
    by (auto simp: patch_room_def split: if_splits option.splits)
  let ?new = "case rto of None \<Rightarrow> rm_room_type_id room | Some rt \<Rightarrow> rt"
  from g live have r: "require (case get_room_for_patch d t i of Some r \<Rightarrow> if rm_deleted_at r \<noteq> None then None else Some r | None \<Rightarrow> None)
               (RoomServiceError ''room not found'' 404) = Inr room" by simp
  define s where "s = (case st of None \<Rightarrow> rm_status room | Some x \<Rightarrow> norm_status x)"
  from assms have s: "s \<in> insert (rm_status room) (set VALID_ROOM_STATUSES)"
    and room': "room' = room\<lparr>rm_room_type_id := ?new, rm_status := s, rm_name := (case name of None \<Rightarrow> rm_name room | Some n \<Rightarrow> py_strip n)\<rparr>"
    and d': "d' = (let d1 = set_room room (\<lambda>_. room') d in if ?new \<noteq> rm_room_type_id room
       then recalculate_ledger_total_rooms t ?new (recalculate_ledger_total_rooms t (rm_room_type_id room) d1) else d1)"
    unfolding patch_room_def r Let_def
    by (cases st; cases "?new \<noteq> rm_room_type_id room"; auto simp: s_def split: if_splits)+
  have mem: "room \<in> set (rooms d)" "rm_tenant_id room = t" "rm_id room = i"
    using find_Some_mem [OF g [unfolded get_room_for_patch_def]] by auto
  show ?thesis
    by (rule that [of room]) (use mem live s room' d' in \<open>simp_all add: live_room_def Let_def\<close>)
qed

lemma soft_delete_room_keeps:
  assumes "soft_delete_room d t i = Inr d'" "rooms_wf d"
  shows "hotel_inv d \<Longrightarrow> hotel_inv d'" "totals_current d \<Longrightarrow> totals_current d'" "rooms_wf d'"
proof -
  from soft_delete_room_Inr [OF assms(1)] obtain room where room: "room \<in> set (rooms d)" "live_room t room"
    and d': "d' = recalculate_ledger_total_rooms t (rm_room_type_id room) (set_room room (\<lambda>r. r\<lparr>rm_deleted_at := Some (db_now d)\<rparr>) d)"
    by metis
  let ?d = "set_room room (\<lambda>r. r\<lparr>rm_deleted_at := Some (db_now d)\<rparr>) d"
  show "hotel_inv d \<Longrightarrow> hotel_inv d'"
    unfolding d' using stock_frame [of ?d d] hotel_inv_recalculate by (simp add: set_room_frame)
  have "totals_current d \<Longrightarrow> totals_but {(t, rm_room_type_id room)} ?d"
    by (rule totals_but_rooms) (use room assms(2) in \<open>auto simp: set_room_frame count_set_room counts_in_def live_room_def\<close>)
  then show "totals_current d \<Longrightarrow> totals_current d'" unfolding d' by (rule totals_current_recalculate)
  have "rooms_wf ?d" using assms(2) room(1) by (intro rooms_wf_set_room) simp_all
  then show "rooms_wf d'" by (simp add: d' rooms_wf_def recalculate_ledger_total_rooms_def)
qed

lemma patch_room_keeps:
  assumes "patch_room d t i name st rto = Inr (room', d')" "rooms_wf d"
  shows "hotel_inv d \<Longrightarrow> hotel_inv d'" "totals_current d \<Longrightarrow> totals_current d'" "rooms_wf d'"
    "rto = None \<Longrightarrow> no_overbooking d \<Longrightarrow> no_overbooking d'"
proof -
  from patch_room_Inr [OF assms(1)] obtain room where room: "room \<in> set (rooms d)" "live_room t room" "rm_id room' = rm_id room"
    "live_room t room'" and ty: "rm_room_type_id room' = (case rto of None \<Rightarrow> rm_room_type_id room | Some rt \<Rightarrow> rt)"
    and d': "d' = (let d1 = set_room room (\<lambda>_. room') d in if rm_room_type_id room' \<noteq> rm_room_type_id room
       then recalculate_ledger_total_rooms t (rm_room_type_id room') (recalculate_ledger_total_rooms t (rm_room_type_id room) d1) else d1)"
    by metis
  let ?d = "set_room room (\<lambda>_. room') d" and ?old = "rm_room_type_id room" and ?new = "rm_room_type_id room'"
  have inv: "hotel_inv d \<Longrightarrow> hotel_inv ?d" using stock_frame [of ?d d] by (simp add: set_room_frame)
  then show "hotel_inv d \<Longrightarrow> hotel_inv d'" unfolding d' Let_def using hotel_inv_recalculate by simp
  have but: "totals_current d \<Longrightarrow> totals_but (if ?new = ?old then {} else {(t, ?old), (t, ?new)}) ?d"
    by (rule totals_but_rooms) (use room assms(2) in \<open>auto simp: set_room_frame count_set_room counts_in_def live_room_def\<close>)
  then show "totals_current d \<Longrightarrow> totals_current d'"
    using totals_but_recalculate [of "{(t, ?old), (t, ?new)}" ?d t ?old] totals_current_recalculate
    by (auto simp: d' Let_def totals_but_empty insert_Diff_if split: if_splits)
  have "rooms_wf ?d" using assms(2) room by (intro rooms_wf_set_room) simp_all
  then show "rooms_wf d'" by (simp add: d' Let_def rooms_wf_def recalculate_ledger_total_rooms_def)
  show "rto = None \<Longrightarrow> no_overbooking d \<Longrightarrow> no_overbooking d'"
    using ty by (simp add: d' Let_def no_overbooking_def set_room_frame)
qed

lemma rooms_wf_insert: "insert_room t rt n st d = (room, d') \<Longrightarrow> rooms_wf d \<Longrightarrow> rooms_wf d'"
  by (force simp: insert_room_def Let_def rooms_wf_def list_all_iff)

lemma rooms_wf_recalculate [simp]: "rooms_wf (recalculate_ledger_total_rooms t rt d) = rooms_wf d"
  by (simp add: rooms_wf_def recalculate_ledger_total_rooms_def)

lemma create_room_wf: "create_room d t rt name st = Inr (room, d') \<Longrightarrow> rooms_wf d \<Longrightarrow> rooms_wf d'"
  using rooms_wf_insert [of t rt "py_strip name" "norm_status st" d "fst (insert_room t rt (py_strip name) (norm_status st) d)"]
  by (auto simp: create_room_def Let_def case_prod_beta split: if_splits)

lemma create_batch_wf: "create_batch t rt fail items names s = Inr s' \<Longrightarrow> rooms_wf (snd (snd s)) \<Longrightarrow> rooms_wf (snd (snd s'))"
proof (induction t rt fail items names s rule: create_batch.induct)
  case (2 t rt fail name status items names created skipped d)
  obtain room d2 where ins: "insert_room t rt (py_strip name) (norm_status status) d = (room, d2)" by fastforce
  from "2.prems"(2) have "rooms_wf d2" using rooms_wf_insert [OF ins] by simp
  with 2 ins show ?case by (auto simp: Let_def split: if_splits)
qed simp

lemma create_rooms_bulk_wf:
  assumes "create_rooms_bulk d t rt items fail = Inr (res, d')" "rooms_wf d"
  shows "rooms_wf d'"
  by (rule create_rooms_bulk_Inr [OF assms(1)]) (use assms(2) create_batch_wf in fastforce)

text \<open>Operations that change neither the stock nor the list of rooms.\<close>

definition aside :: "db \<Rightarrow> db \<Rightarrow> bool" where
  "aside d d' \<longleftrightarrow> ledger_kept d d' \<and> bookings d' = bookings d \<and> booking_lines d' = booking_lines d"

lemma aside_keeps:
  assumes "aside d d'"
  shows "hotel_inv d \<Longrightarrow> hotel_inv d'" "totals_current d \<Longrightarrow> totals_current d'" "rooms_wf d \<Longrightarrow> rooms_wf d'"
    "no_overbooking d \<Longrightarrow> no_overbooking d'"
  using assms stock_frame [of d' d] capacity.frame numbered.frame fits.frame by (auto simp: aside_def ledger_kept_def)

lemma patch_room_type_aside: "patch_room_type d t i body = Inr (rt, d') \<Longrightarrow> aside d d'"
  by (auto simp: patch_room_type_def aside_def ledger_kept_def fleet_def Let_def split: if_splits)

lemma soft_delete_room_type_aside: "soft_delete_room_type d t i = Inr d' \<Longrightarrow> aside d d'"
  by (auto simp: soft_delete_room_type_def aside_def ledger_kept_def fleet_def)

lemma housekeeping_aside:
  assumes "patch_room_housekeeping d t i hs hp u = Inr (room', d')" "rooms_wf d"
  shows "aside d d'"
proof -
  from assms(1) obtain room where g: "get_room d t i = Some room"
    and r: "rm_id room' = rm_id room" "rm_tenant_id room' = rm_tenant_id room" "rm_room_type_id room' = rm_room_type_id room"
      "rm_deleted_at room' = rm_deleted_at room"
    and d': "ledger d' = ledger d" "bookings d' = bookings d" "booking_lines d' = booking_lines d" "next_uuid d' = next_uuid d + 1"
      "rooms d' = update_rows (\<lambda>x. rm_id x = rm_id room) (\<lambda>_. room') (rooms d)" "utc_today d' = utc_today d"
    by (auto simp: patch_room_housekeeping_def Let_def set_room_def)
  have mem: "room \<in> set (rooms d)" using find_Some_mem [OF g [unfolded get_room_def]] by simp
  have "x = room" if "x \<in> set (rooms d)" "rm_id x = rm_id room" for x
    using assms(2) mem that tb_room.distinct_same [of "rooms d" x room] by (simp add: rooms_wf_def)
  then have "fleet d' = fleet d" using r by (auto simp: fleet_def d' update_rows_def)
  then show ?thesis by (simp add: aside_def ledger_kept_def d')
qed

lemma create_room_type_Inr:
  assumes "create_room_type d t data = Inr (rt, d')"
  obtains d1 where "aside d d1" "admin_write\<^sup>*\<^sup>* d1 d'" "no_overbooking d1 \<Longrightarrow> no_overbooking d'" "rooms d' = rooms d" "next_uuid d \<le> next_uuid d'"
proof -
  define rt0 where "rt0 = \<lparr>rt_id = next_uuid d, rt_tenant_id = t, rt_property_id = tcr_property_id data, rt_name = py_strip (tcr_name data),
               rt_base_occupancy = tcr_base_occupancy data, rt_max_occupancy = tcr_max_occupancy data, rt_deleted_at = None\<rparr>"
  define d1 where "d1 = d\<lparr>room_types := room_types d @ [rt0], next_uuid := next_uuid d + 1\<rparr>"
  have "rt_id rt0 = next_uuid d" by (simp add: rt0_def)
  with assms have seed: "seed_days t (next_uuid d) (count_rooms_for_room_type d1 t (next_uuid d)) (days_from (utc_today d) 365) d1 = Inr d'"
    by (auto simp: create_room_type_def rt0_def [symmetric] d1_def [symmetric] Let_def seed_empty_availability_ledger_year_forward_def)
  have "aside d d1" by (simp add: aside_def ledger_kept_def d1_def fleet_def)
  moreover have w: "admin_write\<^sup>*\<^sup>* d1 d'" using seed_days_writes [OF seed refl] .
  moreover have "no_overbooking d1 \<Longrightarrow> no_overbooking d'"
  proof -
    have "seed_days t i n days d2 = Inr d3 \<Longrightarrow> 0 \<le> n \<Longrightarrow> no_overbooking d2 \<Longrightarrow> no_overbooking d3" for i n days d2 d3
      by (induction days arbitrary: d2) (auto simp: no_overbooking_def insert_ledger_def split: if_splits)
    from this [OF seed] show "no_overbooking d1 \<Longrightarrow> no_overbooking d'" by (simp add: count_rooms_for_room_type_def)
  qed
  moreover have "seed_days t i n days d2 = Inr d3 \<Longrightarrow> rooms d3 = rooms d2 \<and> next_uuid d2 \<le> next_uuid d3" for i n days d2 d3
    by (induction days arbitrary: d2) (fastforce simp: insert_ledger_def split: if_splits)+
  from this [OF seed] have "rooms d' = rooms d" "next_uuid d \<le> next_uuid d'" by (auto simp: d1_def)
  ultimately show ?thesis using that by blast
qed

subsection \<open>Availability shown and availability sold\<close>

lemma grid_lookup:
  fixes t :: uuid
  assumes wf: "ledger_wf d" and i: "i \<in> set ids" and day: "s \<le> day" "day \<le> e"
  defines "rows \<equiv> filter (\<lambda>r. al_tenant_id r = t \<and> al_room_type_id r \<in> set ids \<and> s \<le> al_date r \<and> al_date r \<le> e) (ledger d)"
  shows "map_of (rev (map (\<lambda>r. ((al_room_type_id r, al_date r), r)) rows)) (i, day) = bucket_row d (t, i, day)"
proof (rule option_eqI)
  fix r
  have "inj_on al_bucket (set (ledger d))" "distinct (ledger d)" using wf by (auto simp: ledger_wf_def distinct_map)
  then have "inj_on (\<lambda>r. (al_room_type_id r, al_date r)) (set rows)" "distinct rows"
    by (auto simp: rows_def inj_on_def al_bucket_def)
  then have "distinct (map fst (rev (map (\<lambda>r. ((al_room_type_id r, al_date r), r)) rows)))"
    by (simp add: distinct_map inj_on_def comp_def rev_map [symmetric])
  then have "map_of (rev (map (\<lambda>r. ((al_room_type_id r, al_date r), r)) rows)) (i, day) = Some r \<longleftrightarrow>
      ((i, day), r) \<in> set (rev (map (\<lambda>r. ((al_room_type_id r, al_date r), r)) rows))"
    by (rule map_of_eq_Some_iff)
  also have "\<dots> \<longleftrightarrow> r \<in> set (ledger d) \<and> al_bucket r = (t, i, day)"
    using i day by (auto simp: rows_def al_bucket_def)
  also have "\<dots> \<longleftrightarrow> bucket_row d (t, i, day) = Some r"
    using wf by (auto simp: bucket_row_def ledger_wf_def tb_bucket.lookup_iff)
  finally show "map_of (rev (map (\<lambda>r. ((al_room_type_id r, al_date r), r)) rows)) (i, day) = Some r \<longleftrightarrow> bucket_row d (t, i, day) = Some r" .
qed

lemma counts_lookup: "i \<in> set ids \<Longrightarrow>
    (case map_of (room_counts_by_type d t ids) i of None \<Rightarrow> 0 | Some n \<Rightarrow> n) = count_rooms_for_room_type d t i"
proof -
  assume i: "i \<in> set ids"
  have "map_of (map (\<lambda>rt. (rt, f rt)) xs) i = (if i \<in> set xs then Some (f i) else None)" for f :: "uuid \<Rightarrow> int" and xs
    by (induction xs) auto
  moreover have "0 \<le> count_rooms_for_room_type d t i" by (simp add: count_rooms_for_room_type_def)
  ultimately show ?thesis using i by (auto simp: room_counts_by_type_def)
qed

text \<open>
  The availability grid shows the ledger: each cell gives the capacity, sold and blocked rooms
  of its night, or the live room count and zeros where the night has no row, and the difference as
  available; every night of every category of the property has a cell.
\<close>

theorem grid_shows_ledger:
  assumes wf: "ledger_wf d" and grid: "get_availability_grid d t p s e None = Some cells"
  shows "cells = concat (map (\<lambda>rt. map (\<lambda>day.
     let (tot, bkd, blk) = (case stock_at d (t, rt_id rt, day) of Some x \<Rightarrow> x | None \<Rightarrow> (count_rooms_for_room_type d t (rt_id rt), 0, 0))
     in \<lparr>ac_date = day, ac_room_type_id = rt_id rt, ac_room_type_name = rt_name rt, ac_total_rooms = tot, ac_booked_rooms = bkd,
         ac_blocked_rooms = blk, ac_available_rooms = tot - bkd - blk\<rparr>) [s..e])
     (sort_key rt_name (filter (\<lambda>r. rt_tenant_id r = t \<and> rt_property_id r = p) (room_types d))))"
proof -
  let ?rts = "sort_key rt_name (filter (\<lambda>r. rt_tenant_id r = t \<and> rt_property_id r = p) (room_types d))"
  let ?ids = "map rt_id ?rts"
  let ?rows = "filter (\<lambda>r. al_tenant_id r = t \<and> al_room_type_id r \<in> set ?ids \<and> s \<le> al_date r \<and> al_date r \<le> e) (ledger d)"
  have cell: "grid_cell (room_counts_by_type d t ?ids) ?rows rt day =
     (let (tot, bkd, blk) = (case stock_at d (t, rt_id rt, day) of Some x \<Rightarrow> x | None \<Rightarrow> (count_rooms_for_room_type d t (rt_id rt), 0, 0))
      in \<lparr>ac_date = day, ac_room_type_id = rt_id rt, ac_room_type_name = rt_name rt, ac_total_rooms = tot, ac_booked_rooms = bkd,
         ac_blocked_rooms = blk, ac_available_rooms = tot - bkd - blk\<rparr>)"
    if "rt \<in> set ?rts" "day \<in> set [s..e]" for rt day
  proof -
    have i: "rt_id rt \<in> set ?ids" using that(1) by simp
    note look = grid_lookup [OF wf i, of s day e t] and cnt = counts_lookup [OF i, of d t]
    from that(2) look show ?thesis
      unfolding grid_cell_def cnt stock_at_def by (cases "bucket_row d (t, rt_id rt, day)") simp_all
  qed
  from grid have "cells = concat (map (\<lambda>rt. map (grid_cell (room_counts_by_type d t ?ids) ?rows rt) [s..e]) ?rts)"
    by (auto simp: get_availability_grid_def Let_def iter_inclusive_dates_upto split: option.splits if_splits)
  also have "\<dots> = concat (map (\<lambda>rt. map (\<lambda>day.
     let (tot, bkd, blk) = (case stock_at d (t, rt_id rt, day) of Some x \<Rightarrow> x | None \<Rightarrow> (count_rooms_for_room_type d t (rt_id rt), 0, 0))
     in \<lparr>ac_date = day, ac_room_type_id = rt_id rt, ac_room_type_name = rt_name rt, ac_total_rooms = tot, ac_booked_rooms = bkd,
         ac_blocked_rooms = blk, ac_available_rooms = tot - bkd - blk\<rparr>) [s..e]) ?rts)"
    by (intro arg_cong [where f = concat] map_cong refl) (rule cell)
  finally show ?thesis .
qed

theorem grid_shows_ledger_witness:
  "\<exists>cells. get_availability_grid demo_db 1 10 103 104 None = Some cells \<and> map ac_available_rooms cells = [2, 2]"
proof -
  have wf: "ledger_wf demo_db" by code_simp
  have "get_availability_grid demo_db 1 10 103 104 None \<noteq> None" by code_simp
  then obtain cells where c: "get_availability_grid demo_db 1 10 103 104 None = Some cells" by auto
  obtain rt where rt: "room_types demo_db = [rt]" "rt_id rt = 20" "rt_tenant_id rt = 1" "rt_property_id rt = 10"
    by (simp add: demo_db_def)
  have st: "stock_at demo_db (1, 20, 103) = Some (2, 0, 0)" "stock_at demo_db (1, 20, 104) = None" "count_rooms_for_room_type demo_db 1 20 = 2"
    by code_simp+
  have r: "[103..104] = [103, 104 :: int]" by (simp add: upto_rec1)
  have one: "sort_key rt_name (filter (\<lambda>r. rt_tenant_id r = 1 \<and> rt_property_id r = 10) (room_types demo_db)) = [rt]"
    by (simp add: rt)
  from grid_shows_ledger [OF wf c] have "map ac_available_rooms cells = [2, 2]"
    unfolding one r by (simp add: rt(2) st)
  with c show ?thesis by (intro exI [of _ cells] conjI)
qed

text \<open>
  C14. The rooms offered for a stay are exactly the live, available rooms of the category to which a
  booking without lines of its own could be assigned on all nights: the offer and the conflict
  check of the assignment agree.
\<close>

theorem offered_rooms_are_assignable:
  assumes "list_assignable_rooms_for_stay d t p rt ci co = Inr (Some rs)" "iter_stay_nights ci co = Inr nights"
    and "\<not> list_ex (\<lambda>l. bl_booking_id l = b) (booking_lines d)"
  shows "set rs = {r \<in> set (rooms d). live_room t r \<and> rm_room_type_id r = rt \<and> rm_status r = ''available'' \<and>
     assert_no_room_conflict d t (rm_id r) nights b = Inr ()}"
proof -
  let ?rs = "filter (\<lambda>r. live_room t r \<and> rm_room_type_id r = rt \<and> rm_status r = ''available'') (rooms d)"
  let ?act = "\<lambda>l. list_ex (\<lambda>b. bk_tenant_id b = bl_tenant_id l \<and> bk_id b = bl_booking_id l \<and> active_booking b) (bookings d)"
  let ?busy = "List.map_filter bl_room_id (filter (\<lambda>l. bl_tenant_id l = t \<and>
     (case bl_room_id l of None \<Rightarrow> False | Some i \<Rightarrow> i \<in> set (map rm_id (sort_key rm_name ?rs))) \<and> bl_date l \<in> set nights \<and> ?act l) (booking_lines d))"
  have rs: "rs = filter (\<lambda>r. rm_id r \<notin> set ?busy) (sort_key rm_name ?rs)"
    using assms(1,2) by (auto simp: list_assignable_rooms_for_stay_def Let_def split: if_splits)
  have ne: "nights \<noteq> []" using stay_nights_facts(1) [OF assms(2)] .
  have mf: "i \<in> set (List.map_filter bl_room_id ls) \<longleftrightarrow> (\<exists>l\<in>set ls. bl_room_id l = Some i)" for i ls
    by (induction ls) (auto simp: map_filter_simps split: option.splits)
  have "rm_id r \<in> set ?busy \<longleftrightarrow> assert_no_room_conflict d t (rm_id r) nights b \<noteq> Inr ()" if "r \<in> set ?rs" for r
    using that ne assms(3) unfolding mf by (auto simp: assert_no_room_conflict_def room_conflict_def list_ex_iff)
  then show ?thesis unfolding rs by auto
qed

theorem offered_rooms_are_assignable_witness:
  "\<exists>rs. list_assignable_rooms_for_stay demo_db 1 10 20 100 102 = Inr (Some rs) \<and>
     map rm_id rs = [41, 42] \<and> assert_no_room_conflict demo_db 1 41 [100, 101] 7 = Inr ()"
proof -
  have "map_option (map rm_id) (case list_assignable_rooms_for_stay demo_db 1 10 20 100 102 of Inr x \<Rightarrow> x | Inl _ \<Rightarrow> None) = Some [41, 42]"
    by code_simp
  then obtain rs where rs: "list_assignable_rooms_for_stay demo_db 1 10 20 100 102 = Inr (Some rs)" "map rm_id rs = [41, 42]"
    by (auto split: sum.splits)
  have n: "iter_stay_nights 100 102 = Inr [100, 101]" "\<not> list_ex (\<lambda>l. bl_booking_id l = 7) (booking_lines demo_db)" by code_simp+
  from rs(2) have "41 \<in> rm_id ` set rs" by (metis list.set_intros(1) list.set_map)
  then obtain r where "r \<in> set rs" "rm_id r = 41" by (metis imageE)
  with offered_rooms_are_assignable [OF rs(1) n] rs show ?thesis by auto
qed

text \<open>
  The automatic assignment of a new booking does not look at the status of the room, unlike the
  list above: with room 41 out of order it still assigns room 41.
\<close>

definition demo_out_of_order :: db where
  "demo_out_of_order = set_room ((rooms demo_db) ! 0) (\<lambda>r. r\<lparr>rm_status := ''out_of_order''\<rparr>) demo_db"

lemma auto_assignment_ignores_status:
  "pick_first_free_room_for_stay demo_out_of_order 1 10 20 [100, 101] 7 = Some 41 \<and>
   map_option (map rm_id) (case list_assignable_rooms_for_stay demo_out_of_order 1 10 20 100 102 of Inr x \<Rightarrow> x | Inl _ \<Rightarrow> None) = Some [42]"
  by code_simp

end
