(* ===== verification/Hotel_Steps.thy ===== *)
theory Hotel_Steps
  imports Rooms
begin

text \<open>
  The hotel as a step relation on databases: the booking and folio operations, the administration
  of the ledger, rooms, categories and housekeeping, and the passing of time. The properties that
  hold in all reachable states: consistent counters, no room shared by two bookings, current
  capacities, and, unless capacity is taken away, no night sold beyond its rooms.
\<close>

subsection \<open>Steps of the inventory\<close>

text \<open>Steps that do not take capacity away.\<close>

inductive supply_step :: "db \<Rightarrow> db \<Rightarrow> bool" where
  override: "override_put_valid body \<Longrightarrow> apply_blocked_rooms_override d t body = Inr (x, d') \<Longrightarrow> supply_step d d'"
| extend: "extend_availability_ledger_days d rls n = Inr (k, d') \<Longrightarrow> supply_step d d'"
| add_room: "create_room d t rt name st = Inr (room, d') \<Longrightarrow> supply_step d d'"
| add_rooms: "create_rooms_bulk d t rt items fail = Inr (res, d') \<Longrightarrow> supply_step d d'"
| rename_room: "patch_room d t i name st_opt None = Inr (room, d') \<Longrightarrow> supply_step d d'"
| add_category: "create_room_type d t data = Inr (rtr, d') \<Longrightarrow> supply_step d d'"
| edit_category: "patch_room_type d t i rt_body = Inr (rtr, d') \<Longrightarrow> supply_step d d'"
| drop_category: "soft_delete_room_type d t i = Inr d' \<Longrightarrow> supply_step d d'"
| housekeeping: "patch_room_housekeeping d t i hs hp u = Inr (room, d') \<Longrightarrow> supply_step d d'"
| day_passes: "utc_today d \<le> day \<Longrightarrow> db_now d \<le> now \<Longrightarrow> supply_step d (d\<lparr>utc_today := day, db_now := now\<rparr>)"

text \<open>Steps that may lower the capacity of a night.\<close>

inductive shrink_step :: "db \<Rightarrow> db \<Rightarrow> bool" where
  drop_room: "soft_delete_room d t i = Inr d' \<Longrightarrow> shrink_step d d'"
| move_room: "patch_room d t i name st_opt rto = Inr (room, d') \<Longrightarrow> shrink_step d d'"
| refresh: "bulk_seed_availability_ledger d t segs = Inr (k, d') \<Longrightarrow> shrink_step d d'"

definition hotel_step :: "db \<Rightarrow> db \<Rightarrow> bool" where
  "hotel_step d d' \<longleftrightarrow> booking_step d d' \<or> supply_step d d' \<or> shrink_step d d'"

definition hotel_ok :: "db \<Rightarrow> bool" where
  "hotel_ok d \<longleftrightarrow> hotel_inv d \<and> rooms_wf d \<and> totals_current d"

lemma hotel_okD: "hotel_ok d \<Longrightarrow> inventory_inv d" "hotel_ok d \<Longrightarrow> ledger_wf d"
  using inventory_invD(1) by (auto simp: hotel_ok_def hotel_inv_def)

lemma admin_writes_ok:
  assumes "admin_write\<^sup>*\<^sup>* d d'" "hotel_ok d" "rooms d' = rooms d" "next_uuid d \<le> next_uuid d'"
  shows "hotel_ok d'"
proof -
  have "rooms_wf d'" using assms(2-4) by (auto simp: hotel_ok_def rooms_wf_def list_all_iff)
  moreover have "hotel_inv d'" "totals_current d'"
    using admin_inventory.reachable_keeps [OF assms(1)] admin_totals.reachable_keeps [OF assms(1)] assms(2)
    by (simp_all add: hotel_ok_def)
  ultimately show ?thesis by (simp add: hotel_ok_def)
qed

lemma admin_write_rooms: "admin_write d d' \<Longrightarrow> rooms d' = rooms d \<and> next_uuid d \<le> next_uuid d'"
  by (cases rule: admin_write.cases) (auto simp: insert_ledger_def)

lemma admin_writes_keep: "admin_write\<^sup>*\<^sup>* d d' \<Longrightarrow> hotel_ok d \<Longrightarrow> hotel_ok d'"
proof -
  assume w: "admin_write\<^sup>*\<^sup>* d d'" and ok: "hotel_ok d"
  from w have "rooms d' = rooms d \<and> next_uuid d \<le> next_uuid d'"
  proof (induction rule: rtranclp_induct)
    case (step d1 d2)
    with admin_write_rooms [OF step(2)] show ?case by simp
  qed simp
  then show ?thesis using admin_writes_ok [OF w ok] by blast
qed

lemma aside_ok: "aside d d' \<Longrightarrow> hotel_ok d \<Longrightarrow> hotel_ok d'"
  using aside_keeps(1-3) by (auto simp: hotel_ok_def)

lemma booking_step_ok: "booking_step d d' \<Longrightarrow> hotel_ok d \<Longrightarrow> hotel_ok d'"
  unfolding hotel_ok_def hotel_inv_def
  using booking_inventory.step_keeps fresh.booking_step_keeps numbered.booking_step_keeps capacity.booking_step_keeps
  by blast

lemma day_passes_ok:
  assumes "hotel_ok d" "utc_today d \<le> day"
  shows "hotel_ok (d\<lparr>utc_today := day, db_now := now\<rparr>)"
proof -
  let ?d = "d\<lparr>utc_today := day, db_now := now\<rparr>"
  have "hotel_inv ?d" using assms(1) stock_frame [of ?d d] by (simp add: hotel_ok_def)
  moreover have "totals_current ?d"
    using assms by (auto simp: hotel_ok_def totals_current_def list_all_iff count_rooms_for_room_type_def)
  ultimately show ?thesis using assms(1) by (simp add: hotel_ok_def rooms_wf_def)
qed

lemma create_room_ok:
  assumes "create_room d t rt name st = Inr (room, d')" "hotel_ok d"
  shows "hotel_ok d'" "no_overbooking d \<Longrightarrow> no_overbooking d'"
proof -
  from create_room_Inr [OF assms(1)] obtain d1 where g: "grown t rt d d1" and d': "d' = recalculate_ledger_total_rooms t rt d1" .
  have ok: "hotel_inv d" "rooms_wf d" "totals_current d" using assms(2) by (simp_all add: hotel_ok_def)
  show "hotel_ok d'"
    using grown_keeps(1) [OF g ok(1)] grown_keeps(2) [OF g ok(3)] create_room_wf [OF assms(1) ok(2)] by (simp add: hotel_ok_def d')
  show "no_overbooking d \<Longrightarrow> no_overbooking d'" unfolding d' using no_overbooking_grown [OF ok(3) _ g] .
qed

lemma create_room_type_ok:
  assumes "create_room_type d t data = Inr (rt, d')" "hotel_ok d"
  shows "hotel_ok d'" "no_overbooking d \<Longrightarrow> no_overbooking d'"
proof -
  from create_room_type_Inr [OF assms(1)] obtain d1 where
    "aside d d1" "admin_write\<^sup>*\<^sup>* d1 d'" "no_overbooking d1 \<Longrightarrow> no_overbooking d'" by metis
  with assms(2) aside_ok admin_writes_keep aside_keeps(4)
  show "hotel_ok d'" "no_overbooking d \<Longrightarrow> no_overbooking d'" by blast+
qed

lemma supply_step_ok: "supply_step d d' \<Longrightarrow> hotel_ok d \<Longrightarrow> hotel_ok d'"
proof (induction rule: supply_step.induct)
  case (override body d t x d')
  then show ?case using override_writes admin_writes_keep by blast
next
  case (extend d rls n k d')
  then show ?case using extend_writes admin_writes_keep by blast
next
  case (add_room d t rt name st room d')
  then show ?case using create_room_ok by blast
next
  case (add_rooms d t rt items fail res d')
  then show ?case using create_rooms_bulk_keeps create_rooms_bulk_wf by (simp add: hotel_ok_def)
next
  case (rename_room d t i name st_opt room d')
  then show ?case using patch_room_keeps by (simp add: hotel_ok_def)
next
  case (add_category d t data rtr d')
  then show ?case using create_room_type_ok by blast
next
  case (edit_category d t i rt_body rtr d')
  then show ?case using patch_room_type_aside aside_ok by blast
next
  case (drop_category d t i d')
  then show ?case using soft_delete_room_type_aside aside_ok by blast
next
  case (housekeeping d t i hs hp u room d')
  then have "rooms_wf d" by (simp add: hotel_ok_def)
  with housekeeping show ?case using housekeeping_aside aside_ok by blast
next
  case (day_passes d day now)
  then show ?case using day_passes_ok by blast
qed

lemma shrink_step_ok: "shrink_step d d' \<Longrightarrow> hotel_ok d \<Longrightarrow> hotel_ok d'"
proof (induction rule: shrink_step.induct)
  case (drop_room d t i d')
  then show ?case using soft_delete_room_keeps by (simp add: hotel_ok_def)
next
  case (move_room d t i name st_opt rto room d')
  then show ?case using patch_room_keeps by (simp add: hotel_ok_def)
next
  case (refresh d t segs k d')
  then show ?case using bulk_seed_writes admin_writes_keep by blast
qed

interpretation hotel: invariant_system hotel_step hotel_ok
  by unfold_locales (auto simp: hotel_step_def intro: booking_step_ok supply_step_ok shrink_step_ok)

subsection \<open>Capacity\<close>

lemma extend_no_overbooking:
  assumes "extend_availability_ledger_days d rls n = Inr (k, d')" "no_overbooking d"
  shows "no_overbooking d'"
proof -
  have app: "no_overbooking d1 \<Longrightarrow> 0 \<le> c \<Longrightarrow> no_overbooking (append_days t rt c days d1)" for t rt c days d1
    unfolding append_days_def by (induction days arbitrary: d1) (auto simp: no_overbooking_def insert_ledger_def)
  have "extend_room_types m rts (k1, d1) = Inr (k2, d2) \<Longrightarrow> no_overbooking d1 \<Longrightarrow> no_overbooking d2" for m rts k1 d1 k2 d2
  proof (induction rts arbitrary: k1 d1)
    case (Cons r rts)
    have "0 \<le> count_rooms_for_room_type d1 (rt_tenant_id r) (rt_id r)" by (simp add: count_rooms_for_room_type_def)
    with Cons app show ?case by (simp add: extend_room_type_eq)
  qed simp
  with assms show ?thesis by (auto simp: extend_availability_ledger_days_def split: if_splits)
qed

lemma override_no_overbooking:
  assumes "ledger_wf d" "override_put_valid body" "apply_blocked_rooms_override d t body = Inr (x, d')" "no_overbooking d"
  shows "no_overbooking d'"
  using assms(3,4) set_blocked_fits unfolding override_eq [OF assms(1,2)] Let_def by (auto split: if_splits)

lemma supply_step_fits: "supply_step d d' \<Longrightarrow> hotel_ok d \<Longrightarrow> no_overbooking d \<Longrightarrow> no_overbooking d'"
proof (induction rule: supply_step.induct)
  case (override body d t x d')
  then show ?case using override_no_overbooking hotel_okD(2) by blast
next
  case (extend d rls n k d')
  then show ?case using extend_no_overbooking by blast
next
  case (add_room d t rt name st room d')
  then show ?case using create_room_ok(2) by blast
next
  case (add_rooms d t rt items fail res d')
  then show ?case using create_rooms_bulk_keeps(3) by (simp add: hotel_ok_def)
next
  case (rename_room d t i name st_opt room d')
  then show ?case using patch_room_keeps(4) by (simp add: hotel_ok_def)
next
  case (add_category d t data rtr d')
  then show ?case using create_room_type_ok by blast
next
  case (edit_category d t i rt_body rtr d')
  then show ?case using patch_room_type_aside aside_keeps(4) by blast
next
  case (drop_category d t i d')
  then show ?case using soft_delete_room_type_aside aside_keeps(4) by blast
next
  case (housekeeping d t i hs hp u room d')
  then have "rooms_wf d" by (simp add: hotel_ok_def)
  with housekeeping show ?case using housekeeping_aside aside_keeps(4) by blast
next
  case (day_passes d day now)
  then show ?case by (simp add: no_overbooking_def)
qed

interpretation growing: invariant_system "\<lambda>d d'. booking_step d d' \<or> supply_step d d'" "\<lambda>d. hotel_ok d \<and> no_overbooking d"
  using booking_step_ok supply_step_ok supply_step_fits fits.booking_step_keeps hotel_okD(1) by unfold_locales blast

subsection \<open>A hotel with a booking\<close>

definition demo_request :: booking_create where
  "demo_request = \<lparr>cb_property_id = 10, cb_room_type_id = 20, cb_rate_plan_id = 30, cb_check_in = 100, cb_check_out = 102,
     cb_guest = \<lparr>gp_first_name = ''Ann'', gp_last_name = ''Lee'', gp_email = ''Ann@x.io'', gp_phone = ''1'', gp_passport_data = None\<rparr>,
     cb_status = ''confirmed'', cb_source = ''api'', cb_force_new_guest = False, cb_external_booking_id = None\<rparr>"

definition no_patch :: booking_patch where
  "no_patch = \<lparr>pb_room_id = None, pb_status = None, pb_check_in = None, pb_check_out = None,
     pb_cancellation_reason = None, pb_notes = None\<rparr>"

definition demo_booked :: db where
  "demo_booked = commit_or_rollback demo_db (create_booking demo_db 1 demo_request)"

lemma demo_ok: "hotel_ok demo_db" "no_overbooking demo_db"
  by code_simp+

lemma demo_create: "booking_create_valid demo_request" "succeeds (create_booking demo_db 1 demo_request)"
  by code_simp+

lemma demo_step: "booking_step demo_db demo_booked"
  using succeeds_Inr [OF demo_create(2)] demo_create(1) by (auto simp: demo_booked_def intro: booking_step.create)

lemma demo_reachable: "hotel_step\<^sup>*\<^sup>* demo_db demo_booked"
  using demo_step by (simp add: hotel_step_def r_into_rtranclp)

subsection \<open>What holds in every reachable state\<close>

text \<open>
  C1. The ledger never loses count. From a consistent database, after any sequence of bookings
  created, patched (dates, room, status, cancellation), deleted or assigned a room, folio
  entries posted or reversed, blocks set, ledger rows seeded, extended or refreshed, rooms and
  categories created, changed or removed, rooms cleaned, and days passing, the counter of every
  ledger row is the number of booking lines of active bookings on that night, and no night
  without a ledger row is booked.
\<close>

theorem ledger_counts_active_nights:
  assumes "hotel_ok d" "hotel_step\<^sup>*\<^sup>* d d'"
  shows "\<forall>k. booked_at d' k = None \<and> occupied d' k = 0 \<or> booked_at d' k = Some (occupied d' k)"
proof
  fix k
  have "inventory_inv d'" using hotel_okD(1) hotel.reachable_keeps [OF assms(2,1)] .
  from inventory_invD(5) [OF this, of k]
  show "booked_at d' k = None \<and> occupied d' k = 0 \<or> booked_at d' k = Some (occupied d' k)"
    by (cases "booked_at d' k") (simp_all add: booked_def)
qed

theorem ledger_counts_active_nights_witness:
  "booked_at demo_booked (1, 20, 101) = Some 1 \<and> occupied demo_booked (1, 20, 101) = 1"
proof -
  have "booked_at demo_booked (1, 20, 101) = Some 1" by code_simp
  with ledger_counts_active_nights [OF demo_ok(1) demo_reachable, rule_format, of "(1, 20, 101)"]
  show ?thesis by simp
qed

text \<open>
  C2. No night is ever sold beyond its rooms: if booked and blocked rooms fit the total on every
  ledger row, they still do after any sequence of booking and folio operations, blocks, horizon
  extensions, new rooms and categories, edits of categories and rooms that keep the category of
  the room, housekeeping and days passing.
\<close>

theorem never_overbooked:
  assumes "hotel_ok d" "no_overbooking d" "(\<lambda>x y. booking_step x y \<or> supply_step x y)\<^sup>*\<^sup>* d d'"
  shows "\<forall>r\<in>set (ledger d'). al_booked_rooms r + al_blocked_rooms r \<le> al_total_rooms r"
  using growing.reachable_keeps [OF assms(3)] assms(1,2) by (simp add: no_overbooking_def list_all_iff)

theorem never_overbooked_witness:
  "no_overbooking demo_booked \<and> booked_at demo_booked (1, 20, 100) = Some 1"
proof -
  have "booked_at demo_booked (1, 20, 100) = Some 1" by code_simp
  moreover have "(\<lambda>x y. booking_step x y \<or> supply_step x y)\<^sup>*\<^sup>* demo_db demo_booked"
    using demo_step by (simp add: r_into_rtranclp)
  ultimately show ?thesis using never_overbooked [OF demo_ok] by (simp add: no_overbooking_def list_all_iff)
qed

text \<open>
  C3. No physical room is given to two bookings for the same night: in every reachable state,
  two lines of active bookings of one tenant with the same room and date belong to the same
  booking.
\<close>

theorem no_double_booked_room:
  assumes "hotel_ok d" "hotel_step\<^sup>*\<^sup>* d d'"
    and "l \<in> set (booking_lines d')" "m \<in> set (booking_lines d')" "bl_tenant_id l = bl_tenant_id m"
    and "bl_date l = bl_date m" "bl_room_id l = Some r" "bl_room_id m = Some r"
    and "line_active (bookings d') l" "line_active (bookings d') m"
  shows "bl_booking_id l = bl_booking_id m"
proof -
  have "rooms_ok (bookings d') (booking_lines d')"
    using hotel.reachable_keeps [OF assms(2,1)] hotel_okD(1) inventory_invD(4) by blast
  moreover have "same_room_night l m" using assms(5-8) by (simp add: same_room_night_def)
  ultimately show ?thesis
    using assms(3,4,9,10) unfolding rooms_ok_def list_all_iff by blast
qed

theorem no_double_booked_room_witness:
  "\<exists>x. bl_booking_id ` set (filter (\<lambda>m. bl_tenant_id m = 1 \<and> bl_date m = 100 \<and> bl_room_id m = Some 41 \<and>
     line_active (bookings demo_booked) m) (booking_lines demo_booked)) = {x}"
proof -
  let ?ms = "filter (\<lambda>m. bl_tenant_id m = 1 \<and> bl_date m = 100 \<and> bl_room_id m = Some 41 \<and>
     line_active (bookings demo_booked) m) (booking_lines demo_booked)"
  have "list_ex (\<lambda>m. bl_tenant_id m = 1 \<and> bl_date m = 100 \<and> bl_room_id m = Some 41 \<and>
     line_active (bookings demo_booked) m) (booking_lines demo_booked)"
    by code_simp
  then obtain l where l: "l \<in> set ?ms" unfolding list_ex_iff by auto
  have "bl_booking_id m = bl_booking_id l" if "m \<in> set ?ms" for m
    by (rule no_double_booked_room [OF demo_ok(1) demo_reachable, of m l 41]) (use that l in simp_all)
  with l have "bl_booking_id ` set ?ms = {bl_booking_id l}" by blast
  then show ?thesis by blast
qed

text \<open>
  C7. The ledger knows the house: in every reachable state the capacity of each ledger row of today
  or later is the number of rooms of its category that are not deleted.
\<close>

theorem capacity_is_live_rooms:
  assumes "hotel_ok d" "hotel_step\<^sup>*\<^sup>* d d'"
  shows "\<forall>r\<in>set (ledger d'). utc_today d' \<le> al_date r \<longrightarrow>
     al_total_rooms r = count_rooms_for_room_type d' (al_tenant_id r) (al_room_type_id r)"
  using hotel.reachable_keeps [OF assms(2,1)] by (simp add: hotel_ok_def totals_current_def list_all_iff)

definition demo_three :: db where
  "demo_three = commit_or_rollback demo_db (create_room demo_db 1 20 ''103'' ''Available '')"

theorem capacity_is_live_rooms_witness:
  "totals_current demo_three \<and> count_rooms_for_room_type demo_three 1 20 = 3"
proof -
  have "succeeds (create_room demo_db 1 20 ''103'' ''Available '')" "count_rooms_for_room_type demo_three 1 20 = 3" by code_simp+
  moreover from this(1) have "hotel_step demo_db demo_three"
    using succeeds_Inr by (auto simp: demo_three_def hotel_step_def intro: supply_step.add_room)
  ultimately show ?thesis
    using capacity_is_live_rooms [OF demo_ok(1) r_into_rtranclp] by (simp add: totals_current_def list_all_iff)
qed

subsection \<open>Taking capacity away\<close>

text \<open>
  Removing a room only checks that no booking is assigned to it. The hotel of two rooms has a
  booking in one room and the other blocked; deleting the other room oversells the night, and
  since releasing a stay validates the ledger rows it gives back, the booking cannot be cancelled
  any more.
\<close>

definition demo_oversold :: db where
  "demo_oversold =
     (case apply_blocked_rooms_override demo_booked 1
             \<lparr>op_room_type_id = 20, op_start_date = 100, op_end_date = 100, op_blocked_rooms = 1\<rparr> of
        Inl _ \<Rightarrow> demo_booked
      | Inr (_, d) \<Rightarrow> (case soft_delete_room d 1 42 of Inl _ \<Rightarrow> demo_booked | Inr d' \<Rightarrow> d'))"

lemma oversold_night: "stock_at demo_oversold (1, 20, 100) = Some (1, 1, 1)"
  by code_simp

lemma oversold_booking_cannot_be_cancelled:
  "patch_booking demo_oversold 1 (bk_id (last (bookings demo_oversold))) (no_patch\<lparr>pb_status := Some (Some ''cancelled'')\<rparr>)
     = Inl InsufficientInventoryError"
  by code_simp

end
