(* ===== verification/Booking_Routes.thy ===== *)
theory Booking_Routes
  imports Webhook_Runner Hotel_Steps Email
begin

text \<open>
  The routes of bookings (\<^verbatim>\<open>api/routes/bookings.py\<close>): the booking tape, the receipt, and each
  handler with its role and scope checks, the service call, the translation of the service's
  exceptions, the audit row and the background tasks it schedules. A handler returns its response,
  the tasks and the committed database; an \<open>Inl\<close> is rolled back.
\<close>

subsection \<open>The booking tape\<close>

record tape_row =
  tp_id :: uuid
  tp_tenant_id :: uuid
  tp_property_id :: uuid
  tp_guest_id :: uuid
  tp_external_booking_id :: "string option"
  tp_status :: string
  tp_source :: string
  tp_total_amount :: decimal
  tp_guest :: "uuid \<times> string \<times> string"
  tp_check_in_date :: date
  tp_check_out_date :: date
  tp_room_id :: "uuid option"
  tp_room_type_id :: "uuid option"
  tp_notes :: "string option"

definition nonempty_text :: "string option \<Rightarrow> string option" where
  "nonempty_text x = (case x of Some s \<Rightarrow> if s = [] then None else Some s | None \<Rightarrow> None)"

definition booking_tape_from_mapping :: "booking_row \<Rightarrow> guest_row \<Rightarrow> line_row list \<Rightarrow> tape_row" where
  "booking_tape_from_mapping b g ls =
     \<lparr>tp_id = bk_id b, tp_tenant_id = bk_tenant_id b, tp_property_id = bk_property_id b, tp_guest_id = bk_guest_id b,
      tp_external_booking_id = nonempty_text (bk_external_booking_id b), tp_status = bk_status b, tp_source = bk_source b,
      tp_total_amount = bk_total_amount b, tp_guest = (gu_id g, gu_first_name g, gu_last_name g),
      tp_check_in_date = fst (stay_bounds_from_lines ls), tp_check_out_date = snd (stay_bounds_from_lines ls),
      tp_room_id = unified_room_id_from_lines ls, tp_room_type_id = the_room_type ls,
      tp_notes = nonempty_text (bk_notes b)\<rparr>"

text \<open>
  \<^verbatim>\<open>booking_tape_select.sql\<close> over the aggregated lines: bookings without a line or a guest drop
  out of the join.
\<close>

definition tape_select :: "db \<Rightarrow> booking_row list \<Rightarrow> tape_row list" where
  "tape_select d bs =
     concat (map (\<lambda>b. let ls = lines_of d b in if ls = [] then []
        else map (\<lambda>g. booking_tape_from_mapping b g ls)
          (filter (\<lambda>g. gu_tenant_id g = bk_tenant_id b \<and> gu_id g = bk_guest_id b) (guests d))) bs)"

definition booking_tape_list_params :: "db \<Rightarrow> uuid \<Rightarrow> uuid \<Rightarrow> date \<Rightarrow> date \<Rightarrow> string option \<Rightarrow> booking_row \<Rightarrow> bool" where
  "booking_tape_list_params d tenant_id property_id start_date end_date status_filter b \<longleftrightarrow>
     bk_tenant_id b = tenant_id \<and> bk_property_id b = property_id \<and>
     list_ex (\<lambda>l. start_date \<le> bl_date l \<and> bl_date l \<le> end_date) (lines_of d b) \<and>
     (case status_filter of None \<Rightarrow> True | Some st \<Rightarrow> bk_status b = st)"

definition list_bookings_enriched ::
  "db \<Rightarrow> uuid \<Rightarrow> uuid \<Rightarrow> date \<Rightarrow> date \<Rightarrow> string option \<Rightarrow> nat \<Rightarrow> nat \<Rightarrow> tape_row list \<times> nat" where
  "list_bookings_enriched d tenant_id property_id start_date end_date status_filter limit offset =
     (let bs = filter (booking_tape_list_params d tenant_id property_id start_date end_date status_filter) (bookings d)
      in (take limit (drop offset (tape_select d (sort_key bk_id bs))), length bs))"

definition get_booking_tape_by_external_id :: "db \<Rightarrow> uuid \<Rightarrow> string \<Rightarrow> tape_row option" where
  "get_booking_tape_by_external_id d tenant_id external_booking_id =
     (let ext = py_strip external_booking_id
      in if ext = [] then None
         else case tape_select d (filter (\<lambda>b. bk_tenant_id b = tenant_id \<and>
             bk_external_booking_id b = Some (take 128 ext)) (bookings d)) of [] \<Rightarrow> None | r # _ \<Rightarrow> Some r)"

definition get_booking_tape :: "db \<Rightarrow> uuid \<Rightarrow> uuid \<Rightarrow> tape_row option" where
  "get_booking_tape d tenant_id booking_id =
     (case tape_select d (filter (\<lambda>b. bk_tenant_id b = tenant_id \<and> bk_id b = booking_id) (bookings d)) of
        [] \<Rightarrow> None | r # _ \<Rightarrow> Some r)"

subsection \<open>The receipt\<close>

record receipt =
  rc_booking_id :: uuid
  rc_property_id :: uuid
  rc_guest :: "(string \<times> string) option"
  rc_currency :: "string option"
  rc_charge_subtotal :: decimal
  rc_tax :: "(tax_mode \<times> string \<times> decimal \<times> tax_breakdown) option"
  rc_tax_summary_lines :: "string list"

definition property_tax_summary_lines :: "tax_config_row \<Rightarrow> tax_breakdown \<Rightarrow> string list" where
  "property_tax_summary_lines config breakdown =
     (let rate_pct = money_str (q2 (tc_tax_rate config * 100));
          name = (if py_strip (tc_tax_name config) = [] then ''Tax'' else py_strip (tc_tax_name config));
          text = name @ '' '' @ rate_pct @ ''% = '' @ money_str (tb_tax_amount breakdown)
      in case tc_tax_mode config of Inclusive \<Rightarrow> [''Includes '' @ text] | Exclusive \<Rightarrow> [text] | Off \<Rightarrow> [])"

definition build_booking_receipt :: "db \<Rightarrow> uuid \<Rightarrow> uuid \<Rightarrow> receipt result" where
  "build_booking_receipt d tenant_id booking_id =
     r_bind (require (booking_at d tenant_id booking_id) (FolioError ''booking not found'' 404)) (\<lambda>b.
     let charge_total = sum_booking_charge_amounts d tenant_id booking_id;
         base = \<lparr>rc_booking_id = bk_id b, rc_property_id = bk_property_id b,
           rc_guest = map_option (\<lambda>g. (gu_first_name g, gu_last_name g)) (guest_of d b),
           rc_currency = map_option pr_currency (property_at d tenant_id (bk_property_id b)),
           rc_charge_subtotal = charge_total, rc_tax = None, rc_tax_summary_lines = []\<rparr>
     in case get_tax_config d tenant_id (bk_property_id b) of
          None \<Rightarrow> Inr base
        | Some cfg \<Rightarrow> if tc_tax_mode cfg = Off then Inr base
            else r_bind (calculate_property_tax charge_total cfg) (\<lambda>breakdown.
              Inr (base\<lparr>rc_tax := Some (tc_tax_mode cfg, tc_tax_name cfg, tc_tax_rate cfg, breakdown),
                        rc_tax_summary_lines := property_tax_summary_lines cfg breakdown\<rparr>)))"

subsection \<open>Dependencies, tasks and errors\<close>

definition bookings_read_dep :: "request_state \<Rightarrow> unit result" where
  "bookings_read_dep = chain_dependency_runners
     [require_roles [''owner'', ''manager'', ''viewer'', ''housekeeper'', ''receptionist''], require_scopes [''bookings:read'']]"

definition bookings_write_dep :: "request_state \<Rightarrow> unit result" where
  "bookings_write_dep = chain_dependency_runners
     [require_roles [''owner'', ''manager'', ''receptionist''], require_scopes [''bookings:write'']]"

definition for_tenant :: "(request_state \<Rightarrow> unit result) \<Rightarrow> request_state \<Rightarrow> (uuid \<Rightarrow> 'a result) \<Rightarrow> 'a result" where
  "for_tenant dep s handler = r_bind (dep s) (\<lambda>_. r_bind (get_tenant_id s) handler)"

text \<open>
  The background tasks of the handlers. They run after the commit, in the order in which they were
  added; \<open>PushAvailability\<close> puts a job for the channel manager on the queue of the worker.
\<close>

datatype bg_task =
    CreatedWebhook uuid uuid
  | PatchWebhooks uuid uuid booking_snapshot booking_snapshot "string option" "string option"
  | EmitAvailability uuid uuid "date list"
  | ConfirmationMail uuid uuid
  | CancellationMail uuid uuid
  | PushAvailability uuid uuid uuid "string list"
  | PushRates uuid uuid uuid uuid "string list"
  | PushStopSell uuid uuid uuid "string list"
  | RateWebhooks uuid "(uuid \<times> uuid \<times> date \<times> string) list"

definition iso_dates :: "date list \<Rightarrow> string list" where
  "iso_dates dates = sort (remdups (map iso_date dates))"

definition schedule_push_channex_availability :: "uuid \<Rightarrow> uuid \<Rightarrow> uuid \<Rightarrow> date list \<Rightarrow> bg_task list" where
  "schedule_push_channex_availability tenant_id property_id room_type_id dates =
     (if iso_dates dates = [] then [] else [PushAvailability tenant_id property_id room_type_id (iso_dates dates)])"

definition schedule_push_channex_rates :: "uuid \<Rightarrow> uuid \<Rightarrow> uuid \<Rightarrow> uuid \<Rightarrow> date list \<Rightarrow> bg_task list" where
  "schedule_push_channex_rates tenant_id property_id room_type_id rate_plan_id dates =
     (if iso_dates dates = [] then [] else [PushRates tenant_id property_id room_type_id rate_plan_id (iso_dates dates)])"

definition schedule_push_channex_stop_sell :: "uuid \<Rightarrow> uuid \<Rightarrow> uuid \<Rightarrow> date list \<Rightarrow> bg_task list" where
  "schedule_push_channex_stop_sell tenant_id property_id room_type_id dates =
     (if iso_dates dates = [] then [] else [PushStopSell tenant_id property_id room_type_id (iso_dates dates)])"

text \<open>\<^verbatim>\<open>except ... raise HTTPException\<close>; what \<open>f\<close> does not name stays as it is and ends in a 500.\<close>

definition http_error :: "(error \<Rightarrow> (string \<times> nat) option) \<Rightarrow> 'a result \<Rightarrow> 'a result" where
  "http_error f r = (case r of Inr x \<Rightarrow> Inr x
     | Inl e \<Rightarrow> (case f e of None \<Rightarrow> Inl e | Some (detail, code) \<Rightarrow> Inl (HTTPException detail code)))"

definition folio_http :: "error \<Rightarrow> (string \<times> nat) option" where
  "folio_http e = (case e of FolioError m c \<Rightarrow> Some (m, c) | _ \<Rightarrow> None)"

definition create_http :: "error \<Rightarrow> (string \<times> nat) option" where
  "create_http e = (case e of
       DuplicateExternalBookingError \<Rightarrow> Some (''booking with this external_booking_id already exists'', 409)
     | InsufficientInventoryError \<Rightarrow> Some (''insufficient inventory for one or more dates'', 409)
     | LedgerNotSeededError \<Rightarrow> Some (''availability ledger not seeded for one or more dates'', 422)
     | MissingRatesError ds \<Rightarrow> Some (json_dumps (JObj [(''missing_dates'', JList (map (\<lambda>x. JStr (iso_date x)) ds))]), 422)
     | GuestConflictError \<Rightarrow> Some (''guest with this email already exists for this tenant'', 409)
     | InvalidBookingContextError m \<Rightarrow> Some (m, 404)
     | _ \<Rightarrow> None)"

definition patch_http :: "error \<Rightarrow> (string \<times> nat) option" where
  "patch_http e = (case e of
       AssignBookingRoomError m c \<Rightarrow> Some (m, c)
     | PatchBookingError m c \<Rightarrow> Some (m, c)
     | InsufficientInventoryError \<Rightarrow> Some (''insufficient inventory for one or more dates'', 409)
     | _ \<Rightarrow> None)"

definition delete_http :: "error \<Rightarrow> (string \<times> nat) option" where
  "delete_http e = (case e of DeleteBookingError m c \<Rightarrow> Some (m, c) | _ \<Rightarrow> None)"
subsection \<open>Reading\<close>

text \<open>
  The housekeeper sees only today's bookings, except through an external reference. \<^verbatim>\<open>today\<close> is the
  date of the clock in UTC.
\<close>

definition get_bookings ::
  "db \<Rightarrow> request_state \<Rightarrow> uuid option \<Rightarrow> date option \<Rightarrow> date option \<Rightarrow> string option \<Rightarrow> string option \<Rightarrow> nat \<Rightarrow> nat
     \<Rightarrow> (tape_row list \<times> nat) result" where
  "get_bookings d s property_id start_date end_date external_booking_id status_filter limit offset =
     for_tenant bookings_read_dep s (\<lambda>tenant_id.
     let ext = py_strip (case external_booking_id of None \<Rightarrow> [] | Some e \<Rightarrow> e) in
     if ext \<noteq> []
     then Inr (case get_booking_tape_by_external_id d tenant_id ext of
            None \<Rightarrow> ([], 0)
          | Some row \<Rightarrow> if property_id \<noteq> None \<and> property_id \<noteq> Some (tp_property_id row) then ([], 0) else ([row], 1))
     else case (property_id, start_date, end_date) of
       (Some pid, Some sd, Some ed) \<Rightarrow>
         r_bind (guard (map_option py_lower (rs_user_role s) = Some ''housekeeper'' \<longrightarrow> sd = utc_today d \<and> ed = utc_today d)
                   (HTTPException ''Housekeeping role may only query today's bookings'' 403)) (\<lambda>_.
         r_bind (guard (sd \<le> ed) (HTTPException ''start_date must be on or before end_date'' 422)) (\<lambda>_.
         Inr (list_bookings_enriched d tenant_id pid sd ed status_filter limit offset)))
     | _ \<Rightarrow> Inl (HTTPException ''property_id, start_date, and end_date are required unless external_booking_id is provided'' 422))"

definition inventory_read_dep :: "request_state \<Rightarrow> unit result" where
  "inventory_read_dep = chain_dependency_runners
     [require_roles [''owner'', ''manager'', ''viewer'', ''receptionist''], require_scopes [''inventory:read'']]"

definition assignable_rooms_response ::
  "db \<Rightarrow> request_state \<Rightarrow> uuid \<Rightarrow> uuid \<Rightarrow> date \<Rightarrow> date \<Rightarrow> room_row list result" where
  "assignable_rooms_response d s property_id room_type_id check_in check_out =
     for_tenant inventory_read_dep s (\<lambda>tenant_id.
     r_bind (list_assignable_rooms_for_stay d tenant_id property_id room_type_id check_in check_out) (\<lambda>rows.
     require rows (HTTPException ''property or room type not found'' 404)))"

definition unpaid_folio_response :: "db \<Rightarrow> request_state \<Rightarrow> uuid \<Rightarrow> (uuid \<times> string \<times> string option) list result" where
  "unpaid_folio_response d s property_id =
     for_tenant bookings_read_dep s (\<lambda>tenant_id.
     r_bind (guard (property_belongs_to_tenant d tenant_id property_id) (HTTPException ''property not found'' 404)) (\<lambda>_.
     Inr (map (\<lambda>(bid, bal, fn, ln). let name = py_strip (fn @ '' '' @ ln)
                                     in (bid, money_str bal, if name = [] then None else Some name))
            (list_unpaid_folio_summary_for_property d tenant_id property_id None False))))"

definition get_booking_email_logs :: "db \<Rightarrow> request_state \<Rightarrow> uuid \<Rightarrow> email_log_row list result" where
  "get_booking_email_logs d s booking_id =
     for_tenant bookings_read_dep s (\<lambda>tenant_id.
     r_bind (require (get_booking_tape d tenant_id booking_id) (HTTPException ''booking not found'' 404)) (\<lambda>_.
     Inr (list_email_logs_for_booking d tenant_id booking_id)))"

definition get_booking_by_id :: "db \<Rightarrow> request_state \<Rightarrow> uuid \<Rightarrow> tape_row result" where
  "get_booking_by_id d s booking_id =
     for_tenant bookings_read_dep s (\<lambda>tenant_id.
     require (get_booking_tape d tenant_id booking_id) (HTTPException ''booking not found'' 404))"

definition get_booking_folio :: "db \<Rightarrow> request_state \<Rightarrow> uuid \<Rightarrow> (folio_row list \<times> decimal) result" where
  "get_booking_folio d s booking_id =
     for_tenant bookings_read_dep s (\<lambda>tenant_id. http_error folio_http (list_folio_transactions d tenant_id booking_id))"

definition get_booking_receipt :: "db \<Rightarrow> request_state \<Rightarrow> uuid \<Rightarrow> receipt result" where
  "get_booking_receipt d s booking_id =
     for_tenant bookings_read_dep s (\<lambda>tenant_id. http_error folio_http (build_booking_receipt d tenant_id booking_id))"

subsection \<open>Writing\<close>

fun contains_text :: "string \<Rightarrow> string \<Rightarrow> bool" where
  "contains_text needle [] = (needle = [])"
| "contains_text needle (c # cs) = (starts_with needle (c # cs) \<or> contains_text needle cs)"

definition invoice_http :: "error \<Rightarrow> (string \<times> nat) option" where
  "invoice_http e = (case e of
       ValueError m \<Rightarrow> Some (m, if contains_text ''no valid email'' (py_lower m) then 422 else 404) | _ \<Rightarrow> None)"

definition post_send_booking_invoice :: "mailer \<Rightarrow> settings \<Rightarrow> db \<Rightarrow> request_state \<Rightarrow> uuid \<Rightarrow> string option \<Rightarrow> db result" where
  "post_send_booking_invoice mailer st d s booking_id email =
     for_tenant bookings_write_dep s (\<lambda>tenant_id.
     r_bind (http_error invoice_http (send_invoice_email_for_booking mailer st d tenant_id booking_id email)) (\<lambda>d.
     Inr (record_audit tenant_id ''booking.send_invoice'' ''booking'' (Some booking_id) d)))"

definition post_booking_folio :: "db \<Rightarrow> request_state \<Rightarrow> uuid \<Rightarrow> folio_post \<Rightarrow> (folio_row \<times> db) result" where
  "post_booking_folio d s booking_id body =
     for_tenant bookings_write_dep s (\<lambda>tenant_id.
     r_bind (get_optional_user_id_for_audit s) (\<lambda>user_id.
     http_error folio_http (add_folio_entry d tenant_id booking_id body user_id)))"

definition reverse_folio_response :: "db \<Rightarrow> uuid \<Rightarrow> uuid \<Rightarrow> uuid \<Rightarrow> uuid option \<Rightarrow> (folio_row \<times> db) result" where
  "reverse_folio_response d tenant_id booking_id transaction_id created_by =
     http_error folio_http (reverse_folio_transaction d tenant_id booking_id transaction_id created_by)"

definition post_booking_folio_reverse :: "db \<Rightarrow> request_state \<Rightarrow> uuid \<Rightarrow> uuid \<Rightarrow> (folio_row \<times> db) result" where
  "post_booking_folio_reverse d s booking_id transaction_id =
     for_tenant bookings_write_dep s (\<lambda>tenant_id.
     r_bind (get_optional_user_id_for_audit s) (\<lambda>user_id.
     reverse_folio_response d tenant_id booking_id transaction_id user_id))"

definition delete_booking_folio_transaction :: "db \<Rightarrow> request_state \<Rightarrow> uuid \<Rightarrow> uuid \<Rightarrow> (folio_row \<times> db) result" where
  "delete_booking_folio_transaction = post_booking_folio_reverse"

definition delete_booking_by_id :: "db \<Rightarrow> request_state \<Rightarrow> uuid \<Rightarrow> db result" where
  "delete_booking_by_id d s booking_id =
     for_tenant bookings_write_dep s (\<lambda>tenant_id.
     r_bind (http_error delete_http (delete_booking d tenant_id booking_id)) (\<lambda>(_, d).
     Inr (record_audit tenant_id ''booking.delete'' ''booking'' (Some booking_id) d)))"

definition post_booking :: "db \<Rightarrow> request_state \<Rightarrow> booking_create \<Rightarrow> ((booking_created \<times> bg_task list) \<times> db) result" where
  "post_booking d s body =
     for_tenant bookings_write_dep s (\<lambda>tenant_id.
     r_bind (http_error create_http (create_booking d tenant_id body)) (\<lambda>(out, d).
     let d = record_audit tenant_id ''booking.create'' ''booking'' (Some (bc_booking_id out)) d in
     r_bind (iter_stay_nights (cb_check_in body) (cb_check_out body)) (\<lambda>stay_nights.
     Inr ((out, [CreatedWebhook tenant_id (bc_booking_id out), ConfirmationMail tenant_id (bc_booking_id out)] @
            schedule_push_channex_availability tenant_id (cb_property_id body) (cb_room_type_id body) stay_nights), d))))"

text \<open>
  The patch handler loads the booking before and after the change, but both loads give the one
  object the session keeps per row: \<^verbatim>\<open>b_before.lines\<close> is read after the change, so the nights announced
  are those of the lines as they are then.
\<close>

definition touches_availability :: "booking_patch \<Rightarrow> bool" where
  "touches_availability body \<longleftrightarrow> pb_check_in body \<noteq> None \<or> pb_check_out body \<noteq> None \<or>
     (case pb_status body of Some (Some st) \<Rightarrow> py_lower (py_strip st) \<in> set [''cancelled'', ''no_show''] | _ \<Rightarrow> False)"

definition availability_tasks :: "uuid \<Rightarrow> booking_row \<Rightarrow> line_row list \<Rightarrow> bg_task list" where
  "availability_tasks tenant_id b_after ls =
     (case the_room_type ls of None \<Rightarrow> []
      | Some rt \<Rightarrow> let all_dates = sort (remdups (map bl_date ls))
          in EmitAvailability tenant_id rt all_dates #
             schedule_push_channex_availability tenant_id (bk_property_id b_after) rt all_dates)"

definition patch_tasks :: "uuid \<Rightarrow> uuid \<Rightarrow> booking_patch \<Rightarrow> booking_snapshot \<Rightarrow> decimal option \<Rightarrow> db \<Rightarrow> bg_task list" where
  "patch_tasks tenant_id booking_id body snap_before warn_balance d =
     (let b_after = load_booking_for_webhook d tenant_id booking_id;
          snap_after = (case b_after of None \<Rightarrow> snap_before | Some b \<Rightarrow> booking_quick_snapshot d b);
          bs_c = py_lower (py_strip (bs_status snap_before)); as_c = py_lower (py_strip (bs_status snap_after));
          folio_for_hook = (if as_c = ''checked_out'' \<and> bs_c \<noteq> ''checked_out''
            then Some (case warn_balance of None \<Rightarrow> ''0.00'' | Some b \<Rightarrow> money_str b) else None)
      in [PatchWebhooks tenant_id booking_id snap_before snap_after
            (case pb_cancellation_reason body of Some r \<Rightarrow> r | None \<Rightarrow> None) folio_for_hook] @
         (if as_c = ''cancelled'' \<and> bs_c \<noteq> ''cancelled'' then [CancellationMail tenant_id booking_id] else []) @
         (case b_after of None \<Rightarrow> []
          | Some b \<Rightarrow> if touches_availability body then availability_tasks tenant_id b (lines_of d b) else []))"

definition patch_booking_by_id ::
  "db \<Rightarrow> request_state \<Rightarrow> uuid \<Rightarrow> booking_patch \<Rightarrow> ((decimal option \<times> bg_task list) \<times> db) result" where
  "patch_booking_by_id d s booking_id body =
     for_tenant bookings_write_dep s (\<lambda>tenant_id.
     if patch_empty body \<and> pb_notes body = None then Inr ((None, []), d)
     else r_bind (require (load_booking_for_webhook d tenant_id booking_id) (HTTPException ''booking not found'' 404)) (\<lambda>b_before.
       let snap_before = booking_quick_snapshot d b_before in
       r_bind (http_error patch_http (patch_booking d tenant_id booking_id body)) (\<lambda>(warn_balance, d).
       Inr ((warn_balance, patch_tasks tenant_id booking_id body snap_before warn_balance d),
            record_audit tenant_id ''booking.patch'' ''booking'' (Some booking_id) d))))"

subsection \<open>Running the tasks\<close>

text \<open>
  What the tasks leave behind: rows of the e-mail log, queued deliveries, posts to extensions and
  jobs of the channel manager. An exception of one task keeps the following ones from running.
\<close>

record backstage =
  bg_db :: db
  bg_outbox :: outbox
  bg_posts :: "ext_post list"
  bg_jobs :: "bg_task list"

definition run_task :: "mailer \<Rightarrow> net \<Rightarrow> settings \<Rightarrow> bg_task \<Rightarrow> backstage \<Rightarrow> error option \<times> backstage" where
  "run_task mailer n st task w = (case task of
       CreatedWebhook t b \<Rightarrow> (None, w\<lparr>bg_outbox := run_booking_created_webhook (bg_db w) t b (bg_outbox w)\<rparr>)
     | PatchWebhooks t b before after reason bal \<Rightarrow>
         let (posts, err, ob) = run_booking_patch_webhooks n (bg_db w) t b before after reason bal (bg_outbox w)
         in (err, w\<lparr>bg_outbox := ob, bg_posts := bg_posts w @ posts\<rparr>)
     | EmitAvailability t rt dates \<Rightarrow> (None, w\<lparr>bg_outbox := emit_availability_for_dates (bg_db w) t rt dates (bg_outbox w)\<rparr>)
     | ConfirmationMail t b \<Rightarrow> (None, w\<lparr>bg_db := run_send_booking_confirmation_task mailer st t b (bg_db w)\<rparr>)
     | CancellationMail t b \<Rightarrow> (None, w\<lparr>bg_db := run_send_cancellation_email_task mailer st t b (bg_db w)\<rparr>)
     | RateWebhooks t updates \<Rightarrow> (None, w\<lparr>bg_outbox := run_rate_updated_webhooks t updates (bg_outbox w)\<rparr>)
     | job \<Rightarrow> (None, w\<lparr>bg_jobs := bg_jobs w @ [job]\<rparr>))"

fun run_tasks :: "mailer \<Rightarrow> net \<Rightarrow> settings \<Rightarrow> bg_task list \<Rightarrow> backstage \<Rightarrow> backstage" where
  "run_tasks mailer n st [] w = w"
| "run_tasks mailer n st (t # ts) w =
     (case run_task mailer n st t w of (Some _, w') \<Rightarrow> w' | (None, w') \<Rightarrow> run_tasks mailer n st ts w')"
subsection \<open>A new booking is announced\<close>

lemma set_line_rooms_lines:
  "map bl_date (lines_of (set_line_rooms t i r d) b) = map bl_date (lines_of d b)"
  "map bl_room_type_id (lines_of (set_line_rooms t i r d) b) = map bl_room_type_id (lines_of d b)"
proof -
  have "map f (filter (of_booking t' i') (update_rows (of_booking t i) (\<lambda>l. l\<lparr>bl_room_id := r\<rparr>) ls)) = map f (filter (of_booking t' i') ls)"
    if "\<And>l. f (l\<lparr>bl_room_id := r\<rparr>) = f l" for f :: "line_row \<Rightarrow> int" and t' i' ls
    by (induction ls) (auto simp: update_rows_def of_booking_def that)
  then show "map bl_date (lines_of (set_line_rooms t i r d) b) = map bl_date (lines_of d b)"
    "map bl_room_type_id (lines_of (set_line_rooms t i r d) b) = map bl_room_type_id (lines_of d b)"
    by (simp_all add: lines_of_def set_line_rooms_def)
qed

lemma the_room_type_const: "ls \<noteq> [] \<Longrightarrow> \<forall>l\<in>set ls. bl_room_type_id l = rt \<Longrightarrow> the_room_type ls = Some rt"
proof -
  assume "ls \<noteq> []" "\<forall>l\<in>set ls. bl_room_type_id l = rt"
  then have "map bl_room_type_id ls = replicate (length ls) rt" "length ls \<noteq> 0" by (simp_all add: map_replicate_const [symmetric])
  moreover have "remdups (replicate k rt) = [rt]" if "k \<noteq> 0" for k
    using that by (induction k) auto
  ultimately show ?thesis by (simp add: the_room_type_def)
qed

lemma find_append_None: "find P xs = None \<Longrightarrow> find P (xs @ ys) = find P ys"
  by (induction xs) (auto split: if_splits)

lemma created_rows:
  assumes inv: "inventory_inv d" and run: "create_booking d t body = Inr (res, d')"
  obtains b where "booking_at d' t (bc_booking_id res) = Some b"
    "iter_stay_nights (cb_check_in body) (cb_check_out body) = Inr (map bl_date (lines_of d' b))"
    "the_room_type (lines_of d' b) = Some (cb_room_type_id body)"
    "ledger d' = ledger (bump_booked (stay_buckets t (cb_room_type_id body) (map bl_date (lines_of d' b))) 1 d)"
    "seeded d t (cb_room_type_id body) (map bl_date (lines_of d' b))"
proof -
  let ?rt = "cb_room_type_id body"
  note invs = inventory_invD [OF inv]
  from create_booking_Inr [OF run invs(1)] obtain tot pn where
    nights: "iter_stay_nights (cb_check_in body) (cb_check_out body) = Inr (map fst pn)"
    and seeded: "seeded d t ?rt (map fst pn)"
    and rec: "record_booking (bump_booked (stay_buckets t ?rt (map fst pn)) 1 d) t body
       (external_ref (cb_external_booking_id body)) tot pn = Inr (res, d')" .
  from record_booking_Inr [OF rec] obtain guest merged d2 b d3 room d5 where
    g: "get_or_create_guest_for_booking (bump_booked (stay_buckets t ?rt (map fst pn)) 1 d) t (cb_guest body)
       (cb_force_new_guest body) = Inr (guest, merged, d2)"
    and b: "insert_booking t body (gu_id guest) (external_ref (cb_external_booking_id body)) tot d2 = (b, d3)"
    and d5: "replace_country_pack_tax_charges (snd (insert_folio t (bk_id b) ''Charge'' tot None (Some ''Room charge (stay)'')
       None ''room_charge'' (insert_lines t (bk_id b) ?rt pn d3))) t (bk_id b) (cb_property_id body) tot = Inr (room, d5)"
    and fin: "d' = update_folio_charge_amount t (bk_id b) room d5 \<or>
     (\<exists>r. assign_booking_room (update_folio_charge_amount t (bk_id b) room d5) t (bk_id b) (Some r) = Inr d')"
    and res: "bc_booking_id res = bk_id b" .
  have d2: "bookings d2 = bookings d" "booking_lines d2 = booking_lines d" "next_uuid d \<le> next_uuid d2"
    using same_stock_guest [OF g] by (simp_all add: same_stock_def)
  have row: "bk_id b = next_uuid d2" "bk_tenant_id b = t" "bookings d3 = bookings d2 @ [b]" "booking_lines d3 = booking_lines d2"
    using b by (auto simp: insert_booking_def Let_def)
  define dl where "dl = insert_lines t (bk_id b) ?rt pn d3"
  have dl: "bookings dl = bookings d @ [b]" "booking_lines dl = booking_lines d @ line_rows (next_uuid d3) t (bk_id b) ?rt pn"
    by (simp_all add: dl_def insert_lines_def row d2)
  define du where "du = update_folio_charge_amount t (bk_id b) room d5"
  have "same_stock dl du" unfolding du_def dl_def
    using same_stock_trans [OF same_stock_trans [OF same_stock_insert_folio same_stock_replace [OF d5]] same_stock_update_folio] .
  then have du: "bookings du = bookings dl" "booking_lines du = booking_lines dl" by (simp_all add: same_stock_def)
  have new: "bk_id x < bk_id b" if "x \<in> set (bookings d)" for x
    using invs(2) that d2(3) row(1) by (force simp: bookings_ok_def list_all_iff)
  have at: "find (\<lambda>x. bk_tenant_id x = t \<and> bk_id x = bk_id b) (bookings d @ [b]) = Some b"
  proof -
    have "find (\<lambda>x. bk_tenant_id x = t \<and> bk_id x = bk_id b) (bookings d) = None"
      using new by (fastforce simp: find_None_iff)
    then show ?thesis using row(2) by (simp add: find_append_None)
  qed
  have fresh: "\<not> of_booking t (bk_id b) l" if "l \<in> set (booking_lines d)" for l
    using invs(2) that row(1) d2(3) by (auto simp: bookings_ok_def list_all_iff of_booking_def)
  have "lines_of du b = line_rows (next_uuid d3) t (bk_id b) ?rt pn"
  proof -
    have "filter (of_booking t (bk_id b)) (booking_lines d) = []" using fresh by (simp add: filter_empty_conv)
    moreover have "filter (of_booking t (bk_id b)) (line_rows (next_uuid d3) t (bk_id b) ?rt pn) = line_rows (next_uuid d3) t (bk_id b) ?rt pn"
      by (rule filter_True) (auto dest: line_rows_facts(2))
    ultimately show ?thesis by (simp add: lines_of_def du dl row(2))
  qed
  then have lu: "map bl_date (lines_of du b) = map fst pn" "\<forall>l\<in>set (lines_of du b). bl_room_type_id l = ?rt"
    using line_rows_facts by auto
  from fin consider "d' = du" | r where "d' = set_line_rooms t (bk_id b) (Some r) du"
    using assign_Inr(1) unfolding du_def by blast
  then have d': "bookings d' = bookings du" "map bl_date (lines_of d' b) = map bl_date (lines_of du b)"
      "map bl_room_type_id (lines_of d' b) = map bl_room_type_id (lines_of du b)"
    by (cases; simp add: set_line_rooms_def [THEN arg_cong [where f = bookings]] set_line_rooms_lines)+
  have "lines_of d' b \<noteq> []" using d'(2) lu(1) stay_nights_facts(1) [OF nights] by auto
  moreover have "\<forall>l\<in>set (lines_of d' b). bl_room_type_id l = ?rt"
    using d'(3) lu(2) by (metis (mono_tags, lifting) imageE image_eqI list.set_map)
  ultimately have "the_room_type (lines_of d' b) = Some ?rt" by (rule the_room_type_const)
  moreover have "ledger d' = ledger (bump_booked (stay_buckets t ?rt (map fst pn)) 1 d)"
    using record_booking_kept [OF rec] by (simp add: ledger_kept_def)
  moreover have "booking_at d' t (bc_booking_id res) = Some b" by (simp add: booking_at_def d'(1) du dl res at)
  ultimately show thesis using that nights seeded d'(2) lu(1) by simp
qed
lemma http_error_Inr [simp]: "http_error f r = Inr x \<longleftrightarrow> r = Inr x"
  by (auto simp: http_error_def split: sum.splits option.splits)

lemma for_tenant_Inr: "for_tenant dep s h = Inr x \<longleftrightarrow> dep s = Inr () \<and> (\<exists>t. get_tenant_id s = Inr t \<and> h t = Inr x)"
  by (auto simp: for_tenant_def)

lemma available_at_bucket:
  "available_at d t rt day = (case bucket_row d (t, rt, day) of None \<Rightarrow> 0 | Some r \<Rightarrow> available_rooms r)"
  by (simp add: available_at_def bucket_row_def lookup_row_def al_bucket_def)

lemma available_at_ledger: "ledger d = ledger d' \<Longrightarrow> available_at d = available_at d'"
  by (simp add: available_at_def fun_eq_iff)

lemma available_at_bump:
  assumes "seeded d t rt nights" "day \<in> set nights"
  shows "available_at (bump_booked (stay_buckets t rt nights) 1 d) t rt day = available_at d t rt day - 1"
  using assms by (auto simp: available_at_bucket seeded_def available_rooms_def split: option.splits)

lemma iso_dates_Nil: "iso_dates ds = [] \<longleftrightarrow> ds = []"
  unfolding iso_dates_def by (metis list.map_disc_iff remdups_eq_nil_iff set_empty set_sort)

lemma run_tasks_created:
  assumes "ts = [] \<or> (\<exists>p rt xs. ts = [PushAvailability t p rt xs])"
  shows "bg_outbox (run_tasks mailer n st ([CreatedWebhook t b, ConfirmationMail t b] @ ts) w) =
      run_booking_created_webhook (bg_db w) t b (bg_outbox w)"
    "bg_jobs (run_tasks mailer n st ([CreatedWebhook t b, ConfirmationMail t b] @ ts) w) = bg_jobs w @ ts"
  using assms by (auto simp: run_task_def)

text \<open>
  C24. A booking created over the route is announced to a subscription of its tenant that listens:
  exactly one \<^verbatim>\<open>booking.created\<close> with the stored booking, then one \<^verbatim>\<open>availability.changed\<close> per night of the
  stay, in order, with one room less than was free before; and the channel manager gets one job
  for the nights.
\<close>

theorem new_booking_is_announced:
  assumes ok: "hotel_ok d" and posted: "post_booking d s body = Inr ((out, tasks), d')" and tenant: "get_tenant_id s = Inr t"
    and listening: "listens ob t i ''booking.created''" "listens ob t i ''availability.changed''"
    and w: "bg_db w = d'" "bg_outbox w = ob" "bg_jobs w = []"
  shows "\<exists>b nights. booking_at d' t (bc_booking_id out) = Some b \<and>
    iter_stay_nights (cb_check_in body) (cb_check_out body) = Inr nights \<and>
    queued (bg_outbox (run_tasks mailer n st tasks w)) i = queued ob i @
      webhook_envelope ''booking.created'' (booking_entity_to_read_dict b) #
      map (\<lambda>day. webhook_envelope ''availability.changed''
        (JObj [(''room_type_id'', JStr (uuid_str (cb_room_type_id body))), (''date'', JStr (iso_date day)),
               (''available_rooms'', JNum (of_int (available_at d t (cb_room_type_id body) day - 1)))])) nights \<and>
    bg_jobs (run_tasks mailer n st tasks w) = [PushAvailability t (cb_property_id body) (cb_room_type_id body) (iso_dates nights)]"
proof -
  let ?rt = "cb_room_type_id body"
  from posted tenant obtain dc nights where c: "create_booking d t body = Inr (out, dc)"
    and ns: "iter_stay_nights (cb_check_in body) (cb_check_out body) = Inr nights"
    and d': "d' = record_audit t ''booking.create'' ''booking'' (Some (bc_booking_id out)) dc"
    and tasks: "tasks = [CreatedWebhook t (bc_booking_id out), ConfirmationMail t (bc_booking_id out)] @
      schedule_push_channex_availability t (cb_property_id body) ?rt nights"
    unfolding post_booking_def for_tenant_Inr Let_def by auto
  from created_rows [OF hotel_okD(1) [OF ok] c] obtain b where b: "booking_at dc t (bc_booking_id out) = Some b"
    and bn: "iter_stay_nights (cb_check_in body) (cb_check_out body) = Inr (map bl_date (lines_of dc b))"
    and brt: "the_room_type (lines_of dc b) = Some ?rt"
    and led: "ledger dc = ledger (bump_booked (stay_buckets t ?rt (map bl_date (lines_of dc b))) 1 d)"
    and seeded: "seeded d t ?rt (map bl_date (lines_of dc b))" .
  have dates: "map bl_date (lines_of dc b) = nights" using bn ns by simp
  have same: "booking_at d' t (bc_booking_id out) = Some b" "lines_of d' b = lines_of dc b" "ledger d' = ledger dc"
    using b by (simp_all add: d' booking_at_def lines_of_def)
  have sorted: "sort (remdups nights) = nights" "nights \<noteq> []"
    using ns by (auto simp: iter_stay_nights_Inr remdups_id_iff_distinct [THEN iffD2] sort_upto)
  have data: "availability_data d' t ?rt day = JObj [(''room_type_id'', JStr (uuid_str ?rt)), (''date'', JStr (iso_date day)),
      (''available_rooms'', JNum (of_int (available_at d t ?rt day - 1)))]" if "day \<in> set nights" for day
    using available_at_bump [OF seeded, of day] that available_at_ledger [OF same(3)] available_at_ledger [OF led]
    by (simp add: availability_data_def dates)
  have "run_booking_created_webhook d' t (bc_booking_id out) ob =
      emit_availability_for_dates d' t ?rt nights (dispatch_webhook_event t ''booking.created'' (booking_entity_to_read_dict b) ob)"
    by (simp add: run_booking_created_webhook_def load_booking_for_webhook_def same brt Let_def dates)
  then have "queued (run_booking_created_webhook d' t (bc_booking_id out) ob) i = queued ob i @
      webhook_envelope ''booking.created'' (booking_entity_to_read_dict b) #
      map (\<lambda>day. webhook_envelope ''availability.changed'' (availability_data d' t ?rt day)) nights"
    using listening by (simp add: emit_availability_queued dispatch_queued event_names sorted)
  moreover have push: "schedule_push_channex_availability t (cb_property_id body) ?rt nights =
      [PushAvailability t (cb_property_id body) ?rt (iso_dates nights)]"
    using sorted(2) by (simp add: schedule_push_channex_availability_def iso_dates_Nil)
  ultimately show ?thesis
    using same(1) ns data run_tasks_created [of "schedule_push_channex_availability t (cb_property_id body) ?rt nights" t mailer n st
        "bc_booking_id out" w] by (auto simp: tasks w push intro!: exI [of _ b])
qed
definition demo_front_desk :: request_state where
  "demo_front_desk = blank_state\<lparr>rs_tenant_id := Some 1, rs_user_id := Some 5, rs_user_role := Some ''receptionist'',
     rs_auth_source := Some ''jwt''\<rparr>"

definition demo_posted :: "((booking_created \<times> bg_task list) \<times> db) result" where
  "demo_posted = post_booking demo_db demo_front_desk demo_request"

definition demo_stage :: "db \<Rightarrow> backstage" where
  "demo_stage d = \<lparr>bg_db = d, bg_outbox = demo_listener, bg_posts = [], bg_jobs = []\<rparr>"

theorem new_booking_is_announced_witness:
  "\<exists>out tasks d' b nights. demo_posted = Inr ((out, tasks), d') \<and>
     booking_at d' 1 (bc_booking_id out) = Some b \<and> iter_stay_nights (cb_check_in demo_request) (cb_check_out demo_request) = Inr nights \<and>
     length (queued (bg_outbox (run_tasks (\<lambda>_. Inr ''id'') (demo_net (Response 200)) demo_settings tasks (demo_stage d'))) 1) =
       1 + length nights"
proof -
  obtain out dc where c: "create_booking demo_db 1 demo_request = Inr (out, dc)" using demo_create(2) by (metis succeeds_ex surj_pair)
  obtain nights where ns: "iter_stay_nights (cb_check_in demo_request) (cb_check_out demo_request) = Inr nights"
    using c by (auto simp: create_booking_def)
  have "bookings_write_dep demo_front_desk = Inr ()" by code_simp
  then obtain tasks d' where r: "demo_posted = Inr ((out, tasks), d')"
    by (auto simp: demo_posted_def post_booking_def for_tenant_def get_tenant_id_def demo_front_desk_def c ns http_error_def)
  have "listens demo_listener 1 1 ''booking.created''" "listens demo_listener 1 1 ''availability.changed''"
    by (simp_all add: listens_def demo_listener_def demo_outbox_def demo_sub_def subscription_at_def VALID_WEBHOOK_EVENTS_def)
  moreover have "get_tenant_id demo_front_desk = Inr 1" by (simp add: get_tenant_id_def demo_front_desk_def)
  moreover have "queued demo_listener 1 = []" by (simp add: queued_def demo_listener_def demo_outbox_def)
  ultimately show ?thesis
    using new_booking_is_announced [OF demo_ok(1) r [unfolded demo_posted_def], of 1 demo_listener 1 "demo_stage d'"
        "\<lambda>_. Inr ''id''" "demo_net (Response 200)" demo_settings] r
    by - (rule exI [of _ out], rule exI [of _ tasks], rule exI [of _ d'], auto simp: demo_stage_def)
qed

text \<open>
  A patch that moves a stay announces only the nights of the new stay: every availability task
  carries exactly the nights of the lines after the change, so the nights that the move gave back
  are neither announced to subscribers nor pushed to the channel manager.
\<close>

lemma patch_tasks_nights:
  assumes "booking_at d t i = Some b"
  shows "EmitAvailability t' rt dates \<in> set (patch_tasks t i body snap warn d) \<Longrightarrow> set dates = bl_date ` set (lines_of d b)"
    "PushAvailability t' p rt xs \<in> set (patch_tasks t i body snap warn d) \<Longrightarrow> set xs = iso_date ` bl_date ` set (lines_of d b)"
  using assms
  by (auto simp: patch_tasks_def Let_def load_booking_for_webhook_def availability_tasks_def schedule_push_channex_availability_def
      iso_dates_def split: if_splits option.splits)

lemma moved_stay_leaves_released_nights_unannounced:
  assumes run: "patch_booking_by_id d s i body = Inr ((warn, tasks), d')" "get_tenant_id s = Inr t" and at: "booking_at d' t i = Some b"
  shows "EmitAvailability t' rt dates \<in> set tasks \<Longrightarrow> set dates = bl_date ` set (lines_of d' b)"
    and "PushAvailability t' p rt xs \<in> set tasks \<Longrightarrow> set xs = iso_date ` bl_date ` set (lines_of d' b)"
proof -
  from run consider "tasks = []" | d1 snap where "tasks = patch_tasks t i body snap warn d1"
      "d' = record_audit t ''booking.patch'' ''booking'' (Some i) d1"
    unfolding patch_booking_by_id_def for_tenant_Inr Let_def by (auto split: if_splits)
  then have "tasks = [] \<or> (\<exists>d1 snap. tasks = patch_tasks t i body snap warn d1 \<and> booking_at d1 t i = Some b \<and> lines_of d1 b = lines_of d' b)"
    by cases (use at in \<open>auto simp: booking_at_def lines_of_def\<close>)
  then show "EmitAvailability t' rt dates \<in> set tasks \<Longrightarrow> set dates = bl_date ` set (lines_of d' b)"
    "PushAvailability t' p rt xs \<in> set tasks \<Longrightarrow> set xs = iso_date ` bl_date ` set (lines_of d' b)"
    using patch_tasks_nights by fastforce+
qed

end
