(* ===== verification/Channex.thy ===== *)
theory Channex
  imports Booking_Routes
begin

text \<open>
  Bookings from the channel manager (\<^verbatim>\<open>channex_booking_service.py\<close>): a revision of a booking at an
  online agency is claimed, mapped to a room type and a rate plan, and applied as a new, a modified or
  a cancelled booking. A revision arrives as JSON.
\<close>

subsection \<open>Dates in ISO form\<close>

definition days_of_civil :: "int \<Rightarrow> int \<Rightarrow> int \<Rightarrow> date" where
  "days_of_civil y m d =
     (let y = (if m \<le> 2 then y - 1 else y); era = y div 400; yoe = y mod 400;
          doy = (153 * (if m > 2 then m - 3 else m + 9) + 2) div 5 + d - 1; doe = yoe * 365 + yoe div 4 - yoe div 100 + doy
      in era * 146097 + doe - 719468)"

definition is_leap :: "int \<Rightarrow> bool" where
  "is_leap y \<longleftrightarrow> y mod 4 = 0 \<and> (y mod 100 \<noteq> 0 \<or> y mod 400 = 0)"

definition month_days :: "int \<Rightarrow> int \<Rightarrow> int" where
  "month_days y m = (if m = 2 then if is_leap y then 29 else 28 else if m \<in> {4, 6, 9, 11} then 30 else 31)"

definition mk_date :: "int \<Rightarrow> int \<Rightarrow> int \<Rightarrow> date option" where
  "mk_date y m d = (if 1 \<le> y \<and> y \<le> 9999 \<and> 1 \<le> m \<and> m \<le> 12 \<and> 1 \<le> d \<and> d \<le> month_days y m then Some (days_of_civil y m d) else None)"

definition digits_int :: "string \<Rightarrow> int option" where
  "digits_int s = (if s \<noteq> [] \<and> list_all is_digit s then Some (int (nat_of_digits s)) else None)"

text \<open>Week dates: the first week is the one with the first Thursday; day 0 was a Thursday.\<close>

definition week_date :: "int \<Rightarrow> int \<Rightarrow> int \<Rightarrow> date option" where
  "week_date y w d =
     (let first = days_of_civil y 1 1; wd = (first + 3) mod 7; monday = first - wd + (if wd > 3 then 7 else 0)
      in if 1 \<le> y \<and> y \<le> 9999 \<and> 1 \<le> w \<and> (w \<le> 52 \<or> w = 53 \<and> (wd = 3 \<or> wd = 2 \<and> is_leap y)) \<and> 1 \<le> d \<and> d \<le> 7
         then Some (monday + (w - 1) * 7 + d - 1) else None)"

text \<open>
  \<^verbatim>\<open>date.fromisoformat\<close>: \<^verbatim>\<open>YYYY-MM-DD\<close>, \<^verbatim>\<open>YYYYMMDD\<close>, and the week dates with and without a day.
\<close>

definition fromisoformat :: "string \<Rightarrow> date option" where
  "fromisoformat s =
     (let y = digits_int (take 4 s); rest = drop 4 s; sep = (take 1 rest = ''-''); body = (if sep then drop 1 rest else rest)
      in case y of None \<Rightarrow> None
         | Some y \<Rightarrow>
             if take 1 body = ''W''
             then (case digits_int (take 2 (drop 1 body)) of None \<Rightarrow> None
               | Some w \<Rightarrow> let tail = drop 3 body in
                   if tail = [] then (if length body = 3 then week_date y w 1 else None)
                   else if sep then (if length tail = 2 \<and> take 1 tail = ''-'' then Option.bind (digits_int (drop 1 tail)) (week_date y w) else None)
                   else (if length tail = 1 then Option.bind (digits_int tail) (week_date y w) else None))
             else if sep
             then (if length body = 5 \<and> take 1 (drop 2 body) = ''-''
                   then Option.bind (digits_int (take 2 body)) (\<lambda>m. Option.bind (digits_int (drop 3 body)) (mk_date y m)) else None)
             else (if length body = 4
                   then Option.bind (digits_int (take 2 body)) (\<lambda>m. Option.bind (digits_int (drop 2 body)) (mk_date y m)) else None))"

definition parse_iso_date :: "string option \<Rightarrow> date option" where
  "parse_iso_date v = (case v of None \<Rightarrow> None
     | Some s \<Rightarrow> let s = py_strip s in if s = [] then None
         else fromisoformat (take 10 (takeWhile (\<lambda>c. c \<noteq> CHR ''T'') s)))"

subsection \<open>Revisions\<close>

record customer =
  cu_name :: "string option"
  cu_surname :: "string option"
  cu_mail :: "string option"
  cu_phone :: "string option"

record revision_room =
  rr_room_type_id :: "string option"
  rr_rate_plan_id :: "string option"
  rr_checkin_date :: "string option"
  rr_checkout_date :: "string option"

record revision =
  rv_id :: string
  rv_booking_id :: "string option"
  rv_status :: "string option"
  rv_arrival_date :: "string option"
  rv_departure_date :: "string option"
  rv_amount :: json
  rv_customer :: "customer option"
  rv_rooms :: "revision_room list"
  rv_notes :: "string option"
  rv_channel_id :: "string option"

text \<open>\<^verbatim>\<open>ChannexBookingRevisionPayload.model_validate\<close>: \<open>None\<close> is a validation error.\<close>

definition text_field :: "(string \<times> json) list \<Rightarrow> string \<Rightarrow> string option option" where
  "text_field kvs k = (case map_of kvs k of None \<Rightarrow> Some None | Some JNull \<Rightarrow> Some None | Some (JStr s) \<Rightarrow> Some (Some s) | _ \<Rightarrow> None)"

definition parse_customer :: "json \<Rightarrow> customer option option" where
  "parse_customer j = (case j of
       JNull \<Rightarrow> Some None
     | JObj kvs \<Rightarrow> Option.bind (text_field kvs ''name'') (\<lambda>a. Option.bind (text_field kvs ''surname'') (\<lambda>b.
         Option.bind (text_field kvs ''mail'') (\<lambda>m. map_option (\<lambda>p. Some \<lparr>cu_name = a, cu_surname = b, cu_mail = m, cu_phone = p\<rparr>)
           (text_field kvs ''phone''))))
     | _ \<Rightarrow> None)"

definition parse_room :: "json \<Rightarrow> revision_room option" where
  "parse_room j = (case j of
       JObj kvs \<Rightarrow> Option.bind (text_field kvs ''room_type_id'') (\<lambda>a. Option.bind (text_field kvs ''rate_plan_id'') (\<lambda>b.
         Option.bind (text_field kvs ''checkin_date'') (\<lambda>ci. map_option (\<lambda>co. \<lparr>rr_room_type_id = a, rr_rate_plan_id = b,
           rr_checkin_date = ci, rr_checkout_date = co\<rparr>) (text_field kvs ''checkout_date''))))
     | _ \<Rightarrow> None)"

fun all_some :: "'a option list \<Rightarrow> 'a list option" where
  "all_some [] = Some []"
| "all_some (None # xs) = None"
| "all_some (Some x # xs) = map_option (Cons x) (all_some xs)"

definition model_validate :: "json \<Rightarrow> revision option" where
  "model_validate j = (case j of
     JObj kvs \<Rightarrow>
       Option.bind (case map_of kvs ''id'' of Some (JStr s) \<Rightarrow> Some s | _ \<Rightarrow> None) (\<lambda>i.
       Option.bind (text_field kvs ''booking_id'') (\<lambda>bid. Option.bind (text_field kvs ''property_id'') (\<lambda>_.
       Option.bind (text_field kvs ''status'') (\<lambda>st. Option.bind (text_field kvs ''arrival_date'') (\<lambda>ad.
       Option.bind (text_field kvs ''departure_date'') (\<lambda>dd.
       Option.bind (case obj_get_default kvs ''amount'' JNull of JList _ \<Rightarrow> None | JObj _ \<Rightarrow> None
            | JBool b \<Rightarrow> Some (JNum (if b then 1 else 0)) | a \<Rightarrow> Some a) (\<lambda>am.
       Option.bind (text_field kvs ''currency'') (\<lambda>_.
       Option.bind (parse_customer (obj_get_default kvs ''customer'' JNull)) (\<lambda>cu.
       Option.bind (case obj_get_default kvs ''rooms'' (JList []) of JList xs \<Rightarrow> all_some (map parse_room xs) | _ \<Rightarrow> None) (\<lambda>rs.
       Option.bind (case obj_get_default kvs ''occupancy'' JNull of JNull \<Rightarrow> Some () | JObj _ \<Rightarrow> Some () | _ \<Rightarrow> None) (\<lambda>_.
       Option.bind (text_field kvs ''notes'') (\<lambda>no. map_option (\<lambda>ch.
         \<lparr>rv_id = i, rv_booking_id = bid, rv_status = st, rv_arrival_date = ad, rv_departure_date = dd, rv_amount = am, rv_customer = cu,
          rv_rooms = rs, rv_notes = no, rv_channel_id = ch\<rparr>) (text_field kvs ''channel_id'')))))))))))))
   | _ \<Rightarrow> None)"

definition text_of :: "string option \<Rightarrow> string" where
  "text_of x = (case x of None \<Rightarrow> [] | Some s \<Rightarrow> s)"

definition or_else :: "string option \<Rightarrow> string \<Rightarrow> string" where
  "or_else x d = (if text_of x = [] then d else text_of x)"

text \<open>
  \<^verbatim>\<open>Decimal(s)\<close> raises \<^verbatim>\<open>InvalidOperation\<close> on text that is no number.
\<close>

definition decimal_amount :: "json \<Rightarrow> decimal result" where
  "decimal_amount raw = (case raw of
       JNull \<Rightarrow> Inr 0
     | JStr s \<Rightarrow> if py_strip s = [] then Inr 0 else r_bind (json_decimal (JStr (py_strip s))) (\<lambda>q. Inr (q_even q))
     | j \<Rightarrow> r_bind (json_decimal j) (\<lambda>q. Inr (q_even q)))"

definition nightly_prices_from_total :: "decimal \<Rightarrow> date list \<Rightarrow> (date \<times> decimal) list" where
  "nightly_prices_from_total amount nights =
     (let n = length nights in
      if n = 0 then []
      else let unit = quantize round_down (amount / of_nat n); last_night = q_even (amount - unit * of_nat (n - 1))
           in map (\<lambda>x. (x, unit)) (butlast nights) @ [(last nights, last_night)])"

definition guest_payload_from_channex :: "revision \<Rightarrow> string \<Rightarrow> guest_payload result" where
  "guest_payload_from_channex p fallback_key =
     (let c = rv_customer p; field = (\<lambda>f. case c of None \<Rightarrow> None | Some x \<Rightarrow> f x);
          mail = take 320 (py_lower (py_strip (or_else (field cu_mail) (''channex-'' @ fallback_key @ ''@guests.openpms.invalid''))));
          phone = take 64 (py_strip (or_else (field cu_phone) ''+10000000000''))
      in r_bind (guard (mail \<noteq> [] \<and> phone \<noteq> []) (ValueError ''String should have at least 1 character'')) (\<lambda>_.
         Inr \<lparr>gp_first_name = take 255 (or_else (field cu_name) ''Guest''), gp_last_name = take 255 (or_else (field cu_surname) ''Channex''),
              gp_email = mail, gp_phone = phone, gp_passport_data = None\<rparr>))"

text \<open>The key of the booking, and the kind of the revision.\<close>

definition cx_booking_external :: "revision \<Rightarrow> string" where
  "cx_booking_external p = (if py_strip (text_of (rv_booking_id p)) = [] then py_strip (rv_id p) else py_strip (text_of (rv_booking_id p)))"

definition status_raw :: "revision \<Rightarrow> string" where
  "status_raw p = py_lower (py_strip (text_of (rv_status p)))"

definition source_channel :: "revision \<Rightarrow> string" where
  "source_channel p = take 64 (''channex:'' @ take 40 (py_strip (or_else (rv_channel_id p) ''ota'')))"

definition check_in_out :: "revision \<Rightarrow> date option \<times> date option" where
  "check_in_out p = (case rv_rooms p of
       r # _ \<Rightarrow> if text_of (rr_checkin_date r) \<noteq> [] \<and> text_of (rr_checkout_date r) \<noteq> []
               then (parse_iso_date (rr_checkin_date r), parse_iso_date (rr_checkout_date r))
               else (parse_iso_date (rv_arrival_date p), parse_iso_date (rv_departure_date p))
     | [] \<Rightarrow> (parse_iso_date (rv_arrival_date p), parse_iso_date (rv_departure_date p)))"

subsection \<open>Tables\<close>

record link_row =
  cl_id :: uuid
  cl_tenant_id :: uuid
  cl_property_id :: uuid
  cl_channex_property_id :: string
  cl_channex_webhook_id :: "string option"
  cl_channex_api_key :: string
  cl_channex_env :: string
  cl_status :: string
  cl_connected_at :: "timestamp option"
  cl_last_sync_at :: "timestamp option"
  cl_error_message :: "string option"

record room_map_row =
  xr_id :: uuid
  xr_tenant_id :: uuid
  xr_property_link_id :: uuid
  xr_room_type_id :: uuid
  xr_channex_room_type_id :: string
  xr_channex_room_type_name :: "string option"

record rate_map_row =
  xm_id :: uuid
  xm_tenant_id :: uuid
  xm_room_type_map_id :: uuid
  xm_rate_plan_id :: uuid
  xm_channex_rate_plan_id :: string
  xm_channex_rate_plan_name :: "string option"

record webhook_log_row =
  wl_id :: uuid
  wl_tenant_id :: "uuid option"
  wl_event_type :: "string option"
  wl_payload :: json
  wl_signature :: "string option"
  wl_ip_address :: "string option"
  wl_processed :: bool

record push_log_row =
  pl_id :: uuid
  pl_tenant_id :: uuid
  pl_property_link_id :: uuid
  pl_request_payload :: json
  pl_response_status :: "int option"
  pl_response_body :: "string option"

text \<open>The hotel with the tables of the channel manager.\<close>

record channel =
  ch_hotel :: db
  ch_links :: "link_row list"
  ch_room_maps :: "room_map_row list"
  ch_rate_maps :: "rate_map_row list"
  ch_webhook_logs :: "webhook_log_row list"
  ch_push_logs :: "push_log_row list"

definition resolve_room_and_rate_maps :: "channel \<Rightarrow> uuid \<Rightarrow> uuid \<Rightarrow> string \<Rightarrow> string \<Rightarrow> (room_map_row \<times> rate_map_row) option" where
  "resolve_room_and_rate_maps c tenant_id link_id cx_room_type_id cx_rate_plan_id =
     Option.bind (find (\<lambda>r. xr_tenant_id r = tenant_id \<and> xr_property_link_id r = link_id \<and>
         xr_channex_room_type_id r = py_strip cx_room_type_id) (ch_room_maps c)) (\<lambda>rtm.
     map_option (Pair rtm) (find (\<lambda>r. xm_tenant_id r = tenant_id \<and> xm_room_type_map_id r = xr_id rtm \<and>
         xm_channex_rate_plan_id r = py_strip cx_rate_plan_id) (ch_rate_maps c)))"

record ingest_result =
  ig_skip_idempotent :: bool
  ig_schedule_push :: bool
  ig_tenant_id :: uuid
  ig_property_id :: uuid
  ig_room_type_id :: "uuid option"
  ig_date_strs :: "string list"
  ig_success :: bool
  ig_confirmation :: "uuid option"
  ig_cancellation :: "uuid option"

definition ingest_default :: "uuid \<Rightarrow> uuid \<Rightarrow> ingest_result" where
  "ingest_default tenant_id property_id = \<lparr>ig_skip_idempotent = False, ig_schedule_push = False, ig_tenant_id = tenant_id,
     ig_property_id = property_id, ig_room_type_id = None, ig_date_strs = [], ig_success = True, ig_confirmation = None, ig_cancellation = None\<rparr>"

subsection \<open>Claiming a revision\<close>

text \<open>
  \<^verbatim>\<open>INSERT ... ON CONFLICT DO NOTHING\<close> on the revision identifier, which is unique over all tenants,
  while the following select sees only the rows of the tenant. \<open>None\<close> stands for \<^verbatim>\<open>"skip"\<close>.
\<close>

definition set_revision :: "uuid \<Rightarrow> (channex_revision_row \<Rightarrow> channex_revision_row) \<Rightarrow> db \<Rightarrow> db" where
  "set_revision i f d = d\<lparr>channex_revisions := update_rows (\<lambda>r. cr_id r = i) f (channex_revisions d)\<rparr>"

definition claim_revision_row ::
  "db \<Rightarrow> uuid \<Rightarrow> link_row \<Rightarrow> string \<Rightarrow> json \<Rightarrow> revision \<Rightarrow> (uuid option \<times> db) result" where
  "claim_revision_row d tenant_id link revision_id flat p =
     (let cut = (\<lambda>n s. if take n s = [] then None else Some (take n s)); bid = py_strip (text_of (rv_booking_id p));
          row = \<lparr>cr_id = next_uuid d, cr_tenant_id = tenant_id, cr_property_link_id = cl_id link, cr_channex_revision_id = revision_id,
            cr_channex_booking_id = (if bid = [] then None else Some bid), cr_status = cut 20 (text_of (rv_status p)),
            cr_channel_code = cut 50 (text_of (rv_channel_id p)), cr_payload = flat, cr_processing_status = ''processing'',
            cr_openpms_booking_id = None, cr_error_message = None, cr_processed_at = None\<rparr>
      in r_bind (guard (length revision_id \<le> 36 \<and> length bid \<le> 36) (RuntimeError ''value too long for type character varying(36)'')) (\<lambda>_.
         if \<not> list_ex (\<lambda>r. cr_channex_revision_id r = revision_id) (channex_revisions d)
         then Inr (Some (cr_id row), d\<lparr>channex_revisions := channex_revisions d @ [row], next_uuid := next_uuid d + 1\<rparr>)
         else r_bind (require (find (\<lambda>r. cr_tenant_id r = tenant_id \<and> cr_channex_revision_id r = revision_id) (channex_revisions d))
                        (RuntimeError ''channex_booking_revision insert failed'')) (\<lambda>row.
              if cr_processing_status row \<in> set [''done'', ''processing''] then Inr (None, d)
              else if cr_processing_status row = ''error''
              then Inr (Some (cr_id row), set_revision (cr_id row)
                (\<lambda>r. r\<lparr>cr_processing_status := ''processing'', cr_error_message := None, cr_payload := flat\<rparr>) d)
              else Inr (Some (cr_id row), d))))"

definition revision_failed :: "uuid \<Rightarrow> string \<Rightarrow> db \<Rightarrow> db" where
  "revision_failed i message d = set_revision i
     (\<lambda>r. r\<lparr>cr_processing_status := ''error'', cr_error_message := Some message, cr_processed_at := Some (db_now d)\<rparr>) d"

definition revision_done :: "uuid \<Rightarrow> uuid \<Rightarrow> db \<Rightarrow> db" where
  "revision_done i booking_id d = set_revision i (\<lambda>r. r\<lparr>cr_openpms_booking_id := Some booking_id, cr_processing_status := ''done'',
     cr_error_message := None, cr_processed_at := Some (db_now d)\<rparr>) d"

definition link_synced :: "uuid \<Rightarrow> channel \<Rightarrow> channel" where
  "link_synced i c = c\<lparr>ch_links := update_rows (\<lambda>l. cl_id l = i) (\<lambda>l. l\<lparr>cl_last_sync_at := Some (db_now (ch_hotel c))\<rparr>) (ch_links c)\<rparr>"

subsection \<open>Applying a revision\<close>

text \<open>
  The body of the \<^verbatim>\<open>try\<close>: a result with the nights to push, a message for a revision that cannot be
  applied, or an exception together with the session at the raise, because the handlers flush it.
\<close>

datatype applied =
    Applied uuid "date list" bool "uuid option" "uuid option" db
  | Refused string db
  | Raised error db

definition booking_by_external :: "db \<Rightarrow> uuid \<Rightarrow> string \<Rightarrow> booking_row option" where
  "booking_by_external d tenant_id ext = find (\<lambda>b. bk_tenant_id b = tenant_id \<and> bk_external_booking_id b = Some ext) (bookings d)"

definition no_booking :: "string \<Rightarrow> string" where
  "no_booking ext = ''No OpenPMS booking for external_booking_id='' @ py_repr (JStr ext)"

definition apply_cancelled :: "db \<Rightarrow> uuid \<Rightarrow> string \<Rightarrow> applied" where
  "apply_cancelled d tenant_id ext =
     (case booking_by_external d tenant_id ext of
        None \<Rightarrow> Refused (no_booking ext) d
      | Some b \<Rightarrow>
          if bk_status b = ''cancelled'' then Applied (bk_id b) [] True None None d
          else let ls = lines_of d b; old_nights = map bl_date ls;
                   cancel = set_booking b (\<lambda>b. b\<lparr>bk_status := ''cancelled''\<rparr>)
               in case the_room_type ls of
                    None \<Rightarrow> Applied (bk_id b) [] True None (Some (bk_id b)) (cancel d)
                  | Some rt \<Rightarrow> (case lock_and_validate_availability d tenant_id rt old_nights 0 of
                      Inl e \<Rightarrow> Raised e d
                    | Inr rows \<Rightarrow> (case decrement_booked_rooms rows 1 d of
                        (Some e, d) \<Rightarrow> Raised e d
                      | (None, d) \<Rightarrow> Applied (bk_id b) old_nights True None (Some (bk_id b)) (cancel d))))"

definition replace_stay :: "db \<Rightarrow> uuid \<Rightarrow> booking_row \<Rightarrow> uuid \<Rightarrow> uuid \<Rightarrow> decimal \<Rightarrow> (date \<times> decimal) list \<Rightarrow> db result" where
  "replace_stay d tenant_id b room_type_id rate_plan_id amount per_night =
     (let d = d\<lparr>booking_lines := delete_rows (of_booking tenant_id (bk_id b)) (booking_lines d)\<rparr>;
          d = set_booking b (\<lambda>b. b\<lparr>bk_rate_plan_id := Some rate_plan_id, bk_total_amount := numeric2 amount\<rparr>) d;
          d = insert_lines tenant_id (bk_id b) room_type_id per_night d
      in r_bind (replace_country_pack_tax_charges d tenant_id (bk_id b) (bk_property_id b) amount) (\<lambda>(room_charge_amount, d).
         Inr (update_folio_charge_amount tenant_id (bk_id b) room_charge_amount d)))"

text \<open>
  The guest takes the data of the revision. When the address belongs to another guest the flush
  violates the unique constraint; the handler of \<^verbatim>\<open>IntegrityError\<close> flushes again, on a session that has
  been rolled back, and that raises.
\<close>

definition update_channel_guest :: "db \<Rightarrow> uuid \<Rightarrow> uuid \<Rightarrow> guest_payload \<Rightarrow> string option \<Rightarrow> db result" where
  "update_channel_guest d tenant_id guest_id gp no =
     (case find (\<lambda>g. gu_tenant_id g = tenant_id \<and> gu_id g = guest_id) (guests d) of
        None \<Rightarrow> Inr d
      | Some g \<Rightarrow>
          let g' = g\<lparr>gu_first_name := gp_first_name gp, gu_last_name := gp_last_name gp, gu_email := py_lower (py_strip (gp_email gp)),
                     gu_phone := gp_phone gp, gu_notes := (if text_of no = [] then gu_notes g else Some (take 2000 (text_of no)))\<rparr>;
              g' = (if g' = g then g else g'\<lparr>gu_updated_at := db_now d\<rparr>)
          in r_bind (guard (\<not> list_ex (\<lambda>x. gu_tenant_id x = tenant_id \<and> gu_id x \<noteq> guest_id \<and> gu_email x = gu_email g') (guests d))
                       (RuntimeError ''PendingRollbackError'')) (\<lambda>_.
             Inr (d\<lparr>guests := update_rows (\<lambda>x. gu_id x = gu_id g) (\<lambda>_. g') (guests d)\<rparr>)))"

definition apply_modified ::
  "db \<Rightarrow> uuid \<Rightarrow> string \<Rightarrow> uuid \<Rightarrow> uuid \<Rightarrow> date list \<Rightarrow> decimal \<Rightarrow> (date \<times> decimal) list \<Rightarrow> guest_payload \<Rightarrow> string option \<Rightarrow> applied" where
  "apply_modified d tenant_id ext room_type_id rate_plan_id nights amount per_night gp no =
     (case booking_by_external d tenant_id ext of
        None \<Rightarrow> Refused (no_booking ext) d
      | Some b \<Rightarrow>
          let ls = lines_of d b; old_nights = sort (remdups (map bl_date ls)) in
          case the_room_type ls of
            None \<Rightarrow> Refused ''Booking lines must share one room type for Channex modify'' d
          | Some old_rt \<Rightarrow> (case lock_and_validate_availability d tenant_id old_rt old_nights 0 of
              Inl e \<Rightarrow> Raised e d
            | Inr old_rows \<Rightarrow> (case decrement_booked_rooms old_rows 1 d of
                (Some e, d) \<Rightarrow> Raised e d
              | (None, d) \<Rightarrow> (case lock_and_validate_availability d tenant_id room_type_id nights 1 of
                  Inl e \<Rightarrow> Raised e d
                | Inr new_rows \<Rightarrow>
                    (case r_bind (replace_stay (increment_booked_rooms new_rows 1 d) tenant_id b room_type_id rate_plan_id amount per_night)
                            (\<lambda>d. update_channel_guest d tenant_id (bk_guest_id b) gp no) of
                       Inl e \<Rightarrow> Raised e d
                     | Inr d \<Rightarrow> Applied (bk_id b) (old_nights @ nights) True None None d)))))"

definition insert_channel_booking ::
  "uuid \<Rightarrow> uuid \<Rightarrow> uuid \<Rightarrow> uuid \<Rightarrow> string \<Rightarrow> decimal \<Rightarrow> string \<Rightarrow> db \<Rightarrow> booking_row \<times> db" where
  "insert_channel_booking tenant_id property_id guest_id rate_plan_id source amount ext d =
     (let b = \<lparr>bk_id = next_uuid d, bk_tenant_id = tenant_id, bk_property_id = property_id, bk_guest_id = guest_id,
               bk_rate_plan_id = Some rate_plan_id, bk_external_booking_id = Some (take 128 ext), bk_status = ''confirmed'',
               bk_source = source, bk_total_amount = numeric2 amount, bk_notes = None\<rparr>
      in (b, d\<lparr>bookings := bookings d @ [b], next_uuid := next_uuid d + 1\<rparr>))"

definition note_guest :: "guest_row \<Rightarrow> string option \<Rightarrow> db \<Rightarrow> db" where
  "note_guest g no d =
     (if text_of no \<noteq> [] \<and> gu_notes g = None
      then d\<lparr>guests := update_rows (\<lambda>x. gu_id x = gu_id g) (\<lambda>x. x\<lparr>gu_notes := Some (take 2000 (text_of no)), gu_updated_at := db_now d\<rparr>) (guests d)\<rparr>
      else d)"

text \<open>What follows the claim of the nights, as for a booking of the front desk.\<close>

definition record_channel_booking ::
  "db \<Rightarrow> uuid \<Rightarrow> uuid \<Rightarrow> string \<Rightarrow> uuid \<Rightarrow> uuid \<Rightarrow> decimal \<Rightarrow> (date \<times> decimal) list \<Rightarrow> guest_payload \<Rightarrow> string option \<Rightarrow> string \<Rightarrow> (uuid \<times> db) result" where
  "record_channel_booking d tenant_id property_id ext room_type_id rate_plan_id amount per_night gp no source =
     r_bind (get_or_create_guest_for_booking d tenant_id gp False) (\<lambda>(guest, _, d).
     let d = note_guest guest no d;
         (b, d) = insert_channel_booking tenant_id property_id (gu_id guest) rate_plan_id source amount ext d;
         d = insert_lines tenant_id (bk_id b) room_type_id per_night d;
         d = snd (insert_folio tenant_id (bk_id b) ''Charge'' amount None (Some ''Room charge (Channex OTA)'') None ''room_charge'' d)
     in r_bind (replace_country_pack_tax_charges d tenant_id (bk_id b) property_id amount) (\<lambda>(room_charge_amount, d).
        let d = update_folio_charge_amount tenant_id (bk_id b) room_charge_amount d in
        r_bind (case pick_first_free_room_for_stay d tenant_id property_id room_type_id (map fst per_night) (bk_id b) of
                  None \<Rightarrow> Inr d | Some r \<Rightarrow> assign_booking_room d tenant_id (bk_id b) (Some r)) (\<lambda>d.
        Inr (bk_id b, d))))"

definition apply_new ::
  "db \<Rightarrow> uuid \<Rightarrow> uuid \<Rightarrow> string \<Rightarrow> uuid \<Rightarrow> uuid \<Rightarrow> date list \<Rightarrow> decimal \<Rightarrow> (date \<times> decimal) list \<Rightarrow> guest_payload \<Rightarrow> string option \<Rightarrow> string \<Rightarrow> applied" where
  "apply_new d tenant_id property_id ext room_type_id rate_plan_id nights amount per_night gp no source =
     (case booking_by_external d tenant_id ext of
        Some b \<Rightarrow> Applied (bk_id b) [] False None None d
      | None \<Rightarrow> (case lock_and_validate_availability d tenant_id room_type_id nights 1 of
          Inl e \<Rightarrow> Raised e d
        | Inr rows \<Rightarrow>
            let d1 = increment_booked_rooms rows 1 d
            in case record_channel_booking d1 tenant_id property_id ext room_type_id rate_plan_id amount per_night gp no source of
                 Inl e \<Rightarrow> Raised e d1
               | Inr (bid, d) \<Rightarrow> Applied bid nights True (Some bid) None d))"

definition apply_revision ::
  "db \<Rightarrow> uuid \<Rightarrow> uuid \<Rightarrow> revision \<Rightarrow> string \<Rightarrow> uuid \<Rightarrow> uuid \<Rightarrow> date list \<Rightarrow> decimal \<Rightarrow> guest_payload \<Rightarrow> applied" where
  "apply_revision d tenant_id property_id p ext room_type_id rate_plan_id nights amount gp =
     (let per_night = nightly_prices_from_total amount nights
      in if status_raw p = ''cancelled'' then apply_cancelled d tenant_id ext
         else if status_raw p = ''modified''
         then apply_modified d tenant_id ext room_type_id rate_plan_id nights amount per_night gp (rv_notes p)
         else apply_new d tenant_id property_id ext room_type_id rate_plan_id nights amount per_night gp (rv_notes p) (source_channel p))"

text \<open>The exceptions the function catches, with the beginning of the message it stores.\<close>

definition caught :: "error \<Rightarrow> string option" where
  "caught e = (case e of
       InsufficientInventoryError \<Rightarrow> Some ''overbooking: insufficient inventory for one or more dates''
     | LedgerNotSeededError \<Rightarrow> Some ''ledger not seeded: availability ledger not seeded for one or more dates''
     | InvalidBookingContextError m \<Rightarrow> Some (take 2000 (''guest creation failed: '' @ m))
     | _ \<Rightarrow> None)"

definition finish_ingest ::
  "channel \<Rightarrow> uuid \<Rightarrow> link_row \<Rightarrow> uuid \<Rightarrow> uuid \<Rightarrow> applied \<Rightarrow> (ingest_result \<times> channel) result" where
  "finish_ingest c tenant_id link row room_type_id ap =
     (let res = (ingest_default tenant_id (cl_property_id link))\<lparr>ig_room_type_id := Some room_type_id\<rparr> in case ap of
        Applied bid dates push confirm cancel d \<Rightarrow>
          Inr (res\<lparr>ig_schedule_push := push, ig_date_strs := (if push then iso_dates dates else []), ig_confirmation := confirm,
                   ig_cancellation := cancel\<rparr>,
               link_synced (cl_id link) (c\<lparr>ch_hotel := revision_done row bid d\<rparr>))
      | Refused m d \<Rightarrow> Inr (res\<lparr>ig_success := False\<rparr>, c\<lparr>ch_hotel := revision_failed row m d\<rparr>)
      | Raised e d \<Rightarrow> (case caught e of
            None \<Rightarrow> Inl e
          | Some m \<Rightarrow> Inr (res\<lparr>ig_success := False\<rparr>, c\<lparr>ch_hotel := revision_failed row m d\<rparr>)))"

definition process_revision ::
  "channel \<Rightarrow> uuid \<Rightarrow> link_row \<Rightarrow> uuid \<Rightarrow> revision \<Rightarrow> (ingest_result \<times> channel) result" where
  "process_revision c tenant_id link row p =
     (let res = ingest_default tenant_id (cl_property_id link); d = ch_hotel c;
          refuse = (\<lambda>res m. Inr (res\<lparr>ig_success := False\<rparr>, c\<lparr>ch_hotel := revision_failed row m d\<rparr>)) in
      case rv_rooms p of
        [] \<Rightarrow> refuse res ''Channex revision missing rooms[0] or room_type_id/rate_plan_id''
      | room0 # _ \<Rightarrow>
          if text_of (rr_room_type_id room0) = [] \<or> text_of (rr_rate_plan_id room0) = []
          then refuse res ''Channex revision missing rooms[0] or room_type_id/rate_plan_id''
          else case resolve_room_and_rate_maps c tenant_id (cl_id link) (text_of (rr_room_type_id room0)) (text_of (rr_rate_plan_id room0)) of
            None \<Rightarrow> refuse res (''Unknown channex_room_type_id or rate map: room_type='' @ py_repr (JStr (text_of (rr_room_type_id room0))) @
                      '' rate_plan='' @ py_repr (JStr (text_of (rr_rate_plan_id room0))))
          | Some (rtm, rpm) \<Rightarrow>
              let ext = cx_booking_external p;
                  res = res\<lparr>ig_room_type_id := Some (xr_room_type_id rtm)\<rparr> in
              case check_in_out p of
                (Some ci, Some co) \<Rightarrow>
                  if co \<le> ci then refuse res ''Invalid or missing arrival/departure dates''
                  else r_bind (iter_stay_nights ci co) (\<lambda>nights.
                       r_bind (decimal_amount (rv_amount p)) (\<lambda>amount.
                       r_bind (guest_payload_from_channex p ext) (\<lambda>gp.
                       finish_ingest c tenant_id link row (xr_room_type_id rtm)
                         (apply_revision d tenant_id (cl_property_id link) p ext (xr_room_type_id rtm) (xm_rate_plan_id rpm) nights amount gp))))
              | _ \<Rightarrow> refuse res ''Invalid or missing arrival/departure dates'')"

definition ingest_channex_booking :: "channel \<Rightarrow> uuid \<Rightarrow> link_row \<Rightarrow> json \<Rightarrow> (ingest_result \<times> channel) result" where
  "ingest_channex_booking c tenant_id link flat =
     (let res = ingest_default tenant_id (cl_property_id link) in
      case model_validate flat of
        None \<Rightarrow> Inr (res\<lparr>ig_success := False\<rparr>, c)
      | Some p \<Rightarrow>
          let revision_id = py_strip (rv_id p) in
          if revision_id = [] then Inr (res\<lparr>ig_success := False\<rparr>, c)
          else r_bind (claim_revision_row (ch_hotel c) tenant_id link revision_id flat p) (\<lambda>(claim, d).
               case claim of
                 None \<Rightarrow> Inr (res\<lparr>ig_skip_idempotent := True\<rparr>, c\<lparr>ch_hotel := d\<rparr>)
               | Some row \<Rightarrow> process_revision (c\<lparr>ch_hotel := d\<rparr>) tenant_id link row p))"

end
