(* ===== verification/Channex_Sync.thy ===== *)
theory Channex_Sync
  imports Channex_Client Channex
begin

text \<open>
  The link of a property to the channel manager: connecting, provisioning, mapping, activating and
  disconnecting (\<^verbatim>\<open>channex_service.py\<close>).
\<close>

record channel_settings =
  channex_webhook_url :: "string option"
  channex_webhook_secret :: "string option"
  channex_webhook_verify_channex_ips :: bool

text \<open>What the operations take from outside: the network of the client, Fernet and HMAC, and the settings.\<close>

record cx_env =
  ce_http :: cx_http
  ce_net :: net
  ce_settings :: settings
  ce_channel :: channel_settings
  ce_nonce :: string

subsection \<open>Connecting\<close>

definition normalize_env :: "string \<Rightarrow> string result" where
  "normalize_env env =
     (let e = py_lower (py_strip (if env = [] then ''production'' else env))
      in if e \<in> set [''production'', ''sandbox''] then Inr e
         else Inl (ChannexServiceError (''env must be '' @ py_repr (JStr ''production'') @ '' or '' @ py_repr (JStr ''sandbox'')) 422))"

definition channex_http_to_service :: "string \<Rightarrow> int option \<Rightarrow> string option \<Rightarrow> error" where
  "channex_http_to_service message status body =
     (let code = (case status of None \<Rightarrow> 502 | Some s \<Rightarrow> if s = 0 then 502 else s)
      in if code \<in> set [401, 403] then ChannexServiceError ''Invalid or unauthorized Channex API key'' 401
         else if code = 404 then ChannexServiceError ''Channex resource not found'' 404
         else if code = 422
         then ChannexServiceError (case body of Some b \<Rightarrow> if b \<noteq> [] \<and> length b < 800 then b else ''Channex rejected the request (validation error)''
                | None \<Rightarrow> ''Channex rejected the request (validation error)'') 422
         else ChannexServiceError message 502)"

definition cx_service :: "'a result \<Rightarrow> 'a result" where
  "cx_service r = (case r of Inl (ChannexApiError m s b) \<Rightarrow> Inl (channex_http_to_service m s b) | _ \<Rightarrow> r)"

definition validate_key :: "cx_http \<Rightarrow> string \<Rightarrow> string \<Rightarrow> cx_item list result" where
  "validate_key http api_key env =
     r_bind (normalize_env env) (\<lambda>env_n. cx_service (get_properties http (channex_client (py_strip api_key) env_n)))"

definition get_link :: "channel \<Rightarrow> uuid \<Rightarrow> uuid \<Rightarrow> link_row option" where
  "get_link c tenant_id property_id = find (\<lambda>l. cl_tenant_id l = tenant_id \<and> cl_property_id l = property_id) (ch_links c)"

definition create_channex_property_from_openpms :: "cx_http \<Rightarrow> channel \<Rightarrow> uuid \<Rightarrow> uuid \<Rightarrow> string \<Rightarrow> string \<Rightarrow> cx_item result" where
  "create_channex_property_from_openpms http c tenant_id property_id api_key env =
     r_bind (normalize_env env) (\<lambda>env_n.
     r_bind (guard (get_link c tenant_id property_id = None) (ChannexServiceError ''Channex is already connected for this property'' 409)) (\<lambda>_.
     r_bind (require (get_property (ch_hotel c) tenant_id property_id) (ChannexServiceError ''Property not found'' 404)) (\<lambda>p.
     cx_service (create_cx_property http (channex_client (py_strip api_key) env_n) (pr_name p) (pr_currency p) (pr_timezone p)))))"

text \<open>
  The insertion meets the foreign key to the property, the unique constraint on the property, and the
  width of the column.
\<close>

definition channel_id :: "channel \<Rightarrow> uuid \<times> channel" where
  "channel_id c = (next_uuid (ch_hotel c), c\<lparr>ch_hotel := (ch_hotel c)\<lparr>next_uuid := next_uuid (ch_hotel c) + 1\<rparr>\<rparr>)"

definition connect :: "cx_env \<Rightarrow> channel \<Rightarrow> uuid \<Rightarrow> uuid \<Rightarrow> string \<Rightarrow> string \<Rightarrow> string \<Rightarrow> (link_row \<times> channel) result" where
  "connect e c tenant_id property_id api_key env channex_property_id =
     r_bind (normalize_env env) (\<lambda>env_n.
     let key_plain = py_strip api_key; cx_prop_id = py_strip channex_property_id in
     r_bind (guard (get_link c tenant_id property_id = None) (ChannexServiceError ''Channex is already connected for this property'' 409)) (\<lambda>_.
     r_bind (validate_key (ce_http e) key_plain env_n) (\<lambda>props.
     r_bind (guard (list_ex (\<lambda>p. ci_id p = cx_prop_id) props)
               (ChannexServiceError ''Selected Channex property is not available for this API key'' 422)) (\<lambda>_.
     r_bind (encrypt_channex_api_key (ce_net e) (ce_settings e) (ce_nonce e) key_plain) (\<lambda>encrypted.
     r_bind (guard (length cx_prop_id \<le> 36) (RuntimeError ''value too long for type character varying(36)'')) (\<lambda>_.
     r_bind (guard (get_property (ch_hotel c) tenant_id property_id \<noteq> None \<and> \<not> list_ex (\<lambda>l. cl_property_id l = property_id) (ch_links c))
               IntegrityError) (\<lambda>_.
     let (i, c) = channel_id c;
         row = \<lparr>cl_id = i, cl_tenant_id = tenant_id, cl_property_id = property_id, cl_channex_property_id = cx_prop_id,
                cl_channex_webhook_id = None, cl_channex_api_key = encrypted, cl_channex_env = env_n, cl_status = ''pending'',
                cl_connected_at = None, cl_last_sync_at = None, cl_error_message = None\<rparr>
     in Inr (row, c\<lparr>ch_links := ch_links c @ [row]\<rparr>))))))))"

definition maps_of_link :: "channel \<Rightarrow> uuid \<Rightarrow> uuid \<Rightarrow> room_map_row list" where
  "maps_of_link c tenant_id link_id = filter (\<lambda>r. xr_property_link_id r = link_id \<and> xr_tenant_id r = tenant_id) (ch_room_maps c)"

definition in_maps :: "uuid \<Rightarrow> room_map_row list \<Rightarrow> rate_map_row \<Rightarrow> bool" where
  "in_maps tenant_id rms r \<longleftrightarrow> xm_tenant_id r = tenant_id \<and> xm_room_type_map_id r \<in> xr_id ` set rms"

record channex_status =
  cs_connected :: bool
  cs_link :: "link_row option"
  cs_room_maps_count :: nat
  cs_rate_maps_count :: nat
  cs_room_type_maps :: "room_map_row list"

definition get_status :: "channel \<Rightarrow> uuid \<Rightarrow> uuid \<Rightarrow> channex_status" where
  "get_status c tenant_id property_id = (case get_link c tenant_id property_id of
       None \<Rightarrow> \<lparr>cs_connected = False, cs_link = None, cs_room_maps_count = 0, cs_rate_maps_count = 0, cs_room_type_maps = []\<rparr>
     | Some l \<Rightarrow> let rms = maps_of_link c tenant_id (cl_id l) in
         \<lparr>cs_connected = True, cs_link = Some l, cs_room_maps_count = length rms,
          cs_rate_maps_count = length (filter (in_maps tenant_id rms) (ch_rate_maps c)), cs_room_type_maps = rms\<rparr>)"

definition client_for_link :: "cx_env \<Rightarrow> link_row \<Rightarrow> cx_client result" where
  "client_for_link e l = r_bind (decrypt_channex_api_key (ce_net e) (ce_settings e) (cl_channex_api_key l)) (\<lambda>plain.
     Inr (channex_client plain (cl_channex_env l)))"

definition require_link :: "channel \<Rightarrow> uuid \<Rightarrow> uuid \<Rightarrow> link_row result" where
  "require_link c tenant_id property_id =
     require (get_link c tenant_id property_id) (ChannexServiceError ''Channex is not connected for this property'' 404)"

definition get_channex_rooms :: "cx_env \<Rightarrow> channel \<Rightarrow> uuid \<Rightarrow> uuid \<Rightarrow> cx_item list result" where
  "get_channex_rooms e c tenant_id property_id =
     r_bind (require_link c tenant_id property_id) (\<lambda>l. r_bind (client_for_link e l) (\<lambda>cl.
     cx_service (get_cx_room_types (ce_http e) cl (cl_channex_property_id l))))"

definition get_channex_rates :: "cx_env \<Rightarrow> channel \<Rightarrow> uuid \<Rightarrow> uuid \<Rightarrow> cx_item list result" where
  "get_channex_rates e c tenant_id property_id =
     r_bind (require_link c tenant_id property_id) (\<lambda>l. r_bind (client_for_link e l) (\<lambda>cl.
     cx_service (get_cx_rate_plans (ce_http e) cl (cl_channex_property_id l))))"

subsection \<open>Provisioning\<close>

text \<open>
  What exists there already is recognised by its title. The state of the two loops: the titles known
  there with their identifiers, the identifiers of the local categories, and the counters.
\<close>

fun provision_rooms ::
  "cx_http \<Rightarrow> cx_client \<Rightarrow> db \<Rightarrow> uuid \<Rightarrow> string \<Rightarrow> room_type_row list \<Rightarrow> (string \<times> string) list \<Rightarrow> (uuid \<times> string) list \<Rightarrow> nat \<Rightarrow> nat
     \<Rightarrow> ((uuid \<times> string) list \<times> nat \<times> nat) result" where
  "provision_rooms http cl d tenant_id cx_pid [] by_title om made skipped = Inr (om, made, skipped)"
| "provision_rooms http cl d tenant_id cx_pid (rt # rts) by_title om made skipped =
     (let key = py_strip (rt_name rt) in case map_of by_title key of
        Some i \<Rightarrow> provision_rooms http cl d tenant_id cx_pid rts by_title ((rt_id rt, i) # om) made (Suc skipped)
      | None \<Rightarrow>
          let occ_adults = max 1 (rt_max_occupancy rt)
          in r_bind (cx_service (create_cx_room_type http cl cx_pid (rt_name rt) (max 1 (count_rooms_for_room_type d tenant_id (rt_id rt)))
               occ_adults 0 0 (max 1 (min (rt_base_occupancy rt) occ_adults)))) (\<lambda>item.
             provision_rooms http cl d tenant_id cx_pid rts ((key, ci_id item) # by_title) ((rt_id rt, ci_id item) # om) (Suc made) skipped))"

fun provision_rates ::
  "cx_http \<Rightarrow> cx_client \<Rightarrow> string \<Rightarrow> string \<Rightarrow> (uuid \<times> string) list \<Rightarrow> (rate_plan_row \<times> room_type_row) list \<Rightarrow> string list \<Rightarrow> nat \<Rightarrow> nat
     \<Rightarrow> (nat \<times> nat) result" where
  "provision_rates http cl cx_pid currency om [] titles made skipped = Inr (made, skipped)"
| "provision_rates http cl cx_pid currency om ((rp, rt) # ps) titles made skipped =
     (case map_of om (rt_id rt) of
        None \<Rightarrow> provision_rates http cl cx_pid currency om ps titles made skipped
      | Some cx_rt_id \<Rightarrow>
          let title = take 255 (py_strip (rp_name rp) @ '' / '' @ py_strip (rt_name rt)) in
          if cx_rt_id = [] then provision_rates http cl cx_pid currency om ps titles made skipped
          else if title \<in> set titles then provision_rates http cl cx_pid currency om ps titles made (Suc skipped)
          else r_bind (cx_service (create_cx_rate_plan http cl cx_pid cx_rt_id title currency (max 1 (rt_max_occupancy rt)))) (\<lambda>_.
            provision_rates http cl cx_pid currency om ps (title # titles) (Suc made) skipped))"

definition item_title :: "cx_item \<Rightarrow> string" where
  "item_title r = py_strip (case ci_title r of None \<Rightarrow> [] | Some t \<Rightarrow> t)"

record provisioned =
  pv_room_types_created :: nat
  pv_room_types_skipped :: nat
  pv_rate_plans_created :: nat
  pv_rate_plans_skipped :: nat

definition provision_channex_from_openpms :: "cx_env \<Rightarrow> channel \<Rightarrow> uuid \<Rightarrow> uuid \<Rightarrow> provisioned result" where
  "provision_channex_from_openpms e c tenant_id property_id =
     (let d = ch_hotel c; http = ce_http e in
      r_bind (require_link c tenant_id property_id) (\<lambda>l.
      r_bind (require (get_property d tenant_id property_id) (ChannexServiceError ''Property not found'' 404)) (\<lambda>p.
      let local_types = list_room_types d tenant_id (Some property_id); cx_pid = cl_channex_property_id l in
      r_bind (guard (local_types \<noteq> [])
                (ChannexServiceError ''No room categories in OpenPMS for this property; add room types first'' 422)) (\<lambda>_.
      r_bind (client_for_link e l) (\<lambda>cl.
      r_bind (cx_service (get_cx_room_types http cl cx_pid)) (\<lambda>existing.
      let by_title = rev (map (\<lambda>r. (item_title r, ci_id r)) (filter (\<lambda>r. item_title r \<noteq> [] \<and> ci_id r \<noteq> []) existing)) in
      r_bind (provision_rooms http cl d tenant_id cx_pid local_types by_title [] 0 0) (\<lambda>(om, made_rt, skipped_rt).
      r_bind (cx_service (get_cx_rate_plans http cl cx_pid)) (\<lambda>existing_rp.
      let titles = filter (\<lambda>t. t \<noteq> []) (map item_title existing_rp);
          currency = py_upper (py_strip (if pr_currency p = [] then ''USD'' else pr_currency p));
          pairs = concat (map (\<lambda>rp. map (Pair rp) local_types) (list_rate_plans d tenant_id (Some property_id)))
      in r_bind (provision_rates http cl cx_pid currency om pairs titles 0 0) (\<lambda>(made_rp, skipped_rp).
         Inr \<lparr>pv_room_types_created = made_rt, pv_room_types_skipped = skipped_rt, pv_rate_plans_created = made_rp,
              pv_rate_plans_skipped = skipped_rp\<rparr>)))))))))"

subsection \<open>Mappings\<close>

record room_mapping =
  rmi_room_type_id :: uuid
  rmi_channex_room_type_id :: string
  rmi_channex_room_type_name :: "string option"

record rate_mapping =
  ram_room_type_map_id :: uuid
  ram_rate_plan_id :: uuid
  ram_channex_rate_plan_id :: string
  ram_channex_rate_plan_name :: "string option"

definition assert_room_types_belong_to_property :: "db \<Rightarrow> uuid \<Rightarrow> uuid \<Rightarrow> uuid list \<Rightarrow> unit result" where
  "assert_room_types_belong_to_property d tenant_id property_id ids =
     guard (length (filter (\<lambda>r. rt_tenant_id r = tenant_id \<and> rt_property_id r = property_id \<and> rt_id r \<in> set ids \<and> rt_deleted_at r = None)
              (room_types d)) = length (remdups ids))
       (ChannexServiceError ''One or more room types are invalid for this property'' 422)"

definition assert_rate_plans_belong_to_property :: "db \<Rightarrow> uuid \<Rightarrow> uuid \<Rightarrow> uuid list \<Rightarrow> unit result" where
  "assert_rate_plans_belong_to_property d tenant_id property_id ids =
     guard (length (filter (\<lambda>r. rp_tenant_id r = tenant_id \<and> rp_property_id r = property_id \<and> rp_id r \<in> set ids) (rate_plans d)) =
            length (remdups ids))
       (ChannexServiceError ''One or more rate plans are invalid for this property'' 422)"

definition delete_rate_maps :: "uuid \<Rightarrow> uuid \<Rightarrow> channel \<Rightarrow> channel" where
  "delete_rate_maps tenant_id link_id c =
     c\<lparr>ch_rate_maps := delete_rows (in_maps tenant_id (maps_of_link c tenant_id link_id)) (ch_rate_maps c)\<rparr>"

definition delete_room_maps :: "uuid \<Rightarrow> uuid \<Rightarrow> channel \<Rightarrow> channel" where
  "delete_room_maps tenant_id link_id c =
     c\<lparr>ch_room_maps := delete_rows (\<lambda>r. xr_property_link_id r = link_id \<and> xr_tenant_id r = tenant_id) (ch_room_maps c)\<rparr>"

definition insert_room_map :: "uuid \<Rightarrow> uuid \<Rightarrow> room_mapping \<Rightarrow> channel \<Rightarrow> channel" where
  "insert_room_map tenant_id link_id m c =
     (let (i, c) = channel_id c
      in c\<lparr>ch_room_maps := ch_room_maps c @ [\<lparr>xr_id = i, xr_tenant_id = tenant_id, xr_property_link_id = link_id,
             xr_room_type_id = rmi_room_type_id m, xr_channex_room_type_id = py_strip (rmi_channex_room_type_id m),
             xr_channex_room_type_name = rmi_channex_room_type_name m\<rparr>]\<rparr>)"

text \<open>
  The duplicates are looked for in the identifiers as sent; what is stored is stripped, and the unique
  constraint of the table sees that. Both tables limit the identifier to 36 characters.
\<close>

definition save_room_mappings :: "channel \<Rightarrow> uuid \<Rightarrow> uuid \<Rightarrow> room_mapping list \<Rightarrow> channel result" where
  "save_room_mappings c tenant_id property_id mappings =
     r_bind (require_link c tenant_id property_id) (\<lambda>l.
     r_bind (guard (distinct (map rmi_room_type_id mappings)) (ChannexServiceError ''Duplicate OpenPMS room type in mappings'' 422)) (\<lambda>_.
     r_bind (guard (distinct (map rmi_channex_room_type_id mappings)) (ChannexServiceError ''Duplicate Channex room type in mappings'' 422)) (\<lambda>_.
     r_bind (assert_room_types_belong_to_property (ch_hotel c) tenant_id property_id (map rmi_room_type_id mappings)) (\<lambda>_.
     r_bind (guard (list_all (\<lambda>m. length (py_strip (rmi_channex_room_type_id m)) \<le> 36) mappings)
               (RuntimeError ''value too long for type character varying(36)'')) (\<lambda>_.
     r_bind (guard (distinct (map (py_strip \<circ> rmi_channex_room_type_id) mappings)) IntegrityError) (\<lambda>_.
     Inr (fold (insert_room_map tenant_id (cl_id l)) mappings (delete_room_maps tenant_id (cl_id l) (delete_rate_maps tenant_id (cl_id l) c)))))))))"

definition insert_rate_map :: "uuid \<Rightarrow> rate_mapping \<Rightarrow> channel \<Rightarrow> channel" where
  "insert_rate_map tenant_id m c =
     (let (i, c) = channel_id c
      in c\<lparr>ch_rate_maps := ch_rate_maps c @ [\<lparr>xm_id = i, xm_tenant_id = tenant_id, xm_room_type_map_id = ram_room_type_map_id m,
             xm_rate_plan_id = ram_rate_plan_id m, xm_channex_rate_plan_id = py_strip (ram_channex_rate_plan_id m),
             xm_channex_rate_plan_name = ram_channex_rate_plan_name m\<rparr>]\<rparr>)"

definition save_rate_mappings :: "channel \<Rightarrow> uuid \<Rightarrow> uuid \<Rightarrow> rate_mapping list \<Rightarrow> channel result" where
  "save_rate_mappings c tenant_id property_id mappings =
     r_bind (require_link c tenant_id property_id) (\<lambda>l.
     if mappings = [] then Inr (delete_rate_maps tenant_id (cl_id l) c)
     else
     r_bind (guard (distinct (map (\<lambda>m. (ram_room_type_map_id m, ram_rate_plan_id m)) mappings))
               (ChannexServiceError ''Duplicate room category and rate plan combination in mappings'' 422)) (\<lambda>_.
     r_bind (guard (set (map ram_room_type_map_id mappings) \<subseteq> xr_id ` set (maps_of_link c tenant_id (cl_id l)))
               (ChannexServiceError ''One or more room type mappings are invalid for this connection'' 422)) (\<lambda>_.
     r_bind (assert_rate_plans_belong_to_property (ch_hotel c) tenant_id property_id (map ram_rate_plan_id mappings)) (\<lambda>_.
     r_bind (guard (list_all (\<lambda>m. length (py_strip (ram_channex_rate_plan_id m)) \<le> 36) mappings)
               (RuntimeError ''value too long for type character varying(36)'')) (\<lambda>_.
     Inr (fold (insert_rate_map tenant_id) mappings (delete_rate_maps tenant_id (cl_id l) c)))))))"

subsection \<open>Activation and disconnection\<close>

definition set_link :: "uuid \<Rightarrow> (link_row \<Rightarrow> link_row) \<Rightarrow> channel \<Rightarrow> channel" where
  "set_link i f c = c\<lparr>ch_links := update_rows (\<lambda>l. cl_id l = i) f (ch_links c)\<rparr>"

definition opt_strip :: "string option \<Rightarrow> string" where
  "opt_strip x = py_strip (text_of x)"

definition activate :: "cx_env \<Rightarrow> channel \<Rightarrow> uuid \<Rightarrow> uuid \<Rightarrow> channel result" where
  "activate e c tenant_id property_id =
     r_bind (require_link c tenant_id property_id) (\<lambda>l.
     let webhook_url = opt_strip (channex_webhook_url (ce_channel e)) in
     r_bind (if webhook_url \<noteq> [] \<and> opt_strip (cl_channex_webhook_id l) = []
             then r_bind (client_for_link e l) (\<lambda>cl.
                  r_bind (cx_service (create_webhook (ce_http e) cl webhook_url [''booking'', ''ari''])) (\<lambda>resp.
                  r_bind (require (extract_created_resource_id resp) (ChannexServiceError ''Channex webhook response missing id'' 502)) (\<lambda>wid.
                  r_bind (guard (length wid \<le> 36) (RuntimeError ''value too long for type character varying(36)'')) (\<lambda>_.
                  Inr (Some wid)))))
             else Inr (cl_channex_webhook_id l)) (\<lambda>wid.
     Inr (set_link (cl_id l) (\<lambda>l. l\<lparr>cl_channex_webhook_id := wid, cl_status := ''active'',
            cl_connected_at := (case cl_connected_at l of None \<Rightarrow> Some (db_now (ch_hotel c)) | Some x \<Rightarrow> Some x),
            cl_error_message := None\<rparr>) c)))"

definition require_active_channex_link :: "channel \<Rightarrow> uuid \<Rightarrow> uuid \<Rightarrow> link_row result" where
  "require_active_channex_link c tenant_id property_id =
     r_bind (require_link c tenant_id property_id) (\<lambda>l.
     r_bind (guard (cl_status l = ''active'') (ChannexServiceError ''Channex integration must be active to sync'' 409)) (\<lambda>_. Inr l))"

text \<open>
  Neither the revisions nor the push logs of the link are deleted, and their foreign keys have no
  cascade: the deletion of a link that has any violates them.
\<close>

definition link_referenced :: "channel \<Rightarrow> link_row \<Rightarrow> bool" where
  "link_referenced c l \<longleftrightarrow>
     list_ex (\<lambda>r. cr_tenant_id r = cl_tenant_id l \<and> cr_property_link_id r = cl_id l) (channex_revisions (ch_hotel c)) \<or>
     list_ex (\<lambda>r. pl_tenant_id r = cl_tenant_id l \<and> pl_property_link_id r = cl_id l) (ch_push_logs c)"

definition disconnect :: "cx_env \<Rightarrow> channel \<Rightarrow> uuid \<Rightarrow> uuid \<Rightarrow> channel result" where
  "disconnect e c tenant_id property_id = (case get_link c tenant_id property_id of
       None \<Rightarrow> Inr c
     | Some l \<Rightarrow>
         let wid = opt_strip (cl_channex_webhook_id l) in
         r_bind (if wid = [] then Inr ()
                 else r_bind (client_for_link e l) (\<lambda>cl. case delete_webhook (ce_http e) cl wid of
                        Inl (ChannexApiError m s b) \<Rightarrow> Inr () | r \<Rightarrow> r)) (\<lambda>_.
         r_bind (guard (\<not> link_referenced c l) IntegrityError) (\<lambda>_.
         let c = delete_room_maps tenant_id (cl_id l) (delete_rate_maps tenant_id (cl_id l) c)
         in Inr (c\<lparr>ch_links := delete_rows (\<lambda>x. cl_tenant_id x = tenant_id \<and> cl_id x = cl_id l) (ch_links c)\<rparr>))))"

definition list_failed_channex_booking_revisions ::
  "channel \<Rightarrow> uuid \<Rightarrow> uuid option \<Rightarrow> nat \<Rightarrow> nat \<Rightarrow> (channex_revision_row \<times> uuid) list \<times> nat" where
  "list_failed_channex_booking_revisions c tenant_id property_id limit offset =
     (let hits = concat (map (\<lambda>r. map (\<lambda>l. (r, cl_property_id l)) (filter (\<lambda>l. cl_id l = cr_property_link_id r \<and>
            (case property_id of None \<Rightarrow> True | Some p \<Rightarrow> cl_property_id l = p)) (ch_links c)))
          (filter (\<lambda>r. cr_tenant_id r = tenant_id \<and> cr_processing_status r = ''error'') (rev (channex_revisions (ch_hotel c)))))
      in (take limit (drop offset hits), length hits))"

end
