(* ===== verification/Channex_Steps.thy ===== *)
theory Channex_Steps
  imports Channex Hotel_Steps
begin

text \<open>
  What the ingestion of channel bookings guarantees: the nightly prices add up, a revision is applied
  at most once, an applied revision keeps the inventory invariant, and what an overbooked
  modification leaves behind.
\<close>

subsection \<open>Prices\<close>

lemma sum_list_const: "sum_list (map (\<lambda>_. u) xs) = of_nat (length xs) * (u :: rat)"
  by (induction xs) (simp_all add: algebra_simps)

lemma nightly_dates: "map fst (nightly_prices_from_total amount nights) = nights"
  by (simp add: nightly_prices_from_total_def Let_def comp_def)

lemma nightly_total:
  assumes "in_cents amount" "nights \<noteq> []"
  shows "sum_list (map snd (nightly_prices_from_total amount nights)) = amount"
proof -
  let ?u = "quantize round_down (amount / of_nat (length nights))"
  have "in_cents (of_int (int (length nights - 1)) * ?u)" using down.quantize_in_cents by blast
  then have "in_cents (amount - ?u * of_nat (length nights - 1))" using assms(1) by (auto simp: mult.commute)
  then show ?thesis
    using assms(2)
    by (simp add: nightly_prices_from_total_def Let_def comp_def sum_list_const half_even.quantize_exact algebra_simps)
qed
lemma nightly_cases:
  "nights \<noteq> [] \<Longrightarrow> nightly_prices_from_total amount nights =
     (let u = quantize round_down (amount / of_nat (length nights))
      in map (\<lambda>x. (x, u)) (butlast nights) @ [(last nights, q_even (amount - u * of_nat (length nights - 1)))])"
  by (simp add: nightly_prices_from_total_def Let_def)

lemma nightly_nonneg:
  assumes "0 \<le> amount" "x \<in> set (nightly_prices_from_total amount nights)"
  shows "0 \<le> snd x"
proof -
  have ne: "nights \<noteq> []" using assms(2) by (auto simp: nightly_prices_from_total_def)
  let ?n = "of_nat (length nights) :: rat" and ?u = "quantize round_down (amount / of_nat (length nights))"
  have n: "0 < ?n" "(of_nat (length nights - Suc 0) :: rat) = ?n - 1"
    using ne by (simp_all add: of_nat_diff Suc_leI)
  have u: "0 \<le> ?u" using assms(1) by (simp add: down.quantize_nonneg)
  have "\<not> amount * 100 / ?n < 0" using assms(1) by (simp add: not_less)
  then have "?u \<le> amount / ?n" by (simp add: quantize_def round_down_def divide_le_eq not_less)
  then have "?u * ?n \<le> amount" using n(1) by (simp add: pos_le_divide_eq)
  then have "0 \<le> q_even (amount - ?u * (?n - 1))" using u by (intro half_even.quantize_nonneg) (simp add: algebra_simps)
  with u assms(2) ne show ?thesis by (auto simp: nightly_cases Let_def n(2))
qed

lemma nightly_cents: "x \<in> set (nightly_prices_from_total amount nights) \<Longrightarrow> in_cents (snd x)"
  by (auto simp: nightly_prices_from_total_def Let_def half_even.quantize_in_cents down.quantize_in_cents split: if_splits)

text \<open>
  Splitting the total of a channel booking loses nothing: the prices are for exactly the nights of
  the stay, in order; each is a whole number of cents and none is negative; and they add up to the
  total, whatever remainder the division leaves.
\<close>

theorem nightly_prices_add_up:
  assumes "in_cents amount" "0 \<le> amount" "nights \<noteq> []"
  shows "map fst (nightly_prices_from_total amount nights) = nights \<and>
    sum_list (map snd (nightly_prices_from_total amount nights)) = amount \<and>
    list_all (\<lambda>x. in_cents (snd x) \<and> 0 \<le> snd x) (nightly_prices_from_total amount nights)"
  using nightly_dates nightly_total [OF assms(1,3)] nightly_nonneg [OF assms(2)] nightly_cents
  by (simp add: list_all_iff)

theorem nightly_prices_add_up_witness:
  "sum_list (map snd (nightly_prices_from_total (10001/100) [100, 101, 102])) = 10001/100"
proof -
  have "in_cents (10001/100)" by (rule in_cents_iff [THEN iffD2], rule exI [of _ 10001]) simp
  from nightly_prices_add_up [OF this, of "[100, 101, 102]"] show ?thesis by simp
qed

subsection \<open>A channel of one property\<close>

definition demo_link :: link_row where
  "demo_link = \<lparr>cl_id = 70, cl_tenant_id = 1, cl_property_id = 10, cl_channex_property_id = ''cx-p'', cl_channex_webhook_id = None,
     cl_channex_api_key = ''key'', cl_channex_env = ''production'', cl_status = ''active'', cl_connected_at = None,
     cl_last_sync_at = None, cl_error_message = None\<rparr>"

definition demo_channel :: channel where
  "demo_channel = \<lparr>ch_hotel = demo_db, ch_links = [demo_link],
     ch_room_maps = [\<lparr>xr_id = 71, xr_tenant_id = 1, xr_property_link_id = 70, xr_room_type_id = 20, xr_channex_room_type_id = ''rt'',
       xr_channex_room_type_name = None\<rparr>],
     ch_rate_maps = [\<lparr>xm_id = 72, xm_tenant_id = 1, xm_room_type_map_id = 71, xm_rate_plan_id = 30, xm_channex_rate_plan_id = ''rp'',
       xm_channex_rate_plan_name = None\<rparr>], ch_webhook_logs = [], ch_push_logs = []\<rparr>"

definition demo_flat :: json where
  "demo_flat = JObj [(''id'', JStr ''rev-1''), (''booking_id'', JStr ''B1''), (''status'', JStr ''new''), (''amount'', JNum (10001/100)),
     (''arrival_date'', JStr ''19700411''), (''departure_date'', JStr ''19700413''),
     (''rooms'', JList [JObj [(''room_type_id'', JStr ''rt''), (''rate_plan_id'', JStr ''rp'')]])]"

definition demo_result :: ingest_result where
  "demo_result = (case ingest_channex_booking demo_channel 1 demo_link demo_flat of Inl _ \<Rightarrow> ingest_default 1 10 | Inr x \<Rightarrow> fst x)"

definition demo_ingested :: channel where
  "demo_ingested = (case ingest_channex_booking demo_channel 1 demo_link demo_flat of Inl _ \<Rightarrow> demo_channel | Inr x \<Rightarrow> snd x)"

lemma demo_succeeds:
  "(case ingest_channex_booking demo_channel 1 demo_link demo_flat of Inl _ \<Rightarrow> False | Inr x \<Rightarrow> ig_success (fst x))"
  by code_simp

lemma demo_ingest: "ingest_channex_booking demo_channel 1 demo_link demo_flat = Inr (demo_result, demo_ingested)" "ig_success demo_result"
  using demo_succeeds by (auto simp: demo_result_def demo_ingested_def split: sum.splits)

subsection \<open>The log of revisions\<close>

lemma increment_revisions [simp]: "channex_revisions (increment_booked_rooms rows n d) = channex_revisions d"
  by (induction rows n d rule: increment_booked_rooms.induct) simp_all

lemma decrement_revisions: "decrement_booked_rooms rows n d = (e, d') \<Longrightarrow> channex_revisions d' = channex_revisions d"
proof -
  have "channex_revisions (snd (decrement_booked_rooms rows n d)) = channex_revisions d"
    by (induction rows n d rule: decrement_booked_rooms.induct) (simp_all add: Let_def)
  then show "decrement_booked_rooms rows n d = (e, d') \<Longrightarrow> ?thesis" by simp
qed

lemma set_booking_revisions [simp]: "channex_revisions (set_booking b f d) = channex_revisions d"
  by (simp add: set_booking_def)

lemma replace_revisions:
  "replace_country_pack_tax_charges d t b p base = Inr (room, d') \<Longrightarrow> channex_revisions d' = channex_revisions d"
  by (erule replace_Inr) (simp add: with_tax_rows_def)

lemma update_folio_revisions [simp]: "channex_revisions (update_folio_charge_amount t b a d) = channex_revisions d"
  by (simp add: update_folio_charge_amount_def split: list.splits)

lemma guest_revisions:
  "get_or_create_guest_for_booking d t g f = Inr (x, m, d') \<Longrightarrow> channex_revisions d' = channex_revisions d"
  by (auto simp: get_or_create_guest_for_booking_def insert_guest_def Let_def split: option.splits if_splits)

lemma update_guest_revisions:
  "update_channel_guest d t i gp no = Inr d' \<Longrightarrow> channex_revisions d' = channex_revisions d"
  by (auto simp: update_channel_guest_def Let_def split: option.splits if_splits)

lemma assign_revisions:
  "assign_booking_room d t b room = Inr d' \<Longrightarrow> channex_revisions d' = channex_revisions d"
  using assign_Inr(1) [of d t b room d'] by (simp add: set_line_rooms_def)

lemmas revision_frames = decrement_revisions replace_revisions guest_revisions update_guest_revisions assign_revisions

lemma replace_stay_revisions:
  "replace_stay d t b rt rp amount pn = Inr d' \<Longrightarrow> channex_revisions d' = channex_revisions d"
  by (auto simp: replace_stay_def Let_def insert_lines_def dest: revision_frames)

lemma record_channel_revisions:
  assumes "record_channel_booking d t p ext rt rp amount pn gp no src = Inr (b, d')"
  shows "channex_revisions d' = channex_revisions d"
  using assms
  by (auto simp: record_channel_booking_def insert_channel_booking_def note_guest_def insert_folio_def insert_lines_def Let_def
      dest!: revision_frames split: option.splits if_splits)

lemma cancelled_revisions:
  "apply_cancelled d t ext = Applied b ds pu cf cn d' \<Longrightarrow> channex_revisions d' = channex_revisions d"
  by (auto simp: apply_cancelled_def Let_def dest!: revision_frames split: option.splits if_splits sum.splits prod.splits)

lemma modified_revisions:
  "apply_modified d t ext rt rp ns amount pn gp no = Applied b ds pu cf cn d' \<Longrightarrow> channex_revisions d' = channex_revisions d"
  by (auto simp: apply_modified_def Let_def dest!: revision_frames replace_stay_revisions
      split: option.splits if_splits sum.splits prod.splits)

lemma new_revisions:
  "apply_new d t p ext rt rp ns amount pn gp no src = Applied b ds pu cf cn d' \<Longrightarrow> channex_revisions d' = channex_revisions d"
  by (auto simp: apply_new_def Let_def dest!: record_channel_revisions split: option.splits if_splits sum.splits prod.splits)

lemma apply_revisions:
  "apply_revision d t p r ext rt rp ns amount gp = Applied b ds pu cf cn d' \<Longrightarrow> channex_revisions d' = channex_revisions d"
  using cancelled_revisions modified_revisions new_revisions by (auto simp: apply_revision_def Let_def split: if_splits)

lemma find_update_rows:
  assumes "\<And>x. P (f x) = P x"
  shows "find P (update_rows Q f xs) = map_option (\<lambda>x. if Q x then f x else x) (find P xs)"
  using assms by (induction xs) (auto simp: update_rows_def)

text \<open>A revision that is being processed: the row that later lookups of its identifier find.\<close>

definition claimed :: "db \<Rightarrow> uuid \<Rightarrow> string \<Rightarrow> uuid \<Rightarrow> bool" where
  "claimed d t revision_id i \<longleftrightarrow>
     (\<exists>r. find (\<lambda>r. cr_tenant_id r = t \<and> cr_channex_revision_id r = revision_id) (channex_revisions d) = Some r \<and> cr_id r = i)"

lemma list_ex_find: "find P xs = Some x \<Longrightarrow> (\<And>y. P y \<Longrightarrow> Q y) \<Longrightarrow> list_ex Q xs"
  by (induction xs) (auto split: if_splits)

lemma claimedI:
  "find (\<lambda>r. cr_tenant_id r = t \<and> cr_channex_revision_id r = revision_id) (channex_revisions d) = Some r \<Longrightarrow> cr_id r = i \<Longrightarrow>
   claimed d t revision_id i"
  by (simp add: claimed_def)

lemma claimed_set_revision:
  assumes "claimed d t revision_id i"
    and "\<And>r. cr_id (f r) = cr_id r \<and> cr_tenant_id (f r) = cr_tenant_id r \<and> cr_channex_revision_id (f r) = cr_channex_revision_id r"
  shows "claimed (set_revision j f d) t revision_id i"
  using assms by (auto simp: claimed_def set_revision_def find_update_rows)

lemma claimed_frame: "claimed d t revision_id i \<Longrightarrow> channex_revisions d' = channex_revisions d \<Longrightarrow> claimed d' t revision_id i"
  by (simp add: claimed_def)

lemma find_append_new: "\<not> list_ex P xs \<Longrightarrow> P x \<Longrightarrow> find P (xs @ [x]) = Some x"
  by (induction xs) auto

lemma claim_claimed:
  assumes "claim_revision_row d t link revision_id flat p = Inr (Some i, d')"
  shows "claimed d' t revision_id i"
proof (cases "list_ex (\<lambda>r. cr_channex_revision_id r = revision_id) (channex_revisions d)")
  case False
  then have "\<not> list_ex (\<lambda>r. cr_tenant_id r = t \<and> cr_channex_revision_id r = revision_id) (channex_revisions d)"
    by (auto simp: list_ex_iff)
  with False assms show ?thesis
    by (auto simp: claim_revision_row_def Let_def find_append_new split: if_splits intro!: claimedI)
next
  case True
  with assms obtain r where r: "find (\<lambda>r. cr_tenant_id r = t \<and> cr_channex_revision_id r = revision_id) (channex_revisions d) = Some r"
      "cr_id r = i"
    by (auto simp: claim_revision_row_def Let_def require_def split: if_splits option.splits)
  then have "claimed d t revision_id i" by (rule claimedI)
  with True assms r show ?thesis
    by (auto simp: claim_revision_row_def Let_def split: if_splits intro: claimed_set_revision)
qed

text \<open>Once it is done, every later claim of the revision skips and changes nothing.\<close>

lemma claim_done:
  assumes "claimed d t revision_id i" "length revision_id \<le> 36" "length (py_strip (text_of (rv_booking_id p))) \<le> 36"
  shows "claim_revision_row (revision_done i b d) t link revision_id flat p = Inr (None, revision_done i b d)"
proof -
  let ?f = "\<lambda>r. r\<lparr>cr_openpms_booking_id := Some b, cr_processing_status := ''done'', cr_error_message := None,
     cr_processed_at := Some (db_now d)\<rparr>"
  from assms(1) obtain r where r: "cr_id r = i"
      "find (\<lambda>r. cr_tenant_id r = t \<and> cr_channex_revision_id r = revision_id) (channex_revisions d) = Some r"
    by (auto simp: claimed_def)
  have "find (\<lambda>r. cr_tenant_id r = t \<and> cr_channex_revision_id r = revision_id) (channex_revisions (revision_done i b d)) = Some (?f r)"
    by (simp add: revision_done_def set_revision_def find_update_rows r)
  moreover have "list_ex (\<lambda>r. cr_channex_revision_id r = revision_id) (channex_revisions (revision_done i b d))"
    using calculation by (rule list_ex_find) simp
  ultimately show ?thesis using assms(2,3) by (simp add: claim_revision_row_def Let_def)
qed

lemma claim_lengths:
  "claim_revision_row d t link revision_id flat p = Inr x \<Longrightarrow>
   length revision_id \<le> 36 \<and> length (py_strip (text_of (rv_booking_id p))) \<le> 36"
  by (simp add: claim_revision_row_def Let_def guard_def split: if_splits)

lemma claim_skip_again:
  "claim_revision_row d t link revision_id flat p = Inr (None, d') \<Longrightarrow>
   d' = d \<and> claim_revision_row d t link' revision_id flat p = Inr (None, d)"
  by (auto simp: claim_revision_row_def Let_def split: if_splits)

lemma finish_success:
  assumes "finish_ingest c t link i rt ap = Inr (r, c')" "ig_success r"
  obtains b ds pu cf cn d where "ap = Applied b ds pu cf cn d" "ch_hotel c' = revision_done i b d"
  using assms that by (cases ap) (auto simp: finish_ingest_def Let_def ingest_default_def link_synced_def split: option.splits)

lemma process_success:
  assumes "process_revision c t link i p = Inr (r, c')" "ig_success r"
  obtains rt rp ns amount gp b ds pu cf cn d where
    "apply_revision (ch_hotel c) t (cl_property_id link) p (cx_booking_external p) rt rp ns amount gp = Applied b ds pu cf cn d"
    "ch_hotel c' = revision_done i b d" "iter_stay_nights (the (fst (check_in_out p))) (the (snd (check_in_out p))) = Inr ns"
proof -
  from assms obtain rt rp ns amount gp where
    f: "finish_ingest c t link i rt (apply_revision (ch_hotel c) t (cl_property_id link) p (cx_booking_external p) rt rp ns amount gp) = Inr (r, c')"
    "iter_stay_nights (the (fst (check_in_out p))) (the (snd (check_in_out p))) = Inr ns"
    by (auto simp: process_revision_def Let_def ingest_default_def split: list.splits option.splits if_splits prod.splits)
  from finish_success [OF f(1) assms(2)] f(2) that show ?thesis by metis
qed

text \<open>
  C22. A channel revision is applied at most once: after an ingestion that succeeded, the same
  revision delivered again (the webhook retried, or arriving through another link) is answered as
  already handled, and neither the hotel nor the link changes: no second booking, no second release of nights.
\<close>

theorem revision_is_applied_once:
  assumes "ingest_channex_booking c t link flat = Inr (r, c')" "ig_success r"
  shows "ingest_channex_booking c' t link' flat =
     Inr ((ingest_default t (cl_property_id link'))\<lparr>ig_skip_idempotent := True\<rparr>, c')"
proof -
  from assms obtain p where p: "model_validate flat = Some p" "py_strip (rv_id p) \<noteq> []"
    by (auto simp: ingest_channex_booking_def Let_def ingest_default_def split: option.splits if_splits)
  with assms(1) obtain claim d where cl: "claim_revision_row (ch_hotel c) t link (py_strip (rv_id p)) flat p = Inr (claim, d)"
    by (auto simp: ingest_channex_booking_def Let_def)
  note len = claim_lengths [OF cl]
  have "claim_revision_row (ch_hotel c') t link' (py_strip (rv_id p)) flat p = Inr (None, ch_hotel c')"
  proof (cases claim)
    case None
    with assms(1) cl p have "c' = c\<lparr>ch_hotel := d\<rparr>" by (auto simp: ingest_channex_booking_def Let_def)
    with claim_skip_again [OF cl [unfolded None]] show ?thesis by simp
  next
    case (Some i)
    with assms(1) cl p have "process_revision (c\<lparr>ch_hotel := d\<rparr>) t link i p = Inr (r, c')"
      by (simp add: ingest_channex_booking_def Let_def)
    from process_success [OF this assms(2)] obtain rt rp ns amount gp b ds pu cf cn d2 where
      "apply_revision (ch_hotel (c\<lparr>ch_hotel := d\<rparr>)) t (cl_property_id link) p (cx_booking_external p) rt rp ns amount gp = Applied b ds pu cf cn d2"
      and c': "ch_hotel c' = revision_done i b d2" .
    then have ap: "apply_revision d t (cl_property_id link) p (cx_booking_external p) rt rp ns amount gp = Applied b ds pu cf cn d2" by simp
    have "claimed d2 t (py_strip (rv_id p)) i"
      using claimed_frame [OF claim_claimed [OF cl [unfolded Some]] apply_revisions [OF ap]] .
    from claim_done [OF this] len show ?thesis unfolding c' by blast
  qed
  then show ?thesis using p by (simp add: ingest_channex_booking_def Let_def)
qed

theorem revision_is_applied_once_witness:
  "ig_success demo_result \<and> ingest_channex_booking demo_ingested 1 demo_link demo_flat =
     Inr ((ingest_default 1 10)\<lparr>ig_skip_idempotent := True\<rparr>, demo_ingested)"
  using revision_is_applied_once [OF demo_ingest, of demo_link] demo_ingest(2) by (simp add: demo_link_def)

subsection \<open>The inventory\<close>

lemma lock_then_decrement:
  "lock_and_validate_availability d t rt ns 0 = Inr rows \<Longrightarrow> decrement_booked_rooms rows 1 d = (None, d') \<Longrightarrow>
   lock_and_decrement d t rt ns = Inr d'"
  by (simp add: lock_and_decrement_def raise_or_def)

lemma lock_then_increment:
  "lock_and_validate_availability d t rt ns 1 = Inr rows \<Longrightarrow> lock_and_increment d t rt ns = Inr (increment_booked_rooms rows 1 d)"
  by (simp add: lock_and_increment_def)

lemma raise_or_Inr: "raise_or p = Inr x \<Longrightarrow> p = (None, x)"
  by (auto simp: raise_or_def split: prod.splits option.splits)

lemma same_stock_revisions [simp]: "same_stock d (d\<lparr>channex_revisions := x\<rparr>)" "same_stock d (revision_done i b d)"
    "same_stock d (revision_failed i m d)" "same_stock d (set_revision i f d)"
  by (simp_all add: same_stock_def fleet_def revision_done_def revision_failed_def set_revision_def)

lemma same_stock_note [simp]: "same_stock d (note_guest g no d)"
  by (simp add: same_stock_def fleet_def note_guest_def)

lemma same_stock_update_guest: "update_channel_guest d t i gp no = Inr d' \<Longrightarrow> same_stock d d'"
  by (auto simp: update_channel_guest_def Let_def same_stock_def fleet_def split: option.splits if_splits)

lemma same_stock_claim: "claim_revision_row d t link revision_id flat p = Inr (claim, d') \<Longrightarrow> same_stock d d'"
  by (auto simp: claim_revision_row_def Let_def same_stock_def fleet_def set_revision_def split: if_splits)

lemma booking_by_external_Some:
  "booking_by_external d t ext = Some b \<Longrightarrow> b \<in> set (bookings d) \<and> bk_tenant_id b = t \<and> bk_external_booking_id b = Some ext"
  by (auto simp: booking_by_external_def find_Some_iff)

text \<open>A cancellation of an active booking releases its nights and then leaves the active statuses.\<close>

lemma cancelled_cases:
  assumes "apply_cancelled d t ext = Applied b ds pu cf cn d'"
  obtains bk where "booking_by_external d t ext = Some bk" "bk_status bk = ''cancelled''" "d' = d"
  | bk d1 where "booking_by_external d t ext = Some bk" "bk_status bk \<noteq> ''cancelled''"
      "the_room_type (lines_of d bk) = None \<and> d1 = d \<or>
       (\<exists>rt. the_room_type (lines_of d bk) = Some rt \<and> lock_and_decrement d t rt (map bl_date (lines_of d bk)) = Inr d1)"
      "d' = set_booking bk (\<lambda>b. b\<lparr>bk_status := ''cancelled''\<rparr>) d1"
  using assms that
  by (auto simp: apply_cancelled_def Let_def split: option.splits if_splits sum.splits prod.splits dest: lock_then_decrement)

lemma cancelled_release:
  assumes "inventory_inv d" "bk_tenant_id bk = t"
    and "the_room_type (lines_of d bk) = None \<and> d1 = d \<or>
       (\<exists>rt. the_room_type (lines_of d bk) = Some rt \<and> lock_and_decrement d t rt (map bl_date (lines_of d bk)) = Inr d1)"
  shows "release_booking_inventory d t (lines_of d bk) = Inr d1"
proof (cases "lines_of d bk = []")
  case True
  then have "the_room_type (lines_of d bk) = None" by (simp add: the_room_type_def)
  with assms(3) True show ?thesis by (simp add: release_booking_inventory_def)
next
  case False
  then obtain rt where "the_room_type (lines_of d bk) = Some rt"
    using lines_ok_room_type [OF inventory_invD(3) [OF assms(1)]] by (auto simp: lines_of_def)
  with assms(3) False show ?thesis by (simp add: release_booking_inventory_def)
qed

lemma inv_cancelled:
  assumes "inventory_inv d" "\<And>x. booking_by_external d t ext = Some x \<Longrightarrow> bk_status x \<noteq> ''no_show''"
    and "apply_cancelled d t ext = Applied b ds pu cf cn d'"
  shows "inventory_inv d'"
  using assms(3)
proof (cases rule: cancelled_cases)
  case (2 bk d1)
  note bk = booking_by_external_Some [OF 2(1)]
  have "active_booking bk"
    using 2(1,2) assms(2) inventory_invD(2) [OF assms(1)] bk
    by (auto simp: bookings_ok_def list_all_iff active_known KNOWN_STATUSES_def)
  with cancelled_release [OF assms(1) _ 2(3)] bk show ?thesis
    unfolding 2(4) by (intro inv_deactivate [OF assms(1), of bk]) auto
qed (use assms(1) in simp)

lemma replace_stay_Inr:
  assumes "replace_stay d t bk rt rp amount pn = Inr d'"
  shows "same_stock (insert_lines t (bk_id bk) rt pn (set_booking bk (\<lambda>b. b\<lparr>bk_rate_plan_id := Some rp, bk_total_amount := numeric2 amount\<rparr>)
     (d\<lparr>booking_lines := delete_rows (of_booking t (bk_id bk)) (booking_lines d)\<rparr>))) d'"
  using assms same_stock_trans [OF same_stock_replace same_stock_update_folio] by (auto simp: replace_stay_def Let_def)

lemma modified_cases:
  assumes "apply_modified d t ext rt rp ns amount pn gp no = Applied b ds pu cf cn d'"
  obtains bk old_rt d1 d2 d3 where "booking_by_external d t ext = Some bk"
    "the_room_type (lines_of d bk) = Some old_rt"
    "lock_and_decrement d t old_rt (sort (remdups (map bl_date (lines_of d bk)))) = Inr d1"
    "lock_and_increment d1 t rt ns = Inr d2" "replace_stay d2 t bk rt rp amount pn = Inr d3" "same_stock d3 d'"
  using assms that
  by (auto simp: apply_modified_def Let_def split: option.splits if_splits sum.splits prod.splits
      dest!: lock_then_decrement lock_then_increment dest: same_stock_update_guest)

lemma set_booking_insert_lines: "insert_lines t b rt pn (set_booking bk f d) = set_booking bk f (insert_lines t b rt pn d)"
  by (simp add: insert_lines_def set_booking_def)

lemma inv_modified:
  assumes inv: "inventory_inv d" and act: "\<And>x. booking_by_external d t ext = Some x \<Longrightarrow> active_booking x"
    and pn: "distinct (map fst pn)" "map fst pn = ns"
    and run: "apply_modified d t ext rt rp ns amount pn gp no = Applied b ds pu cf cn d'"
  shows "inventory_inv d'"
  using run
proof (cases rule: modified_cases)
  case (1 bk old_rt d1 d2 d3)
  let ?ms = "filter (of_booking t (bk_id bk)) (booking_lines d)"
  note i = inventory_invD [OF inv] and bk = booking_by_external_Some [OF 1(1)]
  have live: "active_at (bookings d) t (bk_id bk)" using bk act [OF 1(1)] by (auto simp: active_at_def list_ex_iff)
  have ms: "lines_of d bk = ?ms" using bk by (simp add: lines_of_def)
  have K: "stay_buckets t old_rt (sort (remdups (map bl_date ?ms))) = stay_buckets t old_rt (map bl_date ?ms)"
    by (simp add: stay_buckets_def)
  note dec = decrement_effect [OF i(1) 1(3), unfolded ms K]
  have b1: "booked d1 k = booked d k - own (bookings d) (booking_lines d) t (bk_id bk) k" for k
    using dec [of k] unfolding own_stay [OF i(3) live 1(2) [unfolded ms], of k] by blast
  have d1: "d1 = bump_booked (stay_buckets t old_rt (map bl_date ?ms)) (-1) d" using dec by blast
  then have wf1: "ledger_wf d1" using i(1) by simp
  note inc = increment_effect [OF wf1 1(4)]
  have d2: "d2 = bump_booked (stay_buckets t rt ns) 1 d1" using inc by blast
  have "inventory_inv (insert_lines t (bk_id bk) rt pn (d2\<lparr>booking_lines := delete_rows (of_booking t (bk_id bk)) (booking_lines d2)\<rparr>))"
  proof (rule inv_new_lines [OF inv live])
    show "booked d2 k = booked d k - own (bookings d) (booking_lines d) t (bk_id bk) k
        + (if k \<in> stay_buckets t rt (map fst pn) then 1 else 0)" for k
      using inc [of k] unfolding pn(2) b1 by blast
  qed (use i(1) pn(1) in \<open>simp_all add: d1 d2\<close>)
  then have "inventory_inv (set_booking bk (\<lambda>b. b\<lparr>bk_rate_plan_id := Some rp, bk_total_amount := numeric2 amount\<rparr>)
      (insert_lines t (bk_id bk) rt pn (d2\<lparr>booking_lines := delete_rows (of_booking t (bk_id bk)) (booking_lines d2)\<rparr>)))"
    by (rule inv_set_field) simp
  then show ?thesis
    using inventory_inv_frame same_stock_trans [OF replace_stay_Inr [OF 1(5)] 1(6)] by (metis set_booking_insert_lines)
qed

lemma record_channel_Inr:
  assumes "record_channel_booking d1 t p ext rt rp amount pn gp no src = Inr (bid, d')"
  obtains guest m d2 b d3 room d5 where
    "get_or_create_guest_for_booking d1 t gp False = Inr (guest, m, d2)"
    "insert_channel_booking t p (gu_id guest) rp src amount ext (note_guest guest no d2) = (b, d3)" "bid = bk_id b"
    "same_stock (insert_lines t (bk_id b) rt pn d3) d5"
    "d' = d5 \<or> (\<exists>r. assign_booking_room d5 t (bk_id b) (Some r) = Inr d')"
proof -
  from assms obtain guest m d2 where g: "get_or_create_guest_for_booking d1 t gp False = Inr (guest, m, d2)"
    by (auto simp: record_channel_booking_def)
  obtain b d3 where b: "insert_channel_booking t p (gu_id guest) rp src amount ext (note_guest guest no d2) = (b, d3)" by fastforce
  from assms obtain room d4 where
    r: "replace_country_pack_tax_charges (snd (insert_folio t (bk_id b) ''Charge'' amount None (Some ''Room charge (Channex OTA)'') None
        ''room_charge'' (insert_lines t (bk_id b) rt pn d3))) t (bk_id b) p amount = Inr (room, d4)"
    by (auto simp: record_channel_booking_def Let_def g b)
  let ?d5 = "update_folio_charge_amount t (bk_id b) room d4"
  from assms have "bid = bk_id b" "d' = ?d5 \<or> (\<exists>r. assign_booking_room ?d5 t (bk_id b) (Some r) = Inr d')"
    by (auto simp: record_channel_booking_def Let_def g b r split: option.splits)
  with that [OF g b] same_stock_trans [OF same_stock_trans [OF same_stock_insert_folio same_stock_replace [OF r]] same_stock_update_folio]
  show ?thesis by blast
qed

lemma new_cases:
  assumes "apply_new d t p ext rt rp ns amount pn gp no src = Applied b ds pu cf cn d'"
  obtains bk where "booking_by_external d t ext = Some bk" "d' = d"
  | d1 where "booking_by_external d t ext = None" "lock_and_increment d t rt ns = Inr d1"
      "record_channel_booking d1 t p ext rt rp amount pn gp no src = Inr (b, d')"
  using assms that by (auto simp: apply_new_def Let_def split: option.splits if_splits sum.splits prod.splits dest!: lock_then_increment)

lemma insert_channel_simps:
  "insert_channel_booking t p g rp src amount ext d = (b, d') \<Longrightarrow>
   bk_id b = next_uuid d \<and> bk_tenant_id b = t \<and> bk_status b = ''confirmed'' \<and> d' = d\<lparr>bookings := bookings d @ [b], next_uuid := next_uuid d + 1\<rparr>"
  by (auto simp: insert_channel_booking_def Let_def)

lemma inv_new:
  assumes inv: "inventory_inv d" and pn: "distinct (map fst pn)" "map fst pn = ns"
    and run: "apply_new d t p ext rt rp ns amount pn gp no src = Applied b ds pu cf cn d'"
  shows "inventory_inv d'"
  using run
proof (cases rule: new_cases)
  case (2 d1)
  from record_channel_Inr [OF 2(3)] obtain guest m d2 bk d3 room d5 where
    g: "get_or_create_guest_for_booking d1 t gp False = Inr (guest, m, d2)"
    and b: "insert_channel_booking t p (gu_id guest) rp src amount ext (note_guest guest no d2) = (bk, d3)"
    and d5: "same_stock (insert_lines t (bk_id bk) rt pn d3) d5"
    and fin: "d' = d5 \<or> (\<exists>r. assign_booking_room d5 t (bk_id bk) (Some r) = Inr d')" .
  have d1: "d1 = bump_booked (stay_buckets t rt (map fst pn)) 1 d" "seeded d t rt (map fst pn)"
    using 2(2) by (auto simp: pn(2) lock_and_increment_bump [OF inventory_invD(1) [OF inv]] split: if_splits)
  note stock = same_stock_trans [OF same_stock_guest [OF g] same_stock_note [of d2 guest no], unfolded d1(1)]
  have "inventory_inv (insert_lines t (bk_id bk) rt pn d3)"
    by (rule inv_new_booking [where b = bk and i = "next_uuid d3", OF inv pn(1) d1(2) stock])
      (use insert_channel_simps [OF b] in \<open>auto simp: insert_lines_def KNOWN_STATUSES_def active_booking_def\<close>)
  then have "inventory_inv d5" using d5 by (rule inventory_inv_frame)
  with fin show ?thesis using inv_assign_room by blast
qed (use inv in simp)

lemma replace_stay_kept: "replace_stay d t bk rt rp amount pn = Inr d' \<Longrightarrow> ledger_kept d d'"
proof -
  let ?d = "insert_lines t (bk_id bk) rt pn (set_booking bk (\<lambda>b. b\<lparr>bk_rate_plan_id := Some rp, bk_total_amount := numeric2 amount\<rparr>)
     (d\<lparr>booking_lines := delete_rows (of_booking t (bk_id bk)) (booking_lines d)\<rparr>))"
  assume "replace_stay d t bk rt rp amount pn = Inr d'"
  from same_stock_kept [OF replace_stay_Inr [OF this]] have "ledger_kept ?d d'" .
  moreover have "ledger_kept d ?d" by (simp add: ledger_kept_def insert_lines_def)
  ultimately show ?thesis by (metis ledger_kept_trans)
qed

lemma record_channel_kept:
  assumes "record_channel_booking d t p ext rt rp amount pn gp no src = Inr (bid, d')"
  shows "ledger_kept d d'"
proof -
  from record_channel_Inr [OF assms] obtain guest m d2 b d3 d5 where
    g: "get_or_create_guest_for_booking d t gp False = Inr (guest, m, d2)"
    and b: "insert_channel_booking t p (gu_id guest) rp src amount ext (note_guest guest no d2) = (b, d3)"
    and d5: "same_stock (insert_lines t (bk_id b) rt pn d3) d5"
    and fin: "d' = d5 \<or> (\<exists>r. assign_booking_room d5 t (bk_id b) (Some r) = Inr d')" .
  let ?d = "note_guest guest no d2"
  have "ledger_kept d ?d" using same_stock_trans [OF same_stock_guest [OF g] same_stock_note] by (rule same_stock_kept)
  moreover have "ledger_kept ?d (insert_lines t (bk_id b) rt pn d3)"
    using insert_channel_simps [OF b] by (simp add: ledger_kept_def insert_lines_def)
  moreover note same_stock_kept [OF d5]
  moreover have "ledger_kept d5 d'" using fin assign_kept by auto
  ultimately show ?thesis using ledger_kept_trans by blast
qed

context ledger_predicate
begin

lemma cancelled_keeps:
  assumes "ledger_wf d" "P d" "apply_cancelled d t ext = Applied b ds pu cf cn d'"
  shows "P d'"
  using assms(3)
proof (cases rule: cancelled_cases)
  case (2 bk d1)
  then have "P d1" using decrement_keeps assms(1,2) by blast
  then show ?thesis unfolding 2(4) by (rule frame [rotated]) simp
qed (use assms(2) in simp)

lemma modified_keeps:
  assumes "ledger_wf d" "P d" "apply_modified d t ext rt rp ns amount pn gp no = Applied b ds pu cf cn d'"
  shows "P d'"
  using assms(3)
proof (cases rule: modified_cases)
  case (1 bk old_rt d1 d2 d3)
  with assms(1,2) decrement_keeps increment_keeps have "P d2" by blast
  then show ?thesis using frame replace_stay_kept [OF 1(5)] same_stock_kept [OF 1(6)] by blast
qed

lemma new_keeps:
  assumes "ledger_wf d" "P d" "apply_new d t p ext rt rp ns amount pn gp no src = Applied b ds pu cf cn d'"
  shows "P d'"
  using assms(3)
proof (cases rule: new_cases)
  case (2 d1)
  with assms(1,2) increment_keeps have "P d1" by blast
  then show ?thesis using frame record_channel_kept [OF 2(3)] by blast
qed (use assms(2) in simp)

lemma revision_keeps:
  assumes "ledger_wf d" "P d" "apply_revision d t p r ext rt rp ns amount gp = Applied b ds pu cf cn d'"
  shows "P d'"
  using assms(3) cancelled_keeps [OF assms(1,2)] modified_keeps [OF assms(1,2)] new_keeps [OF assms(1,2)]
  by (simp add: apply_revision_def Let_def split: if_splits)

end

text \<open>
  The booking a revision addresses, if there is one, is live: active, or already cancelled when it is
  to be cancelled. (A modification or a cancellation of another booking bypasses the status machine.)
\<close>

definition live_target :: "db \<Rightarrow> uuid \<Rightarrow> revision \<Rightarrow> bool" where
  "live_target d t p = (case booking_by_external d t (cx_booking_external p) of None \<Rightarrow> True
     | Some b \<Rightarrow> if status_raw p = ''modified'' then active_booking b
                else if status_raw p = ''cancelled'' then bk_status b \<noteq> ''no_show'' else True)"

lemma inv_revision:
  assumes "inventory_inv d" "live_target d t r" "distinct ns"
    and "apply_revision d t p r (cx_booking_external r) rt rp ns amount gp = Applied b ds pu cf cn d'"
  shows "inventory_inv d'"
proof -
  let ?pn = "nightly_prices_from_total amount ns"
  have pn: "distinct (map fst ?pn)" "map fst ?pn = ns" by (simp_all only: nightly_dates assms(3))
  note run = assms(4) [unfolded apply_revision_def Let_def]
  consider "status_raw r = ''cancelled''" | "status_raw r = ''modified''" | "status_raw r \<notin> {''cancelled'', ''modified''}" by blast
  then show ?thesis
  proof cases
    case 1
    with run show ?thesis
      by (intro inv_cancelled [OF assms(1), of t "cx_booking_external r"]) (use assms(2) 1 in \<open>auto simp: live_target_def\<close>)
  next
    case 2
    with run show ?thesis
      by (intro inv_modified [OF assms(1) _ pn, of t "cx_booking_external r"]) (use assms(2) 2 in \<open>auto simp: live_target_def\<close>)
  next
    case 3
    with run show ?thesis by (auto intro: inv_new [OF assms(1) pn])
  qed
qed

lemma hotel_ok_revision:
  assumes "hotel_ok d" "live_target d t r" "distinct ns"
    and "apply_revision d t p r (cx_booking_external r) rt rp ns amount gp = Applied b ds pu cf cn d'"
  shows "hotel_ok d' \<and> (no_overbooking d \<longrightarrow> no_overbooking d')"
  using assms(1) inv_revision [OF _ assms(2-4)] fresh.revision_keeps [OF _ _ assms(4)] numbered.revision_keeps [OF _ _ assms(4)]
    capacity.revision_keeps [OF _ _ assms(4)] fits.revision_keeps [OF _ _ assms(4)] hotel_okD(2) [OF assms(1)]
  by (auto simp: hotel_ok_def hotel_inv_def)

lemma hotel_ok_stock: "hotel_ok d \<Longrightarrow> same_stock d d' \<Longrightarrow> hotel_ok d' \<and> (no_overbooking d \<longrightarrow> no_overbooking d')"
  using inventory_inv_frame [of d d'] same_stock_kept [of d d'] fresh.frame [of d d'] numbered.frame [of d d']
    capacity.frame [of d d'] fits.frame [of d d']
  by (auto simp: hotel_ok_def hotel_inv_def)

lemma live_target_stock: "same_stock d d' \<Longrightarrow> live_target d' t p = live_target d t p"
  by (simp add: live_target_def booking_by_external_def same_stock_def)

text \<open>
  C23. A channel revision that is applied keeps the hotel consistent: when the booking it addresses is
  live, the ledger still counts the nights of the active bookings, no room is promised twice, the
  capacities are those of the live rooms; and it does not overbook a hotel that was not overbooked.
\<close>

theorem applied_revision_keeps_hotel:
  assumes "ingest_channex_booking c t link flat = Inr (r, c')" "ig_success r" "hotel_ok (ch_hotel c)"
    and "model_validate flat = Some p" "live_target (ch_hotel c) t p"
  shows "hotel_ok (ch_hotel c') \<and> (no_overbooking (ch_hotel c) \<longrightarrow> no_overbooking (ch_hotel c'))"
proof -
  from assms(1,2,4) obtain claim d where cl: "claim_revision_row (ch_hotel c) t link (py_strip (rv_id p)) flat p = Inr (claim, d)"
    by (auto simp: ingest_channex_booking_def Let_def ingest_default_def split: if_splits)
  note ok = hotel_ok_stock [OF assms(3) same_stock_claim [OF cl]]
  have live: "live_target d t p" using live_target_stock [OF same_stock_claim [OF cl]] assms(5) by simp
  show ?thesis
  proof (cases claim)
    case None
    with assms(1,2,4) cl have "ch_hotel c' = d" by (auto simp: ingest_channex_booking_def Let_def ingest_default_def split: if_splits)
    with ok show ?thesis by simp
  next
    case (Some i)
    with assms(1,2,4) cl have "process_revision (c\<lparr>ch_hotel := d\<rparr>) t link i p = Inr (r, c')"
      by (auto simp: ingest_channex_booking_def Let_def ingest_default_def split: if_splits)
    from process_success [OF this assms(2)] obtain rt rp ns amount gp b ds pu cf cn d2 where
      "apply_revision (ch_hotel (c\<lparr>ch_hotel := d\<rparr>)) t (cl_property_id link) p (cx_booking_external p) rt rp ns amount gp =
         Applied b ds pu cf cn d2"
      and c': "ch_hotel c' = revision_done i b d2"
      and ns: "iter_stay_nights (the (fst (check_in_out p))) (the (snd (check_in_out p))) = Inr ns" .
    then have "apply_revision d t (cl_property_id link) p (cx_booking_external p) rt rp ns amount gp = Applied b ds pu cf cn d2" by simp
    from hotel_ok_revision [OF _ live stay_nights_facts(2) [OF ns] this] ok
    have "hotel_ok d2 \<and> (no_overbooking (ch_hotel c) \<longrightarrow> no_overbooking d2)" by blast
    then show ?thesis unfolding c' using hotel_ok_stock same_stock_revisions(2) by blast
  qed
qed

text \<open>
  A modification that fits nowhere: the nights of the stay are given back before the new ones are
  checked, the exception is caught, and the caller commits. The booking keeps its lines, the ledger no
  longer counts them.
\<close>

lemma refused_modification_leaks:
  assumes inv: "inventory_inv d" and bk: "booking_by_external d t ext = Some bk" "active_booking bk"
    and rt: "the_room_type (lines_of d bk) = Some old_rt"
    and dec: "lock_and_decrement d t old_rt (sort (remdups (map bl_date (lines_of d bk)))) = Inr d1"
    and full: "lock_and_validate_availability d1 t rt ns 1 = Inl e"
  shows "apply_modified d t ext rt rp ns amount pn gp no = Raised e d1 \<and>
    booking_lines d1 = booking_lines d \<and> bookings d1 = bookings d \<and> \<not> inventory_inv d1"
proof -
  let ?ms = "filter (of_booking t (bk_id bk)) (booking_lines d)"
  note b = booking_by_external_Some [OF bk(1)] and i = inventory_invD [OF inv]
  have ms: "lines_of d bk = ?ms" using b by (simp add: lines_of_def)
  from rt obtain l where l: "l \<in> set ?ms" "bl_room_type_id l = old_rt"
    unfolding ms the_room_type_iff by (metis list.set_intros(1) neq_Nil_conv)
  let ?k = "(t, old_rt, bl_date l)"
  have K: "?k \<in> stay_buckets t old_rt (sort (remdups (map bl_date (lines_of d bk))))"
    using l by (auto simp: stay_buckets_def ms)
  note dec' = decrement_effect [OF i(1) dec]
  have less: "booked d1 ?k = booked d ?k - 1" using dec' [of ?k] unfolding if_P [OF K] by blast
  have d1: "booking_lines d1 = booking_lines d" "bookings d1 = bookings d" using dec' by auto
  have "occupied d1 ?k = occupied d ?k" by (simp add: occupied_def d1)
  then have "\<not> inventory_inv d1" using less i(5) [of ?k] inventory_invD(5) [of d1 ?k] by auto
  moreover have "apply_modified d t ext rt rp ns amount pn gp no = Raised e d1"
  proof -
    from dec obtain rows where "lock_and_validate_availability d t old_rt (sort (remdups (map bl_date (lines_of d bk)))) 0 = Inr rows"
        "decrement_booked_rooms rows 1 d = (None, d1)"
      by (auto simp: lock_and_decrement_def dest: raise_or_Inr)
    then show ?thesis using bk(1) rt full by (simp add: apply_modified_def Let_def)
  qed
  ultimately show ?thesis using d1 by blast
qed

theorem applied_revision_keeps_hotel_witness:
  "hotel_ok (ch_hotel demo_ingested) \<and> no_overbooking (ch_hotel demo_ingested)"
proof -
  have flat: "model_validate demo_flat \<noteq> None" by code_simp
  then obtain p where p: "model_validate demo_flat = Some p" by auto
  have "live_target (ch_hotel demo_channel) 1 p"
    by (simp add: live_target_def booking_by_external_def demo_channel_def demo_db_def empty_db_def)
  from applied_revision_keeps_hotel [OF demo_ingest _ p this] demo_ok show ?thesis by (simp add: demo_channel_def)
qed

end
