(* ===== verification/Channex_Push.thy ===== *)
theory Channex_Push
  imports Channex_Sync Channex_Steps
begin

text \<open>
  What is sent to the channel manager and what comes from it: the pushes of availability, rates and
  stop-sell for some nights (\<^verbatim>\<open>channex_incremental_ari.py\<close>), the full synchronisation
  (\<^verbatim>\<open>channex_ari_sync.py\<close>), the inbound webhook with the tasks that ingest revisions
  (\<^verbatim>\<open>channex_inbound.py\<close>, \<^verbatim>\<open>channex_webhook_task.py\<close>, \<^verbatim>\<open>channex_booking_retry.py\<close>), and the routes
  (\<^verbatim>\<open>routes/channex.py\<close>). The pauses between batches are not represented.
\<close>

subsection \<open>Batches\<close>

definition BATCH :: nat where
  "BATCH = 200"

function batches :: "nat \<Rightarrow> 'a list \<Rightarrow> 'a list list" where
  "batches n xs = (if xs = [] \<or> n = 0 then [] else take n xs # batches n (drop n xs))"
  by pat_completeness auto
termination by (relation "measure (length \<circ> snd)") auto

declare batches.simps [simp del]

fun push_all :: "('a list \<Rightarrow> unit result) \<Rightarrow> 'a list list \<Rightarrow> unit result" where
  "push_all push [] = Inr ()"
| "push_all push (b # bs) = r_bind (push b) (\<lambda>_. push_all push bs)"

subsection \<open>Values\<close>

definition free_rooms :: "db \<Rightarrow> uuid \<Rightarrow> uuid \<Rightarrow> date \<Rightarrow> int" where
  "free_rooms d tenant_id room_type_id x =
     (case find (\<lambda>r. al_tenant_id r = tenant_id \<and> al_room_type_id r = room_type_id \<and> al_date r = x) (ledger d) of
        None \<Rightarrow> 0
      | Some r \<Rightarrow> max 0 (al_total_rooms r - al_booked_rooms r - al_blocked_rooms r))"

definition availability_value :: "string \<Rightarrow> string \<Rightarrow> date \<Rightarrow> int \<Rightarrow> json" where
  "availability_value prop_cx cx_rt x avail =
     JObj [(''property_id'', JStr prop_cx), (''room_type_id'', JStr cx_rt), (''date'', JStr (iso_date x)), (''availability'', JNum (of_int avail))]"

definition property_currency_code :: "db \<Rightarrow> uuid \<Rightarrow> uuid \<Rightarrow> string" where
  "property_currency_code d tenant_id property_id =
     (let raw = (case get_property d tenant_id property_id of None \<Rightarrow> [] | Some p \<Rightarrow> pr_currency p);
          cc = take 3 (py_upper (py_strip (if raw = [] then ''USD'' else raw)))
      in if length cc \<noteq> 3 then ''USD'' else cc)"

definition opt_field :: "string \<Rightarrow> ('a \<Rightarrow> json) \<Rightarrow> 'a option \<Rightarrow> (string \<times> json) list" where
  "opt_field k f x = (case x of None \<Rightarrow> [] | Some v \<Rightarrow> [(k, f v)])"

definition restriction_payload ::
  "string \<Rightarrow> string \<Rightarrow> date \<Rightarrow> string \<Rightarrow> decimal option \<Rightarrow> bool option \<Rightarrow> int option \<Rightarrow> int option \<Rightarrow> json" where
  "restriction_payload prop_cx cx_rp x currency_code price stop_sell min_stay_arrival max_stay =
     JObj ([(''property_id'', JStr prop_cx), (''rate_plan_id'', JStr cx_rp), (''date'', JStr (iso_date x))] @
       opt_field ''rate'' (\<lambda>p. JStr (channex_rate_string p currency_code)) price @ opt_field ''stop_sell'' JBool stop_sell @
       opt_field ''min_stay_arrival'' (\<lambda>n. JNum (of_int n)) min_stay_arrival @ opt_field ''max_stay'' (\<lambda>n. JNum (of_int n)) max_stay)"

definition find_rate :: "db \<Rightarrow> uuid \<Rightarrow> uuid \<Rightarrow> uuid \<Rightarrow> date \<Rightarrow> rate_row option" where
  "find_rate d tenant_id room_type_id rate_plan_id x =
     find (\<lambda>r. ra_tenant_id r = tenant_id \<and> ra_room_type_id r = room_type_id \<and> ra_rate_plan_id r = rate_plan_id \<and> ra_date r = x) (rates d)"

definition rate_value :: "db \<Rightarrow> uuid \<Rightarrow> string \<Rightarrow> string \<Rightarrow> string \<Rightarrow> uuid \<Rightarrow> uuid \<Rightarrow> date \<Rightarrow> json list" where
  "rate_value d tenant_id prop_cx cx_rp currency_code room_type_id rate_plan_id x =
     (case find_rate d tenant_id room_type_id rate_plan_id x of
        None \<Rightarrow> []
      | Some r \<Rightarrow> if ra_price r \<le> 0 then []
                 else [restriction_payload prop_cx cx_rp x currency_code (Some (ra_price r)) (Some (ra_stop_sell r)) (ra_min_stay_arrival r) (ra_max_stay r)])"

definition stop_sell_value :: "db \<Rightarrow> uuid \<Rightarrow> string \<Rightarrow> string \<Rightarrow> string \<Rightarrow> uuid \<Rightarrow> uuid \<Rightarrow> date \<Rightarrow> json" where
  "stop_sell_value d tenant_id prop_cx cx_rp currency_code room_type_id rate_plan_id x =
     (let price = (case find_rate d tenant_id room_type_id rate_plan_id x of None \<Rightarrow> None
                   | Some r \<Rightarrow> if 0 < ra_price r then Some (ra_price r) else None)
      in restriction_payload prop_cx cx_rp x currency_code price (Some True) None None)"

subsection \<open>Incremental pushes\<close>

text \<open>
  A refusal of the agency is stored on the link and the task ends; any other exception makes the worker
  retry the task.
\<close>

definition after_push :: "uuid \<Rightarrow> channel \<Rightarrow> unit result \<Rightarrow> channel result" where
  "after_push i c r = (case r of
       Inr _ \<Rightarrow> Inr (set_link i (\<lambda>l. l\<lparr>cl_error_message := None\<rparr>) c)
     | Inl (ChannexApiError m s b) \<Rightarrow> Inr (set_link i (\<lambda>l. l\<lparr>cl_error_message := Some (take 2000 m)\<rparr>) c)
     | Inl e \<Rightarrow> Inl e)"

definition push_dates :: "string list \<Rightarrow> date list result" where
  "push_dates date_strs = r_bind (require (all_some (map fromisoformat date_strs)) (ValueError ''Invalid isoformat string'')) (\<lambda>ds.
     Inr (sort (remdups ds)))"

definition active_link :: "channel \<Rightarrow> uuid \<Rightarrow> uuid \<Rightarrow> link_row option" where
  "active_link c tenant_id property_id = (case get_link c tenant_id property_id of
     None \<Rightarrow> None | Some l \<Rightarrow> if cl_status l = ''active'' then Some l else None)"

definition room_map_for :: "channel \<Rightarrow> uuid \<Rightarrow> uuid \<Rightarrow> uuid \<Rightarrow> room_map_row option" where
  "room_map_for c tenant_id link_id room_type_id =
     find (\<lambda>r. xr_tenant_id r = tenant_id \<and> xr_property_link_id r = link_id \<and> xr_room_type_id r = room_type_id) (ch_room_maps c)"

definition availability_values :: "db \<Rightarrow> uuid \<Rightarrow> string \<Rightarrow> string \<Rightarrow> uuid \<Rightarrow> date list \<Rightarrow> json list" where
  "availability_values d tenant_id prop_cx cx_rt room_type_id dates =
     map (\<lambda>x. availability_value prop_cx cx_rt x (free_rooms d tenant_id room_type_id x)) dates"

definition push_channex_availability :: "cx_env \<Rightarrow> channel \<Rightarrow> uuid \<Rightarrow> uuid \<Rightarrow> uuid \<Rightarrow> string list \<Rightarrow> channel result" where
  "push_channex_availability e c tenant_id property_id room_type_id date_strs =
     (if date_strs = [] then Inr c
      else r_bind (push_dates date_strs) (\<lambda>dates. case active_link c tenant_id property_id of
        None \<Rightarrow> Inr c
      | Some l \<Rightarrow> (case room_map_for c tenant_id (cl_id l) room_type_id of
          None \<Rightarrow> Inr c
        | Some rm \<Rightarrow>
            let values = availability_values (ch_hotel c) tenant_id (py_strip (cl_channex_property_id l)) (py_strip (xr_channex_room_type_id rm))
                  room_type_id dates
            in r_bind (client_for_link e l) (\<lambda>cl.
               after_push (cl_id l) c (push_all (push_availability (ce_http e) cl) (batches BATCH values))))))"

definition push_channex_rates :: "cx_env \<Rightarrow> channel \<Rightarrow> uuid \<Rightarrow> uuid \<Rightarrow> uuid \<Rightarrow> uuid \<Rightarrow> string list \<Rightarrow> channel result" where
  "push_channex_rates e c tenant_id property_id room_type_id rate_plan_id date_strs =
     (if date_strs = [] then Inr c
      else r_bind (push_dates date_strs) (\<lambda>dates. case active_link c tenant_id property_id of
        None \<Rightarrow> Inr c
      | Some l \<Rightarrow> (case room_map_for c tenant_id (cl_id l) room_type_id of
          None \<Rightarrow> Inr c
        | Some rm \<Rightarrow> (case find (\<lambda>m. xm_tenant_id m = tenant_id \<and> xm_room_type_map_id m = xr_id rm \<and> xm_rate_plan_id m = rate_plan_id)
                          (ch_rate_maps c) of
            None \<Rightarrow> Inr c
          | Some rpm \<Rightarrow>
              let currency_code = property_currency_code (ch_hotel c) tenant_id (cl_property_id l);
                  values = concat (map (rate_value (ch_hotel c) tenant_id (py_strip (cl_channex_property_id l))
                    (py_strip (xm_channex_rate_plan_id rpm)) currency_code room_type_id rate_plan_id) dates)
              in if values = [] then Inr c
                 else r_bind (client_for_link e l) (\<lambda>cl.
                   after_push (cl_id l) c (push_all (push_restrictions (ce_http e) cl) (batches BATCH values)))))))"

definition push_channex_stop_sell :: "cx_env \<Rightarrow> channel \<Rightarrow> uuid \<Rightarrow> uuid \<Rightarrow> uuid \<Rightarrow> string list \<Rightarrow> channel result" where
  "push_channex_stop_sell e c tenant_id property_id room_type_id date_strs =
     (if date_strs = [] then Inr c
      else r_bind (push_dates date_strs) (\<lambda>dates. case active_link c tenant_id property_id of
        None \<Rightarrow> Inr c
      | Some l \<Rightarrow> (case room_map_for c tenant_id (cl_id l) room_type_id of
          None \<Rightarrow> Inr c
        | Some rm \<Rightarrow>
            let rate_maps = filter (\<lambda>m. xm_tenant_id m = tenant_id \<and> xm_room_type_map_id m = xr_id rm) (ch_rate_maps c) in
            if rate_maps = [] then Inr c
            else let currency_code = property_currency_code (ch_hotel c) tenant_id (cl_property_id l);
                     values = concat (map (\<lambda>m. map (stop_sell_value (ch_hotel c) tenant_id (py_strip (cl_channex_property_id l))
                       (py_strip (xm_channex_rate_plan_id m)) currency_code room_type_id (xm_rate_plan_id m)) dates) rate_maps)
                 in r_bind (client_for_link e l) (\<lambda>cl.
                   after_push (cl_id l) c (push_all (push_restrictions (ce_http e) cl) (batches BATCH values))))))"

definition retry_countdown :: "nat \<Rightarrow> nat" where
  "retry_countdown retries = min 125 (5 * 5 ^ retries)"

subsection \<open>Full synchronisation\<close>

definition SYNC_DAYS :: nat where
  "SYNC_DAYS = 365"

definition sync_days :: "db \<Rightarrow> date list" where
  "sync_days d = map (\<lambda>i. utc_today d + int i) [0..<SYNC_DAYS]"

definition sync_availability :: "db \<Rightarrow> uuid \<Rightarrow> string \<Rightarrow> room_map_row list \<Rightarrow> json list" where
  "sync_availability d tenant_id prop_cx room_maps =
     concat (map (\<lambda>rm. availability_values d tenant_id prop_cx (py_strip (xr_channex_room_type_id rm)) (xr_room_type_id rm) (sync_days d)) room_maps)"

definition sync_restrictions :: "db \<Rightarrow> uuid \<Rightarrow> string \<Rightarrow> string \<Rightarrow> room_map_row list \<Rightarrow> rate_map_row list \<Rightarrow> json list" where
  "sync_restrictions d tenant_id prop_cx currency_code room_maps rate_maps =
     concat (map (\<lambda>m. case find (\<lambda>x. xr_id x = xm_room_type_map_id m) room_maps of
         None \<Rightarrow> []
       | Some rm \<Rightarrow> concat (map (rate_value d tenant_id prop_cx (py_strip (xm_channex_rate_plan_id m)) currency_code (xr_room_type_id rm)
            (xm_rate_plan_id m)) (sync_days d))) rate_maps)"

text \<open>
  Here every exception of the client is stored on the link; \<open>exc_text\<close> is \<^verbatim>\<open>str(exc)\<close> of an exception that is
  not the client's own.
\<close>

definition channex_full_ari_sync :: "(error \<Rightarrow> string) \<Rightarrow> cx_env \<Rightarrow> channel \<Rightarrow> uuid \<Rightarrow> uuid \<Rightarrow> channel result" where
  "channex_full_ari_sync exc_text e c tenant_id property_id = (case active_link c tenant_id property_id of
       None \<Rightarrow> Inr c
     | Some l \<Rightarrow>
         let d = ch_hotel c; now = Some (db_now d); room_maps = maps_of_link c tenant_id (cl_id l);
             currency_code = property_currency_code d tenant_id property_id;
             rate_maps = filter (in_maps tenant_id room_maps) (ch_rate_maps c); prop_cx = py_strip (cl_channex_property_id l);
             done = set_link (cl_id l) (\<lambda>l. l\<lparr>cl_last_sync_at := now, cl_error_message := None\<rparr>);
             failed = (\<lambda>m. Inr (set_link (cl_id l) (\<lambda>l. l\<lparr>cl_error_message := Some (take 2000 m)\<rparr>) c))
         in if room_maps = [] then Inr (done c)
            else let av = sync_availability d tenant_id prop_cx room_maps;
                     rs = sync_restrictions d tenant_id prop_cx currency_code room_maps rate_maps
                 in r_bind (client_for_link e l) (\<lambda>cl.
                    case r_bind (push_all (push_availability (ce_http e) cl) (batches BATCH av)) (\<lambda>_.
                         push_all (push_restrictions (ce_http e) cl) (batches BATCH rs)) of
                      Inl (ChannexApiError m s b) \<Rightarrow> failed m
                    | Inl x \<Rightarrow> failed (exc_text x)
                    | Inr _ \<Rightarrow>
                        let (i, c) = channel_id (done c);
                            row = \<lparr>pl_id = i, pl_tenant_id = tenant_id, pl_property_link_id = cl_id l,
                                   pl_request_payload = JObj [(''availability_objects'', JNum (of_nat (length av))),
                                     (''restriction_objects'', JNum (of_nat (length rs))),
                                     (''date_from'', JStr (iso_date (utc_today d))),
                                     (''date_to'', JStr (iso_date (utc_today d + int SYNC_DAYS - 1)))],
                                   pl_response_status = Some 200, pl_response_body = Some ''ok''\<rparr>
                        in Inr (c\<lparr>ch_push_logs := ch_push_logs c @ [row]\<rparr>)))"

definition lookup_active_links :: "channel \<Rightarrow> (uuid \<times> uuid) list" where
  "lookup_active_links c = map (\<lambda>l. (cl_tenant_id l, cl_property_id l)) (filter (\<lambda>l. cl_status l = ''active'') (ch_links c))"

text \<open>The jobs on the queue of the worker, with those of the booking routes as \<open>bg_task\<close>.\<close>

datatype cx_job = FullSync uuid uuid | ProcessWebhook uuid | RetryRevision uuid uuid

definition channex_full_ari_sync_all_properties :: "channel \<Rightarrow> cx_job list" where
  "channex_full_ari_sync_all_properties c = map (\<lambda>(t, p). FullSync t p) (lookup_active_links c)"

subsection \<open>Inbound webhooks\<close>

definition lookup_link_for_webhook :: "channel \<Rightarrow> string \<Rightarrow> link_row option" where
  "lookup_link_for_webhook c cx_prop = find (\<lambda>l. cl_channex_property_id l = cx_prop) (ch_links c)"

definition or_empty :: "json \<Rightarrow> string" where
  "or_empty j = (if truthy j then py_str j else [])"

text \<open>
  The check of the sender. A valid IPv4 address has no leading zeros, so that it lies in
  34.76.12.0/24 exactly when its text begins with these three numbers; an IPv6 address never does.
\<close>

definition check_sender :: "cx_env \<Rightarrow> string \<Rightarrow> string option \<Rightarrow> string option \<Rightarrow> unit result" where
  "check_sender e body sig_header host =
     (let secret = opt_strip (channex_webhook_secret (ce_channel e)) in
      if secret \<noteq> []
      then r_bind (guard (text_of sig_header \<noteq> []) (HTTPException ''Missing signature'' 401)) (\<lambda>_.
           guard (py_lower (hmac_sha256_hex (ce_net e) secret body) = py_lower (py_strip (text_of sig_header)))
             (HTTPException ''Invalid signature'' 401))
      else if channex_webhook_verify_channex_ips (ce_channel e)
      then r_bind (require host (HTTPException ''Missing client IP'' 403)) (\<lambda>h.
           r_bind (guard (ip_address (ce_net e) h \<noteq> None) (HTTPException ''Invalid client IP'' 403)) (\<lambda>_.
           guard (starts_with ''34.76.12.'' h) (HTTPException ''Forbidden source IP'' 403)))
      else Inr ())"

text \<open>\<open>parsed\<close> is the body read as JSON, \<open>None\<close> when it is not UTF-8 or not JSON.\<close>

definition inbound_channex_webhook ::
  "cx_env \<Rightarrow> channel \<Rightarrow> string \<Rightarrow> json option \<Rightarrow> string option \<Rightarrow> string option \<Rightarrow> (cx_job list \<times> channel) result" where
  "inbound_channex_webhook e c body parsed sig_header host =
     r_bind (check_sender e body sig_header host) (\<lambda>_.
     let payload = (case parsed of None \<Rightarrow> JObj [(''_parse_error'', JBool True), (''raw_preview'', JStr (take 500 body))] | Some j \<Rightarrow> j);
         cx_prop = py_strip (or_empty (json_get payload ''property_id''));
         ev = json_get payload ''event'';
         event_type = (if ev = JNull then None else Some (py_str ev));
         (i, c) = channel_id c;
         row = \<lparr>wl_id = i, wl_tenant_id = (if cx_prop = [] then None else map_option cl_tenant_id (lookup_link_for_webhook c cx_prop)),
                wl_event_type = event_type,
                wl_payload = (case payload of JObj kvs \<Rightarrow> JObj kvs | _ \<Rightarrow> JObj [(''invalid'', JBool True)]),
                wl_signature = (if text_of sig_header = [] then None else sig_header), wl_ip_address = host, wl_processed = False\<rparr>
     in r_bind (guard (length (text_of event_type) \<le> 50) (RuntimeError ''value too long for type character varying(50)'')) (\<lambda>_.
        Inr ([ProcessWebhook i], c\<lparr>ch_webhook_logs := ch_webhook_logs c @ [row]\<rparr>)))"

subsection \<open>The tasks that ingest revisions\<close>

text \<open>
  What follows the commit of an ingestion: the mails, the acknowledgement to the agency and the push of
  the nights.
\<close>

record aftermath =
  am_mails :: "bg_task list"
  am_acknowledge :: "string option"
  am_push :: "bg_task list"

definition dispatch_channex_booking_emails :: "ingest_result \<Rightarrow> bg_task list" where
  "dispatch_channex_booking_emails r = (if ig_success r then
      (case ig_confirmation r of None \<Rightarrow> [] | Some b \<Rightarrow> [ConfirmationMail (ig_tenant_id r) b]) @
      (case ig_cancellation r of None \<Rightarrow> [] | Some b \<Rightarrow> [CancellationMail (ig_tenant_id r) b]) else [])"

definition after_ingest :: "string \<Rightarrow> ingest_result \<Rightarrow> aftermath" where
  "after_ingest revision_id r =
     \<lparr>am_mails = dispatch_channex_booking_emails r,
      am_acknowledge = (if ig_success r then Some revision_id else None),
      am_push = (case ig_room_type_id r of
          Some rt \<Rightarrow> if ig_schedule_push r \<and> ig_date_strs r \<noteq> [] then [PushAvailability (ig_tenant_id r) (ig_property_id r) rt (ig_date_strs r)] else []
        | None \<Rightarrow> [])\<rparr>"

definition BOOKING_WEBHOOK_EVENTS :: "string list" where
  "BOOKING_WEBHOOK_EVENTS = [''booking'', ''booking_new'', ''booking_modification'', ''booking_mod'', ''booking_cancel'',
     ''booking_cancelled'', ''booking_cancellation'']"

definition stripped_text :: "json \<Rightarrow> string" where
  "stripped_text j = (case j of JNull \<Rightarrow> [] | j \<Rightarrow> py_strip (py_str j))"

definition set_webhook_log :: "uuid \<Rightarrow> (webhook_log_row \<Rightarrow> webhook_log_row) \<Rightarrow> channel \<Rightarrow> channel" where
  "set_webhook_log i f c = c\<lparr>ch_webhook_logs := update_rows (\<lambda>w. wl_id w = i) f (ch_webhook_logs c)\<rparr>"

definition channex_process_webhook :: "cx_env \<Rightarrow> channel \<Rightarrow> uuid \<Rightarrow> (aftermath option \<times> channel) result" where
  "channex_process_webhook e c webhook_log_id =
     (case find (\<lambda>w. wl_id w = webhook_log_id) (ch_webhook_logs c) of
        None \<Rightarrow> Inr (None, c)
      | Some wl \<Rightarrow>
          let payload = wl_payload wl; ev_raw = py_lower (or_empty (json_get payload ''event''));
              inner = (case json_get payload ''payload'' of JObj kvs \<Rightarrow> JObj kvs | _ \<Rightarrow> JObj []);
              revision_id = stripped_text (json_get inner ''id'');
              cx_prop = py_strip (or_empty (json_get payload ''property_id''));
              link = (if cx_prop = [] then None else lookup_link_for_webhook c cx_prop);
              processed = set_webhook_log webhook_log_id (\<lambda>w. w\<lparr>wl_processed := True,
                wl_tenant_id := (case wl_tenant_id w of Some t \<Rightarrow> Some t | None \<Rightarrow> map_option cl_tenant_id link)\<rparr>)
          in (case link of
                None \<Rightarrow> Inr (None, processed c)
              | Some l \<Rightarrow>
                  if revision_id = [] \<or> ev_raw \<notin> set BOOKING_WEBHOOK_EVENTS then Inr (None, processed c)
                  else r_bind (client_for_link e l) (\<lambda>cl. case get_booking_revision_raw (ce_http e) cl revision_id of
                      Inl (ChannexApiError m s b) \<Rightarrow> Inr (None, processed c)
                    | Inl x \<Rightarrow> Inl x
                    | Inr flat \<Rightarrow> r_bind (ingest_channex_booking c (cl_tenant_id l) l flat) (\<lambda>(r, c).
                        Inr (Some (after_ingest revision_id r), processed c)))))"

definition channex_retry_booking_revision :: "channel \<Rightarrow> uuid \<Rightarrow> uuid \<Rightarrow> (aftermath option \<times> channel) result" where
  "channex_retry_booking_revision c revision_row tenant_id =
     (case find (\<lambda>r. cr_id r = revision_row \<and> cr_tenant_id r = tenant_id) (channex_revisions (ch_hotel c)) of
        None \<Rightarrow> Inr (None, c)
      | Some row \<Rightarrow>
          if cr_processing_status row \<noteq> ''error'' then Inr (None, c)
          else case find (\<lambda>l. cl_id l = cr_property_link_id row \<and> cl_tenant_id l = tenant_id) (ch_links c) of
                 None \<Rightarrow> Inr (None, c)
               | Some l \<Rightarrow> r_bind (ingest_channex_booking c tenant_id l
                     (case cr_payload row of JObj kvs \<Rightarrow> JObj kvs | _ \<Rightarrow> JObj [])) (\<lambda>(r, c).
                   Inr (Some (after_ingest (cr_channex_revision_id row) r), c)))"

text \<open>
  The acknowledgement comes before the push: a refusal of the agency is only logged, any other exception
  ends the task.
\<close>

definition acknowledge_and_push :: "cx_env \<Rightarrow> channel \<Rightarrow> uuid \<Rightarrow> aftermath \<Rightarrow> bg_task list result" where
  "acknowledge_and_push e c link_id am =
     (case am_acknowledge am of
        None \<Rightarrow> Inr (am_push am)
      | Some rid \<Rightarrow> (case find (\<lambda>l. cl_id l = link_id) (ch_links c) of
          None \<Rightarrow> Inr (am_push am)
        | Some l \<Rightarrow> r_bind (client_for_link e l) (\<lambda>cl. case acknowledge_revision (ce_http e) cl rid of
              Inl (ChannexApiError m s b) \<Rightarrow> Inr (am_push am) | Inl x \<Rightarrow> Inl x | Inr _ \<Rightarrow> Inr (am_push am))))"

subsection \<open>Routes\<close>

definition channex_read_dep :: "request_state \<Rightarrow> unit result" where
  "channex_read_dep = chain_dependency_runners [require_jwt_user, require_roles [''owner'', ''manager''], require_scopes [''channex:read'']]"

definition channex_write_dep :: "request_state \<Rightarrow> unit result" where
  "channex_write_dep = chain_dependency_runners [require_jwt_user, require_roles [''owner'', ''manager''], require_scopes [''channex:write'']]"

definition channex_http :: "error \<Rightarrow> (string \<times> nat) option" where
  "channex_http x = (case x of ChannexServiceError m n \<Rightarrow> Some (m, n) | _ \<Rightarrow> None)"

definition channel_audit :: "uuid \<Rightarrow> string \<Rightarrow> string \<Rightarrow> uuid \<Rightarrow> channel \<Rightarrow> channel" where
  "channel_audit tenant_id action entity i c = c\<lparr>ch_hotel := record_audit tenant_id action entity (Some i) (ch_hotel c)\<rparr>"

definition validate_channex_key :: "cx_env \<Rightarrow> request_state \<Rightarrow> string \<Rightarrow> string \<Rightarrow> cx_item list result" where
  "validate_channex_key e s api_key env = r_bind (channex_write_dep s) (\<lambda>_. http_error channex_http (validate_key (ce_http e) api_key env))"

definition create_channex_property_endpoint ::
  "cx_env \<Rightarrow> channel \<Rightarrow> request_state \<Rightarrow> uuid \<Rightarrow> string \<Rightarrow> string \<Rightarrow> (cx_item \<times> channel) result" where
  "create_channex_property_endpoint e c s property_id api_key env =
     for_tenant channex_write_dep s (\<lambda>t. r_bind (http_error channex_http (create_channex_property_from_openpms (ce_http e) c t property_id api_key env))
       (\<lambda>item. Inr (item, channel_audit t ''channex.create_property'' ''property'' property_id c)))"

definition provision_channex_endpoint :: "cx_env \<Rightarrow> channel \<Rightarrow> request_state \<Rightarrow> uuid \<Rightarrow> (provisioned \<times> channel) result" where
  "provision_channex_endpoint e c s property_id =
     for_tenant channex_write_dep s (\<lambda>t. r_bind (http_error channex_http (provision_channex_from_openpms e c t property_id))
       (\<lambda>p. Inr (p, channel_audit t ''channex.provision_from_openpms'' ''property'' property_id c)))"

definition connect_channex :: "cx_env \<Rightarrow> channel \<Rightarrow> request_state \<Rightarrow> uuid \<Rightarrow> string \<Rightarrow> string \<Rightarrow> string \<Rightarrow> (link_row \<times> channel) result" where
  "connect_channex e c s property_id api_key env channex_property_id =
     for_tenant channex_write_dep s (\<lambda>t. r_bind (http_error channex_http (connect e c t property_id api_key env channex_property_id))
       (\<lambda>(row, c). Inr (row, channel_audit t ''channex.connect'' ''channex_property_link'' (cl_id row) c)))"

definition channex_status_route :: "channel \<Rightarrow> request_state \<Rightarrow> uuid \<Rightarrow> channex_status result" where
  "channex_status_route c s property_id =
     for_tenant channex_read_dep s (\<lambda>t. r_bind (require (get_property (ch_hotel c) t property_id) (HTTPException ''Property not found'' 404)) (\<lambda>_.
       Inr (get_status c t property_id)))"

definition list_failed_channex_revisions ::
  "channel \<Rightarrow> request_state \<Rightarrow> uuid option \<Rightarrow> nat \<Rightarrow> nat \<Rightarrow> ((channex_revision_row \<times> uuid) list \<times> nat) result" where
  "list_failed_channex_revisions c s property_id limit offset =
     for_tenant channex_read_dep s (\<lambda>t. Inr (list_failed_channex_booking_revisions c t property_id limit offset))"

definition retry_failed_channex_revision :: "channel \<Rightarrow> request_state \<Rightarrow> uuid \<Rightarrow> cx_job list result" where
  "retry_failed_channex_revision c s revision_id =
     for_tenant channex_write_dep s (\<lambda>t.
     r_bind (require (find (\<lambda>r. cr_id r = revision_id \<and> cr_tenant_id r = t) (channex_revisions (ch_hotel c)))
               (HTTPException ''Booking revision not found'' 404)) (\<lambda>r.
     r_bind (guard (cr_processing_status r = ''error'') (HTTPException ''Only revisions in error state can be retried'' 400)) (\<lambda>_.
     Inr [RetryRevision revision_id t])))"

definition channex_rooms :: "cx_env \<Rightarrow> channel \<Rightarrow> request_state \<Rightarrow> uuid \<Rightarrow> cx_item list result" where
  "channex_rooms e c s property_id = for_tenant channex_read_dep s (\<lambda>t. http_error channex_http (get_channex_rooms e c t property_id))"

definition channex_rates :: "cx_env \<Rightarrow> channel \<Rightarrow> request_state \<Rightarrow> uuid \<Rightarrow> cx_item list result" where
  "channex_rates e c s property_id = for_tenant channex_read_dep s (\<lambda>t. http_error channex_http (get_channex_rates e c t property_id))"

definition map_channex_rooms :: "channel \<Rightarrow> request_state \<Rightarrow> uuid \<Rightarrow> room_mapping list \<Rightarrow> channel result" where
  "map_channex_rooms c s property_id mappings =
     for_tenant channex_write_dep s (\<lambda>t. r_bind (http_error channex_http (save_room_mappings c t property_id mappings)) (\<lambda>c.
       Inr (channel_audit t ''channex.map_rooms'' ''property'' property_id c)))"

definition map_channex_rates :: "channel \<Rightarrow> request_state \<Rightarrow> uuid \<Rightarrow> rate_mapping list \<Rightarrow> channel result" where
  "map_channex_rates c s property_id mappings =
     for_tenant channex_write_dep s (\<lambda>t. r_bind (http_error channex_http (save_rate_mappings c t property_id mappings)) (\<lambda>c.
       Inr (channel_audit t ''channex.map_rates'' ''property'' property_id c)))"

definition activate_channex :: "cx_env \<Rightarrow> channel \<Rightarrow> request_state \<Rightarrow> uuid \<Rightarrow> (cx_job list \<times> channel) result" where
  "activate_channex e c s property_id =
     for_tenant channex_write_dep s (\<lambda>t. r_bind (http_error channex_http (activate e c t property_id)) (\<lambda>c.
       Inr ([FullSync t property_id], channel_audit t ''channex.activate'' ''channex_property_link''
              (case get_link c t property_id of None \<Rightarrow> property_id | Some l \<Rightarrow> cl_id l) c)))"

definition sync_channex :: "channel \<Rightarrow> request_state \<Rightarrow> uuid \<Rightarrow> (cx_job list \<times> channel) result" where
  "sync_channex c s property_id =
     for_tenant channex_write_dep s (\<lambda>t. r_bind (http_error channex_http (require_active_channex_link c t property_id)) (\<lambda>_.
       Inr ([FullSync t property_id], channel_audit t ''channex.sync'' ''property'' property_id c)))"

definition disconnect_channex :: "cx_env \<Rightarrow> channel \<Rightarrow> request_state \<Rightarrow> uuid \<Rightarrow> channel result" where
  "disconnect_channex e c s property_id =
     for_tenant channex_write_dep s (\<lambda>t. r_bind (disconnect e c t property_id) (\<lambda>c.
       Inr (channel_audit t ''channex.disconnect'' ''property'' property_id c)))"
subsection \<open>Saved mappings are found again\<close>

definition room_map_entry :: "uuid \<Rightarrow> uuid \<Rightarrow> uuid \<Rightarrow> room_mapping \<Rightarrow> room_map_row" where
  "room_map_entry tenant_id link_id i m = \<lparr>xr_id = i, xr_tenant_id = tenant_id, xr_property_link_id = link_id,
     xr_room_type_id = rmi_room_type_id m, xr_channex_room_type_id = py_strip (rmi_channex_room_type_id m),
     xr_channex_room_type_name = rmi_channex_room_type_name m\<rparr>"

lemma insert_room_maps:
  "ch_room_maps (fold (insert_room_map t lid) ms c) = ch_room_maps c @
     map (\<lambda>k. room_map_entry t lid (next_uuid (ch_hotel c) + int k) (ms ! k)) [0..<length ms] \<and>
   ch_links (fold (insert_room_map t lid) ms c) = ch_links c \<and> ch_rate_maps (fold (insert_room_map t lid) ms c) = ch_rate_maps c"
proof (induction ms arbitrary: c)
  case (Cons m ms)
  let ?c = "insert_room_map t lid m c"
  have step: "ch_room_maps ?c = ch_room_maps c @ [room_map_entry t lid (next_uuid (ch_hotel c)) m]" "ch_links ?c = ch_links c"
      "ch_rate_maps ?c = ch_rate_maps c" "next_uuid (ch_hotel ?c) = next_uuid (ch_hotel c) + 1"
    by (simp_all add: insert_room_map_def channel_id_def room_map_entry_def Let_def)
  show ?case using Cons [of ?c] step by (simp add: map_upt_Suc algebra_simps del: upt_Suc)
qed simp

lemma find_unique: "x \<in> set xs \<Longrightarrow> P x \<Longrightarrow> (\<And>y. y \<in> set xs \<Longrightarrow> P y \<Longrightarrow> y = x) \<Longrightarrow> find P xs = Some x"
proof (induction xs)
  case (Cons a xs)
  show ?case
  proof (cases "P a")
    case True
    with Cons.prems(3) [of a] show ?thesis by simp
  next
    case False
    with Cons.prems(1,2) have "x \<in> set xs" by auto
    from Cons.IH [OF this Cons.prems(2)] Cons.prems(3) False show ?thesis by simp
  qed
qed simp

text \<open>
  C34. Saving the room mappings of a property replaces all of them: afterwards every mapping that was
  sent is found from the hotel's category, as the pushes look it up, and from the agency's category,
  as the ingestion of a booking does, and both lookups find the same entry. The link itself and the
  mappings of other properties are as before.
\<close>

theorem saved_room_maps_are_found:
  assumes "save_room_mappings c t p ms = Inr c'" "m \<in> set ms"
  shows "\<exists>l r. get_link c t p = Some l \<and> get_link c' t p = Some l \<and>
    room_map_for c' t (cl_id l) (rmi_room_type_id m) = Some r \<and> xr_channex_room_type_id r = py_strip (rmi_channex_room_type_id m) \<and>
    find (\<lambda>r. xr_tenant_id r = t \<and> xr_property_link_id r = cl_id l \<and>
      xr_channex_room_type_id r = py_strip (rmi_channex_room_type_id m)) (ch_room_maps c') = Some r \<and>
    filter (\<lambda>r. xr_property_link_id r \<noteq> cl_id l) (ch_room_maps c') = filter (\<lambda>r. xr_property_link_id r \<noteq> cl_id l) (ch_room_maps c)"
proof -
  from assms(1) obtain l where l: "get_link c t p = Some l"
      and dist: "distinct (map rmi_room_type_id ms)" "distinct (map (py_strip \<circ> rmi_channex_room_type_id) ms)"
      and c': "c' = fold (insert_room_map t (cl_id l)) ms (delete_room_maps t (cl_id l) (delete_rate_maps t (cl_id l) c))"
    by (auto simp: save_room_mappings_def require_link_def split: if_splits)
  define old where "old = filter (\<lambda>r. \<not> (xr_property_link_id r = cl_id l \<and> xr_tenant_id r = t)) (ch_room_maps c)"
  define n where "n = next_uuid (ch_hotel (delete_room_maps t (cl_id l) (delete_rate_maps t (cl_id l) c)))"
  define row where "row = (\<lambda>k. room_map_entry t (cl_id l) (n + int k) (ms ! k))"
  have maps: "ch_room_maps c' = old @ map row [0..<length ms]" and links: "ch_links c' = ch_links c"
    using insert_room_maps [of t "cl_id l" ms] unfolding c' n_def row_def
    by (simp_all add: old_def delete_room_maps_def delete_rate_maps_def delete_rows_def)
  obtain k where k: "k < length ms" "m = ms ! k" using assms(2) by (auto simp: in_set_conv_nth)
  have key: "find (\<lambda>r. xr_tenant_id r = t \<and> xr_property_link_id r = cl_id l \<and> f r = g m) (ch_room_maps c') = Some (row k)"
    if f: "\<And>j. f (row j) = g (ms ! j)" and d: "distinct (map g ms)" for f :: "room_map_row \<Rightarrow> 'k" and g
  proof (rule find_unique)
    fix y assume "y \<in> set (ch_room_maps c')" "xr_tenant_id y = t \<and> xr_property_link_id y = cl_id l \<and> f y = g m"
    then obtain j where "j < length ms" "y = row j" "g (ms ! j) = g (ms ! k)" using f k(2) by (auto simp: maps old_def)
    moreover have "j = k" if "g (ms ! j) = g (ms ! k)" "j < length ms"
      using nth_eq_iff_index_eq [OF d, of j k] that k(1) by simp
    ultimately show "y = row k" by blast
  qed (use k f in \<open>auto simp: maps row_def room_map_entry_def\<close>)
  have "room_map_for c' t (cl_id l) (rmi_room_type_id m) = Some (row k)"
    unfolding room_map_for_def by (rule key [OF _ dist(1)]) (simp add: row_def room_map_entry_def)
  moreover have "find (\<lambda>r. xr_tenant_id r = t \<and> xr_property_link_id r = cl_id l \<and>
      xr_channex_room_type_id r = (py_strip \<circ> rmi_channex_room_type_id) m) (ch_room_maps c') = Some (row k)"
    by (rule key [OF _ dist(2)]) (simp add: row_def room_map_entry_def)
  moreover have "filter (\<lambda>r. xr_property_link_id r \<noteq> cl_id l) (ch_room_maps c') = filter (\<lambda>r. xr_property_link_id r \<noteq> cl_id l) (ch_room_maps c)"
  proof -
    have "filter (\<lambda>r. xr_property_link_id r \<noteq> cl_id l) (map row ks) = []" for ks
      by (induction ks) (simp_all add: row_def room_map_entry_def)
    then show ?thesis by (auto simp: maps old_def intro: filter_cong)
  qed
  moreover have "xr_channex_room_type_id (row k) = py_strip (rmi_channex_room_type_id m)"
    using k(2) by (simp add: row_def room_map_entry_def)
  moreover have "get_link c' t p = Some l" using l links by (simp add: get_link_def)
  ultimately show ?thesis using l by auto
qed
subsection \<open>What is sent\<close>

lemma free_rooms_spare: "free_rooms d t rt x = (case spare_at d (t, rt, x) of None \<Rightarrow> 0 | Some n \<Rightarrow> max 0 n)"
proof -
  have "(\<lambda>r. al_tenant_id r = t \<and> al_room_type_id r = rt \<and> al_date r = x) = (\<lambda>r. al_bucket r = (t, rt, x))"
    by (auto simp: al_bucket_def fun_eq_iff)
  then show ?thesis
    by (simp add: free_rooms_def spare_at_def bucket_row_def lookup_row_def available_rooms_def split: option.splits)
qed

text \<open>
  C32. The numbers of free rooms sent to the agency are the numbers the booking service accepts: some
  nights can be claimed for \<open>n\<close> rooms exactly when the agency is told of at least \<open>n\<close> rooms for each of
  them. A night without a ledger row is sent as zero, and cannot be claimed.
\<close>

theorem advertised_rooms_can_be_claimed:
  assumes "ledger_wf d" "distinct nights" "1 \<le> n"
  shows "succeeds (claim_availability_for_new_booking d t rt nights n) \<longleftrightarrow> (\<forall>x\<in>set nights. n \<le> free_rooms d t rt x)"
proof -
  have "n \<le> free_rooms d t rt x \<longleftrightarrow> (\<exists>m\<ge>n. spare_at d (t, rt, x) = Some m)" for x
    using assms(3) by (auto simp: free_rooms_spare split: option.splits)
  then have "(\<forall>x\<in>set nights. n \<le> free_rooms d t rt x) \<longleftrightarrow> seeded d t rt nights \<and> has_room d t rt nights n"
    by (auto simp: request_fits stay_buckets_def)
  then show ?thesis using assms(2) by (auto simp: claim_bump [OF assms(1)])
qed

theorem advertised_rooms_can_be_claimed_witness:
  "succeeds (claim_availability_for_new_booking demo_db 1 20 [100, 101] 2) \<and> free_rooms demo_db 1 20 100 = 2 \<and>
   \<not> succeeds (claim_availability_for_new_booking demo_db 1 20 [103, 104] 1) \<and> free_rooms demo_db 1 20 104 = 0"
proof -
  have free: "map (free_rooms demo_db 1 20) [100, 101, 104] = [2, 2, 0]" by code_simp
  have wf: "ledger_wf demo_db" by code_simp
  show ?thesis
    using free advertised_rooms_can_be_claimed [OF wf, of "[100, 101]" 2 1 20]
      advertised_rooms_can_be_claimed [OF wf, of "[103, 104]" 1 1 20] by auto
qed

lemma batches_ok:
  assumes "0 < n"
  shows "concat (batches n xs) = xs \<and> (\<forall>b\<in>set (batches n xs). b \<noteq> [] \<and> length b \<le> n)"
  using assms
proof (induction n xs rule: batches.induct)
  case (1 n xs)
  then show ?case by (cases "xs = []") (auto simp: batches.simps [of n "[]"] batches.simps [of n xs])
qed

lemma push_all_Inr: "push_all push bs = Inr u \<longleftrightarrow> (\<forall>b\<in>set bs. \<exists>v. push b = Inr v)"
  by (induction bs) auto

lemma push_all_Inl: "push_all push bs = Inl e \<Longrightarrow> \<exists>b\<in>set bs. push b = Inl e"
  by (induction bs) (auto simp: r_bind_eq_Inl)

lemma get_link_set:
  assumes "get_link c t p = Some l" "\<And>x. cl_tenant_id (f x) = cl_tenant_id x \<and> cl_property_id (f x) = cl_property_id x"
  shows "get_link (set_link (cl_id l) f c) t p = Some (f l)"
proof -
  have "find P (update_rows (\<lambda>x. cl_id x = cl_id l) f xs) = Some (f l)"
    if "find P xs = Some l" "\<And>x. P (f x) = P x" for P xs
    using that by (induction xs) (auto simp: update_rows_def split: if_splits)
  then show ?thesis using assms by (simp add: get_link_def set_link_def)
qed

text \<open>
  C33. A push of the availability of some nights sends one number for each night, in order of date,
  split into parts of at most 200. Either the agency accepted every part, and the link carries no
  error, or one of them was refused, and the link carries the message of the refusal. Nothing else of
  the hotel changes.
\<close>

theorem availability_push_is_complete:
  assumes "push_channex_availability e c t p rt ds = Inr c'" "ds \<noteq> []" "push_dates ds = Inr dates"
    and "active_link c t p = Some l" "room_map_for c t (cl_id l) rt = Some rm" "client_for_link e l = Inr cl"
  shows "ch_hotel c' = ch_hotel c \<and> (\<exists>l' parts. get_link c' t p = Some l' \<and>
    concat parts = map (\<lambda>x. availability_value (py_strip (cl_channex_property_id l)) (py_strip (xr_channex_room_type_id rm)) x
      (free_rooms (ch_hotel c) t rt x)) dates \<and> (\<forall>b\<in>set parts. length b \<le> 200) \<and>
    (cl_error_message l' = None \<and> (\<forall>b\<in>set parts. push_availability (ce_http e) cl b = Inr ()) \<or>
     (\<exists>m s body. cl_error_message l' = Some (take 2000 m) \<and>
        (\<exists>b\<in>set parts. push_availability (ce_http e) cl b = Inl (ChannexApiError m s body)))))"
proof -
  define sent where "sent = map (\<lambda>x. availability_value (py_strip (cl_channex_property_id l)) (py_strip (xr_channex_room_type_id rm)) x
      (free_rooms (ch_hotel c) t rt x)) dates"
  let ?push = "push_availability (ce_http e) cl" and ?parts = "batches BATCH sent"
  have link: "get_link c t p = Some l" using assms(4) by (simp add: active_link_def split: option.splits if_splits)
  have after: "after_push (cl_id l) c (push_all ?push ?parts) = Inr c'"
    using assms(1-6) by (simp add: push_channex_availability_def availability_values_def sent_def Let_def)
  have parts: "concat ?parts = sent" "\<forall>b\<in>set ?parts. length b \<le> 200"
    using batches_ok [of BATCH sent] by (auto simp: BATCH_def)
  define outcome where "outcome = push_all ?push ?parts"
  have "ch_hotel c' = ch_hotel c \<and> (\<exists>l'. get_link c' t p = Some l' \<and>
     (cl_error_message l' = None \<and> outcome = Inr () \<or> (\<exists>m s body. cl_error_message l' = Some (take 2000 m) \<and> outcome = Inl (ChannexApiError m s body))))"
    using after [folded outcome_def] get_link_set [OF link]
    by (auto simp: after_push_def set_link_def split: sum.splits error.splits)
  with parts show ?thesis
    unfolding outcome_def sent_def [symmetric] push_all_Inr by (fastforce dest: push_all_Inl)
qed
definition demo_env :: cx_env where
  "demo_env = \<lparr>ce_http = demo_http, ce_net = demo_net (Response 200), ce_settings = demo_settings,
     ce_channel = \<lparr>channex_webhook_url = None, channex_webhook_secret = Some ''hush'', channex_webhook_verify_channex_ips = False\<rparr>,
     ce_nonce = []\<rparr>"

definition demo_pushed_link :: link_row where
  "demo_pushed_link = demo_link\<lparr>cl_channex_api_key := ''Dkey''\<rparr>"

definition demo_linked :: channel where
  "demo_linked = demo_channel\<lparr>ch_links := [demo_pushed_link]\<rparr>"

theorem availability_push_is_complete_witness:
  "\<exists>c' l'. push_channex_availability demo_env demo_linked 1 10 20 [''19700411''] = Inr c' \<and> get_link c' 1 10 = Some l' \<and>
     ch_hotel c' = demo_db \<and> free_rooms demo_db 1 20 100 = 2"
proof -
  have "succeeds (push_channex_availability demo_env demo_linked 1 10 20 [''19700411''])" by code_simp
  then obtain c' where c': "push_channex_availability demo_env demo_linked 1 10 20 [''19700411''] = Inr c'"
    by (cases "push_channex_availability demo_env demo_linked 1 10 20 [''19700411'']") auto
  have dates: "push_dates [''19700411''] = Inr [100]" by code_simp
  have link: "active_link demo_linked 1 10 = Some demo_pushed_link" by code_simp
  obtain rm where rm: "room_map_for demo_linked 1 (cl_id demo_pushed_link) 20 = Some rm"
    by (simp add: room_map_for_def demo_linked_def demo_channel_def demo_pushed_link_def demo_link_def)
  have "succeeds (client_for_link demo_env demo_pushed_link)" by code_simp
  then obtain cl where cl: "client_for_link demo_env demo_pushed_link = Inr cl"
    by (cases "client_for_link demo_env demo_pushed_link") auto
  have "free_rooms demo_db 1 20 100 = 2" by code_simp
  moreover from availability_push_is_complete [OF c' _ dates link rm cl]
  have "ch_hotel c' = ch_hotel demo_linked \<and> (\<exists>l'. get_link c' 1 10 = Some l')" by blast
  ultimately show ?thesis using c' by (auto simp: demo_linked_def demo_channel_def)
qed

subsection \<open>What comes in\<close>

text \<open>
  C35. When a secret is configured, an inbound message is recorded only when its signature is the HMAC
  of the very body under that secret; it is then stored unprocessed, with the one job that will process
  it, and everything else is left as it was.
\<close>

theorem unsigned_webhook_is_refused:
  assumes "opt_strip (channex_webhook_secret (ce_channel e)) \<noteq> []"
    and "inbound_channex_webhook e c body parsed sig_header host = Inr (jobs, c')"
  shows "py_lower (py_strip (text_of sig_header)) =
      py_lower (hmac_sha256_hex (ce_net e) (opt_strip (channex_webhook_secret (ce_channel e))) body) \<and>
    (\<exists>w. ch_webhook_logs c' = ch_webhook_logs c @ [w] \<and> \<not> wl_processed w \<and> jobs = [ProcessWebhook (wl_id w)]) \<and>
    ch_links c' = ch_links c \<and> ch_room_maps c' = ch_room_maps c \<and> ch_rate_maps c' = ch_rate_maps c \<and>
    ch_hotel c' = (ch_hotel c)\<lparr>next_uuid := next_uuid (ch_hotel c) + 1\<rparr>"
  using assms by (auto simp: inbound_channex_webhook_def check_sender_def channel_id_def Let_def split: if_splits)

theorem unsigned_webhook_is_refused_witness:
  "\<exists>jobs c'. inbound_channex_webhook demo_env demo_linked ''{}'' (Some (JObj [])) (Some ''hush{}'') None = Inr (jobs, c') \<and>
     ch_hotel c' = (ch_hotel demo_linked)\<lparr>next_uuid := next_uuid (ch_hotel demo_linked) + 1\<rparr> \<and>
     (\<forall>r. inbound_channex_webhook demo_env demo_linked ''[]'' (Some (JList [])) (Some ''hush{}'') None \<noteq> Inr r)"
proof -
  have secret: "opt_strip (channex_webhook_secret (ce_channel demo_env)) = ''hush''" by code_simp
  have "succeeds (inbound_channex_webhook demo_env demo_linked ''{}'' (Some (JObj [])) (Some ''hush{}'') None)" by code_simp
  then obtain jobs c' where r: "inbound_channex_webhook demo_env demo_linked ''{}'' (Some (JObj [])) (Some ''hush{}'') None = Inr (jobs, c')"
    by (cases "inbound_channex_webhook demo_env demo_linked ''{}'' (Some (JObj [])) (Some ''hush{}'') None") auto
  have sig: "hmac_sha256_hex (ce_net demo_env) k b = k @ b" for k b by (simp add: demo_env_def demo_net_def)
  have "inbound_channex_webhook demo_env demo_linked ''[]'' (Some (JList [])) (Some ''hush{}'') None \<noteq> Inr (j, x)" for j x
  proof
    assume a: "inbound_channex_webhook demo_env demo_linked ''[]'' (Some (JList [])) (Some ''hush{}'') None = Inr (j, x)"
    have "opt_strip (channex_webhook_secret (ce_channel demo_env)) \<noteq> []" by (simp add: secret)
    from unsigned_webhook_is_refused [OF this a] have "py_lower (py_strip ''hush{}'') = py_lower ''hush[]''"
      by (simp add: secret sig text_of_def)
    moreover have "py_lower (py_strip ''hush{}'') \<noteq> py_lower ''hush[]''" by code_simp
    ultimately show False by blast
  qed
  then show ?thesis using r unsigned_webhook_is_refused [OF _ r] secret by auto
qed

subsection \<open>Disconnecting\<close>

text \<open>
  A link to which a revision or a push log refers cannot be removed: neither is deleted with it.
\<close>

lemma used_link_cannot_be_disconnected:
  assumes "get_link c t p = Some l" "link_referenced c l"
  shows "disconnect e c t p \<noteq> Inr c'"
  using assms by (auto simp: disconnect_def Let_def)

text \<open>An acknowledgement that is answered with too many requests three times loses the push.\<close>

lemma lost_acknowledgement_drops_push:
  assumes "am_acknowledge am = Some rid" "find (\<lambda>l. cl_id l = i) (ch_links c) = Some l" "client_for_link e l = Inr cl"
    and "\<And>k. k < 3 \<Longrightarrow>
      \<exists>r. raw_request (ce_http e) cl ''POST'' (''booking_revisions/'' @ rid @ ''/acknowledge'') None [] k = Inr r \<and> cx_status r = 429"
  shows "acknowledge_and_push e c i am = Inl RetryError"
  using third_429_raises_RetryError [OF assms(4)] assms(1-3) by (simp add: acknowledge_and_push_def acknowledge_revision_def)

text \<open>The mapping of the example's property saved again under another name of the channel manager.\<close>

definition demo_mapping :: room_mapping where
  "demo_mapping = \<lparr>rmi_room_type_id = 20, rmi_channex_room_type_id = '' rt-new '', rmi_channex_room_type_name = None\<rparr>"

lemma saved_room_maps_are_found_witness:
  "\<exists>c'. save_room_mappings demo_linked 1 10 [demo_mapping] = Inr c' \<and> get_link c' 1 10 \<noteq> None"
proof -
  have "succeeds (save_room_mappings demo_linked 1 10 [demo_mapping])" by code_simp
  then obtain c' where c': "save_room_mappings demo_linked 1 10 [demo_mapping] = Inr c'"
    by (cases "save_room_mappings demo_linked 1 10 [demo_mapping]") auto
  then show ?thesis using saved_room_maps_are_found [OF c', of demo_mapping] by auto
qed

end
