(* ===== verification/Night_Audit.thy ===== *)
theory Night_Audit
  imports Hotel_Steps Email
begin

text \<open>
  The night audit (\<^verbatim>\<open>tasks/night_audit.py\<close>): the hourly fan-out over properties whose local time is
  the audit hour, the automatic no-shows, the figures of the day and the mail to the owners.

  The time zone database is a parameter: \<open>utc_offset\<close> gives the offset of a zone at an instant, or
  \<open>None\<close> for a name it does not know, and \<open>from_wall\<close> the instant of a wall-clock time.
\<close>

record zones =
  utc_offset :: "string \<Rightarrow> (timestamp \<Rightarrow> int) option"
  from_wall :: "string \<Rightarrow> int \<Rightarrow> timestamp"

definition property_local_now :: "zones \<Rightarrow> string \<Rightarrow> timestamp \<Rightarrow> int" where
  "property_local_now z timezone_id now =
     (case utc_offset z (py_strip timezone_id) of None \<Rightarrow> now | Some off \<Rightarrow> now + off now)"

definition wall_to_utc :: "zones \<Rightarrow> string \<Rightarrow> int \<Rightarrow> timestamp" where
  "wall_to_utc z timezone_id wall =
     (case utc_offset z (py_strip timezone_id) of None \<Rightarrow> wall | Some _ \<Rightarrow> from_wall z (py_strip timezone_id) wall)"

subsection \<open>Fan-out\<close>

definition lookup_active_properties :: "server \<Rightarrow> (uuid \<times> uuid \<times> string) list" where
  "lookup_active_properties sv =
     concat (map (\<lambda>p. map (\<lambda>t. (pr_tenant_id p, pr_id p, pr_timezone p))
       (filter (\<lambda>t. te_id t = pr_tenant_id p \<and> te_status t = ''active'') (tenants sv))) (properties (hotel sv)))"

definition local_hour :: "int \<Rightarrow> int" where
  "local_hour wall = (wall mod days 1) div hours 1"

definition night_audit_fanout :: "zones \<Rightarrow> settings \<Rightarrow> server \<Rightarrow> (uuid \<times> uuid) list" where
  "night_audit_fanout z st sv =
     map (\<lambda>(t, p, tz). (t, p)) (filter (\<lambda>(t, p, tz). local_hour (property_local_now z tz (now_of sv)) = night_audit_hour st)
       (lookup_active_properties sv))"

subsection \<open>Figures of the day\<close>

definition ACTIVE_EXCLUDE :: "string list" where
  "ACTIVE_EXCLUDE = [''cancelled'', ''no_show'']"

definition count_arrivals :: "db \<Rightarrow> uuid \<Rightarrow> uuid \<Rightarrow> date \<Rightarrow> nat" where
  "count_arrivals d tenant_id property_id audit_date =
     length (filter (\<lambda>b. bk_tenant_id b = tenant_id \<and> bk_property_id b = property_id \<and>
       bk_status b \<notin> set ACTIVE_EXCLUDE \<and> first_night d b = Some audit_date) (bookings d))"

definition count_departures :: "db \<Rightarrow> uuid \<Rightarrow> uuid \<Rightarrow> date \<Rightarrow> nat" where
  "count_departures d tenant_id property_id audit_date =
     length (filter (\<lambda>b. bk_tenant_id b = tenant_id \<and> bk_property_id b = property_id \<and>
       bk_status b \<notin> set ACTIVE_EXCLUDE \<and> last_night d b = Some (audit_date - 1)) (bookings d))"

definition count_no_shows :: "db \<Rightarrow> uuid \<Rightarrow> uuid \<Rightarrow> date \<Rightarrow> nat" where
  "count_no_shows d tenant_id property_id audit_date =
     length (filter (\<lambda>b. bk_tenant_id b = tenant_id \<and> bk_property_id b = property_id \<and>
       bk_status b = ''no_show'' \<and> first_night d b = Some audit_date) (bookings d))"

text \<open>The date is taken by the database, which refuses a zone it does not know.\<close>

definition payments_total_for_local_day :: "zones \<Rightarrow> db \<Rightarrow> uuid \<Rightarrow> uuid \<Rightarrow> string \<Rightarrow> date \<Rightarrow> decimal result" where
  "payments_total_for_local_day z d tenant_id property_id timezone_id audit_date =
     (case utc_offset z timezone_id of
        None \<Rightarrow> Inl (RuntimeError ''time zone not recognized'')
      | Some off \<Rightarrow> Inr (q_even (sum_list (map ft_amount (filter (\<lambda>r. ft_tenant_id r = tenant_id \<and>
          ft_transaction_type r = ''Payment'' \<and> day_of (ft_created_at r + off (ft_created_at r)) = audit_date \<and>
          list_ex (\<lambda>b. bk_tenant_id b = ft_tenant_id r \<and> bk_id b = ft_booking_id r \<and> bk_property_id b = property_id) (bookings d))
          (folio_transactions d))))))"

subsection \<open>Automatic no-shows\<close>

definition overdue :: "db \<Rightarrow> uuid \<Rightarrow> uuid \<Rightarrow> date \<Rightarrow> booking_row \<Rightarrow> bool" where
  "overdue d tenant_id property_id today b \<longleftrightarrow>
     bk_tenant_id b = tenant_id \<and> bk_property_id b = property_id \<and> bk_status b = ''confirmed'' \<and>
     (case first_night d b of None \<Rightarrow> False | Some n \<Rightarrow> n < today)"

definition no_show_patch :: booking_patch where
  "no_show_patch = \<lparr>pb_room_id = None, pb_status = Some (Some ''no_show''), pb_check_in = None, pb_check_out = None,
     pb_cancellation_reason = None, pb_notes = None\<rparr>"

text \<open>
  The loop over the overdue bookings works on the objects of the session. Only a
  \<^verbatim>\<open>PatchBookingError\<close> is caught; any other exception ends the task and its transaction.
\<close>

fun mark_no_shows :: "uuid \<Rightarrow> uuid list \<Rightarrow> db \<Rightarrow> (nat \<times> db) result" where
  "mark_no_shows tenant_id [] d = Inr (0, d)"
| "mark_no_shows tenant_id (bid # bids) d =
     (case patch_booking d tenant_id bid no_show_patch of
        Inl (PatchBookingError _ _) \<Rightarrow> mark_no_shows tenant_id bids d
      | Inl e \<Rightarrow> Inl e
      | Inr (_, d) \<Rightarrow>
          r_bind (mark_no_shows tenant_id bids (record_audit tenant_id ''booking.night_audit_no_show'' ''booking'' (Some bid) d))
            (\<lambda>(marked, d). Inr (marked + 1, d)))"

definition auto_no_show_confirmed_past_checkin :: "db \<Rightarrow> uuid \<Rightarrow> uuid \<Rightarrow> date \<Rightarrow> (nat \<times> db) result" where
  "auto_no_show_confirmed_past_checkin d tenant_id property_id today =
     mark_no_shows tenant_id (map bk_id (filter (overdue d tenant_id property_id today) (bookings d))) d"

subsection \<open>The audit of a property\<close>

record audit_result =
  ar_summary :: audit_summary
  ar_emailed :: bool

text \<open>
  Nothing is flushed between the automatic no-shows and the figures, so the queries for the
  figures read the rows as they were before: \<open>d\<close>, while the mail log and the commit see the
  objects of the session, \<open>d1\<close>. \<open>None\<close> is the answer for a property that does not exist.
\<close>

definition night_audit_property :: "mailer \<Rightarrow> settings \<Rightarrow> zones \<Rightarrow> server \<Rightarrow> uuid \<Rightarrow> uuid \<Rightarrow> (audit_result option \<times> server) result" where
  "night_audit_property mailer st z sv tenant_id property_id =
     (let d = hotel sv in
      case property_at d tenant_id property_id of
        None \<Rightarrow> Inr (None, sv)
      | Some prop \<Rightarrow>
          let today = day_of (property_local_now z (pr_timezone prop) (now_of sv)); yesterday = today - 1;
              day_start_utc = wall_to_utc z (pr_timezone prop) (days today);
              day_end_utc = wall_to_utc z (pr_timezone prop) (days (today + 1))
          in r_bind (auto_no_show_confirmed_past_checkin d tenant_id property_id today) (\<lambda>(auto_no_shows, d1).
             r_bind (payments_total_for_local_day z d tenant_id property_id (py_strip (pr_timezone prop)) yesterday) (\<lambda>payments.
             let unpaid = map (\<lambda>(bid, bal, fn, ln). let name = py_strip (fn @ '' '' @ ln)
                                in (if name = [] then uuid_str bid else name, bal))
                   (list_unpaid_folio_summary_for_property d tenant_id property_id (Some yesterday) True);
                 sm = \<lparr>as_audit_date = yesterday, as_arrivals = count_arrivals d tenant_id property_id yesterday,
                   as_departures = count_departures d tenant_id property_id yesterday,
                   as_no_shows = count_no_shows d tenant_id property_id yesterday, as_auto_no_shows = auto_no_shows,
                   as_payments_total = payments, as_unpaid_folios = unpaid\<rparr>;
                 (emailed, sv') = send_night_audit_email mailer st (sv\<lparr>hotel := d1\<rparr>) tenant_id prop sm day_start_utc day_end_utc
             in Inr (Some \<lparr>ar_summary = sm, ar_emailed = emailed\<rparr>, sv'))))"
subsection \<open>What the audit leaves behind\<close>

lemma no_show_transition: "validate_status_transition ''confirmed'' ''no_show'' = Inr ()" by code_simp

lemma no_show_patch_confirmed:
  assumes at: "booking_at d t i = Some b" "bk_status b = ''confirmed''"
  shows "patch_booking d t i no_show_patch =
    r_bind (release_booking_inventory d t (lines_of d b)) (\<lambda>d1. Inr (None, set_booking b (\<lambda>x. x\<lparr>bk_status := ''no_show''\<rparr>) d1))"
proof -
  have norm: "normalize_booking_status ''no_show'' = ''no_show''" "normalize_booking_status ''confirmed'' = ''confirmed''" by code_simp+
  have "checkout_warning s t b = (None, s)" if "orm s = set_booking b (\<lambda>x. x\<lparr>bk_status := ''no_show''\<rparr>) d1" for d1 s
  proof -
    have "x \<in> set (bookings (set_booking b (\<lambda>x. x\<lparr>bk_status := ''no_show''\<rparr>) d1)) \<Longrightarrow> bk_id x = bk_id b \<Longrightarrow> bk_status x = ''no_show''" for x
      by (auto simp: set_booking_def set_update_rows)
    then show ?thesis
      using norm(1) that by (auto simp: checkout_warning_def dest!: booking_atD split: option.splits)
  qed
  moreover have "patch_empty no_show_patch = False" "cancel_requested no_show_patch = False" "pb_notes no_show_patch = None"
      "inactive_guard b no_show_patch = Inr ()" "patch_dates s t b no_show_patch = Inr (s, False)"
      "Booking.patch_room se t b no_show_patch = Inr se" for s se
    using norm at(2) by (simp_all add: no_show_patch_def patch_empty_def cancel_requested_def inactive_guard_def patch_dates_def
        Booking.patch_room_def)
  moreover have "patch_status (s, False) t b no_show_patch = r_bind (on_orm_r (\<lambda>d. release_booking_inventory d t (lines_of d b)) s)
      (\<lambda>s. Inr (on_orm (set_booking b (\<lambda>x. x\<lparr>bk_status := ''no_show''\<rparr>)) s))" for s
    using norm at(2) no_show_transition
    by (simp add: no_show_patch_def patch_status_def status_text_def patch_transition_def checkin_guard_def)
  ultimately show ?thesis
    using at(1) by (cases "release_booking_inventory d t (lines_of d b)")
      (simp_all add: patch_booking_def open_session_def on_orm_r_def on_orm_def require_def)
qed

lemma decrement_error: "decrement_booked_rooms rows k d = (Some e, d') \<Longrightarrow> e = InsufficientInventoryError"
  by (induction rows k d rule: decrement_booked_rooms.induct) (auto simp: Let_def split: if_splits)

lemma release_errors: "release_booking_inventory d t ls = Inl e \<Longrightarrow> e \<noteq> PatchBookingError m c"
  by (auto simp: release_booking_inventory_def lock_and_decrement_def lock_and_validate_availability_def raise_or_def r_bind_eq_Inl
      Let_def split: if_splits option.splits prod.splits dest: decrement_error)

lemma booking_at_mem: "bookings_ok d \<Longrightarrow> b \<in> set (bookings d) \<Longrightarrow> booking_at d (bk_tenant_id b) (bk_id b) = Some b"
proof -
  assume ok: "bookings_ok d" and b: "b \<in> set (bookings d)"
  then obtain x where x: "booking_at d (bk_tenant_id b) (bk_id b) = Some x"
    by (cases "booking_at d (bk_tenant_id b) (bk_id b)") (auto simp: booking_at_def find_None_iff)
  moreover have "inj_on bk_id (set (bookings d))" using ok by (simp add: bookings_ok_def distinct_map)
  ultimately show "booking_at d (bk_tenant_id b) (bk_id b) = Some b" using booking_atD [OF x] b by (auto dest: inj_onD)
qed

lemma record_audit_aside: "aside d (record_audit t a e i d)"
  by (simp add: aside_def ledger_kept_def)

lemma mark_no_shows_effect:
  assumes "hotel_ok d" "distinct ids" "\<forall>i\<in>set ids. \<exists>b\<in>set (bookings d). bk_id b = i \<and> bk_tenant_id b = t \<and> bk_status b = ''confirmed''"
    and "mark_no_shows t ids d = Inr (k, d')"
  shows "k = length ids \<and> hotel_ok d' \<and> booking_lines d' = booking_lines d \<and>
    bookings d' = map (\<lambda>b. if bk_id b \<in> set ids then b\<lparr>bk_status := ''no_show''\<rparr> else b) (bookings d)"
  using assms
proof (induction ids arbitrary: d k)
  case (Cons i ids)
  then obtain b where b: "b \<in> set (bookings d)" "bk_id b = i" "bk_tenant_id b = t" "bk_status b = ''confirmed''" by auto
  have at: "booking_at d t i = Some b"
    using booking_at_mem [of d b] b inventory_invD(2) [OF hotel_okD(1) [OF Cons.prems(1)]] by simp
  note patch = no_show_patch_confirmed [OF at b(4)]
  note run = Cons.prems(4) [unfolded mark_no_shows.simps patch]
  have noPatch: "release_booking_inventory d t ls \<noteq> Inl (PatchBookingError m c)" for ls m c
    using release_errors by blast
  obtain d1 where rel: "release_booking_inventory d t (lines_of d b) = Inr d1"
    using run noPatch by (cases "release_booking_inventory d t (lines_of d b)") (auto split: error.splits)
  define d2 where "d2 = set_booking b (\<lambda>x. x\<lparr>bk_status := ''no_show''\<rparr>) d1"
  define d3 where "d3 = record_audit t ''booking.night_audit_no_show'' ''booking'' (Some i) d2"
  from run rel obtain k' where rest: "mark_no_shows t ids d3 = Inr (k', d')" "k = k' + 1"
    by (auto simp: d3_def d2_def)
  obtain l where d1: "d1 = d\<lparr>ledger := l\<rparr>" using release_only_ledger [OF rel] by blast
  have bs: "bookings d3 = map (\<lambda>x. if bk_id x = i then x\<lparr>bk_status := ''no_show''\<rparr> else x) (bookings d)"
    by (simp add: d3_def d2_def d1 set_booking_def update_rows_def b(2))
  have "booking_step d d2" using patch rel by (auto simp: d2_def intro: booking_step.patch)
  then have ok: "hotel_ok d3" unfolding d3_def using booking_step_ok aside_ok record_audit_aside Cons.prems(1) by blast
  have "\<forall>j\<in>set ids. \<exists>x\<in>set (bookings d3). bk_id x = j \<and> bk_tenant_id x = t \<and> bk_status x = ''confirmed''"
  proof
    fix j assume j: "j \<in> set ids"
    then obtain x where x: "x \<in> set (bookings d)" "bk_id x = j" "bk_tenant_id x = t" "bk_status x = ''confirmed''"
      using Cons.prems(3) by auto
    moreover have "j \<noteq> i" using j Cons.prems(2) by auto
    ultimately show "\<exists>x\<in>set (bookings d3). bk_id x = j \<and> bk_tenant_id x = t \<and> bk_status x = ''confirmed''"
      unfolding bs by (intro bexI [of _ x]) force+
  qed
  from Cons.IH [OF ok _ this rest(1)] Cons.prems(2) show ?case
    by (auto simp: rest(2) bs) (simp_all add: d3_def d2_def d1)
qed simp
lemma aside_refl: "aside d d"
  by (simp add: aside_def)

lemma aside_trans: "aside d d' \<Longrightarrow> aside d' d'' \<Longrightarrow> aside d d''"
  by (auto simp: aside_def dest: ledger_kept_trans)

lemma send_night_audit_email_aside:
  assumes "sv' = snd (send_night_audit_email mailer st sv t prop sm a b)"
  shows "aside (hotel sv) (hotel sv')"
proof -
  have one: "aside d (send_booking_email mailer st t m p b' d)" for m p b' d
    by (auto simp: send_booking_email_def log_email_def aside_def ledger_kept_def fleet_def split: sum.split)
  have "aside d (fold (\<lambda>to. send_booking_email mailer st t (f to) p b') xs d)" for f p b' xs d
    by (rule fold_keeps [where P = "aside d"]) (use one aside_trans aside_refl in blast)+
  then show ?thesis
    using assms by (auto simp: send_night_audit_email_def Let_def aside_refl split: if_splits)
qed

text \<open>
  C25. A night audit that completes marks exactly the overdue bookings of the property as no-shows,
  that is the confirmed ones whose first night is before today in the property's time zone: their
  status becomes \<^verbatim>\<open>no_show\<close>, no other booking and no line changes, the mail reports their number,
  and the counters of the ledger stay consistent with the active bookings.
\<close>

theorem night_audit_marks_exactly_the_overdue:
  assumes ok: "hotel_ok (hotel sv)" and run: "night_audit_property mailer st z sv t p = Inr (Some res, sv')"
    and at: "property_at (hotel sv) t p = Some prop"
  shows "bookings (hotel sv') = map (\<lambda>b. if overdue (hotel sv) t p (day_of (property_local_now z (pr_timezone prop) (now_of sv))) b
      then b\<lparr>bk_status := ''no_show''\<rparr> else b) (bookings (hotel sv)) \<and>
    booking_lines (hotel sv') = booking_lines (hotel sv) \<and>
    as_auto_no_shows (ar_summary res) =
      length (filter (overdue (hotel sv) t p (day_of (property_local_now z (pr_timezone prop) (now_of sv)))) (bookings (hotel sv))) \<and>
    hotel_ok (hotel sv')"
proof -
  let ?d = "hotel sv"
  define today where "today = day_of (property_local_now z (pr_timezone prop) (now_of sv))"
  define ids where "ids = map bk_id (filter (overdue ?d t p today) (bookings ?d))"
  from run at obtain k d1 sm a b where marked: "mark_no_shows t ids ?d = Inr (k, d1)"
    and mail: "sv' = snd (send_night_audit_email mailer st (sv\<lparr>hotel := d1\<rparr>) t prop sm a b)"
    and res: "as_auto_no_shows (ar_summary res) = k"
    by (auto simp: night_audit_property_def Let_def auto_no_show_confirmed_past_checkin_def ids_def today_def case_prod_beta)
  have aside: "aside d1 (hotel sv')" using send_night_audit_email_aside [OF mail] by simp
  have inj: "distinct (map bk_id (bookings ?d))"
    using inventory_invD(2) [OF hotel_okD(1) [OF ok]] by (simp add: bookings_ok_def)
  then have "distinct ids" by (simp add: ids_def distinct_map_filter)
  moreover have "\<forall>i\<in>set ids. \<exists>b\<in>set (bookings ?d). bk_id b = i \<and> bk_tenant_id b = t \<and> bk_status b = ''confirmed''"
    by (auto simp: ids_def overdue_def)
  ultimately have eff: "k = length ids" "hotel_ok d1" "booking_lines d1 = booking_lines ?d"
      "bookings d1 = map (\<lambda>b. if bk_id b \<in> set ids then b\<lparr>bk_status := ''no_show''\<rparr> else b) (bookings ?d)"
    using mark_no_shows_effect [OF ok _ _ marked] by blast+
  have "bk_id b \<in> set ids \<longleftrightarrow> overdue ?d t p today b" if "b \<in> set (bookings ?d)" for b
    using that inj by (auto simp: ids_def distinct_map dest: inj_onD)
  with eff(4) have "bookings d1 = map (\<lambda>b. if overdue ?d t p today b then b\<lparr>bk_status := ''no_show''\<rparr> else b) (bookings ?d)"
    by (simp cong: map_cong)
  then show ?thesis
    using eff(1-3) res aside aside_ok [OF aside] by (simp add: today_def ids_def aside_def)
qed
definition demo_zones :: zones where
  "demo_zones = \<lparr>utc_offset = (\<lambda>s. Some (\<lambda>_. hours 7)), from_wall = (\<lambda>s w. w - hours 7)\<rparr>"

definition demo_morning :: server where
  "demo_morning = \<lparr>hotel = demo_booked\<lparr>utc_today := 101, db_now := days 101\<rparr>, tenants = [], users = [], refresh_tokens = [], api_keys = []\<rparr>"

definition demo_audit :: "(audit_result option \<times> server) result" where
  "demo_audit = night_audit_property (\<lambda>_. Inr ''id'') demo_settings demo_zones demo_morning 1 10"

lemma demo_morning_ok: "hotel_ok (hotel demo_morning)"
proof -
  have "hotel_ok demo_booked" using booking_step_ok [OF demo_step demo_ok(1)] .
  moreover have "supply_step demo_booked (hotel demo_morning)"
    unfolding demo_morning_def server.simps by (rule supply_step.day_passes) code_simp+
  ultimately show ?thesis by (rule supply_step_ok [rotated])
qed

theorem night_audit_marks_exactly_the_overdue_witness:
  "\<exists>res sv'. demo_audit = Inr (Some res, sv') \<and> as_auto_no_shows (ar_summary res) = 1 \<and>
     map bk_status (bookings (hotel sv')) = [''no_show''] \<and> hotel_ok (hotel sv')"
proof -
  have "(case demo_audit of Inr (Some _, _) \<Rightarrow> True | _ \<Rightarrow> False)" by code_simp
  then obtain res sv' where r: "demo_audit = Inr (Some res, sv')" by (auto split: sum.splits option.splits)
  obtain home where at: "property_at (hotel demo_morning) 1 10 = Some home"
    and tz: "pr_timezone home = ''Asia/Bangkok''"
  proof -
    have "map_option pr_timezone (property_at (hotel demo_morning) 1 10) = Some ''Asia/Bangkok''" by code_simp
    then show ?thesis using that by auto
  qed
  define P where "P = overdue (hotel demo_morning) 1 10 (day_of (property_local_now demo_zones ''Asia/Bangkok'' (now_of demo_morning)))"
  have one: "map (\<lambda>b. (P b, bk_status b)) (bookings (hotel demo_morning)) = [(True, ''confirmed'')]" unfolding P_def by code_simp
  then obtain b where b: "bookings (hotel demo_morning) = [b]" "P b" by (cases "bookings (hotel demo_morning)") auto
  show ?thesis
    using night_audit_marks_exactly_the_overdue [OF demo_morning_ok r [unfolded demo_audit_def] at] r b
    by - (rule exI [of _ res], rule exI [of _ sv'], simp add: tz flip: P_def)
qed

text \<open>
  The figures of the mail are those from before the automatic no-shows: a booking marked tonight
  that should have arrived yesterday is still counted as an arrival and not as a no-show.
\<close>

lemma night_audit_reports_stale_figures:
  assumes "night_audit_property mailer st z sv t p = Inr (Some res, sv')"
  shows "as_no_shows (ar_summary res) = count_no_shows (hotel sv) t p (as_audit_date (ar_summary res))"
    "as_arrivals (ar_summary res) = count_arrivals (hotel sv) t p (as_audit_date (ar_summary res))"
  using assms by (auto simp: night_audit_property_def Let_def case_prod_beta split: option.splits)

end
