(* ===== verification/Reports.thy ===== *)
theory Reports
  imports Night_Audit Booking_Routes
begin

text \<open>
  Reports and dashboard (\<^verbatim>\<open>reports_service.py\<close>, \<^verbatim>\<open>dashboard_service.py\<close> and their routes): occupancy,
  revenue and key figures of a property by day, their export as CSV, and the figures of the current
  day. The time zone database is a parameter, as for the night audit.
\<close>

subsection \<open>Amounts\<close>

definition report_money :: "decimal \<Rightarrow> string" where
  "report_money x = money_str (q_even x)"

definition dec_quot :: "decimal \<Rightarrow> decimal \<Rightarrow> decimal" where
  "dec_quot a b = (case dec_div a b of Inl _ \<Rightarrow> 0 | Inr q \<Rightarrow> q)"

definition pct_str :: "int \<Rightarrow> int \<Rightarrow> string" where
  "pct_str numerator denominator =
     (if denominator = 0 then ''0.00'' else money_str (q_even (dec_quot (of_int numerator * 100) (of_int denominator))))"

definition daterange :: "date \<Rightarrow> date \<Rightarrow> date list" where
  "daterange date_from date_to = map (\<lambda>i. date_from + int i) [0..<nat (date_to - date_from + 1)]"

definition report_range_ok :: "date \<Rightarrow> date \<Rightarrow> unit result" where
  "report_range_ok date_from date_to =
     r_bind (guard (date_from \<le> date_to) (HTTPException ''Value error, date_to must be >= date_from'' 422)) (\<lambda>_.
     guard (date_to - date_from + 1 \<le> 366) (HTTPException ''Value error, date range must not exceed 366 days'' 422))"

definition report_property :: "db \<Rightarrow> uuid \<Rightarrow> uuid \<Rightarrow> property_row result" where
  "report_property d tenant_id property_id =
     require (find (\<lambda>p. pr_tenant_id p = tenant_id \<and> pr_id p = property_id) (properties d)) (ReportsServiceError ''property not found'' 404)"

definition invalid_zone :: "string \<Rightarrow> string" where
  "invalid_zone tz = ''Invalid IANA timezone for property: '' @ py_repr (JStr tz) @
     ''. Use a valid identifier such as Europe/Berlin or Asia/Bangkok.''"

definition property_zoneinfo :: "zones \<Rightarrow> property_row \<Rightarrow> (timestamp \<Rightarrow> int) result" where
  "property_zoneinfo z p =
     r_bind (guard (py_strip (pr_timezone p) \<noteq> []) (ReportsServiceError ''property timezone is empty'' 400)) (\<lambda>_.
     require (utc_offset z (py_strip (pr_timezone p))) (ReportsServiceError (invalid_zone (pr_timezone p)) 400))"

subsection \<open>Figures by date\<close>

text \<open>\<^verbatim>\<open>GROUP BY\<close> with a sum, and the lookup in the resulting dictionary.\<close>

definition group_sum :: "('a \<Rightarrow> 'k) \<Rightarrow> ('a \<Rightarrow> 'n::comm_monoid_add) \<Rightarrow> 'a list \<Rightarrow> ('k \<times> 'n) list" where
  "group_sum key val xs = map (\<lambda>k. (k, sum_list (map val (filter (\<lambda>x. key x = k) xs)))) (remdups (map key xs))"

definition dict_get0 :: "('k \<times> 'n::zero) list \<Rightarrow> 'k \<Rightarrow> 'n" where
  "dict_get0 m k = (case map_of m k of None \<Rightarrow> 0 | Some v \<Rightarrow> v)"

definition report_booking :: "db \<Rightarrow> uuid \<Rightarrow> uuid \<Rightarrow> line_row \<Rightarrow> bool" where
  "report_booking d tenant_id property_id l \<longleftrightarrow>
     list_ex (\<lambda>b. bk_tenant_id b = bl_tenant_id l \<and> bk_id b = bl_booking_id l \<and> bk_tenant_id b = tenant_id \<and>
       bk_property_id b = property_id \<and> bk_status b \<notin> set ACTIVE_EXCLUDE) (bookings d)"

definition report_lines :: "db \<Rightarrow> uuid \<Rightarrow> uuid \<Rightarrow> date \<Rightarrow> date \<Rightarrow> line_row list" where
  "report_lines d tenant_id property_id date_from date_to =
     filter (\<lambda>l. report_booking d tenant_id property_id l \<and> date_from \<le> bl_date l \<and> bl_date l \<le> date_to) (booking_lines d)"

definition occupied_by_date :: "db \<Rightarrow> uuid \<Rightarrow> uuid \<Rightarrow> date \<Rightarrow> date \<Rightarrow> (date \<times> int) list" where
  "occupied_by_date d tenant_id property_id date_from date_to =
     group_sum bl_date (\<lambda>_. 1) (report_lines d tenant_id property_id date_from date_to)"

definition ledger_of_property :: "db \<Rightarrow> uuid \<Rightarrow> uuid \<Rightarrow> ledger_row \<Rightarrow> bool" where
  "ledger_of_property d tenant_id property_id r \<longleftrightarrow> al_tenant_id r = tenant_id \<and>
     list_ex (\<lambda>rt. rt_tenant_id rt = al_tenant_id r \<and> rt_id rt = al_room_type_id r \<and> rt_property_id rt = property_id) (room_types d)"

definition available_by_date :: "db \<Rightarrow> uuid \<Rightarrow> uuid \<Rightarrow> date \<Rightarrow> date \<Rightarrow> (date \<times> int) list" where
  "available_by_date d tenant_id property_id date_from date_to =
     group_sum al_date (\<lambda>r. al_total_rooms r - al_blocked_rooms r)
       (filter (\<lambda>r. ledger_of_property d tenant_id property_id r \<and> date_from \<le> al_date r \<and> al_date r \<le> date_to) (ledger d))"

definition room_revenue_by_date :: "db \<Rightarrow> uuid \<Rightarrow> uuid \<Rightarrow> date \<Rightarrow> date \<Rightarrow> (date \<times> decimal) list" where
  "room_revenue_by_date d tenant_id property_id date_from date_to =
     map (\<lambda>(k, v). (k, q_even v)) (group_sum bl_date bl_price_for_date (report_lines d tenant_id property_id date_from date_to))"

text \<open>\<^verbatim>\<open>m[k] = _q2(m[k] + amt)\<close> on a dictionary with default zero.\<close>

definition accumulate :: "'k \<Rightarrow> decimal \<Rightarrow> ('k \<times> decimal) list \<Rightarrow> ('k \<times> decimal) list" where
  "accumulate k amt m = dict_put k (q_even (dict_get0 m k + amt)) m"

record folio_figures =
  fg_other :: "((date \<times> string) \<times> decimal) list"
  fg_tax :: "(date \<times> decimal) list"
  fg_payments :: "(date \<times> decimal) list"

definition add_figure :: "(date \<times> string \<times> string) \<times> decimal \<Rightarrow> folio_figures \<Rightarrow> folio_figures" where
  "add_figure g f = (case g of ((x, tx_type, cat), amount) \<Rightarrow>
     let amt = q_even amount in
     if tx_type = ''Payment'' then f\<lparr>fg_payments := accumulate x amt (fg_payments f)\<rparr>
     else if tx_type = ''Charge''
     then if cat = ''tax'' then f\<lparr>fg_tax := accumulate x amt (fg_tax f)\<rparr>
          else if cat \<noteq> ''room_charge'' then f\<lparr>fg_other := accumulate (x, cat) amt (fg_other f)\<rparr> else f
     else f)"

definition folio_aggregates_by_date ::
  "db \<Rightarrow> uuid \<Rightarrow> uuid \<Rightarrow> (timestamp \<Rightarrow> int) \<Rightarrow> date \<Rightarrow> date \<Rightarrow> folio_figures" where
  "folio_aggregates_by_date d tenant_id property_id off date_from date_to =
     (let local_date = (\<lambda>r. day_of (ft_created_at r + off (ft_created_at r)));
          rows = filter (\<lambda>r. ft_tenant_id r = tenant_id \<and> date_from \<le> local_date r \<and> local_date r \<le> date_to \<and>
            list_ex (\<lambda>b. bk_tenant_id b = ft_tenant_id r \<and> bk_id b = ft_booking_id r \<and> bk_property_id b = property_id) (bookings d))
            (folio_transactions d)
      in fold add_figure (group_sum (\<lambda>r. (local_date r, ft_transaction_type r, ft_category r)) ft_amount rows)
           \<lparr>fg_other = [], fg_tax = [], fg_payments = []\<rparr>)"

subsection \<open>Reports\<close>

record occupancy_row =
  oc_date :: date
  oc_occupied_rooms :: int
  oc_available_rooms :: int
  oc_occupancy_pct :: string

definition get_occupancy_report :: "db \<Rightarrow> uuid \<Rightarrow> uuid \<Rightarrow> date \<Rightarrow> date \<Rightarrow> (string \<times> occupancy_row list) result" where
  "get_occupancy_report d tenant_id property_id date_from date_to =
     r_bind (report_property d tenant_id property_id) (\<lambda>p.
     let occ = occupied_by_date d tenant_id property_id date_from date_to;
         avail = available_by_date d tenant_id property_id date_from date_to
     in Inr (pr_currency p, map (\<lambda>x. \<lparr>oc_date = x, oc_occupied_rooms = dict_get0 occ x, oc_available_rooms = dict_get0 avail x,
          oc_occupancy_pct = pct_str (dict_get0 occ x) (dict_get0 avail x)\<rparr>) (daterange date_from date_to)))"

record revenue_row =
  rv_date :: date
  rv_room_revenue :: string
  rv_other_charges :: "(string \<times> string) list"
  rv_tax_total :: string
  rv_payments_total :: string

record revenue_report =
  rr_currency :: string
  rr_rows :: "revenue_row list"
  rr_room_revenue_total :: string
  rr_other_charges_total :: "(string \<times> string) list"
  rr_tax_total :: string
  rr_payments_total :: string

definition other_of :: "folio_figures \<Rightarrow> date \<Rightarrow> (string \<times> decimal) list" where
  "other_of f x = map (\<lambda>((_, cat), v). (cat, v)) (filter (\<lambda>((y, _), _). y = x) (fg_other f))"

definition sorted_money :: "(string \<times> decimal) list \<Rightarrow> (string \<times> string) list" where
  "sorted_money m = map (\<lambda>(k, v). (k, report_money v)) (sort_key fst m)"

definition running_total :: "(date \<Rightarrow> decimal) \<Rightarrow> date list \<Rightarrow> decimal" where
  "running_total f xs = fold (\<lambda>x acc. q_even (acc + f x)) xs 0"

definition get_revenue_report :: "zones \<Rightarrow> db \<Rightarrow> uuid \<Rightarrow> uuid \<Rightarrow> date \<Rightarrow> date \<Rightarrow> revenue_report result" where
  "get_revenue_report z d tenant_id property_id date_from date_to =
     r_bind (report_property d tenant_id property_id) (\<lambda>p.
     r_bind (property_zoneinfo z p) (\<lambda>off.
     let room = dict_get0 (room_revenue_by_date d tenant_id property_id date_from date_to);
         f = folio_aggregates_by_date d tenant_id property_id off date_from date_to;
         xs = daterange date_from date_to;
         other_totals = fold (\<lambda>x m. fold (\<lambda>(cat, amt). accumulate cat amt) (other_of f x) m) xs []
     in Inr \<lparr>rr_currency = pr_currency p,
          rr_rows = map (\<lambda>x. \<lparr>rv_date = x, rv_room_revenue = report_money (room x), rv_other_charges = sorted_money (other_of f x),
             rv_tax_total = report_money (dict_get0 (fg_tax f) x), rv_payments_total = report_money (dict_get0 (fg_payments f) x)\<rparr>) xs,
          rr_room_revenue_total = report_money (running_total room xs), rr_other_charges_total = sorted_money other_totals,
          rr_tax_total = report_money (running_total (dict_get0 (fg_tax f)) xs),
          rr_payments_total = report_money (running_total (dict_get0 (fg_payments f)) xs)\<rparr>))"

record kpi_report =
  kp_currency :: string
  kp_sold_nights :: int
  kp_available_nights :: int
  kp_room_revenue :: string
  kp_occupancy_pct :: string
  kp_adr :: string
  kp_revpar :: string

definition get_kpi_report :: "db \<Rightarrow> uuid \<Rightarrow> uuid \<Rightarrow> date \<Rightarrow> date \<Rightarrow> kpi_report result" where
  "get_kpi_report d tenant_id property_id date_from date_to =
     r_bind (report_property d tenant_id property_id) (\<lambda>p.
     let xs = daterange date_from date_to;
         room_revenue = running_total (dict_get0 (room_revenue_by_date d tenant_id property_id date_from date_to)) xs;
         sold = sum_list (map (dict_get0 (occupied_by_date d tenant_id property_id date_from date_to)) xs);
         available = sum_list (map (dict_get0 (available_by_date d tenant_id property_id date_from date_to)) xs);
         adr = (if sold = 0 then 0 else q_even (dec_quot room_revenue (of_int sold)));
         revpar = (if available = 0 then 0 else q_even (dec_quot room_revenue (of_int available)))
     in Inr \<lparr>kp_currency = pr_currency p, kp_sold_nights = sold, kp_available_nights = available, kp_room_revenue = report_money room_revenue,
             kp_occupancy_pct = pct_str sold available, kp_adr = report_money adr, kp_revpar = report_money revpar\<rparr>)"

subsection \<open>CSV\<close>

text \<open>
  \<^verbatim>\<open>csv.writer\<close> with its defaults: a field is quoted when it contains a comma, a quote or a line break,
  and quotes inside are doubled. The byte order mark is written in UTF-8.
\<close>

definition csv_special :: "char \<Rightarrow> bool" where
  "csv_special c \<longleftrightarrow> c \<in> {CHR '','', CHR 34, CHR 13, CHR 10}"

definition csv_field :: "string \<Rightarrow> string" where
  "csv_field s =
     (if list_ex csv_special s then [CHR 34] @ concat (map (\<lambda>c. if c = CHR 34 then [CHR 34, CHR 34] else [c]) s) @ [CHR 34] else s)"

definition csv_row :: "string list \<Rightarrow> string" where
  "csv_row cells = (if cells = [[]] then [CHR 34, CHR 34] else join '','' (map csv_field cells)) @ [CHR 13, CHR 10]"

definition rows_to_csv :: "string list \<Rightarrow> string list list \<Rightarrow> string list" where
  "rows_to_csv headers rows = [CHR 0xEF, CHR 0xBB, CHR 0xBF] # csv_row headers # map csv_row rows"

definition int_str :: "int \<Rightarrow> string" where
  "int_str n = num_str (of_int n)"

definition occupancy_report_csv_rows :: "occupancy_row list \<Rightarrow> string list" where
  "occupancy_report_csv_rows rows = rows_to_csv [''date'', ''occupied_rooms'', ''available_rooms'', ''occupancy_pct'']
     (map (\<lambda>r. [iso_date (oc_date r), int_str (oc_occupied_rooms r), int_str (oc_available_rooms r), oc_occupancy_pct r]) rows)"

definition revenue_report_csv_rows :: "revenue_report \<Rightarrow> string list" where
  "revenue_report_csv_rows report =
     (let keys = sort (remdups (concat (map (\<lambda>r. map fst (rv_other_charges r)) (rr_rows report))))
      in rows_to_csv ([''date'', ''room_revenue''] @ keys @ [''tax_total'', ''payments_total''])
           (map (\<lambda>r. [iso_date (rv_date r), rv_room_revenue r] @
              map (\<lambda>k. case map_of (rv_other_charges r) k of None \<Rightarrow> ''0.00'' | Some v \<Rightarrow> v) keys @
              [rv_tax_total r, rv_payments_total r]) (rr_rows report)))"

definition kpi_report_csv_rows :: "uuid \<Rightarrow> date \<Rightarrow> date \<Rightarrow> kpi_report \<Rightarrow> string list" where
  "kpi_report_csv_rows property_id date_from date_to r = rows_to_csv
     [''property_id'', ''date_from'', ''date_to'', ''currency'', ''sold_nights'', ''available_nights'', ''room_revenue'', ''occupancy_pct'',
      ''adr'', ''revpar'']
     [[uuid_str property_id, iso_date date_from, iso_date date_to, kp_currency r, int_str (kp_sold_nights r), int_str (kp_available_nights r),
       kp_room_revenue r, kp_occupancy_pct r, kp_adr r, kp_revpar r]]"

subsection \<open>Dashboard\<close>

record dashboard_summary =
  ds_arrivals_today :: nat
  ds_departures_today :: nat
  ds_occupied_rooms :: int
  ds_total_rooms :: int
  ds_dirty_rooms :: nat
  ds_currency :: string
  ds_unpaid_folio :: "(uuid \<times> string \<times> string option) list"

definition ledger_today :: "db \<Rightarrow> uuid \<Rightarrow> uuid \<Rightarrow> date \<Rightarrow> ledger_row list" where
  "ledger_today d tenant_id property_id x = filter (\<lambda>r. ledger_of_property d tenant_id property_id r \<and> al_date r = x) (ledger d)"

definition unpaid_rows :: "db \<Rightarrow> uuid \<Rightarrow> uuid \<Rightarrow> (uuid \<times> string \<times> string option) list" where
  "unpaid_rows d tenant_id property_id =
     map (\<lambda>(bid, bal, fn, ln). let name = py_strip (fn @ '' '' @ ln) in (bid, money_str bal, if name = [] then None else Some name))
       (list_unpaid_folio_summary_for_property d tenant_id property_id None False)"

definition get_dashboard_summary :: "zones \<Rightarrow> db \<Rightarrow> uuid \<Rightarrow> uuid \<Rightarrow> dashboard_summary result" where
  "get_dashboard_summary z d tenant_id property_id =
     r_bind (require (find (\<lambda>p. pr_tenant_id p = tenant_id \<and> pr_id p = property_id) (properties d))
               (DashboardServiceError ''property not found'' 404)) (\<lambda>p.
     let tz_id = py_strip (pr_timezone p) in
     r_bind (guard (tz_id \<noteq> []) (DashboardServiceError ''property timezone is empty'' 400)) (\<lambda>_.
     r_bind (require (utc_offset z tz_id) (DashboardServiceError (invalid_zone (pr_timezone p)) 400)) (\<lambda>off.
     let today_local = day_of (db_now d + off (db_now d));
         rows = ledger_today d tenant_id property_id today_local
     in Inr \<lparr>ds_arrivals_today = count_arrivals d tenant_id property_id today_local,
             ds_departures_today = count_departures d tenant_id property_id today_local,
             ds_occupied_rooms = sum_list (map al_booked_rooms rows), ds_total_rooms = sum_list (map al_total_rooms rows),
             ds_dirty_rooms = length (filter (\<lambda>r. rm_tenant_id r = tenant_id \<and> rm_housekeeping_status r = ''dirty'' \<and> rm_deleted_at r = None \<and>
               list_ex (\<lambda>rt. rt_tenant_id rt = rm_tenant_id r \<and> rt_id rt = rm_room_type_id r \<and> rt_property_id rt = property_id) (room_types d))
               (rooms d)),
             ds_currency = pr_currency p, ds_unpaid_folio = unpaid_rows d tenant_id property_id\<rparr>)))"

subsection \<open>Routes\<close>

definition reports_read_dep :: "request_state \<Rightarrow> unit result" where
  "reports_read_dep = chain_dependency_runners [require_roles [''owner'', ''manager''], require_scopes [''bookings:read'']]"

definition reports_http :: "error \<Rightarrow> (string \<times> nat) option" where
  "reports_http e = (case e of ReportsServiceError m n \<Rightarrow> Some (m, n) | _ \<Rightarrow> None)"

datatype 'a report_reply = AsJson 'a | AsCsv string "string list"

definition csv_name :: "string \<Rightarrow> date \<Rightarrow> date \<Rightarrow> string" where
  "csv_name kind date_from date_to = kind @ ''_'' @ iso_date date_from @ ''_'' @ iso_date date_to @ ''.csv''"

definition report_endpoint ::
  "request_state \<Rightarrow> date \<Rightarrow> date \<Rightarrow> bool \<Rightarrow> string \<Rightarrow> (uuid \<Rightarrow> 'a result) \<Rightarrow> ('a \<Rightarrow> string list) \<Rightarrow> 'a report_reply result" where
  "report_endpoint s date_from date_to as_csv kind run csv =
     for_tenant reports_read_dep s (\<lambda>t. r_bind (report_range_ok date_from date_to) (\<lambda>_.
     r_bind (http_error reports_http (run t)) (\<lambda>report.
     Inr (if as_csv then AsCsv (csv_name kind date_from date_to) (csv report) else AsJson report))))"

definition get_occupancy_report_endpoint ::
  "db \<Rightarrow> request_state \<Rightarrow> uuid \<Rightarrow> date \<Rightarrow> date \<Rightarrow> bool \<Rightarrow> (string \<times> occupancy_row list) report_reply result" where
  "get_occupancy_report_endpoint d s property_id date_from date_to as_csv =
     report_endpoint s date_from date_to as_csv ''occupancy'' (\<lambda>t. get_occupancy_report d t property_id date_from date_to)
       (\<lambda>(_, rows). occupancy_report_csv_rows rows)"

definition get_revenue_report_endpoint ::
  "zones \<Rightarrow> db \<Rightarrow> request_state \<Rightarrow> uuid \<Rightarrow> date \<Rightarrow> date \<Rightarrow> bool \<Rightarrow> revenue_report report_reply result" where
  "get_revenue_report_endpoint z d s property_id date_from date_to as_csv =
     report_endpoint s date_from date_to as_csv ''revenue'' (\<lambda>t. get_revenue_report z d t property_id date_from date_to) revenue_report_csv_rows"

definition get_kpi_report_endpoint ::
  "db \<Rightarrow> request_state \<Rightarrow> uuid \<Rightarrow> date \<Rightarrow> date \<Rightarrow> bool \<Rightarrow> kpi_report report_reply result" where
  "get_kpi_report_endpoint d s property_id date_from date_to as_csv =
     report_endpoint s date_from date_to as_csv ''kpi'' (\<lambda>t. get_kpi_report d t property_id date_from date_to)
       (kpi_report_csv_rows property_id date_from date_to)"

definition dashboard_http :: "error \<Rightarrow> (string \<times> nat) option" where
  "dashboard_http e = (case e of DashboardServiceError m n \<Rightarrow> Some (m, n) | _ \<Rightarrow> None)"

definition get_dashboard_summary_endpoint :: "zones \<Rightarrow> db \<Rightarrow> request_state \<Rightarrow> uuid \<Rightarrow> dashboard_summary result" where
  "get_dashboard_summary_endpoint z d s property_id =
     for_tenant bookings_read_dep s (\<lambda>t. http_error dashboard_http (get_dashboard_summary z d t property_id))"

definition get_dashboard_unpaid_folio_summary :: "db \<Rightarrow> request_state \<Rightarrow> uuid \<Rightarrow> (uuid \<times> string \<times> string option) list result" where
  "get_dashboard_unpaid_folio_summary d s property_id =
     for_tenant bookings_read_dep s (\<lambda>t. r_bind (guard (property_belongs_to_tenant d t property_id) (HTTPException ''property not found'' 404)) (\<lambda>_.
       Inr (unpaid_rows d t property_id)))"

subsection \<open>Grouping\<close>

lemma dict_get0_group: "dict_get0 (group_sum key val xs) k = sum_list (map val (filter (\<lambda>x. key x = k) xs))"
proof (cases "k \<in> set (map key xs)")
  case True
  then show ?thesis by (simp add: dict_get0_def group_sum_def map_of_graph)
next
  case False
  then have "filter (\<lambda>x. key x = k) xs = []" by (auto simp: filter_empty_conv)
  moreover have "map_of (group_sum key val xs) k = None"
    using False by (simp add: group_sum_def map_of_eq_None_iff image_image)
  ultimately show ?thesis by (simp add: dict_get0_def)
qed

lemma dict_get0_groups: "dict_get0 (group_sum key val xs) = (\<lambda>k. sum_list (map val (filter (\<lambda>x. key x = k) xs)))"
  by (rule ext) (rule dict_get0_group)

lemma sum_by_key:
  fixes val :: "'a \<Rightarrow> 'n::comm_monoid_add"
  assumes "distinct ks" "\<And>x. x \<in> set xs \<Longrightarrow> key x \<in> set ks"
  shows "sum_list (map (\<lambda>k. sum_list (map val (filter (\<lambda>x. key x = k) xs))) ks) = sum_list (map val xs)"
  using assms(2)
proof (induction xs)
  case (Cons x xs)
  have "sum_list (map (\<lambda>k. sum_list (map val (filter (\<lambda>y. key y = k) (x # xs)))) ks) =
      sum_list (map (\<lambda>k. (if key x = k then val x else 0) + sum_list (map val (filter (\<lambda>y. key y = k) xs))) ks)"
    by (intro arg_cong [of _ _ sum_list] map_cong) auto
  also have "\<dots> = sum_list (map (\<lambda>k. if key x = k then val x else 0) ks) + sum_list (map val xs)"
    using Cons by (simp add: sum_list_addf)
  also have "sum_list (map (\<lambda>k. if key x = k then val x else 0) ks) = val x"
    using Cons.prems [of x] assms(1) by (simp add: sum_list_distinct_conv_sum_set)
  finally show ?case by simp
qed simp

lemma distinct_daterange: "distinct (daterange a b)" and set_daterange: "set (daterange a b) = {a..b}"
proof -
  show "distinct (daterange a b)" by (simp add: daterange_def distinct_map inj_on_def)
  show "set (daterange a b) = {a..b}"
  proof (rule set_eqI)
    fix x
    show "x \<in> set (daterange a b) \<longleftrightarrow> x \<in> {a..b}"
      by (auto simp: daterange_def image_iff intro!: bexI [of _ "nat (x - a)"])
  qed
qed

subsection \<open>Occupancy and the ledger\<close>

lemma sum_occupied:
  assumes "finite K"
  shows "(\<Sum>k\<in>K. occupied d k) = sum_list (map (\<lambda>l. if bl_bucket l \<in> K \<and> line_active (bookings d) l then 1 else 0) (booking_lines d))"
proof -
  have "(\<Sum>k\<in>K. measure_of (line_weight bs k) ls) = sum_list (map (\<lambda>l. if bl_bucket l \<in> K \<and> line_active bs l then 1 else 0) ls)" for bs ls
  proof (induction ls)
    case (Cons l ls)
    have "(\<Sum>k\<in>K. line_weight bs k l) = (if bl_bucket l \<in> K \<and> line_active bs l then 1 else 0)"
      using assms by (simp add: line_weight_def if_distrib sum.delta' cong: if_cong conj_cong)
    then show ?case using Cons by (simp add: night_count.measure_Cons sum.distrib)
  qed (simp add: night_count.measure_Nil)
  then show ?thesis by (simp add: occupied_def)
qed

lemma sum_lookup:
  assumes "finite K" "distinct (map al_bucket rows)"
  shows "(\<Sum>k\<in>K. case lookup_row al_bucket rows k of None \<Rightarrow> 0 | Some r \<Rightarrow> f r) = (sum_list (map f (filter (\<lambda>r. al_bucket r \<in> K) rows)) :: int)"
  using assms(2)
proof (induction rows)
  case (Cons r rows)
  have none: "lookup_row al_bucket rows (al_bucket r) = None" using Cons.prems by (auto simp: tb_bucket.lookup_None)
  have "(\<Sum>k\<in>K. case lookup_row al_bucket (r # rows) k of None \<Rightarrow> 0 | Some r \<Rightarrow> f r) =
      (\<Sum>k\<in>K. (if k = al_bucket r then f r else 0) + (case lookup_row al_bucket rows k of None \<Rightarrow> 0 | Some r \<Rightarrow> f r))"
    by (rule sum.cong) (use none in \<open>auto simp: lookup_row_def\<close>)
  then show ?case using Cons assms(1) by (simp add: sum.distrib sum.delta')
qed (simp add: lookup_row_def)

lemma sum_booked:
  assumes "finite K" "ledger_wf d"
  shows "(\<Sum>k\<in>K. booked d k) = sum_list (map al_booked_rooms (filter (\<lambda>r. al_bucket r \<in> K) (ledger d)))"
proof -
  have "booked d k = (case lookup_row al_bucket (ledger d) k of None \<Rightarrow> 0 | Some r \<Rightarrow> al_booked_rooms r)" for k
    by (simp add: booked_def booked_at_def bucket_row_def split: option.splits)
  then show ?thesis using assms by (simp add: sum_lookup ledger_wf_def)
qed

text \<open>Every line of a booking is of a category of the booking's property.\<close>

definition on_property :: "db \<Rightarrow> uuid \<Rightarrow> uuid \<Rightarrow> uuid \<Rightarrow> bool" where
  "on_property d tenant_id room_type_id property_id \<longleftrightarrow>
     list_ex (\<lambda>rt. rt_tenant_id rt = tenant_id \<and> rt_id rt = room_type_id \<and> rt_property_id rt = property_id) (room_types d)"

definition categories_match :: "db \<Rightarrow> bool" where
  "categories_match d \<longleftrightarrow> list_all (\<lambda>l. list_all (\<lambda>b. bk_tenant_id b = bl_tenant_id l \<and> bk_id b = bl_booking_id l \<longrightarrow>
     on_property d (bl_tenant_id l) (bl_room_type_id l) (bk_property_id b) \<and>
     list_all (\<lambda>rt. rt_tenant_id rt = bl_tenant_id l \<and> rt_id rt = bl_room_type_id l \<longrightarrow> rt_property_id rt = bk_property_id b) (room_types d))
     (bookings d)) (booking_lines d)"

definition property_buckets :: "db \<Rightarrow> uuid \<Rightarrow> uuid \<Rightarrow> date \<Rightarrow> bucket set" where
  "property_buckets d t p x = (\<lambda>rt. (t, rt_id rt, x)) ` {rt \<in> set (room_types d). rt_tenant_id rt = t \<and> rt_property_id rt = p}"

lemma mem_property_buckets: "(t', rt, x') \<in> property_buckets d t p x \<longleftrightarrow> t' = t \<and> x' = x \<and> on_property d t rt p"
  by (auto simp: property_buckets_def on_property_def list_ex_iff)

lemma report_line_iff:
  assumes "inventory_inv d" "categories_match d" "l \<in> set (booking_lines d)"
  shows "report_booking d t p l \<and> bl_date l = x \<longleftrightarrow> bl_bucket l \<in> property_buckets d t p x \<and> line_active (bookings d) l"
proof -
  have act: "bk_status b \<notin> set ACTIVE_EXCLUDE \<longleftrightarrow> active_booking b" if "b \<in> set (bookings d)" for b
    using that inventory_invD(2) [OF assms(1)]
    by (auto simp: bookings_ok_def list_all_iff active_known ACTIVE_EXCLUDE_def KNOWN_STATUSES_def)
  have cat: "on_property d (bl_tenant_id l) (bl_room_type_id l) q \<longleftrightarrow> q = bk_property_id b"
    if "b \<in> set (bookings d)" "bk_tenant_id b = bl_tenant_id l" "bk_id b = bl_booking_id l" for b q
    using that assms(2,3) by (auto simp: categories_match_def list_all_iff on_property_def list_ex_iff)
  show ?thesis (is "?L \<longleftrightarrow> ?R")
  proof
    assume ?L
    then show ?R using act cat by (fastforce simp: bl_bucket_def mem_property_buckets report_booking_def line_active_def active_at_def list_ex_iff)
  next
    assume ?R
    then show ?L using act cat by (fastforce simp: bl_bucket_def mem_property_buckets report_booking_def line_active_def active_at_def list_ex_iff)
  qed
qed

lemma count_filter: "sum_list (map (\<lambda>x. if P x then 1 else 0) xs) = (sum_list (map (\<lambda>_. 1) (filter P xs)) :: int)"
  by (induction xs) auto

lemma occupied_is_booked:
  assumes "inventory_inv d" "categories_match d" "date_from \<le> x" "x \<le> date_to"
  shows "dict_get0 (occupied_by_date d t p date_from date_to) x = sum_list (map al_booked_rooms (ledger_today d t p x))"
proof -
  let ?K = "property_buckets d t p x"
  have fin: "finite ?K" by (simp add: property_buckets_def)
  have "filter (\<lambda>l. bl_date l = x) (report_lines d t p date_from date_to) =
      filter (\<lambda>l. report_booking d t p l \<and> bl_date l = x) (booking_lines d)"
    using assms(3,4) by (auto simp: report_lines_def intro: filter_cong)
  also have "\<dots> = filter (\<lambda>l. bl_bucket l \<in> ?K \<and> line_active (bookings d) l) (booking_lines d)"
    by (rule filter_cong) (simp_all add: report_line_iff [OF assms(1,2)])
  finally have "dict_get0 (occupied_by_date d t p date_from date_to) x = (\<Sum>k\<in>?K. occupied d k)"
    by (simp add: occupied_by_date_def dict_get0_group sum_occupied [OF fin] count_filter)
  also have "\<dots> = (\<Sum>k\<in>?K. booked d k)" using inventory_invD(5) [OF assms(1)] by simp
  also have "\<dots> = sum_list (map al_booked_rooms (filter (\<lambda>r. al_bucket r \<in> ?K) (ledger d)))"
    by (rule sum_booked [OF fin inventory_invD(1) [OF assms(1)]])
  also have "filter (\<lambda>r. al_bucket r \<in> ?K) (ledger d) = ledger_today d t p x"
    unfolding ledger_today_def
    by (rule filter_cong) (auto simp: al_bucket_def mem_property_buckets ledger_of_property_def on_property_def)
  finally show ?thesis .
qed

lemma available_is_ledger:
  assumes "date_from \<le> x" "x \<le> date_to"
  shows "dict_get0 (available_by_date d t p date_from date_to) x =
    sum_list (map (\<lambda>r. al_total_rooms r - al_blocked_rooms r) (ledger_today d t p x))"
proof -
  have "filter (\<lambda>r. (ledger_of_property d t p r \<and> date_from \<le> al_date r \<and> al_date r \<le> date_to) \<and> al_date r = x) (ledger d) =
      ledger_today d t p x"
    unfolding ledger_today_def using assms by (auto intro: filter_cong)
  then show ?thesis by (simp add: available_by_date_def dict_get0_group conj_commute)
qed


definition demo_sold :: db where
  "demo_sold = demo_db\<lparr>
     bookings := [\<lparr>bk_id = 700, bk_tenant_id = 1, bk_property_id = 10, bk_guest_id = 50, bk_rate_plan_id = Some 30,
       bk_external_booking_id = None, bk_status = ''confirmed'', bk_source = ''api'', bk_total_amount = 240, bk_notes = None\<rparr>],
     booking_lines := map (\<lambda>i. \<lparr>bl_id = 710 + i, bl_tenant_id = 1, bl_booking_id = 700, bl_date = 100 + i, bl_room_type_id = 20,
       bl_room_id = Some 41, bl_price_for_date = 120\<rparr>) [0, 1],
     ledger := map (\<lambda>i. (demo_ledger_row i)\<lparr>al_booked_rooms := if i < 2 then 1 else 0\<rparr>) [0, 1, 2, 3]\<rparr>"

lemma demo_sold_ok: "hotel_ok demo_sold" "categories_match demo_sold"
  by code_simp+

lemma demo_sold_reports: "\<exists>p. report_property demo_sold 1 10 = Inr p \<and> (\<exists>off. property_zoneinfo demo_zones p = Inr off)"
proof -
  have "succeeds (r_bind (report_property demo_sold 1 10) (property_zoneinfo demo_zones))" by code_simp
  then show ?thesis by (cases "report_property demo_sold 1 10"; cases "r_bind (report_property demo_sold 1 10) (property_zoneinfo demo_zones)") auto
qed


subsection \<open>Totals\<close>

lemma running_total_exact:
  assumes "\<And>x. in_cents (f x)"
  shows "running_total f xs = sum_list (map f xs)"
proof -
  have "in_cents a \<Longrightarrow> fold (\<lambda>x acc. q_even (acc + f x)) xs a = a + sum_list (map f xs)" for a
    by (induction xs arbitrary: a) (simp_all add: half_even.quantize_add_cents assms in_cents_add algebra_simps)
  from this [of 0] show ?thesis by (simp add: running_total_def)
qed

definition prices_in_cents :: "db \<Rightarrow> bool" where
  "prices_in_cents d \<longleftrightarrow> list_all (\<lambda>l. in_cents (bl_price_for_date l)) (booking_lines d)"

lemma room_revenue_exact:
  assumes "prices_in_cents d"
  shows "dict_get0 (room_revenue_by_date d t p a b) x = sum_list (map bl_price_for_date (filter (\<lambda>l. bl_date l = x) (report_lines d t p a b)))"
    and "in_cents (dict_get0 (room_revenue_by_date d t p a b) x)"
proof -
  have cents: "in_cents (sum_list (map bl_price_for_date (filter P (report_lines d t p a b))))" for P
    by (rule in_cents_sum_list) (use assms in \<open>auto simp: prices_in_cents_def list_all_iff report_lines_def\<close>)
  have "room_revenue_by_date d t p a b = group_sum bl_date bl_price_for_date (report_lines d t p a b)"
    by (simp add: room_revenue_by_date_def group_sum_def half_even.quantize_exact [OF cents])
  then show "dict_get0 (room_revenue_by_date d t p a b) x = sum_list (map bl_price_for_date (filter (\<lambda>l. bl_date l = x) (report_lines d t p a b)))"
    by (simp add: dict_get0_group)
  with cents show "in_cents (dict_get0 (room_revenue_by_date d t p a b) x)" by simp
qed

lemma lines_by_day:
  fixes val :: "line_row \<Rightarrow> 'n::comm_monoid_add"
  shows "sum_list (map (\<lambda>x. sum_list (map val (filter (\<lambda>l. bl_date l = x) (report_lines d t p a b)))) (daterange a b)) =
    sum_list (map val (report_lines d t p a b))"
  by (rule sum_by_key [OF distinct_daterange]) (auto simp: set_daterange report_lines_def)

text \<open>
  C38. The three reports of a range agree. The room revenue of the key figures and of the revenue
  report is the sum of the prices of the booked nights, with no cent lost to the rounding after each
  day, the nights sold are the nights counted by the occupancy report, and the available nights are
  the sum of its available rooms.
\<close>

theorem report_totals_agree:
  assumes "prices_in_cents d"
    and "get_revenue_report z d t p date_from date_to = Inr rr" "get_kpi_report d t p date_from date_to = Inr kpi"
    and "get_occupancy_report d t p date_from date_to = Inr (cur, rows)"
  shows "kp_room_revenue kpi = report_money (sum_list (map bl_price_for_date (report_lines d t p date_from date_to))) \<and>
    rr_room_revenue_total rr = kp_room_revenue kpi \<and>
    kp_sold_nights kpi = int (length (report_lines d t p date_from date_to)) \<and>
    sum_list (map oc_occupied_rooms rows) = kp_sold_nights kpi \<and> sum_list (map oc_available_rooms rows) = kp_available_nights kpi"
proof -
  let ?room = "dict_get0 (room_revenue_by_date d t p date_from date_to)"
  have total: "running_total ?room (daterange date_from date_to) = sum_list (map bl_price_for_date (report_lines d t p date_from date_to))"
    unfolding running_total_exact [OF room_revenue_exact(2) [OF assms(1)]] room_revenue_exact(1) [OF assms(1)] lines_by_day ..
  have sold: "sum_list (map (dict_get0 (occupied_by_date d t p date_from date_to)) (daterange date_from date_to)) =
      int (length (report_lines d t p date_from date_to))"
    unfolding occupied_by_date_def dict_get0_groups lines_by_day by (simp add: sum_list_triv)
  from assms(4) have occ: "map oc_occupied_rooms rows = map (dict_get0 (occupied_by_date d t p date_from date_to)) (daterange date_from date_to)"
      "map oc_available_rooms rows = map (dict_get0 (available_by_date d t p date_from date_to)) (daterange date_from date_to)"
    by (auto simp: get_occupancy_report_def Let_def)
  from assms(2) total have rr: "rr_room_revenue_total rr = report_money (sum_list (map bl_price_for_date (report_lines d t p date_from date_to)))"
    by (auto simp: get_revenue_report_def Let_def)
  from assms(3) total sold have "kp_room_revenue kpi = report_money (sum_list (map bl_price_for_date (report_lines d t p date_from date_to)))"
      "kp_sold_nights kpi = int (length (report_lines d t p date_from date_to))"
      "kp_available_nights kpi = sum_list (map (dict_get0 (available_by_date d t p date_from date_to)) (daterange date_from date_to))"
    by (auto simp: get_kpi_report_def Let_def)
  with rr sold show ?thesis unfolding occ by simp
qed

theorem report_totals_agree_witness:
  "\<exists>rr kpi. get_revenue_report demo_zones demo_sold 1 10 100 102 = Inr rr \<and> get_kpi_report demo_sold 1 10 100 102 = Inr kpi \<and>
     kp_sold_nights kpi = 2 \<and> kp_room_revenue kpi = ''240.00'' \<and> rr_room_revenue_total rr = ''240.00''"
proof -
  obtain rr where rr: "get_revenue_report demo_zones demo_sold 1 10 100 102 = Inr rr"
    using demo_sold_reports by (auto simp: get_revenue_report_def Let_def)
  obtain kpi where kpi: "get_kpi_report demo_sold 1 10 100 102 = Inr kpi"
    using demo_sold_reports by (auto simp: get_kpi_report_def Let_def)
  obtain cur rows where oc: "get_occupancy_report demo_sold 1 10 100 102 = Inr (cur, rows)"
    using demo_sold_reports by (auto simp: get_occupancy_report_def Let_def)
  have "prices_in_cents demo_sold" by code_simp
  note agree = report_totals_agree [OF this rr kpi oc]
  have "report_money (sum_list (map bl_price_for_date (report_lines demo_sold 1 10 100 102))) = ''240.00''"
    "int (length (report_lines demo_sold 1 10 100 102)) = 2" by code_simp+
  with agree rr kpi show ?thesis by simp
qed

subsection \<open>CSV can be read back\<close>

text \<open>A reader of one line: the flag says whether it is between quotes.\<close>

fun csv_cells :: "bool \<Rightarrow> string \<Rightarrow> string \<Rightarrow> string list option" where
  "csv_cells quoted acc [] = None"
| "csv_cells True acc (c # cs) =
     (if c = CHR 34 then (case cs of [] \<Rightarrow> None
        | c' # cs' \<Rightarrow> if c' = CHR 34 then csv_cells True (acc @ [c']) cs' else csv_cells False acc cs)
      else csv_cells True (acc @ [c]) cs)"
| "csv_cells False acc (c # cs) =
     (if c = CHR 34 then csv_cells True acc cs
      else if c = CHR '','' then map_option (Cons acc) (csv_cells False [] cs)
      else if c = CHR 13 then (if cs = [CHR 10] then Some [acc] else None)
      else csv_cells False (acc @ [c]) cs)"

lemma csv_read_plain: "\<not> list_ex csv_special s \<Longrightarrow> csv_cells False acc (s @ rest) = csv_cells False (acc @ s) rest"
  by (induction s arbitrary: acc) (auto simp: csv_special_def)

lemma csv_read_quoted:
  "c \<noteq> CHR 34 \<Longrightarrow> csv_cells True acc (concat (map (\<lambda>c. if c = CHR 34 then [CHR 34, CHR 34] else [c]) s) @ CHR 34 # c # rest) =
     csv_cells False (acc @ s) (c # rest)"
  by (induction s arbitrary: acc) auto

lemma csv_read_field: "c \<noteq> CHR 34 \<Longrightarrow> csv_cells False [] (csv_field s @ c # rest) = csv_cells False s (c # rest)"
  using csv_read_plain [of s "[]" "c # rest"] csv_read_quoted [of c "[]" s rest]
  by (simp add: csv_field_def del: csv_cells.simps(3)) (simp add: csv_cells.simps(3) [of _ "CHR 34"])

lemma csv_read_fields:
  "cells \<noteq> [] \<Longrightarrow> csv_cells False [] (join '','' (map csv_field cells) @ [CHR 13, CHR 10]) = Some cells"
proof (induction cells)
  case (Cons s cells)
  then show ?case by (cases cells) (simp_all add: csv_read_field)
qed simp

text \<open>
  A line of an exported report read back as CSV gives the cells that were written, whatever commas,
  quotes and line breaks a charge category contains.
\<close>

theorem csv_row_roundtrip:
  assumes "cells \<noteq> []"
  shows "csv_cells False [] (csv_row cells) = Some cells"
  using csv_read_fields [OF assms] by (simp add: csv_row_def)

theorem csv_row_roundtrip_witness:
  "csv_cells False [] (csv_row [''spa, pool'', ''10.00'', []]) = Some [''spa, pool'', ''10.00'', []] \<and>
   csv_row [''spa, pool'', ''10.00'', []] = CHR 34 # ''spa, pool'' @ CHR 34 # '',10.00,'' @ [CHR 13, CHR 10]"
  using csv_row_roundtrip [of "[''spa, pool'', ''10.00'', []]"] by (simp add: csv_row_def csv_field_def csv_special_def)

end
