(* ===== verification/Stripe.thy ===== *)
theory Stripe
  imports Booking_Routes
begin

text \<open>
  Payments through Stripe: the connection of a property to an account (\<^verbatim>\<open>stripe_connect_service.py\<close>),
  saved cards, charges and refunds (\<^verbatim>\<open>stripe_payment_service.py\<close>), the inbound webhook
  (\<^verbatim>\<open>stripe_inbound.py\<close>) and the routes. The Stripe library is a parameter, one function per call that
  the code makes, whose left value is the text of a \<^verbatim>\<open>StripeError\<close>; so are the text codecs of the OAuth
  state and the check of a webhook's signature.
\<close>

subsection \<open>State\<close>

record connection_row =
  sc_id :: uuid
  sc_tenant_id :: uuid
  sc_property_id :: uuid
  sc_stripe_account_id :: string
  sc_livemode :: bool
  sc_connected_at :: timestamp
  sc_disconnected_at :: "timestamp option"

record method_row =
  sm_id :: uuid
  sm_tenant_id :: uuid
  sm_property_id :: uuid
  sm_booking_id :: "uuid option"
  sm_stripe_pm_id :: string
  sm_card_last4 :: "string option"
  sm_card_brand :: "string option"
  sm_card_exp_month :: "int option"
  sm_card_exp_year :: "int option"
  sm_label :: "string option"
  sm_created_at :: timestamp

record charge_row =
  sh_id :: uuid
  sh_tenant_id :: uuid
  sh_property_id :: uuid
  sh_booking_id :: "uuid option"
  sh_folio_tx_id :: "uuid option"
  sh_stripe_charge_id :: string
  sh_stripe_pm_id :: "string option"
  sh_amount :: decimal
  sh_currency :: string
  sh_status :: string
  sh_failure_message :: "string option"
  sh_created_at :: timestamp

record billing =
  bi_hotel :: db
  bi_connections :: "connection_row list"
  bi_methods :: "method_row list"
  bi_charges :: "charge_row list"

record stripe_settings =
  stripe_secret_key :: string
  stripe_client_id :: string
  stripe_redirect_uri :: string
  stripe_connect_success_url :: string
  stripe_oauth_state_secret :: "string option"
  stripe_webhook_secret :: string

record card =
  ca_last4 :: "string option"
  ca_brand :: "string option"
  ca_exp_month :: "int option"
  ca_exp_year :: "int option"

record intent =
  in_id :: string
  in_status :: string

datatype verified = BadPayload | BadSignature | Verified json

record stripe_api =
  st_authorize_url :: "string \<Rightarrow> string \<Rightarrow> string \<Rightarrow> string"
  st_token :: "string \<Rightarrow> string + string option \<times> bool"
  st_deauthorize :: "string \<Rightarrow> string \<Rightarrow> string + unit"
  st_retrieve :: "string \<Rightarrow> string \<Rightarrow> string + card option"
  st_detach :: "string \<Rightarrow> string \<Rightarrow> string + unit"
  st_intent :: "int \<Rightarrow> string \<Rightarrow> string \<Rightarrow> string \<Rightarrow> string + intent"
  st_refund :: "string \<Rightarrow> int \<Rightarrow> string \<Rightarrow> string + unit"
  st_construct_event :: "string \<Rightarrow> string \<Rightarrow> string \<Rightarrow> verified"

record state_codec =
  b64_encode :: "string \<Rightarrow> string"
  b64_decode :: "string \<Rightarrow> string option"
  json_loads :: "string \<Rightarrow> json option"
  uuid_parse :: "string \<Rightarrow> uuid option"

record stripe_env =
  se_api :: stripe_api
  se_codec :: state_codec
  se_net :: net
  se_settings :: settings
  se_stripe :: stripe_settings

definition billing_id :: "billing \<Rightarrow> uuid \<times> billing" where
  "billing_id b = (next_uuid (bi_hotel b), b\<lparr>bi_hotel := (bi_hotel b)\<lparr>next_uuid := next_uuid (bi_hotel b) + 1\<rparr>\<rparr>)"

definition stripe_now :: "billing \<Rightarrow> timestamp" where
  "stripe_now b = db_now (bi_hotel b)"

subsection \<open>The stored account\<close>

definition encrypt_stripe_account_id :: "stripe_env \<Rightarrow> string \<Rightarrow> string \<Rightarrow> string result" where
  "encrypt_stripe_account_id e nonce plain =
     (let key = fernet_key (se_net e) (se_settings e)
      in r_bind (guard (fernet_ok (se_net e) key) (ValueError ''Fernet key must be 32 url-safe base64-encoded bytes.'')) (\<lambda>_.
         Inr (fernet_encrypt (se_net e) key nonce plain)))"

definition decrypt_stripe_account_id :: "stripe_env \<Rightarrow> string \<Rightarrow> string result" where
  "decrypt_stripe_account_id e stored =
     (let key = fernet_key (se_net e) (se_settings e)
      in r_bind (guard (fernet_ok (se_net e) key) (ValueError ''Fernet key must be 32 url-safe base64-encoded bytes.'')) (\<lambda>_.
         require (fernet_decrypt (se_net e) key stored) InvalidToken))"

subsection \<open>The OAuth state\<close>

definition STATE_MAX_AGE_SEC :: int where
  "STATE_MAX_AGE_SEC = 3600"

definition oauth_state_hmac_key :: "stripe_env \<Rightarrow> string result" where
  "oauth_state_hmac_key e =
     (let own = (case stripe_oauth_state_secret (se_stripe e) of None \<Rightarrow> [] | Some s \<Rightarrow> py_strip s);
          w = (case webhook_secret_fernet_key (se_settings e) of None \<Rightarrow> [] | Some s \<Rightarrow> py_strip s)
      in if own \<noteq> [] then Inr own
         else if py_upper (jwt_algorithm (se_settings e)) = ''HS256'' then Inr (jwt_secret (se_settings e))
         else if w \<noteq> [] then Inr w
         else Inl (ValueError (''Set STRIPE_OAUTH_STATE_SECRET (or WEBHOOK_SECRET_FERNET_KEY in RS256 mode) '' @
                ''for Stripe OAuth state signing'')))"

definition unpadded :: "string \<Rightarrow> string" where
  "unpadded s = rev (dropWhile (\<lambda>c. c = CHR ''='') (rev s))"

definition repadded :: "string \<Rightarrow> string" where
  "repadded s = s @ replicate ((4 - length s mod 4) mod 4) CHR ''=''"

definition state_payload :: "uuid \<Rightarrow> uuid \<Rightarrow> int \<Rightarrow> json" where
  "state_payload tenant_id property_id ts =
     JObj [(''p'', JStr (uuid_str property_id)), (''t'', JStr (uuid_str tenant_id)), (''ts'', JNum (of_int ts))]"

definition encode_oauth_state :: "stripe_env \<Rightarrow> timestamp \<Rightarrow> uuid \<Rightarrow> uuid \<Rightarrow> string result" where
  "encode_oauth_state e now tenant_id property_id =
     r_bind (oauth_state_hmac_key e) (\<lambda>key.
     let b64 = unpadded (b64_encode (se_codec e) (json_dumps (state_payload tenant_id property_id now)))
     in Inr (b64 @ ''.'' @ hmac_sha256_hex (se_net e) key b64))"

text \<open>
  \<^verbatim>\<open>str(payload["t"])\<close>, and \<^verbatim>\<open>int(payload["ts"])\<close> of a number; a text is read as a decimal numeral. Only
  a payload that is not an object, or a list or null as the time, raises a \<^verbatim>\<open>TypeError\<close>, which is not
  caught.
\<close>

definition py_int :: "json \<Rightarrow> int result" where
  "py_int j = (case j of
       JNum q \<Rightarrow> Inr (if q < 0 then - \<lfloor>- q\<rfloor> else \<lfloor>q\<rfloor>)
     | JBool v \<Rightarrow> Inr (if v then 1 else 0)
     | JStr s \<Rightarrow> (let (sg, ds) = take_sign (py_strip s)
         in if ds = [] \<or> \<not> list_all is_digit ds then Inl (ValueError ''invalid literal for int() with base 10'')
            else Inr ((if sg < 0 then -1 else 1) * int (nat_of_digits ds)))
     | _ \<Rightarrow> Inl (TypeError))"

definition decode_oauth_state :: "stripe_env \<Rightarrow> timestamp \<Rightarrow> string \<Rightarrow> (uuid \<times> uuid) result" where
  "decode_oauth_state e now state =
     (let invalid = StripeConnectError ''invalid state'' 400;
          c = se_codec e; b64 = takeWhile (\<lambda>x. x \<noteq> CHR ''.'') state
      in r_bind (oauth_state_hmac_key e) (\<lambda>key.
         r_bind (guard (CHR ''.'' \<in> set state) invalid) (\<lambda>_.
         r_bind (guard (drop (Suc (length b64)) state = hmac_sha256_hex (se_net e) key b64) invalid) (\<lambda>_.
         r_bind (require (Option.bind (b64_decode c (repadded b64)) (json_loads c)) invalid) (\<lambda>payload.
         r_bind (case payload of JObj kvs \<Rightarrow> Inr kvs | _ \<Rightarrow> Inl (TypeError)) (\<lambda>kvs.
         r_bind (require (Option.bind (map_of kvs ''t'') (\<lambda>j. uuid_parse c (py_str j))) invalid) (\<lambda>tenant_id.
         r_bind (require (Option.bind (map_of kvs ''p'') (\<lambda>j. uuid_parse c (py_str j))) invalid) (\<lambda>property_id.
         r_bind (require (map_of kvs ''ts'') invalid) (\<lambda>j.
         r_bind (case py_int j of Inl (ValueError _) \<Rightarrow> Inl invalid | r \<Rightarrow> r) (\<lambda>ts.
         r_bind (guard (now - ts \<le> STATE_MAX_AGE_SEC) (StripeConnectError ''state expired'' 400)) (\<lambda>_.
         Inr (tenant_id, property_id))))))))))))"

subsection \<open>Connecting\<close>

definition configured :: "string \<Rightarrow> error \<Rightarrow> unit result" where
  "configured s x = guard (py_strip s \<noteq> []) x"

definition require_stripe_oauth_settings :: "stripe_env \<Rightarrow> unit result" where
  "require_stripe_oauth_settings e =
     r_bind (configured (stripe_client_id (se_stripe e)) (StripeConnectError ''Stripe client_id is not configured'' 503)) (\<lambda>_.
       configured (stripe_redirect_uri (se_stripe e)) (StripeConnectError ''Stripe redirect_uri is not configured'' 503))"

definition require_connect_secret :: "stripe_env \<Rightarrow> unit result" where
  "require_connect_secret e =
     configured (stripe_secret_key (se_stripe e)) (StripeConnectError ''Stripe secret key is not configured'' 503)"

definition build_connect_authorize_url :: "stripe_env \<Rightarrow> timestamp \<Rightarrow> uuid \<Rightarrow> uuid \<Rightarrow> string result" where
  "build_connect_authorize_url e now tenant_id property_id =
     r_bind (require_stripe_oauth_settings e) (\<lambda>_. r_bind (encode_oauth_state e now tenant_id property_id) (\<lambda>state.
       Inr (st_authorize_url (se_api e) (py_strip (stripe_client_id (se_stripe e))) (py_strip (stripe_redirect_uri (se_stripe e))) state)))"

definition exchange_code_for_connection :: "stripe_env \<Rightarrow> string \<Rightarrow> billing \<Rightarrow> string \<Rightarrow> string \<Rightarrow> (connection_row \<times> billing) result" where
  "exchange_code_for_connection e nonce b code state =
     r_bind (require_connect_secret e) (\<lambda>_.
     r_bind (require_stripe_oauth_settings e) (\<lambda>_.
     r_bind (decode_oauth_state e (stripe_now b) state) (\<lambda>(tenant_id, property_id).
     r_bind (guard (get_property (bi_hotel b) tenant_id property_id \<noteq> None) (StripeConnectError ''property not found'' 404)) (\<lambda>_.
     r_bind (case st_token (se_api e) code of Inl m \<Rightarrow> Inl (StripeConnectError m 400) | Inr r \<Rightarrow> Inr r) (\<lambda>(user, livemode).
     r_bind (case user of Some u \<Rightarrow> if u = [] then Inl (StripeConnectError ''Stripe did not return stripe_user_id'' 502) else Inr u
             | None \<Rightarrow> Inl (StripeConnectError ''Stripe did not return stripe_user_id'' 502)) (\<lambda>user.
     r_bind (encrypt_stripe_account_id e nonce user) (\<lambda>ciphertext.
     case find (\<lambda>r. sc_tenant_id r = tenant_id \<and> sc_property_id r = property_id) (bi_connections b) of
       Some r \<Rightarrow>
         let f = (\<lambda>r. r\<lparr>sc_stripe_account_id := ciphertext, sc_livemode := livemode, sc_connected_at := stripe_now b,
                        sc_disconnected_at := None\<rparr>)
         in Inr (f r, b\<lparr>bi_connections := update_rows (\<lambda>x. sc_id x = sc_id r) f (bi_connections b)\<rparr>)
     | None \<Rightarrow>
         let (i, b) = billing_id b;
             row = \<lparr>sc_id = i, sc_tenant_id = tenant_id, sc_property_id = property_id, sc_stripe_account_id = ciphertext,
                    sc_livemode = livemode, sc_connected_at = stripe_now b, sc_disconnected_at = None\<rparr>
         in Inr (row, b\<lparr>bi_connections := bi_connections b @ [row]\<rparr>))))))))"

definition active_connection :: "billing \<Rightarrow> uuid \<Rightarrow> uuid \<Rightarrow> connection_row option" where
  "active_connection b tenant_id property_id =
     find (\<lambda>r. sc_tenant_id r = tenant_id \<and> sc_property_id r = property_id \<and> sc_disconnected_at r = None) (bi_connections b)"

definition get_stripe_status :: "billing \<Rightarrow> uuid \<Rightarrow> uuid \<Rightarrow> (bool \<times> timestamp) option" where
  "get_stripe_status b tenant_id property_id =
     map_option (\<lambda>r. (sc_livemode r, sc_connected_at r)) (active_connection b tenant_id property_id)"

definition disconnect_stripe_connection :: "stripe_env \<Rightarrow> billing \<Rightarrow> uuid \<Rightarrow> uuid \<Rightarrow> billing result" where
  "disconnect_stripe_connection e b tenant_id property_id =
     r_bind (require_connect_secret e) (\<lambda>_.
     r_bind (require_stripe_oauth_settings e) (\<lambda>_.
     r_bind (require (active_connection b tenant_id property_id) (StripeConnectError ''Stripe is not connected for this property'' 404)) (\<lambda>r.
     r_bind (decrypt_stripe_account_id e (sc_stripe_account_id r)) (\<lambda>plain.
     r_bind (case st_deauthorize (se_api e) plain (py_strip (stripe_client_id (se_stripe e))) of
               Inl m \<Rightarrow> Inl (StripeConnectError m 502) | Inr _ \<Rightarrow> Inr ()) (\<lambda>_.
     Inr (b\<lparr>bi_connections := update_rows (\<lambda>x. sc_id x = sc_id r) (\<lambda>x. x\<lparr>sc_disconnected_at := Some (stripe_now b)\<rparr>) (bi_connections b)\<rparr>))))))"
subsection \<open>Saved cards\<close>

definition require_stripe_secret :: "stripe_env \<Rightarrow> unit result" where
  "require_stripe_secret e =
     configured (stripe_secret_key (se_stripe e)) (StripePaymentError ''Stripe secret key is not configured'' 503)"

definition money_to_stripe_cents :: "decimal \<Rightarrow> int" where
  "money_to_stripe_cents amount = round_half_up (amount * 100)"

definition stripe_booking :: "billing \<Rightarrow> uuid \<Rightarrow> uuid \<Rightarrow> booking_row result" where
  "stripe_booking b tenant_id booking_id =
     require (find (\<lambda>k. bk_tenant_id k = tenant_id \<and> bk_id k = booking_id) (bookings (bi_hotel b))) (StripePaymentError ''booking not found'' 404)"

definition active_connection_and_account :: "stripe_env \<Rightarrow> billing \<Rightarrow> uuid \<Rightarrow> uuid \<Rightarrow> string result" where
  "active_connection_and_account e b tenant_id property_id =
     r_bind (require (active_connection b tenant_id property_id) (StripePaymentError ''Stripe is not connected for this property'' 422)) (\<lambda>r.
       decrypt_stripe_account_id e (sc_stripe_account_id r))"

definition stripe_call :: "string + 'a \<Rightarrow> 'a result" where
  "stripe_call r = (case r of Inl m \<Rightarrow> Inl (StripePaymentError m 422) | Inr x \<Rightarrow> Inr x)"

definition clean_label :: "string option \<Rightarrow> string option" where
  "clean_label x = (case x of None \<Rightarrow> None | Some s \<Rightarrow> if py_strip s = [] then None else Some (py_strip s))"

definition save_payment_method ::
  "stripe_env \<Rightarrow> billing \<Rightarrow> uuid \<Rightarrow> uuid \<Rightarrow> string \<Rightarrow> uuid option \<Rightarrow> string option \<Rightarrow> (method_row \<times> billing) result" where
  "save_payment_method e b tenant_id property_id stripe_pm_id booking_id label =
     r_bind (require_stripe_secret e) (\<lambda>_.
     r_bind (active_connection_and_account e b tenant_id property_id) (\<lambda>acct.
     r_bind (case booking_id of
               None \<Rightarrow> Inr ()
             | Some i \<Rightarrow> r_bind (stripe_booking b tenant_id i) (\<lambda>k.
                 guard (bk_property_id k = property_id) (StripePaymentError ''booking does not belong to this property'' 422))) (\<lambda>_.
     r_bind (stripe_call (st_retrieve (se_api e) stripe_pm_id acct)) (\<lambda>c.
     let (i, b) = billing_id b;
         row = \<lparr>sm_id = i, sm_tenant_id = tenant_id, sm_property_id = property_id, sm_booking_id = booking_id,
                sm_stripe_pm_id = py_strip stripe_pm_id, sm_card_last4 = Option.bind c ca_last4, sm_card_brand = Option.bind c ca_brand,
                sm_card_exp_month = Option.bind c ca_exp_month, sm_card_exp_year = Option.bind c ca_exp_year,
                sm_label = clean_label label, sm_created_at = stripe_now b\<rparr>
     in Inr (row, b\<lparr>bi_methods := bi_methods b @ [row]\<rparr>)))))"

definition list_payment_methods :: "billing \<Rightarrow> uuid \<Rightarrow> uuid \<Rightarrow> uuid option \<Rightarrow> method_row list" where
  "list_payment_methods b tenant_id property_id booking_id =
     sort_key (\<lambda>r. - sm_created_at r) (filter (\<lambda>r. sm_tenant_id r = tenant_id \<and> sm_property_id r = property_id \<and>
       (case booking_id of None \<Rightarrow> True | Some i \<Rightarrow> sm_booking_id r = Some i)) (bi_methods b))"

definition method_at :: "billing \<Rightarrow> uuid \<Rightarrow> uuid \<Rightarrow> method_row option" where
  "method_at b tenant_id pm_row_id = find (\<lambda>r. sm_tenant_id r = tenant_id \<and> sm_id r = pm_row_id) (bi_methods b)"

definition delete_payment_method :: "stripe_env \<Rightarrow> billing \<Rightarrow> uuid \<Rightarrow> uuid \<Rightarrow> billing result" where
  "delete_payment_method e b tenant_id pm_row_id =
     r_bind (require_stripe_secret e) (\<lambda>_.
     r_bind (require (method_at b tenant_id pm_row_id) (StripePaymentError ''payment method not found'' 404)) (\<lambda>r.
     r_bind (active_connection_and_account e b tenant_id (sm_property_id r)) (\<lambda>acct.
     r_bind (stripe_call (st_detach (se_api e) (sm_stripe_pm_id r) acct)) (\<lambda>_.
     Inr (b\<lparr>bi_methods := delete_rows (\<lambda>x. sm_id x = sm_id r) (bi_methods b)\<rparr>)))))"

subsection \<open>Charges and refunds\<close>

definition stripe_folio :: "uuid \<Rightarrow> uuid \<Rightarrow> decimal \<Rightarrow> string \<Rightarrow> billing \<Rightarrow> uuid \<times> billing" where
  "stripe_folio tenant_id booking_id amount description b =
     (let d = bi_hotel b;
          row = \<lparr>ft_id = next_uuid d, ft_tenant_id = tenant_id, ft_booking_id = booking_id, ft_transaction_type = ''Payment'',
                 ft_amount = q_even amount, ft_payment_method = Some ''stripe'', ft_description = Some description,
                 ft_created_at = db_now d, ft_created_by = None, ft_category = ''payment'', ft_source_channel = Some ''stripe''\<rparr>
      in (ft_id row, b\<lparr>bi_hotel := d\<lparr>folio_transactions := folio_transactions d @ [row], next_uuid := next_uuid d + 1\<rparr>\<rparr>))"

definition add_charge ::
  "uuid \<Rightarrow> booking_row \<Rightarrow> uuid option \<Rightarrow> string \<Rightarrow> string \<Rightarrow> decimal \<Rightarrow> string \<Rightarrow> string \<Rightarrow> string option \<Rightarrow> billing \<Rightarrow> charge_row \<times> billing" where
  "add_charge tenant_id booking folio_tx_id charge_id pm_id amount currency status failure b =
     (let (i, b) = billing_id b;
          row = \<lparr>sh_id = i, sh_tenant_id = tenant_id, sh_property_id = bk_property_id booking, sh_booking_id = Some (bk_id booking),
                 sh_folio_tx_id = folio_tx_id, sh_stripe_charge_id = charge_id, sh_stripe_pm_id = Some pm_id, sh_amount = q_even amount,
                 sh_currency = py_upper currency, sh_status = status, sh_failure_message = failure, sh_created_at = stripe_now b\<rparr>
      in (row, b\<lparr>bi_charges := bi_charges b @ [row]\<rparr>))"

text \<open>The guards of a charge: the booking, the saved card, the account and the currency.\<close>

definition charge_target :: "stripe_env \<Rightarrow> billing \<Rightarrow> uuid \<Rightarrow> uuid \<Rightarrow> uuid \<Rightarrow> decimal \<Rightarrow> (booking_row \<times> method_row \<times> string \<times> string) result" where
  "charge_target e b tenant_id booking_id stripe_pm_row_id amount =
     r_bind (require_stripe_secret e) (\<lambda>_.
     r_bind (guard (0 < amount) (StripePaymentError ''amount must be positive'' 422)) (\<lambda>_.
     r_bind (stripe_booking b tenant_id booking_id) (\<lambda>booking.
     r_bind (require (method_at b tenant_id stripe_pm_row_id) (StripePaymentError ''saved payment method not found'' 422)) (\<lambda>pm.
     r_bind (guard (sm_property_id pm = bk_property_id booking)
               (StripePaymentError (''payment method does not belong to this booking'' @ [CHR 39] @ ''s property'') 422)) (\<lambda>_.
     r_bind (guard (case sm_booking_id pm of None \<Rightarrow> True | Some i \<Rightarrow> i = booking_id)
               (StripePaymentError ''payment method is restricted to another booking'' 422)) (\<lambda>_.
     r_bind (require (get_property (bi_hotel b) tenant_id (bk_property_id booking)) (StripePaymentError ''property not found'' 404)) (\<lambda>p.
     r_bind (active_connection_and_account e b tenant_id (bk_property_id booking)) (\<lambda>acct.
     Inr (booking, pm, acct, py_lower (py_strip (pr_currency p)))))))))))"

text \<open>
  A refusal of Stripe is recorded and committed before the exception, so the state is a result beside
  the error. \<open>failed_id\<close> is the random part of the failed charge's identifier. The status of the
  payment intent is not looked at.
\<close>

definition charge_booking ::
  "stripe_env \<Rightarrow> string \<Rightarrow> billing \<Rightarrow> uuid \<Rightarrow> uuid \<Rightarrow> uuid \<Rightarrow> decimal \<Rightarrow> string option \<Rightarrow> charge_row result \<times> billing" where
  "charge_booking e failed_id b tenant_id booking_id stripe_pm_row_id amount label =
     (case charge_target e b tenant_id booking_id stripe_pm_row_id amount of
        Inl x \<Rightarrow> (Inl x, b)
      | Inr (booking, pm, acct, currency) \<Rightarrow>
          (case st_intent (se_api e) (money_to_stripe_cents (q_even amount)) currency (sm_stripe_pm_id pm) acct of
             Inl msg \<Rightarrow> (Inl (StripePaymentError msg 422),
               snd (add_charge tenant_id booking None (''failed_'' @ failed_id) (sm_stripe_pm_id pm) amount currency ''failed'' (Some msg) b))
           | Inr pint \<Rightarrow>
               if in_id pint = [] then (Inl (StripePaymentError ''Stripe did not return a payment intent id'' 502), b)
               else let (tx, b) = stripe_folio tenant_id booking_id amount
                          (case clean_label label of None \<Rightarrow> ''Stripe card payment'' | Some s \<Rightarrow> s) b;
                        (row, b) = add_charge tenant_id booking (Some tx) (in_id pint) (sm_stripe_pm_id pm) amount currency ''succeeded'' None b
                    in (Inr row, b)))"

definition charge_at :: "billing \<Rightarrow> uuid \<Rightarrow> uuid \<Rightarrow> charge_row option" where
  "charge_at b tenant_id i = find (\<lambda>r. sh_tenant_id r = tenant_id \<and> sh_id r = i) (bi_charges b)"

definition set_status :: "uuid \<Rightarrow> string \<Rightarrow> billing \<Rightarrow> billing" where
  "set_status i s b = b\<lparr>bi_charges := update_rows (\<lambda>r. sh_id r = i) (\<lambda>r. r\<lparr>sh_status := s\<rparr>) (bi_charges b)\<rparr>"

definition refund_status :: "decimal \<Rightarrow> charge_row \<Rightarrow> string" where
  "refund_status refund_amt ch = (if sh_amount ch \<le> refund_amt then ''refunded'' else ''partial_refund'')"

definition refund_stripe_charge ::
  "stripe_env \<Rightarrow> billing \<Rightarrow> uuid \<Rightarrow> uuid \<Rightarrow> uuid \<Rightarrow> decimal option \<Rightarrow> (charge_row \<times> billing) result" where
  "refund_stripe_charge e b tenant_id booking_id stripe_charge_row_id amount =
     r_bind (require_stripe_secret e) (\<lambda>_.
     r_bind (stripe_booking b tenant_id booking_id) (\<lambda>_.
     r_bind (require (charge_at b tenant_id stripe_charge_row_id) (StripePaymentError ''charge not found'' 404)) (\<lambda>ch.
     r_bind (guard (sh_booking_id ch = Some booking_id) (StripePaymentError ''charge does not belong to this booking'' 404)) (\<lambda>_.
     r_bind (guard (sh_status ch \<noteq> ''failed'') (StripePaymentError ''cannot refund a failed charge'' 422)) (\<lambda>_.
     r_bind (guard (sh_status ch \<noteq> ''refunded'') (StripePaymentError ''charge is already fully refunded'' 422)) (\<lambda>_.
     r_bind (guard (sh_status ch \<noteq> ''partial_refund'') (StripePaymentError ''only one refund is allowed per charge'' 422)) (\<lambda>_.
     let refund_amt = (case amount of None \<Rightarrow> sh_amount ch | Some a \<Rightarrow> q_even a) in
     r_bind (guard (amount = None \<or> 0 < refund_amt) (StripePaymentError ''refund amount must be positive'' 422)) (\<lambda>_.
     r_bind (guard (refund_amt \<le> sh_amount ch) (StripePaymentError ''refund amount exceeds charge amount'' 422)) (\<lambda>_.
     r_bind (active_connection_and_account e b tenant_id (sh_property_id ch)) (\<lambda>acct.
     r_bind (stripe_call (st_refund (se_api e) (sh_stripe_charge_id ch) (money_to_stripe_cents refund_amt) acct)) (\<lambda>_.
     let b = set_status (sh_id ch) (refund_status refund_amt ch) b
     in Inr (ch\<lparr>sh_status := refund_status refund_amt ch\<rparr>, snd (stripe_folio tenant_id booking_id (- refund_amt) ''Stripe refund'' b)))))))))))))"

definition webhook_refund :: "decimal option \<Rightarrow> charge_row \<Rightarrow> decimal" where
  "webhook_refund amount_refunded ch =
     min (case amount_refunded of None \<Rightarrow> sh_amount ch | Some a \<Rightarrow> if 0 < a then q_even a else sh_amount ch) (sh_amount ch)"

text \<open>A charge without a booking cannot be reconciled: the folio requires one.\<close>

definition reconcile_refund_from_webhook :: "billing \<Rightarrow> uuid \<Rightarrow> uuid \<Rightarrow> decimal option \<Rightarrow> (bool \<times> billing) result" where
  "reconcile_refund_from_webhook b tenant_id stripe_charge_row_id amount_refunded = (case charge_at b tenant_id stripe_charge_row_id of
       None \<Rightarrow> Inr (False, b)
     | Some ch \<Rightarrow>
         if sh_status ch \<noteq> ''succeeded'' then Inr (False, b)
         else r_bind (require (sh_booking_id ch) IntegrityError) (\<lambda>booking_id.
           let refund_amt = webhook_refund amount_refunded ch;
               b = set_status (sh_id ch) (refund_status refund_amt ch) b
           in Inr (True, snd (stripe_folio tenant_id booking_id (- refund_amt) ''Stripe refund (webhook)'' b))))"

definition list_booking_stripe_charges :: "billing \<Rightarrow> uuid \<Rightarrow> uuid \<Rightarrow> charge_row list result" where
  "list_booking_stripe_charges b tenant_id booking_id =
     r_bind (stripe_booking b tenant_id booking_id) (\<lambda>_.
       Inr (sort_key sh_created_at (sort_key sh_id (filter (\<lambda>r. sh_tenant_id r = tenant_id \<and> sh_booking_id r = Some booking_id) (bi_charges b)))))"
subsection \<open>Inbound webhook\<close>

text \<open>\<^verbatim>\<open>int(cents)\<close> truncates, and what it rejects counts as absent.\<close>

definition cents_to_money :: "json \<Rightarrow> decimal option" where
  "cents_to_money cents = (case py_int cents of Inl _ \<Rightarrow> None | Inr n \<Rightarrow> Some (q_even (of_int n / 100)))"

definition lookup_stripe_charge_for_webhook :: "billing \<Rightarrow> string \<Rightarrow> (uuid \<times> uuid) option" where
  "lookup_stripe_charge_for_webhook b p_pi =
     map_option (\<lambda>r. (sh_tenant_id r, sh_id r)) (find (\<lambda>r. sh_stripe_charge_id r = p_pi) (bi_charges b))"

definition or_blank :: "json \<Rightarrow> string" where
  "or_blank j = (if truthy j then py_str j else [])"

definition HANDLED_EVENTS :: "string list" where
  "HANDLED_EVENTS = [''charge.refunded'', ''charge.dispute.created'']"

definition stripe_audit :: "uuid \<Rightarrow> string \<Rightarrow> uuid \<Rightarrow> billing \<Rightarrow> billing" where
  "stripe_audit tenant_id action i b = b\<lparr>bi_hotel := record_audit tenant_id action ''stripe_charge'' (Some i) (bi_hotel b)\<rparr>"

definition handle_stripe_event :: "billing \<Rightarrow> json \<Rightarrow> (string \<times> billing) result" where
  "handle_stripe_event b event =
     (let event_type = or_blank (json_get event ''type''); obj = json_get (json_get event ''data'') ''object'';
          pi_id = py_strip (or_blank (json_get obj ''payment_intent''))
      in if event_type \<notin> set HANDLED_EVENTS \<or> pi_id = [] then Inr (''ignored'', b)
         else case lookup_stripe_charge_for_webhook b pi_id of
           None \<Rightarrow> Inr (''ignored'', b)
         | Some (tenant_id, charge_id) \<Rightarrow>
             if event_type = ''charge.refunded''
             then r_bind (reconcile_refund_from_webhook b tenant_id charge_id (cents_to_money (json_get obj ''amount_refunded''))) (\<lambda>(changed, b).
               Inr (''ok'', if changed then stripe_audit tenant_id ''stripe.refund_reconciled'' charge_id b else b))
             else Inr (''ok'', stripe_audit tenant_id ''stripe.dispute_created'' charge_id b))"

definition inbound_stripe_webhook :: "stripe_env \<Rightarrow> billing \<Rightarrow> string \<Rightarrow> string option \<Rightarrow> (string \<times> billing) result" where
  "inbound_stripe_webhook e b body sig =
     (let secret = py_strip (stripe_webhook_secret (se_stripe e))
      in r_bind (guard (secret \<noteq> []) (HTTPException ''Stripe webhooks are not configured'' 503)) (\<lambda>_.
         r_bind (case sig of Some s \<Rightarrow> if s = [] then Inl (HTTPException ''Missing signature'' 400) else Inr s
                 | None \<Rightarrow> Inl (HTTPException ''Missing signature'' 400)) (\<lambda>s.
         case st_construct_event (se_api e) body s secret of
           BadPayload \<Rightarrow> Inl (HTTPException ''Invalid payload'' 400)
         | BadSignature \<Rightarrow> Inl (HTTPException ''Invalid signature'' 400)
         | Verified event \<Rightarrow> handle_stripe_event b event)))"

subsection \<open>Routes\<close>

definition stripe_dep :: "string list \<Rightarrow> string \<Rightarrow> request_state \<Rightarrow> unit result" where
  "stripe_dep roles scope = chain_dependency_runners [require_roles roles, require_scopes [scope]]"

definition stripe_http :: "error \<Rightarrow> (string \<times> nat) option" where
  "stripe_http x = (case x of StripePaymentError m n \<Rightarrow> Some (m, n) | StripeConnectError m n \<Rightarrow> Some (m, n) | _ \<Rightarrow> None)"

definition existing_property :: "billing \<Rightarrow> uuid \<Rightarrow> uuid \<Rightarrow> unit result" where
  "existing_property b tenant_id property_id =
     guard (get_property (bi_hotel b) tenant_id property_id \<noteq> None) (HTTPException ''Property not found'' 404)"

definition post_stripe_payment_method ::
  "stripe_env \<Rightarrow> billing \<Rightarrow> request_state \<Rightarrow> uuid \<Rightarrow> string \<Rightarrow> uuid option \<Rightarrow> string option \<Rightarrow> (method_row \<times> billing) result" where
  "post_stripe_payment_method e b s property_id stripe_pm_id booking_id label =
     for_tenant (stripe_dep [''owner'', ''manager''] ''properties:write'') s (\<lambda>t. r_bind (existing_property b t property_id) (\<lambda>_.
       http_error stripe_http (save_payment_method e b t property_id (py_strip stripe_pm_id) booking_id label)))"

definition get_stripe_payment_methods :: "billing \<Rightarrow> request_state \<Rightarrow> uuid \<Rightarrow> uuid option \<Rightarrow> method_row list result" where
  "get_stripe_payment_methods b s property_id booking_id =
     for_tenant (stripe_dep [''owner'', ''manager''] ''properties:read'') s (\<lambda>t. r_bind (existing_property b t property_id) (\<lambda>_.
       Inr (list_payment_methods b t property_id booking_id)))"

definition delete_stripe_payment_method_route :: "stripe_env \<Rightarrow> billing \<Rightarrow> request_state \<Rightarrow> uuid \<Rightarrow> billing result" where
  "delete_stripe_payment_method_route e b s pm_id =
     for_tenant (stripe_dep [''owner'', ''manager''] ''properties:write'') s (\<lambda>t. http_error stripe_http (delete_payment_method e b t pm_id))"

text \<open>An exception rolls back what the charge had not committed itself; only the failed charge is kept.\<close>

definition post_booking_stripe_charge ::
  "stripe_env \<Rightarrow> string \<Rightarrow> billing \<Rightarrow> request_state \<Rightarrow> uuid \<Rightarrow> uuid \<Rightarrow> decimal \<Rightarrow> string option \<Rightarrow> charge_row result \<times> billing" where
  "post_booking_stripe_charge e failed_id b s booking_id stripe_pm_id amount label =
     (case for_tenant (stripe_dep [''owner'', ''manager''] ''bookings:write'') s Inr of
        Inl x \<Rightarrow> (Inl x, b)
      | Inr t \<Rightarrow> if amount \<le> 0 then (Inl (HTTPException ''Input should be greater than 0'' 422), b)
          else let (r, b) = charge_booking e failed_id b t booking_id stripe_pm_id amount label in (http_error stripe_http r, b))"

definition post_booking_stripe_refund ::
  "stripe_env \<Rightarrow> billing \<Rightarrow> request_state \<Rightarrow> uuid \<Rightarrow> uuid \<Rightarrow> decimal option \<Rightarrow> (charge_row \<times> billing) result" where
  "post_booking_stripe_refund e b s booking_id stripe_charge_id amount =
     for_tenant (stripe_dep [''owner''] ''bookings:write'') s (\<lambda>t.
       http_error stripe_http (refund_stripe_charge e b t booking_id stripe_charge_id amount))"

definition get_booking_stripe_charges :: "billing \<Rightarrow> request_state \<Rightarrow> uuid \<Rightarrow> charge_row list result" where
  "get_booking_stripe_charges b s booking_id =
     for_tenant (stripe_dep [''owner'', ''manager''] ''bookings:read'') s (\<lambda>t. http_error stripe_http (list_booking_stripe_charges b t booking_id))"

definition get_property_stripe_status :: "billing \<Rightarrow> request_state \<Rightarrow> uuid \<Rightarrow> (bool \<times> timestamp) option result" where
  "get_property_stripe_status b s property_id =
     for_tenant (stripe_dep [''owner'', ''manager'', ''viewer'', ''receptionist''] ''properties:read'') s (\<lambda>t.
       r_bind (existing_property b t property_id) (\<lambda>_. Inr (get_stripe_status b t property_id)))"

definition value_error_http :: "error \<Rightarrow> (string \<times> nat) option" where
  "value_error_http x = (case x of ValueError m \<Rightarrow> Some (m, 500) | _ \<Rightarrow> None)"

definition get_property_stripe_connect_url :: "stripe_env \<Rightarrow> billing \<Rightarrow> request_state \<Rightarrow> uuid \<Rightarrow> string result" where
  "get_property_stripe_connect_url e b s property_id =
     for_tenant (stripe_dep [''owner''] ''properties:write'') s (\<lambda>t. r_bind (existing_property b t property_id) (\<lambda>_.
       http_error value_error_http (http_error stripe_http (build_connect_authorize_url e (stripe_now b) t property_id))))"

definition delete_property_stripe_connection :: "stripe_env \<Rightarrow> billing \<Rightarrow> request_state \<Rightarrow> uuid \<Rightarrow> billing result" where
  "delete_property_stripe_connection e b s property_id =
     for_tenant (stripe_dep [''owner''] ''properties:write'') s (\<lambda>t. r_bind (existing_property b t property_id) (\<lambda>_.
       http_error stripe_http (disconnect_stripe_connection e b t property_id)))"

text \<open>\<^verbatim>\<open>urllib.parse.quote\<close> with no safe characters besides the unreserved ones, byte by byte.\<close>

definition unreserved :: "char \<Rightarrow> bool" where
  "unreserved c \<longleftrightarrow> is_digit c \<or> (CHR ''a'' \<le> c \<and> c \<le> CHR ''z'') \<or> (CHR ''A'' \<le> c \<and> c \<le> CHR ''Z'') \<or> c \<in> set ''_.-~''"

definition quote_char :: "char \<Rightarrow> string" where
  "quote_char c =
     (if unreserved c then [c] else let n = (of_char c :: nat) in [CHR ''%'', ''0123456789ABCDEF'' ! (n div 16), ''0123456789ABCDEF'' ! (n mod 16)])"

definition url_quote :: "string \<Rightarrow> string" where
  "url_quote s = concat (map quote_char s)"

text \<open>
  The callback of Stripe's authorization page, a redirection. The state is decoded twice, the second
  time by the exchange, whose \<^verbatim>\<open>StripeConnectError\<close> is raised as it is.
\<close>

definition stripe_oauth_callback ::
  "stripe_env \<Rightarrow> string \<Rightarrow> billing \<Rightarrow> string option \<Rightarrow> string option \<Rightarrow> string option \<Rightarrow> string option \<Rightarrow> (string \<times> billing) result" where
  "stripe_oauth_callback e nonce b code state err err_description =
     (let base = py_strip (stripe_connect_success_url (se_stripe e));
          start = base @ (if CHR ''?'' \<in> set base then ''&'' else ''?'');
          err = (case err of None \<Rightarrow> [] | Some x \<Rightarrow> x)
      in r_bind (guard (base \<noteq> []) (HTTPException ''STRIPE_CONNECT_SUCCESS_URL is not configured'' 500)) (\<lambda>_.
         if err \<noteq> []
         then Inr (start @ ''stripe_error='' @ url_quote err @ ''&stripe_error_description='' @
                url_quote (case err_description of None \<Rightarrow> [] | Some x \<Rightarrow> x), b)
         else case (code, state) of
           (Some (c # cs), Some (s # ss)) \<Rightarrow>
             r_bind (http_error value_error_http (http_error stripe_http (decode_oauth_state e (stripe_now b) (s # ss)))) (\<lambda>(t, property_id).
             r_bind (exchange_code_for_connection e nonce b (c # cs) (s # ss)) (\<lambda>(_, b).
             Inr (start @ ''property_id='' @ uuid_str property_id @ ''&connected=1'', b)))
         | _ \<Rightarrow> Inl (HTTPException ''Missing code or state'' 400)))"
subsection \<open>The rows of the folio and the charges\<close>

definition net_weight :: "uuid \<Rightarrow> uuid \<Rightarrow> folio_row \<Rightarrow> decimal" where
  "net_weight t k r = (if of_folio t k r \<and> ft_source_channel r = Some ''stripe'' then ft_amount r else 0)"

definition charge_weight :: "string list \<Rightarrow> uuid \<Rightarrow> uuid \<Rightarrow> charge_row \<Rightarrow> decimal" where
  "charge_weight S t k r = (if sh_tenant_id r = t \<and> sh_booking_id r = Some k \<and> sh_status r \<in> set S then sh_amount r else 0)"

interpretation net_sum: measured_table "net_weight t k" "of_folio t k" for t k
  by unfold_locales (simp add: net_weight_def)

interpretation charge_sum: measured_table "charge_weight S t k" "\<lambda>r. sh_booking_id r = Some k" for S t k
  by unfold_locales (simp add: charge_weight_def)

definition stripe_net :: "billing \<Rightarrow> uuid \<Rightarrow> uuid \<Rightarrow> decimal" where
  "stripe_net b t k = measure_of (net_weight t k) (folio_transactions (bi_hotel b))"

definition charged :: "string list \<Rightarrow> billing \<Rightarrow> uuid \<Rightarrow> uuid \<Rightarrow> decimal" where
  "charged S b t k = measure_of (charge_weight S t k) (bi_charges b)"

definition CHARGE_STATUSES :: "string list" where
  "CHARGE_STATUSES = [''succeeded'', ''failed'', ''refunded'', ''partial_refund'']"

definition charge_ok :: "billing \<Rightarrow> charge_row \<Rightarrow> bool" where
  "charge_ok b r \<longleftrightarrow> 0 \<le> sh_amount r \<and> in_cents (sh_amount r) \<and> sh_id r < next_uuid (bi_hotel b) \<and>
     sh_status r \<in> set CHARGE_STATUSES"

definition payments_inv :: "billing \<Rightarrow> bool" where
  "payments_inv b \<longleftrightarrow> distinct (map sh_id (bi_charges b)) \<and> (\<forall>r\<in>set (bi_charges b). charge_ok b r) \<and>
     (\<forall>t k. charged [''succeeded''] b t k \<le> stripe_net b t k \<and>
       stripe_net b t k \<le> charged [''succeeded'', ''partial_refund''] b t k)"

lemma stripe_folio_facts:
  assumes "stripe_folio t k a descr b = (i, b')"
  shows "bi_charges b' = bi_charges b" "next_uuid (bi_hotel b') = next_uuid (bi_hotel b) + 1" "i = next_uuid (bi_hotel b)"
    "stripe_net b' t' k' = stripe_net b t' k' + (if t' = t \<and> k' = k then q_even a else 0)"
  using assms by (auto simp: stripe_folio_def stripe_net_def net_sum.measure_append net_sum.measure_Cons net_sum.measure_Nil
      net_weight_def of_folio_def Let_def)

lemma add_charge_facts:
  assumes "add_charge t k tx cid pm a cur st f b = (row, b')"
  shows "bi_charges b' = bi_charges b @ [row]" "folio_transactions (bi_hotel b') = folio_transactions (bi_hotel b)"
    "next_uuid (bi_hotel b') = next_uuid (bi_hotel b) + 1" "sh_id row = next_uuid (bi_hotel b)" "sh_amount row = q_even a"
    "sh_status row = st" "sh_tenant_id row = t" "sh_booking_id row = Some (bk_id k)" "sh_folio_tx_id row = tx"
  using assms by (auto simp: add_charge_def billing_id_def Let_def)

lemma payments_inv_add:
  assumes inv: "payments_inv b" and row: "sh_id row = next_uuid (bi_hotel b')" "0 \<le> sh_amount row" "in_cents (sh_amount row)"
    and b': "bi_charges b' = bi_charges b" "next_uuid (bi_hotel b) \<le> next_uuid (bi_hotel b')"
    and b'': "bi_charges b'' = bi_charges b @ [row]" "next_uuid (bi_hotel b'') = next_uuid (bi_hotel b') + 1"
    and net: "\<And>t k. stripe_net b'' t k = stripe_net b t k + charge_weight [''succeeded''] t k row"
    and live: "sh_status row \<in> set [''succeeded'', ''failed'']"
  shows "payments_inv b''"
proof -
  have "charge_weight [''succeeded'', ''partial_refund''] t k row = charge_weight [''succeeded''] t k row" for t k
    using live by (auto simp: charge_weight_def)
  then have "charged S b'' t k = charged S b t k + charge_weight [''succeeded''] t k row"
    if "S = [''succeeded''] \<or> S = [''succeeded'', ''partial_refund'']" for S t k
    using that by (auto simp: charged_def b'' charge_sum.measure_append charge_sum.measure_Cons charge_sum.measure_Nil)
  moreover have "\<forall>r\<in>set (bi_charges b''). charge_ok b'' r" "distinct (map sh_id (bi_charges b''))"
    using inv row b' b'' live by (auto simp: payments_inv_def charge_ok_def CHARGE_STATUSES_def)
  ultimately show ?thesis using inv by (simp add: payments_inv_def net)
qed

lemma charge_keeps_inv:
  assumes inv: "payments_inv b" and run: "charge_booking e fid b t k pm a label = (r, b')"
  shows "payments_inv b'"
proof (cases "charge_target e b t k pm a")
  case (Inl x)
  with inv run show ?thesis by (simp add: charge_booking_def)
next
  case (Inr x)
  obtain booking m acct cur where x: "x = (booking, m, acct, cur)" by (cases x)
  have pos: "0 < a" and bk: "bk_id booking = k"
    using Inr x by (auto simp: charge_target_def stripe_booking_def require_def find_Some_iff split: if_splits option.splits)
  have cents: "0 \<le> q_even a" "in_cents (q_even a)" using pos by (auto intro: half_even.quantize_nonneg half_even.quantize_in_cents)
  show ?thesis
  proof (cases "st_intent (se_api e) (money_to_stripe_cents (q_even a)) cur (sm_stripe_pm_id m) acct")
    case (Inl msg)
    obtain row b1 where add: "add_charge t booking None (''failed_'' @ fid) (sm_stripe_pm_id m) a cur ''failed'' (Some msg) b = (row, b1)"
      by fastforce
    have b': "b' = b1" using run Inr x Inl add by (simp add: charge_booking_def)
    note f = add_charge_facts [OF add]
    show ?thesis unfolding b'
      by (rule payments_inv_add [OF inv, of row b]) (use f cents in \<open>simp_all add: stripe_net_def charge_weight_def\<close>)
  next
    case intent: (Inr pint)
    show ?thesis
    proof (cases "in_id pint = []")
      case True
      with inv run Inr x intent show ?thesis by (simp add: charge_booking_def)
    next
      case False
      define descr where "descr = (case clean_label label of None \<Rightarrow> ''Stripe card payment'' | Some s \<Rightarrow> s)"
      obtain tx b1 where fo: "stripe_folio t k a descr b = (tx, b1)" by fastforce
      obtain row b2 where add: "add_charge t booking (Some tx) (in_id pint) (sm_stripe_pm_id m) a cur ''succeeded'' None b1 = (row, b2)"
        by fastforce
      have b': "b' = b2" using run Inr x intent False fo add by (simp add: charge_booking_def descr_def)
      note f = add_charge_facts [OF add] and g = stripe_folio_facts [OF fo]
      show ?thesis unfolding b'
        by (rule payments_inv_add [OF inv, of row b1])
          (use f g cents bk in \<open>simp_all add: charge_weight_def, simp add: stripe_net_def g(4) [unfolded stripe_net_def]\<close>)
    qed
  qed
qed
lemma charge_atD: "charge_at b t i = Some ch \<Longrightarrow> ch \<in> set (bi_charges b) \<and> sh_tenant_id ch = t \<and> sh_id ch = i"
  by (auto simp: charge_at_def find_Some_iff)

lemma refund_keeps_inv:
  assumes inv: "payments_inv b" and ch: "ch \<in> set (bi_charges b)" "sh_status ch = ''succeeded''" "sh_tenant_id ch = t" "sh_booking_id ch = Some k"
    and amt: "0 \<le> amt" "amt \<le> sh_amount ch" "in_cents amt"
  shows "payments_inv (snd (stripe_folio t k (- amt) descr (set_status (sh_id ch) (refund_status amt ch) b)))"
proof -
  define f :: "charge_row \<Rightarrow> charge_row" where "f = (\<lambda>r. r\<lparr>sh_status := refund_status amt ch\<rparr>)"
  define b1 where "b1 = set_status (sh_id ch) (refund_status amt ch) b"
  obtain i b' where fo: "stripe_folio t k (- amt) descr b1 = (i, b')" by fastforce
  note g = stripe_folio_facts [OF fo]
  have ids: "distinct (map sh_id (bi_charges b))" using inv by (simp add: payments_inv_def)
  have b1: "bi_charges b1 = update_rows (\<lambda>x. sh_id x = sh_id ch) f (bi_charges b)" "bi_hotel b1 = bi_hotel b"
    by (simp_all add: b1_def set_status_def f_def)
  have charged: "charged S b' t' k' = charged S b t' k' - charge_weight S t' k' ch + charge_weight S t' k' (f ch)" for S t' k'
    unfolding charged_def g(1) b1(1) by (rule charge_sum.measure_update_one [OF ids ch(1)])
  have "q_even (- amt) = - amt" using amt(3) by (intro half_even.quantize_exact) auto
  then have net: "stripe_net b' t' k' = stripe_net b t' k' - (if t' = t \<and> k' = k then amt else 0)" for t' k'
    using g(4) b1(2) by (simp add: stripe_net_def)
  have old: "charged [''succeeded''] b t' k' \<le> stripe_net b t' k'" "stripe_net b t' k' \<le> charged [''succeeded'', ''partial_refund''] b t' k'"
    for t' k' using inv by (simp_all add: payments_inv_def)
  have full: "refund_status amt ch = ''refunded'' \<and> amt = sh_amount ch \<or> refund_status amt ch = ''partial_refund''"
    using amt(2) by (auto simp: refund_status_def)
  have "charged [''succeeded''] b' t' k' \<le> stripe_net b' t' k' \<and> stripe_net b' t' k' \<le> charged [''succeeded'', ''partial_refund''] b' t' k'"
    for t' k'
    using old [of t' k'] full amt ch by (auto simp: charged net charge_weight_def f_def)
  moreover have "distinct (map sh_id (bi_charges b'))"
  proof -
    have "map sh_id (bi_charges b') = map sh_id (bi_charges b)" unfolding g(1) b1(1) by (simp add: update_rows_def f_def)
    then show ?thesis using ids by simp
  qed
  moreover have "charge_ok b' r" if "r \<in> set (bi_charges b')" for r
  proof -
    from that obtain x where x: "x \<in> set (bi_charges b)" "r = x \<or> r = f x"
      by (auto simp: g(1) b1(1) set_update_rows split: if_splits)
    then have "charge_ok b x" using inv by (simp add: payments_inv_def)
    moreover have "refund_status amt ch \<in> set CHARGE_STATUSES" by (simp add: refund_status_def CHARGE_STATUSES_def)
    ultimately show ?thesis using x(2) g(2) b1(2) by (auto simp: charge_ok_def f_def)
  qed
  ultimately show ?thesis using fo b1_def by (simp add: payments_inv_def)
qed

lemma refund_charge_keeps_inv:
  assumes inv: "payments_inv b" and run: "refund_stripe_charge e b t k i a = Inr (r, b')"
  shows "payments_inv b'"
proof -
  define amt where "amt (ch :: charge_row) = (case a of None \<Rightarrow> sh_amount ch | Some x \<Rightarrow> q_even x)" for ch
  from run obtain ch where at: "charge_at b t i = Some ch" and bk: "sh_booking_id ch = Some k" and st: "sh_status ch \<noteq> ''failed''"
      "sh_status ch \<noteq> ''refunded''" "sh_status ch \<noteq> ''partial_refund''" and le: "a = None \<or> 0 < amt ch" "amt ch \<le> sh_amount ch"
      and b': "b' = snd (stripe_folio t k (- amt ch) ''Stripe refund'' (set_status (sh_id ch) (refund_status (amt ch) ch) b))"
    by (auto simp: refund_stripe_charge_def Let_def amt_def split: if_splits)
  have mem: "ch \<in> set (bi_charges b)" "sh_tenant_id ch = t" using charge_atD [OF at] by auto
  have ok: "0 \<le> sh_amount ch" "in_cents (sh_amount ch)" using inv mem by (auto simp: payments_inv_def charge_ok_def)
  have succ: "sh_status ch = ''succeeded''" using inv mem(1) st by (auto simp: payments_inv_def charge_ok_def CHARGE_STATUSES_def)
  have "0 \<le> amt ch" "in_cents (amt ch)" using le ok by (auto simp: amt_def half_even.quantize_in_cents split: option.splits)
  then show ?thesis unfolding b' by (rule refund_keeps_inv [OF inv mem(1) succ mem(2) bk _ le(2)])
qed

lemma reconcile_keeps_inv:
  assumes inv: "payments_inv b" and run: "reconcile_refund_from_webhook b t i a = Inr (c, b')"
  shows "payments_inv b'"
proof (cases "charge_at b t i")
  case (Some ch)
  show ?thesis
  proof (cases "sh_status ch = ''succeeded''")
    case True
    with Some run obtain k where k: "sh_booking_id ch = Some k"
        and b': "b' = snd (stripe_folio t k (- webhook_refund a ch) ''Stripe refund (webhook)''
          (set_status (sh_id ch) (refund_status (webhook_refund a ch) ch) b))"
      by (auto simp: reconcile_refund_from_webhook_def Let_def require_def split: option.splits)
    have mem: "ch \<in> set (bi_charges b)" "sh_tenant_id ch = t" using charge_atD [OF Some] by auto
    have ok: "0 \<le> sh_amount ch" "in_cents (sh_amount ch)" using inv mem by (auto simp: payments_inv_def charge_ok_def)
    have "0 \<le> webhook_refund a ch" "webhook_refund a ch \<le> sh_amount ch" "in_cents (webhook_refund a ch)"
      using ok by (auto simp: webhook_refund_def min_def half_even.quantize_nonneg half_even.quantize_in_cents split: option.splits)
    then show ?thesis unfolding b' by (rule refund_keeps_inv [OF inv mem(1) True mem(2) k])
  qed (use Some inv run in \<open>simp add: reconcile_refund_from_webhook_def\<close>)
qed (use inv run in \<open>simp add: reconcile_refund_from_webhook_def\<close>)
subsection \<open>The folio and the charges agree\<close>

interpretation net_rows: measured_table "net_weight t k" "\<lambda>r. ft_source_channel r = Some ''stripe''" for t k
  by unfold_locales (simp add: net_weight_def)

text \<open>
  The steps of the payment module; \<open>elsewhere\<close> is any change of the hotel that adds or removes no folio
  row of Stripe, like postings, reversals and charges of the rest of the program.
\<close>

inductive stripe_step :: "stripe_env \<Rightarrow> billing \<Rightarrow> billing \<Rightarrow> bool" for e where
  charge: "charge_booking e fid b t k pm a label = (r, b') \<Longrightarrow> stripe_step e b b'"
| refund: "refund_stripe_charge e b t k i am = Inr (r, b') \<Longrightarrow> stripe_step e b b'"
| webhook: "inbound_stripe_webhook e b body sig = Inr (s, b') \<Longrightarrow> stripe_step e b b'"
| elsewhere: "bi_charges b' = bi_charges b \<Longrightarrow> next_uuid (bi_hotel b) \<le> next_uuid (bi_hotel b') \<Longrightarrow>
    filter (\<lambda>r. ft_source_channel r = Some ''stripe'') (folio_transactions (bi_hotel b')) =
      filter (\<lambda>r. ft_source_channel r = Some ''stripe'') (folio_transactions (bi_hotel b)) \<Longrightarrow> stripe_step e b b'"

inductive_cases stripe_stepE: "stripe_step e b b'"

lemma payments_inv_elsewhere:
  assumes "payments_inv b" "bi_charges b' = bi_charges b" "next_uuid (bi_hotel b) \<le> next_uuid (bi_hotel b')"
    "filter (\<lambda>r. ft_source_channel r = Some ''stripe'') (folio_transactions (bi_hotel b')) =
      filter (\<lambda>r. ft_source_channel r = Some ''stripe'') (folio_transactions (bi_hotel b))"
  shows "payments_inv b'"
proof -
  have "stripe_net b' t k = stripe_net b t k" for t k
    unfolding stripe_net_def using net_rows.measure_scope [of t k] assms(4) by metis
  moreover have "charge_ok b' r" if "charge_ok b r" for r using that assms(3) by (simp add: charge_ok_def)
  ultimately show ?thesis using assms(1,2) by (simp add: payments_inv_def charged_def)
qed

lemma stripe_audit_inv: "payments_inv b \<Longrightarrow> payments_inv (stripe_audit t act i b)"
  by (rule payments_inv_elsewhere [of b]) (simp_all add: stripe_audit_def record_audit_def)

lemma event_keeps_inv:
  assumes inv: "payments_inv b" and run: "handle_stripe_event b ev = Inr (s, b')"
  shows "payments_inv b'"
  using run inv reconcile_keeps_inv [OF inv] stripe_audit_inv
  by (auto simp: handle_stripe_event_def Let_def split: if_splits option.splits)

lemma stripe_step_keeps_inv: "stripe_step e b b' \<Longrightarrow> payments_inv b \<Longrightarrow> payments_inv b'"
proof (induction rule: stripe_step.induct)
  case (webhook b body sig s b')
  then show ?case
    by (auto simp: inbound_stripe_webhook_def Let_def split: if_splits option.splits verified.splits intro: event_keeps_inv)
qed (auto intro: charge_keeps_inv refund_charge_keeps_inv payments_inv_elsewhere)

text \<open>
  C29. Whatever sequence of charges, refunds by the hotel, refunds reported by Stripe, in any order and
  number, and other work of the program: what the folio of a booking shows as paid through Stripe is
  never negative, covers every charge that was not refunded, and never exceeds the charges that were
  not fully refunded. So no charge is refunded twice or beyond its amount.
\<close>

theorem stripe_payments_stay_covered:
  assumes "payments_inv b" "(stripe_step e)\<^sup>*\<^sup>* b b'"
  shows "0 \<le> stripe_net b' t k \<and> charged [''succeeded''] b' t k \<le> stripe_net b' t k \<and>
    stripe_net b' t k \<le> charged [''succeeded'', ''partial_refund''] b' t k"
proof -
  have inv: "payments_inv b'" using assms(2,1) by (induction rule: rtranclp_induct) (auto intro: stripe_step_keeps_inv)
  have "0 \<le> charged [''succeeded''] b' t k"
    unfolding charged_def measure_of_def
    by (rule sum_list_nonneg) (use inv in \<open>auto simp: payments_inv_def charge_ok_def charge_weight_def\<close>)
  moreover have "charged [''succeeded''] b' t k \<le> stripe_net b' t k"
      "stripe_net b' t k \<le> charged [''succeeded'', ''partial_refund''] b' t k"
    using inv by (simp_all add: payments_inv_def)
  ultimately show ?thesis by linarith
qed

text \<open>
  C30. A charge that is reported as made has added one row to the folio and one to the charges: a payment
  of the amount, to the cent, under the identifier of the payment intent that Stripe returned for it,
  and the balance of the booking falls by just that amount. A charge that is reported as refused leaves
  every folio as it was.
\<close>

theorem charge_books_one_payment:
  assumes "folio_cents (bi_hotel b)" "charge_booking e fid b t k pm a label = (r, b')"
  shows "(\<forall>row. r = Inr row \<longrightarrow> (\<exists>tx pint cur card_id acct.
      folio_transactions (bi_hotel b') = folio_transactions (bi_hotel b) @ [tx] \<and> bi_charges b' = bi_charges b @ [row] \<and>
      ft_amount tx = q_even a \<and> sh_amount row = q_even a \<and> sh_folio_tx_id row = Some (ft_id tx) \<and> sh_booking_id row = Some k \<and>
      st_intent (se_api e) (money_to_stripe_cents (q_even a)) cur card_id acct = Inr pint \<and> sh_stripe_charge_id row = in_id pint \<and>
      compute_folio_balance (bi_hotel b') t k = compute_folio_balance (bi_hotel b) t k - q_even a)) \<and>
    (\<forall>x. r = Inl x \<longrightarrow> folio_transactions (bi_hotel b') = folio_transactions (bi_hotel b))"
proof (cases "charge_target e b t k pm a")
  case (Inl x)
  with assms show ?thesis by (auto simp: charge_booking_def)
next
  case (Inr x)
  obtain booking m acct cur where x: "x = (booking, m, acct, cur)" by (cases x)
  have bk: "bk_id booking = k"
    using Inr x by (auto simp: charge_target_def stripe_booking_def require_def find_Some_iff split: if_splits option.splits)
  show ?thesis
  proof (cases "st_intent (se_api e) (money_to_stripe_cents (q_even a)) cur (sm_stripe_pm_id m) acct")
    case (Inl msg)
    with assms Inr x show ?thesis by (auto simp: charge_booking_def add_charge_def billing_id_def Let_def)
  next
    case intent: (Inr pint)
    define tx where "tx = \<lparr>ft_id = next_uuid (bi_hotel b), ft_tenant_id = t, ft_booking_id = k, ft_transaction_type = ''Payment'',
      ft_amount = q_even a, ft_payment_method = Some ''stripe'',
      ft_description = Some (case clean_label label of None \<Rightarrow> ''Stripe card payment'' | Some s \<Rightarrow> s),
      ft_created_at = db_now (bi_hotel b), ft_created_by = None, ft_category = ''payment'', ft_source_channel = Some ''stripe''\<rparr>"
    have bal: "compute_folio_balance d' t k = compute_folio_balance (bi_hotel b) t k - q_even a"
      if "folio_transactions d' = folio_transactions (bi_hotel b) @ [tx]" for d'
    proof -
      have "folio_cents d'" using assms(1) that by (simp add: folio_cents_def tx_def half_even.quantize_in_cents)
      then show ?thesis using assms(1) that
        by (simp add: balance_measure folio_sum.measure_append folio_sum.measure_Cons folio_sum.measure_Nil
            folio_weight_def of_folio_def signed_amount_def tx_def)
    qed
    show ?thesis
    proof (cases "in_id pint = []")
      case True
      with assms Inr x intent show ?thesis by (auto simp: charge_booking_def)
    next
      case False
      have r: "\<exists>row. r = Inr row \<and> folio_transactions (bi_hotel b') = folio_transactions (bi_hotel b) @ [tx] \<and>
          bi_charges b' = bi_charges b @ [row] \<and> sh_amount row = q_even a \<and> sh_folio_tx_id row = Some (ft_id tx) \<and>
          sh_booking_id row = Some k \<and> sh_stripe_charge_id row = in_id pint"
        using assms(2) Inr x intent False bk
        by (auto simp: charge_booking_def add_charge_def billing_id_def stripe_folio_def tx_def Let_def)
      have "ft_amount tx = q_even a" by (simp add: tx_def)
      with r intent bal show ?thesis by blast
    qed
  qed
qed
definition demo_stripe :: stripe_env where
  "demo_stripe = \<lparr>se_api = \<lparr>st_authorize_url = (\<lambda>cid uri st. uri @ st), st_token = (\<lambda>c. Inr (Some ''acct'', False)),
       st_deauthorize = (\<lambda>a c. Inr ()), st_retrieve = (\<lambda>p a. Inr None), st_detach = (\<lambda>p a. Inr ()),
       st_intent = (\<lambda>n cur p a. if n = 666 then Inl ''declined'' else Inr \<lparr>in_id = ''pi_1'', in_status = ''succeeded''\<rparr>),
       st_refund = (\<lambda>p n a. Inr ()),
       st_construct_event = (\<lambda>body sig secret. if sig = ''good'' then Verified (JObj [(''type'', JStr ''charge.refunded''),
         (''data'', JObj [(''object'', JObj [(''payment_intent'', JStr ''pi_1''), (''amount_refunded'', JNum 500)])])]) else BadSignature)\<rparr>,
     se_codec = \<lparr>b64_encode = (\<lambda>s. s), b64_decode = (\<lambda>s. Some (unpadded s)),
       json_loads = (\<lambda>s. if s = json_dumps (state_payload 1 10 0) then Some (state_payload 1 10 0) else None),
       uuid_parse = (\<lambda>s. if s = ''1'' then Some 1 else if s = ''10'' then Some 10 else None)\<rparr>,
     se_net = demo_net (Response 200), se_settings = demo_settings,
     se_stripe = \<lparr>stripe_secret_key = ''sk'', stripe_client_id = ''ca'', stripe_redirect_uri = ''u'', stripe_connect_success_url = ''v'',
       stripe_oauth_state_secret = Some ''hush'', stripe_webhook_secret = ''whsec''\<rparr>\<rparr>"

definition demo_billing :: billing where
  "demo_billing = \<lparr>bi_hotel = demo_db\<lparr>bookings := [\<lparr>bk_id = 700, bk_tenant_id = 1, bk_property_id = 10, bk_guest_id = 50,
       bk_rate_plan_id = Some 30, bk_external_booking_id = None, bk_status = ''confirmed'', bk_source = ''api'', bk_total_amount = 240,
       bk_notes = None\<rparr>]\<rparr>,
     bi_connections = [\<lparr>sc_id = 80, sc_tenant_id = 1, sc_property_id = 10, sc_stripe_account_id = ''Dacct'', sc_livemode = False,
       sc_connected_at = 0, sc_disconnected_at = None\<rparr>],
     bi_methods = [\<lparr>sm_id = 81, sm_tenant_id = 1, sm_property_id = 10, sm_booking_id = None, sm_stripe_pm_id = ''pm_1'',
       sm_card_last4 = None, sm_card_brand = None, sm_card_exp_month = None, sm_card_exp_year = None, sm_label = None, sm_created_at = 0\<rparr>],
     bi_charges = []\<rparr>"

definition demo_charge :: "charge_row result \<times> billing" where
  "demo_charge = charge_booking demo_stripe ''x'' demo_billing 1 700 81 20 None"

lemma demo_charge_made:
  "succeeds (fst demo_charge)" "charged [''succeeded''] (snd demo_charge) 1 700 = 20"
  by code_simp+

lemma demo_payments_inv: "payments_inv demo_billing"
  by (simp add: payments_inv_def demo_billing_def charged_def stripe_net_def measure_of_def demo_db_def empty_db_def)

theorem stripe_payments_stay_covered_witness:
  "\<exists>b'. (stripe_step demo_stripe)\<^sup>*\<^sup>* demo_billing b' \<and> 20 \<le> stripe_net b' 1 700"
proof -
  have "stripe_step demo_stripe demo_billing (snd demo_charge)"
    by (rule stripe_step.charge [of _ "''x''" _ 1 700 81 20 None "fst demo_charge"]) (simp add: demo_charge_def)
  then have r: "(stripe_step demo_stripe)\<^sup>*\<^sup>* demo_billing (snd demo_charge)" by (rule r_into_rtranclp)
  from stripe_payments_stay_covered [OF demo_payments_inv r, of 1 700] demo_charge_made(2) r show ?thesis by auto
qed

theorem charge_books_one_payment_witness:
  "compute_folio_balance (bi_hotel (snd demo_charge)) 1 700 = compute_folio_balance (bi_hotel demo_billing) 1 700 - 20 \<and>
   folio_transactions (bi_hotel (snd (charge_booking demo_stripe ''x'' demo_billing 1 700 81 (666/100) None))) = []"
proof -
  have cents: "folio_cents (bi_hotel demo_billing)" by (simp add: folio_cents_def demo_billing_def demo_db_def empty_db_def)
  have twenty: "q_even (20 :: decimal) = 20" by code_simp
  obtain row where "fst demo_charge = Inr row" using demo_charge_made(1) by (cases "fst demo_charge") auto
  then have "demo_charge = (Inr row, snd demo_charge)" by (metis prod.collapse)
  from charge_books_one_payment [OF cents this [unfolded demo_charge_def]]
  have one: "compute_folio_balance (bi_hotel (snd demo_charge)) 1 700 = compute_folio_balance (bi_hotel demo_billing) 1 700 - 20"
    unfolding twenty demo_charge_def by blast
  have "\<not> succeeds (fst (charge_booking demo_stripe ''x'' demo_billing 1 700 81 (666/100) None))" by code_simp
  then obtain x b' where x: "charge_booking demo_stripe ''x'' demo_billing 1 700 81 (666/100) None = (Inl x, b')"
    by (cases "charge_booking demo_stripe ''x'' demo_billing 1 700 81 (666/100) None"; cases "fst (charge_booking demo_stripe ''x'' demo_billing 1 700 81 (666/100) None)") auto
  from charge_books_one_payment [OF cents x] have "folio_transactions (bi_hotel b') = folio_transactions (bi_hotel demo_billing)" by blast
  with one x show ?thesis by (simp add: demo_billing_def demo_db_def empty_db_def)
qed

subsection \<open>Redelivered webhooks\<close>

lemma find_charge_update:
  "(\<And>x. P (f x) = P x) \<Longrightarrow> find P (update_rows Q f xs) = map_option (\<lambda>r. if Q r then f r else r) (find P xs)"
  by (induction xs) (auto simp: update_rows_def)

text \<open>
  C31. Stripe may deliver the same report of a refund again. After the first delivery was processed, every
  further one is answered in the same way and changes nothing: no second refund is posted and no second
  entry is written to the audit log.
\<close>

theorem redelivered_refund_changes_nothing:
  assumes "inbound_stripe_webhook e b body sig = Inr (s, b')"
    and "st_construct_event (se_api e) body (the sig) (py_strip (stripe_webhook_secret (se_stripe e))) = Verified ev"
    and "json_get ev ''type'' = JStr ''charge.refunded''"
  shows "inbound_stripe_webhook e b' body sig = Inr (s, b')"
proof -
  have event: "inbound_stripe_webhook e x body sig = handle_stripe_event x ev" for x
    using assms(1,2) by (auto simp: inbound_stripe_webhook_def Let_def split: option.splits if_splits)
  have type: "or_blank (json_get ev ''type'') = ''charge.refunded''" by (simp add: assms(3) or_blank_def truthy_def py_str_def)
  define pi_id where "pi_id = py_strip (or_blank (json_get (json_get (json_get ev ''data'') ''object'') ''payment_intent''))"
  note run = assms(1) [unfolded event handle_stripe_event_def type Let_def, folded pi_id_def]
  note goal = event handle_stripe_event_def type Let_def
  show ?thesis
  proof (cases "pi_id = [] \<or> lookup_stripe_charge_for_webhook b pi_id = None")
    case True
    with run show ?thesis by (auto simp: goal pi_id_def [symmetric] HANDLED_EVENTS_def)
  next
    case False
    then obtain t i where look: "lookup_stripe_charge_for_webhook b pi_id = Some (t, i)" by auto
    define am where "am = cents_to_money (json_get (json_get (json_get ev ''data'') ''object'') ''amount_refunded'')"
    obtain c b1 where posted: "reconcile_refund_from_webhook b t i am = Inr (c, b1)"
      using run False look by (auto simp: HANDLED_EVENTS_def am_def)
    have s: "s = ''ok''" and b': "b' = (if c then stripe_audit t ''stripe.refund_reconciled'' i b1 else b1)"
      using run False look posted by (simp_all add: HANDLED_EVENTS_def am_def [symmetric] split: if_splits)
    have "lookup_stripe_charge_for_webhook b' pi_id = Some (t, i) \<and> reconcile_refund_from_webhook b' t i am = Inr (False, b')"
    proof (cases "\<exists>ch. charge_at b t i = Some ch \<and> sh_status ch = ''succeeded''")
      case True
      then obtain ch where ch: "charge_at b t i = Some ch" "sh_status ch = ''succeeded''" by blast
      define st where "st = refund_status (webhook_refund am ch) ch"
      have st: "st \<noteq> ''succeeded''" by (simp add: st_def refund_status_def)
      from posted ch have charges: "bi_charges b' = update_rows (\<lambda>r. sh_id r = sh_id ch) (\<lambda>r. r\<lparr>sh_status := st\<rparr>) (bi_charges b)"
        by (auto simp: reconcile_refund_from_webhook_def b' stripe_audit_def stripe_folio_def set_status_def st_def Let_def require_def
            split: option.splits)
      have "lookup_stripe_charge_for_webhook b' pi_id = Some (t, i)"
        using look by (cases "find (\<lambda>r. sh_stripe_charge_id r = pi_id) (bi_charges b)")
          (simp_all add: lookup_stripe_charge_for_webhook_def charges find_charge_update)
      moreover have "charge_at b' t i = Some (ch\<lparr>sh_status := st\<rparr>)"
        using ch(1) by (simp add: charge_at_def charges find_charge_update)
      ultimately show ?thesis using st by (simp add: reconcile_refund_from_webhook_def)
    next
      case none: False
      with posted have "\<not> c \<and> b1 = b"
        by (auto simp: reconcile_refund_from_webhook_def split: option.splits if_splits)
      with posted b' look show ?thesis by simp
    qed
    then show ?thesis using False s by (simp add: goal pi_id_def [symmetric] am_def [symmetric] HANDLED_EVENTS_def)
  qed
qed
theorem redelivered_refund_changes_nothing_witness:
  "\<exists>b'. inbound_stripe_webhook demo_stripe (snd demo_charge) ''body'' (Some ''good'') = Inr (''ok'', b') \<and>
     inbound_stripe_webhook demo_stripe b' ''body'' (Some ''good'') = Inr (''ok'', b')"
proof -
  have "(case inbound_stripe_webhook demo_stripe (snd demo_charge) ''body'' (Some ''good'') of Inl _ \<Rightarrow> False | Inr x \<Rightarrow> fst x = ''ok'')"
    by code_simp
  then obtain b' where r: "inbound_stripe_webhook demo_stripe (snd demo_charge) ''body'' (Some ''good'') = Inr (''ok'', b')"
    by (cases "inbound_stripe_webhook demo_stripe (snd demo_charge) ''body'' (Some ''good'')") auto
  define ev where "ev = JObj [(''type'', JStr ''charge.refunded''),
    (''data'', JObj [(''object'', JObj [(''payment_intent'', JStr ''pi_1''), (''amount_refunded'', JNum 500)])])]"
  have "st_construct_event (se_api demo_stripe) ''body'' (the (Some ''good'')) (py_strip (stripe_webhook_secret (se_stripe demo_stripe))) = Verified ev"
    by (simp add: demo_stripe_def ev_def)
  moreover have "json_get ev ''type'' = JStr ''charge.refunded''" by (simp add: ev_def json_get_def)
  ultimately show ?thesis using r redelivered_refund_changes_nothing [OF r] by blast
qed

subsection \<open>The OAuth state\<close>

lemma takeWhile_dot: "c \<notin> set s \<Longrightarrow> takeWhile (\<lambda>x. x \<noteq> c) (s @ c # r) = s"
  by (induction s) auto


subsection \<open>Flaws\<close>

text \<open>The amount is sent in hundredths whatever the currency, although some currencies have no minor unit.\<close>

lemma amount_is_sent_in_hundredths: "in_cents a \<Longrightarrow> of_int (money_to_stripe_cents (q_even a)) = a * 100"
  by (auto simp: in_cents_iff half_even.quantize_exact money_to_stripe_cents_def half_up.rnd_of_int)

text \<open>A charge is booked as paid whatever the status of the payment intent, also when the bank asks for more.\<close>

lemma intent_status_is_ignored:
  "charge_booking (e\<lparr>se_api := (se_api e)\<lparr>st_intent := (\<lambda>n cur p a. map_sum id (\<lambda>i. i\<lparr>in_status := f i\<rparr>) (st_intent (se_api e) n cur p a))\<rparr>\<rparr>)
     fid b t k pm a label = charge_booking e fid b t k pm a label"
proof -
  let ?e = "e\<lparr>se_api := (se_api e)\<lparr>st_intent := (\<lambda>n cur p a. map_sum id (\<lambda>i. i\<lparr>in_status := f i\<rparr>) (st_intent (se_api e) n cur p a))\<rparr>\<rparr>"
  have "charge_target ?e b t k pm a = charge_target e b t k pm a"
    by (simp add: charge_target_def require_stripe_secret_def active_connection_and_account_def decrypt_stripe_account_id_def)
  then show ?thesis
    by (auto simp: charge_booking_def split: sum.splits prod.splits)
qed

end
