(* ===== verification/Spec2Isabelle.thy ===== *)
theory Spec2Isabelle
  imports Accounts Channex_Push Night_Audit Reports Stripe
begin

text \<open>
  A verification of the back end of openPMS, a multi-tenant property management system for
  hotels (Python, FastAPI and SQLAlchemy under \<^verbatim>\<open>src/app\<close>). A tenant owns properties, room types,
  rooms, rate plans and nightly rates; an availability ledger keeps, per room type and night, the
  total, booked and blocked rooms; bookings take nights from the ledger, have one line per
  night and a folio of charges and payments; country packs bring taxes and required guest fields;
  users and API keys authenticate against the routes.

  \<^bold>\<open>How the program is modelled.\<close> Each table is a list of rows, each mapped class a \<open>record\<close> (theory
  Schema), the database a record of tables with a supply of identifiers and a clock. A service
  function becomes a function on the database that returns \<open>error + result\<close>: every
  \<^verbatim>\<open>raise\<close> of the source is an \<open>Inl\<close> branch, in the order of the source. A request is one
  transaction: what it returns with \<open>Inr\<close> is committed, an \<open>Inl\<close> is rolled back
  (\<open>commit_or_rollback\<close>). Where code runs SQL after assigning attributes of mapped objects
  without a flush, a \<open>session\<close> keeps the objects and the SQL view apart. Uniqueness and foreign
  keys that can fail are \<open>IntegrityError\<close> branches. Third-party code is a parameter: the hash
  functions and PyJWT (record \<open>crypto\<close>), the mail provider (\<open>mailer\<close>), random values, the network,
  Fernet and HMAC (record \<open>net\<close>), the time zone database (record \<open>zones\<close>), the HTTP transport of the
  channel manager (\<open>cx_http\<close>), the Stripe library (\<open>stripe_api\<close>) and the codecs of its OAuth state.

  \<^bold>\<open>Theories and sources.\<close>
  \<^item> Prelude, Json, Decimal: exceptions, results, Python strings, dictionaries, JSON values and the
    two roundings of \<^verbatim>\<open>decimal\<close> the code uses.
  \<^item> Schema, Demo: tables, keyed and measured tables (locales), transactions; a small hotel used
    by the witnesses.
  \<^item> Booking\_Status (\<^verbatim>\<open>domain/booking_status.py\<close>), Stay\_Dates (\<^verbatim>\<open>stay_dates.py\<close>): the life cycle of
    a booking as a step relation, the nights of a stay.
  \<^item> Availability (\<^verbatim>\<open>availability_lock.py\<close>): lock, claim, increment, decrement.
  \<^item> Pricing (\<^verbatim>\<open>pricing_service.py\<close>, \<^verbatim>\<open>rates_admin_service.py\<close>), Tax (\<^verbatim>\<open>tax_service.py\<close>),
    Audit\_Trail (\<^verbatim>\<open>audit_service.py\<close>), Folio (\<^verbatim>\<open>folio_service.py\<close>, \<^verbatim>\<open>folio_category_service.py\<close>),
    Extension (\<^verbatim>\<open>extension_service.py\<close>).
  \<^item> Booking (\<^verbatim>\<open>booking_service.py\<close>): create, assign a room, patch, delete.
  \<^item> Inventory, Inventory\_Steps, Booking\_Steps: the invariant that ties bookings to the ledger
    and its preservation by the booking operations.
  \<^item> Ledger\_Admin (\<^verbatim>\<open>availability_override_service.py\<close>, \<^verbatim>\<open>availability_ledger_seed.py\<close>,
    \<^verbatim>\<open>scripts/extend_availability_ledger.py\<close>), Catalog (\<^verbatim>\<open>property_service.py\<close>,
    \<^verbatim>\<open>rate_plan_service.py\<close>, \<^verbatim>\<open>guest_service.py\<close>, \<^verbatim>\<open>country_pack_service.py\<close>), Rooms
    (\<^verbatim>\<open>room_service.py\<close>, \<^verbatim>\<open>room_type_service.py\<close>, \<^verbatim>\<open>housekeeping_service.py\<close>, the grid and the
    assignable rooms).
  \<^item> Hotel\_Steps: all operations of the hotel as one step relation; the properties that span
    components.
  \<^item> Access (\<^verbatim>\<open>core/jwt_keys.py\<close>, \<^verbatim>\<open>middleware/tenant_jwt.py\<close>, \<^verbatim>\<open>api/deps.py\<close>,
    \<^verbatim>\<open>api_key_service.py\<close>), Email (\<^verbatim>\<open>email_service.py\<close>, \<^verbatim>\<open>tasks/email_tasks.py\<close>), Accounts
    (\<^verbatim>\<open>auth_service.py\<close>, \<^verbatim>\<open>routes/auth.py\<close>): who may call what, outgoing mail, tenants, users and
    sessions.
  \<^item> Webhooks (\<^verbatim>\<open>webhook_subscription_service.py\<close>, \<^verbatim>\<open>webhook_delivery_engine.py\<close>), Webhook\_Runner
    (\<^verbatim>\<open>webhook_runner.py\<close>): subscriptions, signatures, the delivery queue and its worker, the events.
  \<^item> Booking\_Routes (\<^verbatim>\<open>routes/bookings.py\<close>): the handlers with their checks, error translation and
    background tasks, the booking tape and the receipt.
  \<^item> Night\_Audit (\<^verbatim>\<open>tasks/night_audit.py\<close>): automatic no-shows, figures and mail of the day.
  \<^item> Channex, Channex\_Steps (\<^verbatim>\<open>channex_booking_service.py\<close>): bookings from the channel manager and
    what their ingestion guarantees. Channex\_Client (\<^verbatim>\<open>integrations/channex\<close>): requests with their
    retries, answers, the text of prices. Channex\_Sync (\<^verbatim>\<open>channex_service.py\<close>): links, provisioning,
    mappings. Channex\_Push (\<^verbatim>\<open>tasks/channex_*.py\<close>, \<^verbatim>\<open>routes/channex*.py\<close>): what is sent, the inbound
    webhook, the tasks and the routes.
  \<^item> Reports (\<^verbatim>\<open>reports_service.py\<close>, \<^verbatim>\<open>dashboard_service.py\<close>): figures by day, CSV, figures of the day.
  \<^item> Stripe (\<^verbatim>\<open>stripe_payment_service.py\<close>, \<^verbatim>\<open>stripe_connect_service.py\<close>, \<^verbatim>\<open>routes/stripe_*.py\<close>): accounts,
    cards, charges, refunds, the inbound webhook.

  \<^bold>\<open>What is shown.\<close> The central group (Hotel\_Steps) is about reachable states: the booked counter
  of every ledger row is the number of lines of active bookings, no night is sold beyond its
  rooms by operations that take no capacity away, no room serves two bookings in a night, and
  capacities are the live rooms. The groups of the components state what each operation does on
  every branch: claims and releases, prices, taxes that conserve the gross amount, folio balances
  and reversals, blocks, seeding and horizon extension, guest profiles, searches, country packs,
  the availability grid. The group of the accounts shows that every tenant keeps an active owner,
  sessions are bounded, refresh tokens and reset links work once, and which credentials open
  which routes. The group of the webhooks shows that the queue refines a small job machine with at
  most three attempts, that rotating the encryption key keeps every signature, and that bookings
  and status changes are announced exactly once; that of the night audit, which bookings it marks. The
  group of the channel manager shows that a revision is applied once and keeps the hotel consistent,
  that the rooms sent to the agency are the rooms that can be booked, that a push is complete or its
  refusal recorded, that saved mappings are found from both sides, that prices sent as text are read
  back, and how often the client asks. The group of the payments shows that the folio covers every
  charge of a card and is never refunded twice, and that the OAuth state names its property; that of
  the reports, that the occupancy counted from bookings is the ledger's and that the reports agree.
  Lemmas named in the findings show where the code departs from its documentation.

  \<^bold>\<open>Bounds.\<close> Loops are structural recursions or total functions with a termination proof; no fuel
  is used except for the digits printed of a fraction (17, the digits of a double). Numbers are
  unbounded integers and rationals, as in Python; columns of fixed scale are rounded by \<open>numeric2\<close>.
  Strings are ASCII.

  \<^bold>\<open>Not modelled.\<close> Interleavings of concurrent transactions below the granularity of a request (the
  row locks are what makes requests atomic on the ledger); the JSON snapshots, acting user and
  address of audit rows; rendering of mail, receipts and PDF invoices; the client of Resend; logging,
  rate limits, pauses and cookie attributes; the data migration tool, a separate program that feeds
  the HTTP API.
\<close>

end
